(* ===== verification/Prelude.thy ===== *)
theory Prelude
  imports Main "HOL-Library.AList" "HOL-Library.Char_ord" "HOL-Library.List_Lexorder"
    "HOL-Library.Word"
begin

text \<open>
  Shared vocabulary of the development: the domain types of src/shared/types.ts and
  src/shared/contracts.ts that several components use, and generic lemmas about association
  lists (the model of JavaScript objects and Maps, which keep insertion order) and about
  options.

  Conventions. A JavaScript string is a \<^typ>\<open>string\<close> (a list of code units; code units above
  255 do not occur in the model unless a theory says otherwise), \<open>null\<close> and \<open>undefined\<close> are
  \<^const>\<open>None\<close>, a time in epoch milliseconds is an \<^typ>\<open>int\<close>, and a thrown error is the left
  side of a sum.
\<close>

named_theorems utsuroi_defs "definitions unfolded by the step proofs"

type_synonym ms = int
type_synonym bytes = "8 word list"

text \<open>Errors that JavaScript code throws and the model keeps as values.\<close>

datatype js_error = TypeError | JsError string

section \<open>src/shared/types.ts\<close>

datatype failure_class =
    Network_error | Timeout | Http_5xx | Http_429 | Http_403 | Not_found | Auth_required
  | Blocked_by_robots | Ssrf_blocked | Too_large | Captcha_challenge | Invalid_content_type
  | Parse_error | Internal_error | Executor_unavailable

definition DEFAULT_PROCEEDABLE_FAILURES :: "failure_class list" where
  "DEFAULT_PROCEEDABLE_FAILURES = [Network_error, Timeout, Http_5xx, Executor_unavailable]"

definition NEVER_PROCEEDABLE_FAILURES :: "failure_class list" where
  "NEVER_PROCEEDABLE_FAILURES =
     [Blocked_by_robots, Ssrf_blocked, Not_found, Auth_required, Too_large, Captcha_challenge]"

section \<open>Options: the operator ??\<close>

definition orElse :: "'a option \<Rightarrow> 'a \<Rightarrow> 'a" where
  "orElse x d = (case x of None \<Rightarrow> d | Some v \<Rightarrow> v)"

lemma orElse_simps [simp]: "orElse None d = d" "orElse (Some v) d = v"
  by (simp_all add: orElse_def)

section \<open>Association lists\<close>

lemma AList_update_new: "k \<notin> fst ` set al \<Longrightarrow> AList.update k v al = al @ [(k, v)]"
  by (induction al) auto

lemma keys_AList_update [simp]: "fst ` set (AList.update k v al) = insert k (fst ` set al)"
  by (induction al) auto

lemma keys_AList_delete [simp]: "fst ` set (AList.delete k al) = fst ` set al - {k}"
  by (auto simp: AList.delete_eq)

lemma set_AList_delete: "set (AList.delete k al) = {p \<in> set al. fst p \<noteq> k}"
  by (auto simp: AList.delete_eq)

lemma length_AList_delete_le: "length (AList.delete k al) \<le> length al"
  by (simp add: AList.delete_eq)

lemma sorted_wrt_AList_delete:
  "sorted_wrt P (map snd al) \<Longrightarrow> sorted_wrt P (map snd (AList.delete k al))"
  by (auto simp: AList.delete_eq sorted_wrt_map intro: sorted_wrt_filter)

lemma sorted_wrt_map_filter:
  "sorted_wrt P (map f xs) \<Longrightarrow> sorted_wrt P (map f (filter Q xs))"
  by (auto simp: sorted_wrt_map intro: sorted_wrt_filter)

lemma find_SomeD: "find P xs = Some x \<Longrightarrow> P x \<and> x \<in> set xs"
  by (auto simp: find_Some_iff)

lemma find_append_case:
  "find P (xs @ ys) = (case find P xs of None \<Rightarrow> find P ys | Some x \<Rightarrow> Some x)"
  by (induction xs) auto

section \<open>Tables of rows\<close>

definition update_where :: "('r \<Rightarrow> bool) \<Rightarrow> ('r \<Rightarrow> 'r) \<Rightarrow> 'r list \<Rightarrow> 'r list" where
  "update_where P f t = map (\<lambda>r. if P r then f r else r) t"

definition order_desc :: "('r \<Rightarrow> 'k::linordered_idom) \<Rightarrow> 'r list \<Rightarrow> 'r list" where
  "order_desc key t = sort_key (\<lambda>r. - key r) t"

lemma update_where_set: "r \<in> set (update_where P f t) \<longleftrightarrow>
    (\<exists>r' \<in> set t. r = (if P r' then f r' else r'))"
  by (auto simp: update_where_def)

lemma map_update_where:
  "(\<And>r. k (f r) = k r) \<Longrightarrow> map k (update_where P f t) = map k t"
  by (simp add: update_where_def)

lemma find_update_where:
  "(\<And>r. Q (f r) = Q r) \<Longrightarrow>
   find Q (update_where P f t) = map_option (\<lambda>r. if P r then f r else r) (find Q t)"
  by (induction t) (auto simp: update_where_def)

end
