(* ===== verification/Contracts.thy ===== *)
theory Contracts
  imports Prelude
begin

text \<open>
  The interfaces of src/shared/contracts.ts that one component implements and another uses,
  as locales: the operations the client calls are fixed, the laws the client relies on are
  assumed, and what follows for every client is proved here once. Each locale is interpreted
  in the theory of the component that implements it.
\<close>

section \<open>The platform's URL parser\<close>

text \<open>
  The WHATWG URL parser belongs to the platform. It is an argument \<open>newURL\<close> of the definitions
  that use it: the text, an optional base, and the parsed components or \<^const>\<open>None\<close> where the
  constructor throws.
\<close>

record web_url =
  href :: string
  protocol :: string
  username :: string
  password :: string
  hostname :: string
  port :: string
  pathname :: string
  search :: string
  origin :: string

type_synonym url_parser = "string \<Rightarrow> string option \<Rightarrow> web_url option"

section \<open>Fetch outcomes and fetcher policies\<close>

record fetch_success =
  ok_status :: int
  notModified :: bool
  finalUrl :: string
  ok_contentType :: "string option"
  ok_etag :: "string option"
  ok_lastModified :: "string option"
  ok_body :: "bytes option"
  ok_durationMs :: ms

record fetch_failure =
  failureClass :: failure_class
  fail_status :: "int option"
  fail_message :: string
  retryAfterSeconds :: "int option"

datatype fetch_outcome = FetchSuccess fetch_success | FetchFailure fetch_failure

fun outcome_ok :: "fetch_outcome \<Rightarrow> bool" where
  "outcome_ok (FetchSuccess _) = True"
| "outcome_ok (FetchFailure _) = False"

record fetcher_policy_entry =
  fetcherId :: string
  proceedOn :: "failure_class list option"

record fetcher_policy =
  allowList :: "string list"
  orderList :: "fetcher_policy_entry list"

section \<open>Robots verdicts\<close>

datatype robots_verdict = Allowed | Disallowed

section \<open>HostLimiter: leases of one canonical origin\<close>

record host_lease_result =
  granted :: bool
  leaseId :: "string option"
  retryAfterMs :: "ms option"

definition grant :: "string \<Rightarrow> host_lease_result" where
  "grant uuid = \<lparr>granted = True, leaseId = Some uuid, retryAfterMs = None\<rparr>"

definition refuse :: "ms \<Rightarrow> host_lease_result" where
  "refuse wait = \<lparr>granted = False, leaseId = None, retryAfterMs = Some wait\<rparr>"

text \<open>The outcome a caller reports on release: \<open>failureClass\<close> and \<open>retryAfterSeconds\<close>.\<close>

type_synonym lease_outcome = "failure_class option \<times> int option"

text \<open>
  \<open>held h\<close> is the set of lease ids the limiter counts as taken. An acquisition either grants
  the fresh id or says how long to wait; a release gives back exactly one id, whatever outcome
  is reported; a lease the limiter forgets by itself (its time to live) only shrinks the set.
\<close>

locale host_limiter =
  fixes acquire :: "string \<Rightarrow> ms \<Rightarrow> 'h \<Rightarrow> 'h \<times> host_lease_result"
    and release :: "string \<Rightarrow> lease_outcome \<Rightarrow> ms \<Rightarrow> 'h \<Rightarrow> 'h"
    and held :: "'h \<Rightarrow> string set"
  assumes acquire_granted:
      "acquire u t h = (h', r) \<Longrightarrow> granted r \<Longrightarrow>
         leaseId r = Some u \<and> u \<in> held h' \<and> held h' \<subseteq> insert u (held h)"
    and acquire_refused:
      "acquire u t h = (h', r) \<Longrightarrow> \<not> granted r \<Longrightarrow>
         leaseId r = None \<and> held h' \<subseteq> held h \<and> retryAfterMs r \<noteq> None"
    and release_held: "held (release l out t h) = held h - {l}"
begin

lemma acquire_held: "held (fst (acquire u t h)) \<subseteq> insert u (held h)"
  using acquire_granted [of u t h] acquire_refused [of u t h]
  by (cases "acquire u t h") (metis fst_conv subset_insertI2)

lemma acquire_release_balanced:
  "acquire u t h = (h', r) \<Longrightarrow> granted r \<Longrightarrow> held (release u out t' h') \<subseteq> held h"
  using acquire_granted [of u t h h' r] by (auto simp: release_held)

end

end
