(* ===== verification/Db_Rows.thy ===== *)
theory Db_Rows
  imports Complex_Main Contracts
begin

text \<open>
  The rows of the D1 store (src/db/types.ts) and the enumerations of src/shared/types.ts they
  use. A timestamp the service writes itself (\<open>nowIso\<close>) is its epoch time in milliseconds:
  \<open>toISOString\<close> has a fixed width for the years 0 to 9999, so the order of the texts, which SQL
  compares, is the order of the numbers. Timestamps that come from a fetched document stay
  strings. The columns of a table that its row type leaves out are added by extending the record.
\<close>

section \<open>Enumerations\<close>

datatype source_type = Page | Rss | Atom | Sitemap | Sitemap_index

datatype monitor_status = Active | Paused | Blocked_by_robots_txt | Failing | Archived

datatype change_kind = New | Updated | Removed

datatype diff_level = Http_metadata | Raw_hash | Normalized_hash | Text_hash | Structural

datatype check_job_status = Job_pending | Job_running | Job_succeeded | Job_failed | Job_policy_stopped

datatype delivery_status = Pending | Sending | Delivered | Failed | Dead

datatype robots_mode = Enforce | Ignore

datatype job_trigger = Scheduled | Manual | Reconciliation

section \<open>Sites, sources and monitors\<close>

record site_row =
  st_id :: string
  st_name :: string
  st_primaryOrigin :: "string option"
  st_createdAt :: ms
  st_updatedAt :: ms

datatype sitemap_mode = Direct | Traverse

datatype page_mode = Content | Extract

record extract_field =
  ef_name :: string
  ef_selector :: "string option"
  ef_label :: "string option"

record extract_config =
  itemSelector :: string
  linkSelector :: "string option"
  titleSelector :: "string option"
  ex_fields :: "extract_field list option"

record classify_rule =
  cr_tag :: string
  cr_field :: string
  cr_pattern :: string
  cr_flags :: "string option"

record classify_labels =
  lb_groups :: "(string \<times> string) list option"
  lb_tags :: "(string \<times> string) list option"

record classify_config =
  cl_rules :: "classify_rule list"
  cl_defaultTag :: "string option"
  cl_labels :: "classify_labels option"

record source_config =
  sitemapMode :: "sitemap_mode option"
  lastmodMaxAgeDays :: "int option"
  maxDepth :: "int option"
  childIncludePatterns :: "string list option"
  ignoreSelectors :: "string list option"
  includeSelectors :: "string list option"
  stripQueryParams :: "string list option"
  pageMode :: "page_mode option"
  sc_extract :: "extract_config option"
  sc_classify :: "classify_config option"

record source_row =
  src_id :: string
  src_siteId :: string
  src_type :: source_type
  src_url :: string
  src_config :: "source_config option"
  src_createdAt :: ms
  src_updatedAt :: ms

record monitor_row =
  mon_id :: string
  mon_siteId :: string
  mon_sourceId :: string
  mon_status :: monitor_status
  stopReason :: "string option"
  robotsEvaluationId :: "string option"
  intervalSeconds :: int
  mon_nextRunAt :: "ms option"
  mon_lastCheckedAt :: "ms option"
  mon_createdAt :: ms
  mon_updatedAt :: ms

section \<open>Targets, jobs and attempts\<close>

record target_row =
  tg_id :: string
  tg_monitorId :: string
  tg_url :: string
  discoveredFrom :: "string option"
  firstSeenAt :: ms
  tg_lastCheckedAt :: "ms option"
  lastKnownUpdatedAt :: "string option"
  tg_createdAt :: ms
  tg_updatedAt :: ms

text \<open>
  \<open>in_lastKnownUpdatedAt\<close> has three states in the source: not given, given as \<open>null\<close>, given.
\<close>

record create_target_input =
  it_id :: "string option"
  it_monitorId :: string
  it_url :: string
  it_discoveredFrom :: "string option"
  it_firstSeenAt :: "ms option"
  it_lastKnownUpdatedAt :: "string option option"

record check_job_row =
  cj_id :: string
  cj_monitorId :: string
  scheduledFor :: ms
  cj_status :: check_job_status
  trigger :: job_trigger
  cj_startedAt :: "ms option"
  cj_finishedAt :: "ms option"
  cj_createdAt :: ms

record create_check_job_input =
  ij_id :: "string option"
  ij_monitorId :: string
  ij_scheduledFor :: ms
  ij_status :: "check_job_status option"
  ij_trigger :: "job_trigger option"

datatype attempt_outcome = Attempt_success | Attempt_failure

record check_attempt_row =
  at_id :: string
  at_checkJobId :: string
  at_targetId :: string
  at_fetcherId :: string
  attemptIndex :: nat
  at_outcome :: attempt_outcome
  at_failureClass :: "failure_class option"
  statusCode :: "int option"
  at_durationMs :: "ms option"
  at_snapshotId :: "string option"
  errorMessage :: "string option"
  executorJobId :: "string option"
  at_startedAt :: ms
  at_finishedAt :: "ms option"
  at_createdAt :: ms

record create_check_attempt_input =
  ia_id :: "string option"
  ia_checkJobId :: string
  ia_targetId :: string
  ia_fetcherId :: string
  ia_attemptIndex :: nat
  ia_outcome :: attempt_outcome
  ia_failureClass :: "failure_class option"
  ia_statusCode :: "int option"
  ia_durationMs :: "ms option"
  ia_snapshotId :: "string option"
  ia_errorMessage :: "string option"
  ia_executorJobId :: "string option"
  ia_startedAt :: "ms option"
  ia_finishedAt :: "ms option"

section \<open>Snapshots and changes\<close>

record snapshot_row =
  sn_id :: string
  sn_monitorId :: string
  sn_targetId :: string
  checkAttemptId :: "string option"
  sn_fetchedAt :: ms
  httpStatus :: "int option"
  sn_contentType :: "string option"
  sn_etag :: "string option"
  sn_lastModified :: "string option"
  bodyHash :: "string option"
  r2Key :: "string option"
  sn_normalizedHash :: "string option"
  normalizedR2Key :: "string option"
  sn_textHash :: "string option"
  sn_normalizationVersion :: "int option"
  sn_createdAt :: ms

record create_snapshot_input =
  is_id :: "string option"
  is_monitorId :: string
  is_targetId :: string
  is_checkAttemptId :: "string option"
  is_fetchedAt :: "ms option"
  is_httpStatus :: "int option"
  is_contentType :: "string option"
  is_etag :: "string option"
  is_lastModified :: "string option"
  is_bodyHash :: "string option"
  is_r2Key :: "string option"
  is_normalizedHash :: "string option"
  is_normalizedR2Key :: "string option"
  is_textHash :: "string option"
  is_normalizationVersion :: "int option"

record change_row =
  ch_id :: string
  ch_monitorId :: string
  ch_targetId :: "string option"
  ch_targetUrl :: string
  ch_kind :: change_kind
  diffLevel :: "diff_level option"
  dedupeKey :: string
  previousSnapshotId :: "string option"
  ch_snapshotId :: "string option"
  diffR2Key :: "string option"
  diffPreview :: "string option"
  ch_title :: "string option"
  ch_tags :: "string list option"
  detectedAt :: ms
  ch_createdAt :: ms

record create_change_input =
  ic_id :: "string option"
  ic_monitorId :: string
  ic_targetId :: "string option"
  ic_targetUrl :: string
  ic_kind :: change_kind
  ic_diffLevel :: "diff_level option"
  ic_dedupeKey :: string
  ic_previousSnapshotId :: "string option"
  ic_snapshotId :: "string option"
  ic_diffR2Key :: "string option"
  ic_diffPreview :: "string option"
  ic_title :: "string option"
  ic_detectedAt :: "ms option"

record 'r insert_result =
  inserted :: bool
  row :: 'r

section \<open>Destinations, subscriptions and deliveries\<close>

record destination_row =
  ds_id :: string
  ds_name :: string
  webhookUrl :: string
  enabled :: bool
  archivedAt :: "ms option"
  threadId :: "string option"
  ds_createdAt :: ms
  ds_updatedAt :: ms

record subscription_row =
  su_id :: string
  su_destinationId :: string
  su_siteId :: "string option"
  su_monitorId :: "string option"
  su_tag :: "string option"
  su_changeKind :: "change_kind option"
  su_createdAt :: ms
  su_updatedAt :: ms

record delivery_row =
  dl_id :: string
  dl_changeId :: string
  dl_destinationId :: string
  dl_status :: delivery_status
  attemptCount :: nat
  lastError :: "string option"
  deliveredAt :: "ms option"
  dl_createdAt :: ms
  dl_updatedAt :: ms

text \<open>The column \<open>claimed_at\<close> (migration 0003) is not part of the row type.\<close>

record delivery_rec = delivery_row +
  claimedAt :: "ms option"

section \<open>Robots policies and evaluations\<close>

record robots_policy_row =
  rp_id :: string
  rp_siteId :: string
  rp_canonicalOrigin :: string
  rp_mode :: robots_mode
  rp_reason :: "string option"
  rp_updatedBy :: "string option"
  rp_createdAt :: ms
  rp_updatedAt :: ms

record upsert_robots_policy_input =
  ip_siteId :: string
  ip_canonicalOrigin :: string
  ip_mode :: robots_mode
  ip_reason :: "string option"
  ip_updatedBy :: "string option"

record robots_evaluation_row =
  rv_id :: string
  rv_origin :: string
  rv_verdict :: robots_verdict
  rv_robotsUrl :: string
  rv_checkedAt :: ms
  rv_userAgentGroup :: string
  rv_matchedRule :: "string option"
  rv_unavailable :: bool
  rv_wouldBlock :: bool
  rv_hash :: "string option"
  rv_createdAt :: ms

record create_robots_evaluation_input =
  iv_id :: "string option"
  iv_origin :: string
  iv_verdict :: robots_verdict
  iv_robotsUrl :: string
  iv_checkedAt :: "ms option"
  iv_userAgentGroup :: string
  iv_matchedRule :: "string option"
  iv_unavailable :: "bool option"
  iv_robotsWouldBlock :: "bool option"
  iv_robotsHash :: "string option"

section \<open>JSON values, executors, fetchers and audit events\<close>

datatype json =
  JNull | JBool bool | JNum rat | JStr string | JArr "json list" | JObj "(string \<times> json) list"

text \<open>The JSON columns \<open>capabilities\<close> and \<open>profile\<close> keep the value they encode.\<close>

record executor_row =
  xr_id :: string
  xr_kind :: string
  xr_name :: string
  capabilities :: "json option"
  xr_status :: string
  xr_createdAt :: ms
  xr_updatedAt :: ms

record create_executor_input =
  ix_id :: "string option"
  ix_kind :: string
  ix_name :: string
  ix_capabilities :: "json option"
  ix_status :: "string option"

datatype fetch_mode_kind = Mode_http | Mode_browser

record fetcher_row =
  fe_id :: string
  fe_executorId :: string
  fe_fetchMode :: fetch_mode_kind
  fe_region :: "string option"
  fe_profile :: "json option"
  fe_createdAt :: ms
  fe_updatedAt :: ms

record create_fetcher_input =
  if_id :: string
  if_executorId :: string
  if_fetchMode :: fetch_mode_kind
  if_region :: "string option"
  if_profile :: "json option"

record audit_event_row =
  au_id :: string
  actor :: string
  au_action :: string
  subject :: string
  au_reason :: "string option"
  au_payload :: "json option"
  au_createdAt :: ms

record create_audit_event_input =
  iu_id :: "string option"
  iu_actor :: string
  iu_action :: string
  iu_subject :: string
  iu_reason :: "string option"
  iu_payload :: "json option"

section \<open>The database\<close>

record db =
  sites :: "site_row list"
  sources :: "source_row list"
  monitors :: "monitor_row list"
  targets :: "target_row list"
  check_jobs :: "check_job_row list"
  check_attempts :: "check_attempt_row list"
  snapshots :: "snapshot_row list"
  changes :: "change_row list"
  destinations :: "destination_row list"
  subscriptions :: "subscription_row list"
  deliveries :: "delivery_rec list"
  robots_policies :: "robots_policy_row list"
  robots_evaluations :: "robots_evaluation_row list"
  executors :: "executor_row list"
  fetchers :: "fetcher_row list"
  audit_events :: "audit_event_row list"

end
