(* ===== verification/Db_Store.thy ===== *)
theory Db_Store
  imports Db_Rows Js_String "HOL-Library.Multiset" "HOL-Library.Product_Lexorder"
begin

text \<open>
  The D1 store, one definition per exported function of src/db (sites, sources, monitors,
  targets, jobs, snapshots, changes, destinations, deliveries, robots). A table is the list of
  its rows in the order of insertion. The clock (\<open>now\<close>) and the identifier \<open>newId\<close> would return
  (\<open>uuid\<close>) are arguments. An upsert with \<open>ON CONFLICT DO NOTHING\<close> looks for the row with the
  unique key first; the read that follows a conflict in the source finds that row.
\<close>

section \<open>Statements\<close>

definition wasWritten :: "('r \<Rightarrow> bool) \<Rightarrow> 'r list \<Rightarrow> bool" where
  "wasWritten P t = list_ex P t"

text \<open>\<open>COALESCE\<close> of a bound value and the column.\<close>

definition coalesce :: "'a option \<Rightarrow> 'a option \<Rightarrow> 'a option" where
  "coalesce x y = (case x of None \<Rightarrow> y | Some v \<Rightarrow> Some v)"

text \<open>\<open>LIMIT ? OFFSET ?\<close>.\<close>

definition page_of :: "(nat \<times> nat) option \<Rightarrow> 'r list \<Rightarrow> 'r list" where
  "page_of pagination t =
     (case pagination of None \<Rightarrow> t | Some (limit, offset) \<Rightarrow> take limit (drop offset t))"

lemma find_key_unique:
  assumes "distinct (map k t)" "r \<in> set t"
  shows "find (\<lambda>x. k x = k r) t = Some r"
  using assms by (induction t) auto

lemma distinct_map_append_new:
  "distinct (map k t) \<Longrightarrow> k r \<notin> k ` set t \<Longrightarrow> distinct (map k (t @ [r]))"
  by simp

section \<open>Sites and sources\<close>

definition createSite :: "string \<Rightarrow> ms \<Rightarrow> string option \<Rightarrow> string \<Rightarrow> string option \<Rightarrow> db \<Rightarrow> db \<times> site_row" where
  "createSite uuid now givenId name primaryOrigin d =
     (let r = \<lparr>st_id = orElse givenId uuid, st_name = name, st_primaryOrigin = primaryOrigin,
               st_createdAt = now, st_updatedAt = now\<rparr>
      in (d\<lparr>sites := sites d @ [r]\<rparr>, r))"

definition getSite :: "db \<Rightarrow> string \<Rightarrow> site_row option" where
  "getSite d i = find (\<lambda>r. st_id r = i) (sites d)"

definition listSites :: "db \<Rightarrow> (nat \<times> nat) option \<Rightarrow> site_row list" where
  "listSites d pagination = page_of pagination (sort_key (\<lambda>r. (st_createdAt r, st_id r)) (sites d))"

definition updateSiteName :: "ms \<Rightarrow> string \<Rightarrow> string \<Rightarrow> db \<Rightarrow> db \<times> site_row option" where
  "updateSiteName now i name d =
     (let P = (\<lambda>r. st_id r = i);
          d' = d\<lparr>sites := update_where P (\<lambda>r. r\<lparr>st_name := name, st_updatedAt := now\<rparr>) (sites d)\<rparr>
      in (d', if \<not> wasWritten P (sites d) then None else getSite d' i))"

definition createSource ::
  "string \<Rightarrow> ms \<Rightarrow> string option \<Rightarrow> string \<Rightarrow> source_type \<Rightarrow> string \<Rightarrow> source_config option \<Rightarrow> db \<Rightarrow>
   db \<times> source_row" where
  "createSource uuid now givenId siteId ty url config d =
     (let r = \<lparr>src_id = orElse givenId uuid, src_siteId = siteId, src_type = ty, src_url = url,
               src_config = config, src_createdAt = now, src_updatedAt = now\<rparr>
      in (d\<lparr>sources := sources d @ [r]\<rparr>, r))"

definition getSource :: "db \<Rightarrow> string \<Rightarrow> source_row option" where
  "getSource d i = find (\<lambda>r. src_id r = i) (sources d)"

definition listSourcesBySite :: "db \<Rightarrow> string \<Rightarrow> (nat \<times> nat) option \<Rightarrow> source_row list" where
  "listSourcesBySite d siteId pagination =
     page_of pagination (sort_key src_createdAt (filter (\<lambda>r. src_siteId r = siteId) (sources d)))"

definition updateSourceConfig ::
  "ms \<Rightarrow> string \<Rightarrow> source_config option \<Rightarrow> db \<Rightarrow> db \<times> source_row option" where
  "updateSourceConfig now i config d =
     (let P = (\<lambda>r. src_id r = i);
          d' = d\<lparr>sources := update_where P (\<lambda>r. r\<lparr>src_config := config, src_updatedAt := now\<rparr>) (sources d)\<rparr>
      in (d', if \<not> wasWritten P (sources d) then None else getSource d' i))"

definition countSourcesBySite :: "db \<Rightarrow> string \<Rightarrow> nat" where
  "countSourcesBySite d siteId = length (filter (\<lambda>r. src_siteId r = siteId) (sources d))"

definition deleteSource :: "string \<Rightarrow> db \<Rightarrow> db \<times> bool" where
  "deleteSource i d =
     (d\<lparr>sources := filter (\<lambda>r. src_id r \<noteq> i) (sources d)\<rparr>, wasWritten (\<lambda>r. src_id r = i) (sources d))"

section \<open>Monitors\<close>

definition createMonitor ::
  "string \<Rightarrow> ms \<Rightarrow> string option \<Rightarrow> string \<Rightarrow> string \<Rightarrow> monitor_status option \<Rightarrow> int \<Rightarrow> ms option \<Rightarrow> db \<Rightarrow>
   db \<times> monitor_row" where
  "createMonitor uuid now givenId siteId sourceId status interval nextRunAt d =
     (let r = \<lparr>mon_id = orElse givenId uuid, mon_siteId = siteId, mon_sourceId = sourceId,
               mon_status = orElse status Active, stopReason = None, robotsEvaluationId = None,
               intervalSeconds = interval, mon_nextRunAt = nextRunAt, mon_lastCheckedAt = None,
               mon_createdAt = now, mon_updatedAt = now\<rparr>
      in (d\<lparr>monitors := monitors d @ [r]\<rparr>, r))"

definition getMonitor :: "db \<Rightarrow> string \<Rightarrow> monitor_row option" where
  "getMonitor d i = find (\<lambda>r. mon_id r = i) (monitors d)"

definition listMonitorsBySite :: "db \<Rightarrow> string \<Rightarrow> monitor_row list" where
  "listMonitorsBySite d siteId =
     sort_key mon_createdAt (filter (\<lambda>r. mon_siteId r = siteId) (monitors d))"

definition listMonitorsDue :: "db \<Rightarrow> ms \<Rightarrow> monitor_row list" where
  "listMonitorsDue d asOf =
     sort_key (\<lambda>r. the (mon_nextRunAt r))
       (filter (\<lambda>r. mon_status r = Active \<and>
                    (case mon_nextRunAt r of None \<Rightarrow> False | Some t \<Rightarrow> t \<le> asOf)) (monitors d))"

definition with_monitor :: "string \<Rightarrow> (monitor_row \<Rightarrow> monitor_row) \<Rightarrow> db \<Rightarrow> db" where
  "with_monitor i f d = d\<lparr>monitors := update_where (\<lambda>r. mon_id r = i) f (monitors d)\<rparr>"

definition updateMonitorStatus :: "ms \<Rightarrow> string \<Rightarrow> monitor_status \<Rightarrow> db \<Rightarrow> db" where
  "updateMonitorStatus now i status =
     with_monitor i (\<lambda>r. r\<lparr>mon_status := status, stopReason := None, robotsEvaluationId := None,
                          mon_updatedAt := now\<rparr>)"

definition policyStopMonitor :: "ms \<Rightarrow> string \<Rightarrow> string \<Rightarrow> string option \<Rightarrow> db \<Rightarrow> db" where
  "policyStopMonitor now i reason evaluationId =
     with_monitor i (\<lambda>r. r\<lparr>mon_status := Blocked_by_robots_txt, stopReason := Some reason,
                          robotsEvaluationId := evaluationId, mon_nextRunAt := None,
                          mon_updatedAt := now\<rparr>)"

definition updateMonitorInterval :: "ms \<Rightarrow> string \<Rightarrow> int \<Rightarrow> db \<Rightarrow> db" where
  "updateMonitorInterval now i interval =
     with_monitor i (\<lambda>r. r\<lparr>intervalSeconds := interval, mon_updatedAt := now\<rparr>)"

definition setMonitorNextRun :: "ms \<Rightarrow> string \<Rightarrow> ms option \<Rightarrow> db \<Rightarrow> db" where
  "setMonitorNextRun now i nextRunAt =
     with_monitor i (\<lambda>r. r\<lparr>mon_nextRunAt := nextRunAt, mon_updatedAt := now\<rparr>)"

definition setMonitorLastChecked :: "ms \<Rightarrow> string \<Rightarrow> ms \<Rightarrow> db \<Rightarrow> db" where
  "setMonitorLastChecked now i lastCheckedAt =
     with_monitor i (\<lambda>r. r\<lparr>mon_lastCheckedAt := Some lastCheckedAt, mon_updatedAt := now\<rparr>)"

definition countMonitorsBySource :: "db \<Rightarrow> string \<Rightarrow> nat" where
  "countMonitorsBySource d sourceId = length (filter (\<lambda>r. mon_sourceId r = sourceId) (monitors d))"

text \<open>The nine statements of the batch, in their order.\<close>

definition deleteMonitorStatements :: "string \<Rightarrow> (db \<Rightarrow> db) list" where
  "deleteMonitorStatements m =
     [\<lambda>d. d\<lparr>snapshots := update_where (\<lambda>r. sn_monitorId r = m) (\<lambda>r. r\<lparr>checkAttemptId := None\<rparr>) (snapshots d)\<rparr>,
      \<lambda>d. d\<lparr>deliveries := filter (\<lambda>r. \<not> list_ex (\<lambda>c. ch_id c = dl_changeId r \<and> ch_monitorId c = m) (changes d))
              (deliveries d)\<rparr>,
      \<lambda>d. d\<lparr>check_attempts := filter (\<lambda>r. \<not> list_ex (\<lambda>j. cj_id j = at_checkJobId r \<and> cj_monitorId j = m) (check_jobs d))
              (check_attempts d)\<rparr>,
      \<lambda>d. d\<lparr>changes := filter (\<lambda>r. ch_monitorId r \<noteq> m) (changes d)\<rparr>,
      \<lambda>d. d\<lparr>check_jobs := filter (\<lambda>r. cj_monitorId r \<noteq> m) (check_jobs d)\<rparr>,
      \<lambda>d. d\<lparr>snapshots := filter (\<lambda>r. sn_monitorId r \<noteq> m) (snapshots d)\<rparr>,
      \<lambda>d. d\<lparr>targets := filter (\<lambda>r. tg_monitorId r \<noteq> m) (targets d)\<rparr>,
      \<lambda>d. d\<lparr>subscriptions := filter (\<lambda>r. su_monitorId r \<noteq> Some m) (subscriptions d)\<rparr>,
      \<lambda>d. d\<lparr>monitors := filter (\<lambda>r. mon_id r \<noteq> m) (monitors d)\<rparr>]"

definition deleteMonitorCascade :: "string \<Rightarrow> db \<Rightarrow> db \<times> bool" where
  "deleteMonitorCascade m d =
     (foldl (\<lambda>acc stmt. stmt acc) d (deleteMonitorStatements m),
      wasWritten (\<lambda>r. mon_id r = m) (monitors d))"

section \<open>Targets\<close>

definition target_key :: "string \<Rightarrow> string \<Rightarrow> target_row \<Rightarrow> bool" where
  "target_key m url r \<longleftrightarrow> tg_monitorId r = m \<and> tg_url r = url"

definition find_target :: "db \<Rightarrow> string \<Rightarrow> string \<Rightarrow> target_row option" where
  "find_target d m url = find (target_key m url) (targets d)"

definition upsertTarget ::
  "string \<Rightarrow> ms \<Rightarrow> create_target_input \<Rightarrow> db \<Rightarrow> db \<times> target_row" where
  "upsertTarget uuid now inp d =
     (case find_target d (it_monitorId inp) (it_url inp) of
        None \<Rightarrow>
          (let r = \<lparr>tg_id = orElse (it_id inp) uuid, tg_monitorId = it_monitorId inp,
                    tg_url = it_url inp, discoveredFrom = it_discoveredFrom inp,
                    firstSeenAt = orElse (it_firstSeenAt inp) now, tg_lastCheckedAt = None,
                    lastKnownUpdatedAt = orElse (it_lastKnownUpdatedAt inp) None,
                    tg_createdAt = now, tg_updatedAt = now\<rparr>
           in (d\<lparr>targets := targets d @ [r]\<rparr>, r))
      | Some existing \<Rightarrow>
          (case it_lastKnownUpdatedAt inp of
             None \<Rightarrow> (d, existing)
           | Some w \<Rightarrow>
               (let f = (\<lambda>r. r\<lparr>lastKnownUpdatedAt := w, tg_updatedAt := now\<rparr>)
                in (d\<lparr>targets := update_where (target_key (it_monitorId inp) (it_url inp)) f (targets d)\<rparr>,
                    f existing))))"

definition getTarget :: "db \<Rightarrow> string \<Rightarrow> target_row option" where
  "getTarget d i = find (\<lambda>r. tg_id r = i) (targets d)"

definition listTargetsByMonitor :: "db \<Rightarrow> string \<Rightarrow> target_row list" where
  "listTargetsByMonitor d m = sort_key tg_createdAt (filter (\<lambda>r. tg_monitorId r = m) (targets d))"

definition setTargetLastChecked :: "ms \<Rightarrow> string \<Rightarrow> ms \<Rightarrow> db \<Rightarrow> db" where
  "setTargetLastChecked now i lastCheckedAt d =
     d\<lparr>targets := update_where (\<lambda>r. tg_id r = i)
         (\<lambda>r. r\<lparr>tg_lastCheckedAt := Some lastCheckedAt, tg_updatedAt := now\<rparr>) (targets d)\<rparr>"

definition setTargetLastKnownUpdatedAt :: "ms \<Rightarrow> string \<Rightarrow> string \<Rightarrow> db \<Rightarrow> db" where
  "setTargetLastKnownUpdatedAt now i w d =
     d\<lparr>targets := update_where
         (\<lambda>r. tg_id r = i \<and> (case lastKnownUpdatedAt r of None \<Rightarrow> True | Some v \<Rightarrow> v < w))
         (\<lambda>r. r\<lparr>lastKnownUpdatedAt := Some w, tg_updatedAt := now\<rparr>) (targets d)\<rparr>"

section \<open>Check jobs and attempts\<close>

definition createCheckJobIfNew ::
  "string \<Rightarrow> ms \<Rightarrow> create_check_job_input \<Rightarrow> db \<Rightarrow> db \<times> check_job_row insert_result" where
  "createCheckJobIfNew uuid now inp d =
     (case find (\<lambda>r. cj_monitorId r = ij_monitorId inp \<and> scheduledFor r = ij_scheduledFor inp)
             (check_jobs d) of
        Some existing \<Rightarrow> (d, \<lparr>inserted = False, row = existing\<rparr>)
      | None \<Rightarrow>
          (let r = \<lparr>cj_id = orElse (ij_id inp) uuid, cj_monitorId = ij_monitorId inp,
                    scheduledFor = ij_scheduledFor inp, cj_status = orElse (ij_status inp) Job_pending,
                    trigger = orElse (ij_trigger inp) Scheduled, cj_startedAt = None,
                    cj_finishedAt = None, cj_createdAt = now\<rparr>
           in (d\<lparr>check_jobs := check_jobs d @ [r]\<rparr>, \<lparr>inserted = True, row = r\<rparr>)))"

definition getCheckJob :: "db \<Rightarrow> string \<Rightarrow> check_job_row option" where
  "getCheckJob d i = find (\<lambda>r. cj_id r = i) (check_jobs d)"

definition listCheckJobsByMonitor :: "db \<Rightarrow> string \<Rightarrow> check_job_row list" where
  "listCheckJobsByMonitor d m =
     order_desc scheduledFor (filter (\<lambda>r. cj_monitorId r = m) (check_jobs d))"

definition updateCheckJobStatus ::
  "string \<Rightarrow> check_job_status \<Rightarrow> ms option \<Rightarrow> ms option \<Rightarrow> db \<Rightarrow> db" where
  "updateCheckJobStatus i status startedAt finishedAt d =
     d\<lparr>check_jobs := update_where (\<lambda>r. cj_id r = i)
         (\<lambda>r. r\<lparr>cj_status := status, cj_startedAt := coalesce startedAt (cj_startedAt r),
               cj_finishedAt := coalesce finishedAt (cj_finishedAt r)\<rparr>) (check_jobs d)\<rparr>"

definition createCheckAttempt ::
  "string \<Rightarrow> ms \<Rightarrow> create_check_attempt_input \<Rightarrow> db \<Rightarrow> db \<times> check_attempt_row" where
  "createCheckAttempt newId now inp d =
     (let r = \<lparr>at_id = orElse (ia_id inp) newId, at_checkJobId = ia_checkJobId inp,
           at_targetId = ia_targetId inp, at_fetcherId = ia_fetcherId inp, attemptIndex = ia_attemptIndex inp,
           at_outcome = ia_outcome inp, at_failureClass = ia_failureClass inp, statusCode = ia_statusCode inp,
           at_durationMs = ia_durationMs inp, at_snapshotId = ia_snapshotId inp,
           errorMessage = ia_errorMessage inp, executorJobId = ia_executorJobId inp,
           at_startedAt = orElse (ia_startedAt inp) now, at_finishedAt = ia_finishedAt inp, at_createdAt = now\<rparr>
      in (d\<lparr>check_attempts := check_attempts d @ [r]\<rparr>, r))"

definition listCheckAttempts :: "db \<Rightarrow> string \<Rightarrow> (nat \<times> nat) option \<Rightarrow> check_attempt_row list" where
  "listCheckAttempts d jobId pagination =
     page_of pagination (sort_key attemptIndex (filter (\<lambda>r. at_checkJobId r = jobId) (check_attempts d)))"

definition countCheckAttempts :: "db \<Rightarrow> string \<Rightarrow> nat" where
  "countCheckAttempts d jobId = length (filter (\<lambda>r. at_checkJobId r = jobId) (check_attempts d))"

section \<open>Snapshots\<close>

definition createSnapshot :: "string \<Rightarrow> ms \<Rightarrow> create_snapshot_input \<Rightarrow> db \<Rightarrow> db \<times> snapshot_row" where
  "createSnapshot newId now inp d =
     (let r = \<lparr>sn_id = orElse (is_id inp) newId, sn_monitorId = is_monitorId inp, sn_targetId = is_targetId inp,
           checkAttemptId = is_checkAttemptId inp, sn_fetchedAt = orElse (is_fetchedAt inp) now,
           httpStatus = is_httpStatus inp, sn_contentType = is_contentType inp, sn_etag = is_etag inp,
           sn_lastModified = is_lastModified inp, bodyHash = is_bodyHash inp, r2Key = is_r2Key inp,
           sn_normalizedHash = is_normalizedHash inp, normalizedR2Key = is_normalizedR2Key inp,
           sn_textHash = is_textHash inp, sn_normalizationVersion = is_normalizationVersion inp,
           sn_createdAt = now\<rparr>
      in (d\<lparr>snapshots := snapshots d @ [r]\<rparr>, r))"

definition getSnapshot :: "db \<Rightarrow> string \<Rightarrow> snapshot_row option" where
  "getSnapshot d i = find (\<lambda>r. sn_id r = i) (snapshots d)"

definition getLatestSnapshotForTarget :: "db \<Rightarrow> string \<Rightarrow> snapshot_row option" where
  "getLatestSnapshotForTarget d targetId =
     (case order_desc sn_fetchedAt (order_desc sn_createdAt
             (filter (\<lambda>r. sn_targetId r = targetId) (snapshots d))) of
        [] \<Rightarrow> None
      | r # _ \<Rightarrow> Some r)"

definition listSnapshotsByMonitor :: "db \<Rightarrow> string \<Rightarrow> snapshot_row list" where
  "listSnapshotsByMonitor d m = order_desc sn_fetchedAt (filter (\<lambda>r. sn_monitorId r = m) (snapshots d))"

section \<open>Changes\<close>

definition change_key :: "string \<Rightarrow> string \<Rightarrow> change_row \<Rightarrow> bool" where
  "change_key m key r \<longleftrightarrow> ch_monitorId r = m \<and> dedupeKey r = key"

definition insertChangeIfNew ::
  "string \<Rightarrow> ms \<Rightarrow> create_change_input \<Rightarrow> db \<Rightarrow> db \<times> change_row insert_result" where
  "insertChangeIfNew uuid now inp d =
     (case find (change_key (ic_monitorId inp) (ic_dedupeKey inp)) (changes d) of
        Some existing \<Rightarrow> (d, \<lparr>inserted = False, row = existing\<rparr>)
      | None \<Rightarrow>
          (let r = \<lparr>ch_id = orElse (ic_id inp) uuid, ch_monitorId = ic_monitorId inp,
                    ch_targetId = ic_targetId inp, ch_targetUrl = ic_targetUrl inp,
                    ch_kind = ic_kind inp, diffLevel = ic_diffLevel inp,
                    dedupeKey = ic_dedupeKey inp, previousSnapshotId = ic_previousSnapshotId inp,
                    ch_snapshotId = ic_snapshotId inp, diffR2Key = ic_diffR2Key inp,
                    diffPreview = ic_diffPreview inp, ch_title = ic_title inp, ch_tags = None,
                    detectedAt = orElse (ic_detectedAt inp) now, ch_createdAt = now\<rparr>
           in (d\<lparr>changes := changes d @ [r]\<rparr>, \<lparr>inserted = True, row = r\<rparr>)))"

definition updateChangeTitle :: "string \<Rightarrow> string \<Rightarrow> db \<Rightarrow> db" where
  "updateChangeTitle i title d =
     d\<lparr>changes := update_where (\<lambda>r. ch_id r = i) (\<lambda>r. r\<lparr>ch_title := Some title\<rparr>) (changes d)\<rparr>"

definition getChange :: "db \<Rightarrow> string \<Rightarrow> change_row option" where
  "getChange d i = find (\<lambda>r. ch_id r = i) (changes d)"

definition setChangeTagsIfNull :: "string \<Rightarrow> string list \<Rightarrow> db \<Rightarrow> db \<times> string list option" where
  "setChangeTagsIfNull i tags d =
     (let P = (\<lambda>r. ch_id r = i \<and> ch_tags r = None)
      in (d\<lparr>changes := update_where P (\<lambda>r. r\<lparr>ch_tags := Some tags\<rparr>) (changes d)\<rparr>,
          if wasWritten P (changes d) then Some tags
          else (case getChange d i of None \<Rightarrow> None | Some r \<Rightarrow> ch_tags r)))"

text \<open>\<open>ORDER BY detected_at DESC, id DESC\<close>.\<close>

definition listChangesByMonitor :: "db \<Rightarrow> string \<Rightarrow> (nat \<times> nat) option \<Rightarrow> change_row list" where
  "listChangesByMonitor d m pagination =
     page_of pagination
       (rev (sort_key (\<lambda>r. (detectedAt r, ch_id r)) (filter (\<lambda>r. ch_monitorId r = m) (changes d))))"

definition countChangesByMonitor :: "db \<Rightarrow> string \<Rightarrow> nat" where
  "countChangesByMonitor d m = length (filter (\<lambda>r. ch_monitorId r = m) (changes d))"

section \<open>Destinations and subscriptions\<close>

definition createDestination ::
  "string \<Rightarrow> ms \<Rightarrow> string option \<Rightarrow> string \<Rightarrow> string \<Rightarrow> bool option \<Rightarrow> string option \<Rightarrow> db \<Rightarrow>
   db \<times> destination_row" where
  "createDestination uuid now givenId name url enable thread d =
     (let r = \<lparr>ds_id = orElse givenId uuid, ds_name = name, webhookUrl = url,
               enabled = orElse enable True, archivedAt = None, threadId = thread,
               ds_createdAt = now, ds_updatedAt = now\<rparr>
      in (d\<lparr>destinations := destinations d @ [r]\<rparr>, r))"

definition getDestination :: "db \<Rightarrow> string \<Rightarrow> destination_row option" where
  "getDestination d i = find (\<lambda>r. ds_id r = i) (destinations d)"

definition listDestinations :: "db \<Rightarrow> destination_row list" where
  "listDestinations d = sort_key ds_createdAt (destinations d)"

definition archiveDestination :: "ms \<Rightarrow> string \<Rightarrow> db \<Rightarrow> db \<times> destination_row option" where
  "archiveDestination now i d =
     (let d' = d\<lparr>subscriptions := filter (\<lambda>r. su_destinationId r \<noteq> i) (subscriptions d),
                 destinations := update_where (\<lambda>r. ds_id r = i \<and> archivedAt r = None)
                   (\<lambda>r. r\<lparr>archivedAt := Some now, webhookUrl := '''', ds_updatedAt := now\<rparr>)
                   (destinations d)\<rparr>
      in (d', getDestination d' i))"

definition updateDestinationThreadId ::
  "ms \<Rightarrow> string \<Rightarrow> string option \<Rightarrow> db \<Rightarrow> db \<times> destination_row option" where
  "updateDestinationThreadId now i thread d =
     (let P = (\<lambda>r. ds_id r = i \<and> archivedAt r = None);
          d' = d\<lparr>destinations := update_where P (\<lambda>r. r\<lparr>threadId := thread, ds_updatedAt := now\<rparr>)
                   (destinations d)\<rparr>
      in (d', if \<not> wasWritten P (destinations d) then None else getDestination d' i))"

definition createSubscription ::
  "string \<Rightarrow> ms \<Rightarrow> string option \<Rightarrow> string \<Rightarrow> string option \<Rightarrow> string option \<Rightarrow> string option \<Rightarrow>
   change_kind option \<Rightarrow> db \<Rightarrow> db \<times> subscription_row" where
  "createSubscription uuid now givenId destId siteId monitorId tag kind d =
     (let r = \<lparr>su_id = orElse givenId uuid, su_destinationId = destId, su_siteId = siteId,
               su_monitorId = monitorId, su_tag = tag, su_changeKind = kind,
               su_createdAt = now, su_updatedAt = now\<rparr>
      in (d\<lparr>subscriptions := subscriptions d @ [r]\<rparr>, r))"

definition listSubscriptionsByDestination :: "db \<Rightarrow> string \<Rightarrow> subscription_row list" where
  "listSubscriptionsByDestination d dest =
     sort_key su_createdAt (filter (\<lambda>r. su_destinationId r = dest) (subscriptions d))"

definition wildcard_or :: "'a option \<Rightarrow> 'a \<Rightarrow> bool" where
  "wildcard_or column v = (case column of None \<Rightarrow> True | Some c \<Rightarrow> c = v)"

text \<open>A row joins every destination with its id; \<open>id\<close> is the primary key of destinations.\<close>

definition listMatchingSubscriptions ::
  "db \<Rightarrow> string \<Rightarrow> string \<Rightarrow> change_kind \<Rightarrow> string list option \<Rightarrow> subscription_row list" where
  "listMatchingSubscriptions d siteId monitorId kind tags =
     sort_key su_createdAt
       (filter (\<lambda>s. wildcard_or (su_siteId s) siteId \<and> wildcard_or (su_monitorId s) monitorId \<and>
                    wildcard_or (su_changeKind s) kind \<and>
                    (case su_tag s of None \<Rightarrow> True | Some t \<Rightarrow> t \<in> set (orElse tags [])) \<and>
                    (case getDestination d (su_destinationId s) of
                       None \<Rightarrow> False | Some dest \<Rightarrow> archivedAt dest = None))
         (subscriptions d))"

section \<open>Deliveries\<close>

definition delivery_key :: "string \<Rightarrow> string \<Rightarrow> 'a delivery_row_scheme \<Rightarrow> bool" where
  "delivery_key c dest r \<longleftrightarrow> dl_changeId r = c \<and> dl_destinationId r = dest"

definition createDeliveryIfNew ::
  "string \<Rightarrow> ms \<Rightarrow> string \<Rightarrow> string \<Rightarrow> db \<Rightarrow> db \<times> delivery_rec insert_result" where
  "createDeliveryIfNew uuid now c dest d =
     (case find (delivery_key c dest) (deliveries d) of
        Some existing \<Rightarrow> (d, \<lparr>inserted = False, row = existing\<rparr>)
      | None \<Rightarrow>
          (let r = \<lparr>dl_id = uuid, dl_changeId = c, dl_destinationId = dest, dl_status = Pending,
                    attemptCount = 0, lastError = None, deliveredAt = None, dl_createdAt = now,
                    dl_updatedAt = now, claimedAt = None\<rparr>
           in (d\<lparr>deliveries := deliveries d @ [r]\<rparr>, \<lparr>inserted = True, row = r\<rparr>)))"

definition getDelivery :: "db \<Rightarrow> string \<Rightarrow> delivery_rec option" where
  "getDelivery d i = find (\<lambda>r. dl_id r = i) (deliveries d)"

definition listDeliveriesByChange :: "db \<Rightarrow> string \<Rightarrow> delivery_rec list" where
  "listDeliveriesByChange d c = sort_key dl_createdAt (filter (\<lambda>r. dl_changeId r = c) (deliveries d))"

definition with_delivery :: "(delivery_rec \<Rightarrow> bool) \<Rightarrow> (delivery_rec \<Rightarrow> delivery_rec) \<Rightarrow> db \<Rightarrow> db" where
  "with_delivery P f d = d\<lparr>deliveries := update_where P f (deliveries d)\<rparr>"

definition markDeliveryDelivered :: "ms \<Rightarrow> string \<Rightarrow> db \<Rightarrow> db" where
  "markDeliveryDelivered now i =
     with_delivery (\<lambda>r. dl_id r = i)
       (\<lambda>r. r\<lparr>dl_status := Delivered, deliveredAt := Some now, dl_updatedAt := now\<rparr>)"

definition markDeliveryFailed :: "ms \<Rightarrow> string \<Rightarrow> string \<Rightarrow> bool \<Rightarrow> db \<Rightarrow> db" where
  "markDeliveryFailed now i err dead =
     with_delivery (\<lambda>r. dl_id r = i)
       (\<lambda>r. r\<lparr>dl_status := (if dead then Dead else Failed), lastError := Some err,
             attemptCount := attemptCount r + 1, dl_updatedAt := now\<rparr>)"

section \<open>Robots policies and evaluations\<close>

definition robots_policy_key :: "string \<Rightarrow> string \<Rightarrow> robots_policy_row \<Rightarrow> bool" where
  "robots_policy_key siteId orig r \<longleftrightarrow> rp_siteId r = siteId \<and> rp_canonicalOrigin r = orig"

definition normalizeCanonicalOrigin :: "url_parser \<Rightarrow> string \<Rightarrow> string" where
  "normalizeCanonicalOrigin newURL inp =
     (let trimmed = js_trim inp
      in case newURL trimmed None of None \<Rightarrow> trimmed | Some u \<Rightarrow> origin u)"

definition upsertRobotsPolicy ::
  "url_parser \<Rightarrow> string \<Rightarrow> ms \<Rightarrow> upsert_robots_policy_input \<Rightarrow> db \<Rightarrow>
   db \<times> (js_error + robots_policy_row)" where
  "upsertRobotsPolicy newURL uuid now inp d =
     (let orig = normalizeCanonicalOrigin newURL (ip_canonicalOrigin inp);
          P = robots_policy_key (ip_siteId inp) orig;
          existing = find P (robots_policies d);
          d' = d\<lparr>robots_policies :=
            (if existing \<noteq> None
             then update_where P (\<lambda>r. r\<lparr>rp_mode := ip_mode inp, rp_reason := ip_reason inp,
                    rp_updatedBy := ip_updatedBy inp, rp_updatedAt := now\<rparr>) (robots_policies d)
             else robots_policies d @
               [\<lparr>rp_id = uuid, rp_siteId = ip_siteId inp, rp_canonicalOrigin = orig,
                 rp_mode = ip_mode inp, rp_reason = ip_reason inp, rp_updatedBy = ip_updatedBy inp,
                 rp_createdAt = now, rp_updatedAt = now\<rparr>])\<rparr>
      in (d', case find P (robots_policies d') of
                None \<Rightarrow> Inl (JsError ''upsertRobotsPolicy: row not found after upsert'')
              | Some persisted \<Rightarrow> Inr persisted))"

definition getRobotsPolicy :: "url_parser \<Rightarrow> db \<Rightarrow> string \<Rightarrow> string \<Rightarrow> robots_policy_row option" where
  "getRobotsPolicy newURL d siteId orig =
     find (robots_policy_key siteId (normalizeCanonicalOrigin newURL orig)) (robots_policies d)"

definition getRobotsMode :: "url_parser \<Rightarrow> db \<Rightarrow> string \<Rightarrow> string \<Rightarrow> robots_mode" where
  "getRobotsMode newURL d siteId orig =
     (case getRobotsPolicy newURL d siteId orig of None \<Rightarrow> Enforce | Some p \<Rightarrow> rp_mode p)"

definition createRobotsEvaluation ::
  "string \<Rightarrow> ms \<Rightarrow> create_robots_evaluation_input \<Rightarrow> db \<Rightarrow> db \<times> robots_evaluation_row" where
  "createRobotsEvaluation newId now inp d =
     (let r = \<lparr>rv_id = orElse (iv_id inp) newId, rv_origin = iv_origin inp, rv_verdict = iv_verdict inp,
           rv_robotsUrl = iv_robotsUrl inp, rv_checkedAt = orElse (iv_checkedAt inp) now,
           rv_userAgentGroup = iv_userAgentGroup inp, rv_matchedRule = iv_matchedRule inp,
           rv_unavailable = orElse (iv_unavailable inp) False,
           rv_wouldBlock = orElse (iv_robotsWouldBlock inp) False, rv_hash = iv_robotsHash inp,
           rv_createdAt = now\<rparr>
      in (d\<lparr>robots_evaluations := robots_evaluations d @ [r]\<rparr>, r))"

definition evaluations_of :: "db \<Rightarrow> string \<Rightarrow> robots_evaluation_row list" where
  "evaluations_of d orig =
     order_desc rv_checkedAt (filter (\<lambda>r. rv_origin r = orig) (robots_evaluations d))"

fun count_prefix :: "robots_evaluation_row list \<Rightarrow> nat" where
  "count_prefix [] = 0"
| "count_prefix (r # rs) = (if \<not> rv_unavailable r then 0 else 1 + count_prefix rs)"

definition countConsecutiveUnavailableRobotsEvaluations :: "db \<Rightarrow> string \<Rightarrow> int \<Rightarrow> nat" where
  "countConsecutiveUnavailableRobotsEvaluations d orig limit =
     (if limit \<le> 0 then 0 else count_prefix (take (nat limit) (evaluations_of d orig)))"

definition getLatestRobotsEvaluation :: "db \<Rightarrow> string \<Rightarrow> robots_evaluation_row option" where
  "getLatestRobotsEvaluation d orig =
     (case evaluations_of d orig of [] \<Rightarrow> None | r # _ \<Rightarrow> Some r)"

section \<open>Lemmas\<close>

lemma find_update_same:
  "(\<And>r. Q (f r) = Q r) \<Longrightarrow> (\<And>r. P (f r) = P r) \<Longrightarrow>
   find Q (update_where P f t) = map_option (\<lambda>r. if P r then f r else r) (find Q t)"
  by (rule find_update_where)

lemma insertChangeIfNew_row:
  "insertChangeIfNew u now inp d = (d', r) \<Longrightarrow>
   find (change_key (ic_monitorId inp) (ic_dedupeKey inp)) (changes d') = Some (row r)"
  by (auto simp: insertChangeIfNew_def Let_def find_append_case change_key_def split: option.splits)

text \<open>
  Inserting a change is idempotent per monitor and dedupe key: the first insertion keeps the
  pair unique in the table, and every later insertion with the same pair, whatever else it
  carries, leaves the database as it is and returns the stored row as not inserted.
\<close>

theorem insertChangeIfNew_idempotent:
  "case insertChangeIfNew u now inp d of (d', r) \<Rightarrow>
     insertChangeIfNew u' now' (inp'\<lparr>ic_monitorId := ic_monitorId inp, ic_dedupeKey := ic_dedupeKey inp\<rparr>) d' =
       (d', \<lparr>inserted = False, row = row r\<rparr>) \<and>
     length (filter (change_key (ic_monitorId inp) (ic_dedupeKey inp)) (changes d')) =
       (if inserted r then 1
        else length (filter (change_key (ic_monitorId inp) (ic_dedupeKey inp)) (changes d))) \<and>
     change_key (ic_monitorId inp) (ic_dedupeKey inp) (row r)"
proof (cases "insertChangeIfNew u now inp d")
  case (Pair d' r)
  let ?P = "change_key (ic_monitorId inp) (ic_dedupeKey inp)"
  from insertChangeIfNew_row [OF Pair] have "find ?P (changes d') = Some (row r)" .
  moreover from this have "?P (row r)" by (auto simp: find_Some_iff)
  moreover have "length (filter ?P (changes d')) =
      (if inserted r then 1 else length (filter ?P (changes d)))"
    using Pair by (auto simp: insertChangeIfNew_def Let_def change_key_def find_None_iff filter_empty_conv
        split: option.splits)
  ultimately show ?thesis
    by (simp add: Pair insertChangeIfNew_def [of u'])
qed

definition newer :: "string option \<Rightarrow> string \<Rightarrow> string option" where
  "newer old w = (case old of None \<Rightarrow> Some w | Some v \<Rightarrow> Some (max v w))"

lemma setTargetLastKnownUpdatedAt_newer:
  "map_option lastKnownUpdatedAt (getTarget (setTargetLastKnownUpdatedAt now i w d) i) =
   map_option (\<lambda>r. newer (lastKnownUpdatedAt r) w) (getTarget d i)"
proof -
  let ?P = "\<lambda>r. tg_id r = i \<and> (case lastKnownUpdatedAt r of None \<Rightarrow> True | Some v \<Rightarrow> v < w)"
  let ?f = "\<lambda>r. r\<lparr>lastKnownUpdatedAt := Some w, tg_updatedAt := now\<rparr>"
  have *: "getTarget (setTargetLastKnownUpdatedAt now i w d) i =
      map_option (\<lambda>r. if ?P r then ?f r else r) (getTarget d i)"
    unfolding getTarget_def setTargetLastKnownUpdatedAt_def by (simp add: find_update_where)
  show ?thesis
  proof (cases "getTarget d i")
    case (Some r)
    then have "tg_id r = i" unfolding getTarget_def by (auto dest: find_SomeD)
    with Some show ?thesis unfolding *
      by (cases "lastKnownUpdatedAt r") (auto simp: newer_def max_def)
  qed (simp add: *)
qed

lemma watermark_fold:
  "map_option lastKnownUpdatedAt
     (getTarget (foldl (\<lambda>acc (now, w). setTargetLastKnownUpdatedAt now i w acc) d writes) i) =
   map_option (\<lambda>r. foldl newer (lastKnownUpdatedAt r) (map snd writes)) (getTarget d i)"
proof (induction writes arbitrary: d)
  case (Cons nw writes)
  obtain now w where nw: "nw = (now, w)" by (cases nw)
  show ?case
    using Cons.IH [of "setTargetLastKnownUpdatedAt now i w d"]
      setTargetLastKnownUpdatedAt_newer [of now i w d]
    by (cases "getTarget d i"; cases "getTarget (setTargetLastKnownUpdatedAt now i w d) i") (auto simp: nw)
qed (simp add: comp_def)

lemma foldl_newer:
  "foldl newer old ws = (if ws = [] then old else Some (Max (set_option old \<union> set ws)))"
proof (induction ws arbitrary: old)
  case (Cons w ws)
  have "set_option (newer old w) \<noteq> {}" by (cases old) (auto simp: newer_def)
  have m: "newer old w = Some (Max (insert w (set_option old)))"
    by (cases old) (auto simp: newer_def max.commute)
  show ?case
  proof (cases "ws = []")
    case False
    then have "foldl newer old (w # ws) = Some (Max (set_option (newer old w) \<union> set ws))"
      using Cons.IH by simp
    also have "Max (set_option (newer old w) \<union> set ws) = Max (set_option old \<union> set (w # ws))"
    proof -
      have "Max (insert (Max (insert w (set_option old))) (set ws)) =
          max (Max (insert w (set_option old))) (Max (set ws))"
        using False by (intro Max_insert) auto
      also have "\<dots> = Max (insert w (set_option old) \<union> set ws)"
        using False by (intro Max_Un [symmetric]) auto
      finally show ?thesis using m by (simp add: insert_commute Un_commute)
    qed
    finally show ?thesis by simp
  qed (use m in simp)
qed simp

text \<open>
  The watermark of a target is a high-water mark: after any writes by any runs, in any
  order, it is the largest of the old value and the written ones, so no write takes it back.
\<close>

theorem watermark_is_maximum:
  "map_option lastKnownUpdatedAt
     (getTarget (foldl (\<lambda>acc (now, w). setTargetLastKnownUpdatedAt now i w acc) d writes) i) =
   map_option (\<lambda>r. if writes = [] then lastKnownUpdatedAt r
                   else Some (Max (set_option (lastKnownUpdatedAt r) \<union> snd ` set writes))) (getTarget d i)"
  by (simp add: watermark_fold foldl_newer cong: if_cong)

lemma count_prefix_take: "count_prefix rs = length (takeWhile rv_unavailable rs)"
  by (induction rs) auto

lemma count_prefix_ge: "n \<le> count_prefix rs \<longleftrightarrow> n \<le> length rs \<and> (\<forall>r \<in> set (take n rs). rv_unavailable r)"
proof (induction rs arbitrary: n)
  case (Cons r rs)
  then show ?case by (cases n) auto
qed auto

end
