(* ===== verification/Fetch_Policy.thy ===== *)
theory Fetch_Policy
  imports Contracts "HOL-Library.Multiset"
begin

text \<open>
  The fetcher policy engine (src/fetch/policy.ts): validation of AllowList and OrderList, the
  plan of attempts, the decision to go on to the next fetcher and the sequence of attempts with
  retries inside an entry; and the stored form of a policy (src/db/fetcherPolicies.ts) with its
  own validation. The fetchers are an argument \<open>exec\<close> over an abstract state, the timer an
  argument \<open>sleep\<close>.
\<close>

section \<open>Validation\<close>

datatype policy_error =
    AllowListEmpty
  | AllowListDuplicates
  | NotInAllowList string
  | WrongOrderCount string nat
  | BadMaxAttempts int
  | NoAttempts

definition order_count :: "fetcher_policy_entry list \<Rightarrow> string \<Rightarrow> nat" where
  "order_count es fid = length (filter (\<lambda>e. fetcherId e = fid) es)"

definition validateFetcherPolicy :: "fetcher_policy \<Rightarrow> policy_error list" where
  "validateFetcherPolicy p =
     (if allowList p = [] then [AllowListEmpty] else []) @
     (if length (remdups (allowList p)) \<noteq> length (allowList p) then [AllowListDuplicates] else []) @
     map (\<lambda>e. NotInAllowList (fetcherId e))
       (filter (\<lambda>e. fetcherId e \<notin> set (allowList p)) (orderList p)) @
     map (\<lambda>fid. WrongOrderCount fid (order_count (orderList p) fid))
       (filter (\<lambda>fid. order_count (orderList p) fid \<noteq> 1) (allowList p))"

definition policy_valid :: "fetcher_policy \<Rightarrow> bool" where
  "policy_valid p \<longleftrightarrow> validateFetcherPolicy p = []"

definition shouldProceedToNext :: "fetcher_policy_entry \<Rightarrow> failure_class \<Rightarrow> bool" where
  "shouldProceedToNext entry failure =
     (if failure \<in> set NEVER_PROCEEDABLE_FAILURES then False
      else failure \<in> set (orElse (proceedOn entry) DEFAULT_PROCEEDABLE_FAILURES))"

definition DEFAULT_MAX_ATTEMPTS :: int where "DEFAULT_MAX_ATTEMPTS = 3"
definition TRANSIENT_RETRY_FAILURE_CLASSES :: "failure_class list" where
  "TRANSIENT_RETRY_FAILURE_CLASSES = [Http_5xx, Network_error]"
definition DEFAULT_TRANSIENT_RETRIES :: nat where "DEFAULT_TRANSIENT_RETRIES = 2"
definition DEFAULT_RETRY_BACKOFF_MS :: ms where "DEFAULT_RETRY_BACKOFF_MS = 250"

definition planAttempts ::
  "fetcher_policy \<Rightarrow> int option \<Rightarrow> policy_error list + fetcher_policy_entry list" where
  "planAttempts p maxAttempts =
     (if validateFetcherPolicy p \<noteq> [] then Inl (validateFetcherPolicy p)
      else (let m = orElse maxAttempts DEFAULT_MAX_ATTEMPTS
            in if m < 0 then Inl [BadMaxAttempts m] else Inr (take (nat m) (orderList p))))"

section \<open>The sequence of attempts\<close>

type_synonym attempt = "string \<times> fetch_outcome"

definition retryable :: "(string \<Rightarrow> bool) \<Rightarrow> string \<Rightarrow> fetch_outcome \<Rightarrow> bool" where
  "retryable isRetryable fid outcome =
     (case outcome of
        FetchSuccess _ \<Rightarrow> False
      | FetchFailure f \<Rightarrow> isRetryable fid \<and> failureClass f \<in> set TRANSIENT_RETRY_FAILURE_CLASSES)"

text \<open>
  The retry loop of one entry: \<open>left\<close> retries remain, \<open>n\<close> were made; the result is the last
  outcome, the attempts made and the state.
\<close>

fun retry_loop ::
  "(string \<Rightarrow> 's \<Rightarrow> fetch_outcome \<times> 's) \<Rightarrow> (ms \<Rightarrow> 's \<Rightarrow> 's) \<Rightarrow> (string \<Rightarrow> bool) \<Rightarrow> ms \<Rightarrow> string \<Rightarrow>
   nat \<Rightarrow> nat \<Rightarrow> fetch_outcome \<Rightarrow> 's \<Rightarrow> fetch_outcome \<times> attempt list \<times> 's" where
  "retry_loop exec sleep isRetryable backoff fid 0 n outcome s = (outcome, [], s)"
| "retry_loop exec sleep isRetryable backoff fid (Suc left) n outcome s =
     (if retryable isRetryable fid outcome then
        (let s1 = sleep (backoff * int (Suc n)) s;
             (outcome1, s2) = exec fid s1;
             (outcome2, more, s3) =
               retry_loop exec sleep isRetryable backoff fid left (Suc n) outcome1 s2
         in (outcome2, (fid, outcome1) # more, s3))
      else (outcome, [], s))"

text \<open>
  The loop over the plan. The empty plan stands for the end of the loop; the outcome of the
  last entry tried is passed on as \<open>lastOutcome\<close>.
\<close>

fun run_plan ::
  "(string \<Rightarrow> 's \<Rightarrow> fetch_outcome \<times> 's) \<Rightarrow> (ms \<Rightarrow> 's \<Rightarrow> 's) \<Rightarrow> (string \<Rightarrow> bool) \<Rightarrow> nat \<Rightarrow> ms \<Rightarrow>
   fetcher_policy_entry list \<Rightarrow> fetch_outcome option \<Rightarrow> 's \<Rightarrow>
   fetch_outcome option \<times> attempt list \<times> 's" where
  "run_plan exec sleep isRetryable retries backoff [] lastOutcome s = (lastOutcome, [], s)"
| "run_plan exec sleep isRetryable retries backoff (entry # plan) lastOutcome s =
     (let (o1, s1) = exec (fetcherId entry) s;
          (o2, more, s2) =
            retry_loop exec sleep isRetryable backoff (fetcherId entry) retries 0 o1 s1;
          made = (fetcherId entry, o1) # more
      in case o2 of
           FetchSuccess _ \<Rightarrow> (Some o2, made, s2)
         | FetchFailure f \<Rightarrow>
             if \<not> shouldProceedToNext entry (failureClass f) then (Some o2, made, s2)
             else (let (o3, rest, s3) =
                         run_plan exec sleep isRetryable retries backoff plan (Some o2) s2
                   in (o3, made @ rest, s3)))"

record sequence_opts =
  maxAttempts :: "int option"
  transientRetries :: "nat option"
  retryBackoffMs :: "ms option"
  isRetryable :: "(string \<Rightarrow> bool) option"

definition default_opts :: sequence_opts where
  "default_opts = \<lparr>maxAttempts = None, transientRetries = None, retryBackoffMs = None,
     isRetryable = None\<rparr>"

definition runFetchSequence ::
  "fetcher_policy \<Rightarrow> (string \<Rightarrow> 's \<Rightarrow> fetch_outcome \<times> 's) \<Rightarrow> (ms \<Rightarrow> 's \<Rightarrow> 's) \<Rightarrow> sequence_opts \<Rightarrow> 's \<Rightarrow>
   (policy_error list + fetch_outcome option \<times> attempt list) \<times> 's" where
  "runFetchSequence p exec sleep opts s =
     (case planAttempts p (maxAttempts opts) of
        Inl errs \<Rightarrow> (Inl errs, s)
      | Inr plan \<Rightarrow>
          if plan = [] then (Inl [NoAttempts], s)
          else (let (oc, attempts, s') =
                      run_plan exec sleep (orElse (isRetryable opts) (\<lambda>_. True))
                        (orElse (transientRetries opts) DEFAULT_TRANSIENT_RETRIES)
                        (orElse (retryBackoffMs opts) DEFAULT_RETRY_BACKOFF_MS) plan None s
                in (Inr (oc, attempts), s')))"

section \<open>The stored policy (src/db/fetcherPolicies.ts)\<close>

text \<open>
  The two tables. The column \<open>proceed_on\<close> holds the JSON text of a list of failure classes, or
  NULL; the model keeps the list itself, since \<open>JSON.parse\<close> inverts \<open>JSON.stringify\<close> on lists
  of strings.
\<close>

record policy_row =
  pol_id :: string
  pol_site_id :: string
  pol_created_at :: ms
  pol_updated_at :: ms

record policy_entry_row =
  pe_id :: string
  pe_policy_id :: string
  pe_fetcher_id :: string
  pe_order_index :: nat
  pe_proceed_on :: "failure_class list option"

record policy_tables =
  fetcher_policies :: "policy_row list"
  fetcher_policy_entries :: "policy_entry_row list"

datatype put_policy_error = PutAllowListEmpty | PutAllowListDuplicates | PutOrderDuplicates
  | PutOrderMismatch

definition db_validateFetcherPolicy :: "fetcher_policy \<Rightarrow> put_policy_error option" where
  "db_validateFetcherPolicy p =
     (let orderIds = map fetcherId (orderList p);
          allowSet = set (allowList p); orderSet = set orderIds
      in if allowList p = [] then Some PutAllowListEmpty
         else if card allowSet \<noteq> length (allowList p) then Some PutAllowListDuplicates
         else if card orderSet \<noteq> length orderIds then Some PutOrderDuplicates
         else if card orderSet \<noteq> card allowSet \<or> \<not> orderSet \<subseteq> allowSet then Some PutOrderMismatch
         else None)"

definition find_policy :: "policy_tables \<Rightarrow> string \<Rightarrow> policy_row option" where
  "find_policy db site = find (\<lambda>r. pol_site_id r = site) (fetcher_policies db)"

definition entry_rows :: "string \<Rightarrow> (nat \<Rightarrow> string) \<Rightarrow> fetcher_policy_entry list \<Rightarrow> policy_entry_row list" where
  "entry_rows policyId ids es =
     map (\<lambda>(i, e). \<lparr>pe_id = ids i, pe_policy_id = policyId, pe_fetcher_id = fetcherId e,
                    pe_order_index = i, pe_proceed_on = proceedOn e\<rparr>) (enumerate 0 es)"

text \<open>\<open>newPolicyId\<close> and \<open>ids\<close> are the results of \<open>crypto.randomUUID\<close>; the batch is atomic.\<close>

definition putFetcherPolicy ::
  "string \<Rightarrow> (nat \<Rightarrow> string) \<Rightarrow> ms \<Rightarrow> string \<Rightarrow> fetcher_policy \<Rightarrow> policy_tables \<Rightarrow>
   put_policy_error + policy_tables" where
  "putFetcherPolicy newPolicyId ids now site p db =
     (case db_validateFetcherPolicy p of
        Some e \<Rightarrow> Inl e
      | None \<Rightarrow>
          (case find_policy db site of
             Some row \<Rightarrow> Inr \<lparr>
               fetcher_policies = map (\<lambda>r. if pol_id r = pol_id row
                 then r\<lparr>pol_updated_at := now\<rparr> else r) (fetcher_policies db),
               fetcher_policy_entries =
                 filter (\<lambda>r. pe_policy_id r \<noteq> pol_id row) (fetcher_policy_entries db) @
                 entry_rows (pol_id row) ids (orderList p)\<rparr>
           | None \<Rightarrow> Inr \<lparr>
               fetcher_policies = fetcher_policies db @
                 [\<lparr>pol_id = newPolicyId, pol_site_id = site, pol_created_at = now,
                   pol_updated_at = now\<rparr>],
               fetcher_policy_entries = fetcher_policy_entries db @
                 entry_rows newPolicyId ids (orderList p)\<rparr>))"

definition entry_of_row :: "policy_entry_row \<Rightarrow> fetcher_policy_entry" where
  "entry_of_row r = \<lparr>fetcherId = pe_fetcher_id r, proceedOn = pe_proceed_on r\<rparr>"

definition getFetcherPolicy :: "policy_tables \<Rightarrow> string \<Rightarrow> fetcher_policy option" where
  "getFetcherPolicy db site =
     (case find_policy db site of
        None \<Rightarrow> None
      | Some row \<Rightarrow>
          (let rows = sort_key pe_order_index
                 (filter (\<lambda>r. pe_policy_id r = pol_id row) (fetcher_policy_entries db));
               es = map entry_of_row rows
           in Some \<lparr>allowList = map fetcherId es, orderList = es\<rparr>))"

section \<open>Validation lemmas\<close>

lemma order_count_count: "order_count es fid = count (mset (map fetcherId es)) fid"
  by (induction es) (auto simp: order_count_def)

lemma policy_valid_iff:
  "policy_valid p \<longleftrightarrow> allowList p \<noteq> [] \<and> distinct (allowList p) \<and>
     mset (map fetcherId (orderList p)) = mset (allowList p)"
proof -
  have "policy_valid p \<longleftrightarrow> allowList p \<noteq> [] \<and> distinct (allowList p) \<and>
      set (map fetcherId (orderList p)) \<subseteq> set (allowList p) \<and>
      (\<forall>fid \<in> set (allowList p). count (mset (map fetcherId (orderList p))) fid = 1)"
    unfolding policy_valid_def validateFetcherPolicy_def
    by (auto simp: order_count_count filter_empty_conv distinct_card length_remdups_card_conv
        card_distinct simp del: count_mset)
  moreover have "mset (map fetcherId (orderList p)) = mset (allowList p) \<longleftrightarrow>
      set (map fetcherId (orderList p)) \<subseteq> set (allowList p) \<and>
      (\<forall>fid \<in> set (allowList p). count (mset (map fetcherId (orderList p))) fid = 1)"
    if "distinct (allowList p)"
  proof
    assume eq: "mset (map fetcherId (orderList p)) = mset (allowList p)"
    with that show "set (map fetcherId (orderList p)) \<subseteq> set (allowList p) \<and>
      (\<forall>fid \<in> set (allowList p). count (mset (map fetcherId (orderList p))) fid = 1)"
      by (metis distinct_count_atmost_1 order_refl set_mset_mset)
  next
    assume r: "set (map fetcherId (orderList p)) \<subseteq> set (allowList p) \<and>
      (\<forall>fid \<in> set (allowList p). count (mset (map fetcherId (orderList p))) fid = 1)"
    show "mset (map fetcherId (orderList p)) = mset (allowList p)"
    proof (rule multiset_eqI)
      fix x
      show "count (mset (map fetcherId (orderList p))) x = count (mset (allowList p)) x"
        using r that by (cases "x \<in> set (allowList p)")
          (auto simp: distinct_count_atmost_1 count_mset_0_iff simp del: count_mset mset_map
            dest: subsetD)
    qed
  qed
  ultimately show ?thesis by blast
qed

lemma policy_valid_order:
  assumes "policy_valid p"
  shows "orderList p \<noteq> []" "distinct (map fetcherId (orderList p))"
    "set (map fetcherId (orderList p)) = set (allowList p)"
proof -
  from assms have m: "mset (map fetcherId (orderList p)) = mset (allowList p)"
    and "distinct (allowList p)" "allowList p \<noteq> []"
    by (auto simp: policy_valid_iff)
  then show "distinct (map fetcherId (orderList p))" by (metis mset_eq_imp_distinct_iff)
  show "set (map fetcherId (orderList p)) = set (allowList p)" using m by (metis set_mset_mset)
  show "orderList p \<noteq> []" using m \<open>allowList p \<noteq> []\<close> by auto
qed

text \<open>
  C13. The engine's validation accepts exactly the policies of the specification: AllowList is
  not empty, it has no duplicates, and OrderList is a permutation of it.
\<close>

theorem validateFetcherPolicy_spec:
  "validateFetcherPolicy p = [] \<longleftrightarrow> allowList p \<noteq> [] \<and> distinct (allowList p) \<and>
     mset (map fetcherId (orderList p)) = mset (allowList p)"
  using policy_valid_iff [of p] by (simp add: policy_valid_def)

text \<open>
  The two validations agree: what the store accepts when a policy is written is exactly
  what the engine accepts before it runs one.
\<close>

theorem store_and_engine_validate_alike:
  "db_validateFetcherPolicy p = None \<longleftrightarrow> validateFetcherPolicy p = []"
proof -
  let ?o = "map fetcherId (orderList p)" and ?a = "allowList p"
  have "db_validateFetcherPolicy p = None \<longleftrightarrow> ?a \<noteq> [] \<and> card (set ?a) = length ?a \<and>
      card (set ?o) = length ?o \<and> card (set ?o) = card (set ?a) \<and> set ?o \<subseteq> set ?a"
    unfolding db_validateFetcherPolicy_def Let_def by (simp del: set_map length_map)
  also have "\<dots> \<longleftrightarrow> ?a \<noteq> [] \<and> distinct ?a \<and> distinct ?o \<and> set ?o = set ?a"
    by (metis List.finite_set card_distinct card_subset_eq distinct_card order_refl)
  also have "\<dots> \<longleftrightarrow> ?a \<noteq> [] \<and> distinct ?a \<and> mset ?o = mset ?a"
    by (metis mset_eq_imp_distinct_iff set_eq_iff_mset_eq_distinct set_mset_mset)
  finally show ?thesis using policy_valid_iff [of p] by (simp add: policy_valid_def)
qed

section \<open>Lemmas on the sequence of attempts\<close>

lemma transient_not_never:
  "fc \<in> set TRANSIENT_RETRY_FAILURE_CLASSES \<Longrightarrow> fc \<notin> set NEVER_PROCEEDABLE_FAILURES"
  by (auto simp: TRANSIENT_RETRY_FAILURE_CLASSES_def NEVER_PROCEEDABLE_FAILURES_def)

definition passed_over :: "fetch_outcome \<Rightarrow> bool" where
  "passed_over oc \<longleftrightarrow> (\<exists>f. oc = FetchFailure f \<and> failureClass f \<notin> set NEVER_PROCEEDABLE_FAILURES)"

lemma retryable_passed_over: "retryable r fid oc \<Longrightarrow> passed_over oc"
  by (auto simp: retryable_def passed_over_def transient_not_never split: fetch_outcome.splits)

lemma retry_loop_facts:
  assumes "retry_loop exec sleep r b fid left n oc s = (oc', mr, s')"
  shows "length mr \<le> left" "\<forall>a \<in> set mr. fst a = fid"
    "oc' = snd (last ((fid, oc) # mr))"
    "\<forall>a \<in> set (butlast ((fid, oc) # mr)). passed_over (snd a)"
  using assms
  by (induction exec sleep r b fid left n oc s arbitrary: oc' mr s' rule: retry_loop.induct)
    (auto split: if_splits prod.splits simp: Let_def retryable_passed_over)

lemma remdups_adj_block:
  "\<forall>x \<in> set xs. x = a \<Longrightarrow> ys = [] \<or> hd ys \<noteq> a \<Longrightarrow>
   remdups_adj (a # xs @ ys) = a # remdups_adj ys"
  by (induction xs) (cases ys; auto)+

text \<open>
  One entry of the plan: the attempts it makes (\<open>made\<close>), its outcome, and whether the loop
  goes on with the rest of the plan.
\<close>

lemma run_plan_Cons_cases:
  assumes "run_plan exec sleep r k b (e # plan) lo s = (oc, attempts, s')"
  obtains (stop) made where "attempts = made" "oc = Some (snd (last made))" "made \<noteq> []"
      "length made \<le> k + 1" "\<forall>a \<in> set made. fst a = fetcherId e"
      "\<forall>a \<in> set (butlast made). passed_over (snd a)"
  | (proceed) made rest s2 where "attempts = made @ rest" "made \<noteq> []" "length made \<le> k + 1"
      "\<forall>a \<in> set made. fst a = fetcherId e" "\<forall>a \<in> set made. passed_over (snd a)"
      "run_plan exec sleep r k b plan (Some (snd (last made))) s2 = (oc, rest, s')"
proof -
  obtain o1 s1 where x: "exec (fetcherId e) s = (o1, s1)" by fastforce
  obtain o2 mr s2 where y: "retry_loop exec sleep r b (fetcherId e) k 0 o1 s1 = (o2, mr, s2)"
    by (metis prod_cases3)
  define made where "made = (fetcherId e, o1) # mr"
  have f: "made \<noteq> []" "length made \<le> k + 1" "\<forall>a \<in> set made. fst a = fetcherId e"
    "o2 = snd (last made)" "\<forall>a \<in> set (butlast made). passed_over (snd a)"
    using retry_loop_facts [OF y] by (simp_all add: made_def)
  show thesis
  proof (cases "\<exists>f. o2 = FetchFailure f \<and> shouldProceedToNext e (failureClass f)")
    case True
    then obtain f' where f': "o2 = FetchFailure f'" "shouldProceedToNext e (failureClass f')"
      by blast
    then have "passed_over (snd (last made))"
      using f(4) by (auto simp: passed_over_def shouldProceedToNext_def split: if_splits)
    with f have all: "\<forall>a \<in> set made. passed_over (snd a)"
      by (metis append_butlast_last_id in_set_conv_decomp_last rotate1.simps(2) set_ConsD set_rotate1)
    obtain o3 rest s3 where z: "run_plan exec sleep r k b plan (Some o2) s2 = (o3, rest, s3)"
      by (metis prod_cases3)
    with assms x y f' have "attempts = made @ rest" "oc = o3" "s' = s3"
      by (simp_all add: made_def Let_def)
    with z f all show thesis by (intro proceed) auto
  next
    case False
    with assms x y have "attempts = made" "oc = Some o2"
      by (auto simp: made_def Let_def split: fetch_outcome.splits if_splits)
    with f show thesis by (intro stop) auto
  qed
qed

lemma run_plan_length:
  "run_plan exec sleep r k b plan lo s = (oc, attempts, s') \<Longrightarrow>
     length attempts \<le> (k + 1) * length plan"
proof (induction plan arbitrary: lo s oc attempts s')
  case (Cons e plan)
  from Cons.prems show ?case
  proof (cases rule: run_plan_Cons_cases)
    case (proceed made rest s2)
    with Cons.IH [OF proceed(6)] show ?thesis by simp
  qed simp
qed simp

lemma run_plan_last:
  "run_plan exec sleep r k b plan lo s = (oc, attempts, s') \<Longrightarrow>
     (if plan = [] then attempts = [] \<and> oc = lo
      else attempts \<noteq> [] \<and> oc = Some (snd (last attempts)) \<and>
           fst (hd attempts) = fetcherId (hd plan))"
proof (induction plan arbitrary: lo s oc attempts s')
  case (Cons e plan)
  from Cons.prems show ?case
  proof (cases rule: run_plan_Cons_cases)
    case (proceed made rest s2)
    with Cons.IH [OF proceed(6)] show ?thesis by (auto split: if_splits)
  qed auto
qed simp

lemma run_plan_passed_over:
  "run_plan exec sleep r k b plan lo s = (oc, attempts, s') \<Longrightarrow>
     \<forall>a \<in> set (butlast attempts). passed_over (snd a)"
proof (induction plan arbitrary: lo s oc attempts s')
  case (Cons e plan)
  from Cons.prems show ?case
  proof (cases rule: run_plan_Cons_cases)
    case (proceed made rest s2)
    with Cons.IH [OF proceed(6)] show ?thesis
      by (auto simp: butlast_append dest: in_set_butlastD split: if_splits)
  qed simp
qed simp

lemma run_plan_order:
  "run_plan exec sleep r k b plan lo s = (oc, attempts, s') \<Longrightarrow> distinct (map fetcherId plan) \<Longrightarrow>
     \<exists>rest. map fetcherId plan = remdups_adj (map fst attempts) @ rest"
proof (induction plan arbitrary: lo s oc attempts s')
  case (Cons e plan)
  from Cons.prems(1) show ?case
  proof (cases rule: run_plan_Cons_cases)
    case (stop made)
    then show ?thesis
      using remdups_adj_block [of "map fst (tl made)" "fetcherId e" "[]"]
      by (cases made) auto
  next
    case (proceed made rest s2)
    from Cons.IH [OF proceed(6)] Cons.prems(2)
    obtain tl' where t: "map fetcherId plan = remdups_adj (map fst rest) @ tl'" by auto
    have "map fst rest = [] \<or> hd (map fst rest) \<noteq> fetcherId e"
      using run_plan_last [OF proceed(6)] Cons.prems(2)
      by (cases plan) (auto simp: hd_map split: if_splits)
    then have "remdups_adj (map fst attempts) = fetcherId e # remdups_adj (map fst rest)"
      using proceed(1-4) remdups_adj_block [of "map fst (tl made)" "fetcherId e" "map fst rest"]
      by (cases made) auto
    with t show ?thesis by simp
  qed
qed simp

lemmas run_plan_facts = run_plan_length run_plan_last run_plan_passed_over run_plan_order

lemma planAttempts_Inr:
  "planAttempts p m = Inr plan \<Longrightarrow> policy_valid p \<and> 0 \<le> orElse m DEFAULT_MAX_ATTEMPTS \<and>
     plan = take (nat (orElse m DEFAULT_MAX_ATTEMPTS)) (orderList p)"
  by (auto simp: planAttempts_def policy_valid_def Let_def split: if_splits)


section \<open>The stored policy\<close>

definition wf_policies :: "policy_tables \<Rightarrow> bool" where
  "wf_policies db \<longleftrightarrow>
     distinct (map pol_id (fetcher_policies db)) \<and>
     distinct (map pol_site_id (fetcher_policies db)) \<and>
     pe_policy_id ` set (fetcher_policy_entries db) \<subseteq> pol_id ` set (fetcher_policies db)"

lemma filter_entry_rows [simp]:
  "filter (\<lambda>r. pe_policy_id r = q) (entry_rows pid ids es) =
     (if q = pid then entry_rows pid ids es else [])"
  by (auto simp: entry_rows_def filter_map o_def case_prod_beta)

lemma sorted_entry_rows: "sorted (map pe_order_index (entry_rows pid ids es))"
proof -
  have "map pe_order_index (entry_rows pid ids es) = [0..<length es]"
    by (rule nth_equalityI) (simp_all add: entry_rows_def nth_enumerate_eq)
  then show ?thesis by simp
qed

lemma entries_of_entry_rows: "map entry_of_row (entry_rows pid ids es) = es"
  by (auto simp: entry_rows_def entry_of_row_def list_eq_iff_nth_eq nth_enumerate_eq)

lemma policy_ids_entry_rows: "pe_policy_id ` set (entry_rows pid ids es) \<subseteq> {pid}"
  by (auto simp: entry_rows_def)

lemma find_policy_site: "find_policy db site = Some r \<Longrightarrow> r \<in> set (fetcher_policies db) \<and> pol_site_id r = site"
  by (auto simp: find_policy_def find_Some_iff)

text \<open>
  The policy read back for a site depends only on the row \<open>find_policy\<close> gives and on the
  entries of that row.
\<close>

lemma getFetcherPolicy_rows:
  assumes "find_policy db site = Some row"
    and "filter (\<lambda>r. pe_policy_id r = pol_id row) (fetcher_policy_entries db) =
      entry_rows (pol_id row) ids es"
  shows "getFetcherPolicy db site = Some \<lparr>allowList = map fetcherId es, orderList = es\<rparr>"
proof -
  have "sort_key pe_order_index (entry_rows (pol_id row) ids es) = entry_rows (pol_id row) ids es"
    by (rule sort_key_id_if_sorted [OF sorted_entry_rows])
  then show ?thesis
    using assms(1) by (simp add: getFetcherPolicy_def assms(2) entries_of_entry_rows del: map_map)
qed

lemma getFetcherPolicy_cong:
  assumes "map_option pol_id (find_policy db' site) = map_option pol_id (find_policy db site)"
    and "\<And>row. find_policy db site = Some row \<Longrightarrow>
      filter (\<lambda>r. pe_policy_id r = pol_id row) (fetcher_policy_entries db') =
      filter (\<lambda>r. pe_policy_id r = pol_id row) (fetcher_policy_entries db)"
  shows "getFetcherPolicy db' site = getFetcherPolicy db site"
  using assms
  by (cases "find_policy db site"; cases "find_policy db' site") (auto simp: getFetcherPolicy_def)

lemma find_policy_touched:
  "find (\<lambda>r. pol_site_id r = site) (map (\<lambda>r. if pol_id r = i then r\<lparr>pol_updated_at := now\<rparr> else r) rs) =
   map_option (\<lambda>r. if pol_id r = i then r\<lparr>pol_updated_at := now\<rparr> else r)
     (find (\<lambda>r. pol_site_id r = site) rs)"
  by (induction rs) auto

lemma map_touched:
  "map pol_id (map (\<lambda>r. if pol_id r = i then r\<lparr>pol_updated_at := now\<rparr> else r) rs) = map pol_id rs"
  "map pol_site_id (map (\<lambda>r. if pol_id r = i then r\<lparr>pol_updated_at := now\<rparr> else r) rs) =
     map pol_site_id rs"
  by (induction rs) auto

text \<open>
  Writing a policy and reading it back. On well-formed tables, with a fresh id, a write that
  is accepted keeps the tables well formed; reading the same site gives the written OrderList
  with its \<open>proceedOn\<close> lists and an AllowList in that order, which is again a valid policy; and
  the policy of every other site is what it was.
\<close>

theorem putFetcherPolicy_roundtrip:
  assumes wf: "wf_policies db"
    and fresh: "newPolicyId \<notin> pol_id ` set (fetcher_policies db)"
    and put: "putFetcherPolicy newPolicyId ids now site p db = Inr db'"
  shows "wf_policies db' \<and>
    getFetcherPolicy db' site = Some \<lparr>allowList = map fetcherId (orderList p), orderList = orderList p\<rparr> \<and>
    policy_valid (the (getFetcherPolicy db' site)) \<and>
    (\<forall>other. other \<noteq> site \<longrightarrow> getFetcherPolicy db' other = getFetcherPolicy db other)"
proof -
  have ok: "db_validateFetcherPolicy p = None"
    using put by (auto simp: putFetcherPolicy_def split: option.splits)
  have v: "policy_valid \<lparr>allowList = map fetcherId (orderList p), orderList = orderList p\<rparr>"
    using ok by (auto simp: db_validateFetcherPolicy_def policy_valid_iff Let_def card_distinct
        split: if_splits)
  let ?P = "\<lparr>allowList = map fetcherId (orderList p), orderList = orderList p\<rparr>"
  have "wf_policies db' \<and> getFetcherPolicy db' site = Some ?P \<and>
    (\<forall>other. other \<noteq> site \<longrightarrow> getFetcherPolicy db' other = getFetcherPolicy db other)"
  proof (cases "find_policy db site")
    case None
    let ?row = "\<lparr>pol_id = newPolicyId, pol_site_id = site, pol_created_at = now, pol_updated_at = now\<rparr>"
    have db': "db' = \<lparr>fetcher_policies = fetcher_policies db @ [?row], fetcher_policy_entries =
        fetcher_policy_entries db @ entry_rows newPolicyId ids (orderList p)\<rparr>"
      using put ok None by (simp add: putFetcherPolicy_def)
    have none: "filter (\<lambda>r. pe_policy_id r = newPolicyId) (fetcher_policy_entries db) = []"
      using wf fresh by (auto simp: wf_policies_def filter_empty_conv)
    have f: "find_policy db' site = Some ?row"
      using None by (simp add: find_policy_def db' find_append_case)
    have "getFetcherPolicy db' site = Some ?P"
      by (rule getFetcherPolicy_rows [OF f, of ids]) (simp add: db' none)
    moreover have "getFetcherPolicy db' other = getFetcherPolicy db other" if "other \<noteq> site" for other
    proof (rule getFetcherPolicy_cong)
      show "map_option pol_id (find_policy db' other) = map_option pol_id (find_policy db other)"
        using that by (simp add: find_policy_def db' find_append_case split: option.splits)
      show "\<And>row. find_policy db other = Some row \<Longrightarrow>
        filter (\<lambda>r. pe_policy_id r = pol_id row) (fetcher_policy_entries db') =
        filter (\<lambda>r. pe_policy_id r = pol_id row) (fetcher_policy_entries db)"
        using fresh by (auto simp: db' dest!: find_policy_site)
    qed
    moreover have "wf_policies db'"
      using wf fresh None policy_ids_entry_rows [of newPolicyId ids "orderList p"]
      by (auto simp: wf_policies_def db' find_policy_def find_None_iff)
    ultimately show ?thesis by blast
  next
    case (Some row)
    let ?touch = "\<lambda>r. if pol_id r = pol_id row then r\<lparr>pol_updated_at := now\<rparr> else r"
    have db': "db' = \<lparr>fetcher_policies = map ?touch (fetcher_policies db), fetcher_policy_entries =
        filter (\<lambda>r. pe_policy_id r \<noteq> pol_id row) (fetcher_policy_entries db) @
        entry_rows (pol_id row) ids (orderList p)\<rparr>"
      using put ok Some by (simp add: putFetcherPolicy_def)
    have f: "find_policy db' s = map_option ?touch (find_policy db s)" for s
      by (simp add: find_policy_def db' find_policy_touched)
    have "getFetcherPolicy db' site = Some ?P"
      by (rule getFetcherPolicy_rows [of _ _ "?touch row" ids], simp add: f Some, simp add: db')
    moreover have "getFetcherPolicy db' other = getFetcherPolicy db other" if "other \<noteq> site" for other
    proof (rule getFetcherPolicy_cong)
      show "map_option pol_id (find_policy db' other) = map_option pol_id (find_policy db other)"
        by (cases "find_policy db other") (simp_all add: f)
      fix r
      assume r: "find_policy db other = Some r"
      have "pol_id r \<noteq> pol_id row"
        using find_policy_site [OF r] find_policy_site [OF Some] that wf
        by (auto simp: wf_policies_def distinct_map dest: inj_onD)
      then show "filter (\<lambda>e. pe_policy_id e = pol_id r) (fetcher_policy_entries db') =
        filter (\<lambda>e. pe_policy_id e = pol_id r) (fetcher_policy_entries db)"
        by (auto simp: db' intro!: filter_cong)
    qed
    moreover have "wf_policies db'"
    proof -
      have "pol_id row \<in> pol_id ` set (fetcher_policies db)"
        using find_policy_site [OF Some] by blast
      moreover have "pol_id ` ?touch ` set (fetcher_policies db) = pol_id ` set (fetcher_policies db)"
        using arg_cong [where f = set, OF map_touched(1)]
        by (simp only: set_map)
      ultimately show ?thesis
        using wf policy_ids_entry_rows [of "pol_id row" ids "orderList p"]
        unfolding wf_policies_def db' by (auto simp: map_touched simp del: map_map)
    qed
    ultimately show ?thesis by blast
  qed
  with v show ?thesis by simp
qed

lemma putFetcherPolicy_roundtrip_witness:
  "getFetcherPolicy \<lparr>fetcher_policies = [\<lparr>pol_id = ''p'', pol_site_id = ''s'', pol_created_at = 0,
      pol_updated_at = 0\<rparr>], fetcher_policy_entries = entry_rows ''p'' (\<lambda>_. ''e'')
      [\<lparr>fetcherId = ''cf-http'', proceedOn = None\<rparr>]\<rparr> ''s'' =
   Some \<lparr>allowList = [''cf-http''], orderList = [\<lparr>fetcherId = ''cf-http'', proceedOn = None\<rparr>]\<rparr>"
proof -
  let ?p = "\<lparr>allowList = [''cf-http''], orderList = [\<lparr>fetcherId = ''cf-http'', proceedOn = None\<rparr>]\<rparr>"
  let ?db = "\<lparr>fetcher_policies = [], fetcher_policy_entries = []\<rparr>"
  have "putFetcherPolicy ''p'' (\<lambda>_. ''e'') 0 ''s'' ?p ?db = Inr \<lparr>fetcher_policies =
      [\<lparr>pol_id = ''p'', pol_site_id = ''s'', pol_created_at = 0, pol_updated_at = 0\<rparr>],
      fetcher_policy_entries = entry_rows ''p'' (\<lambda>_. ''e'') (orderList ?p)\<rparr>"
    by (simp add: putFetcherPolicy_def db_validateFetcherPolicy_def find_policy_def Let_def)
  from putFetcherPolicy_roundtrip [OF _ _ this] show ?thesis by (simp add: wf_policies_def)
qed

end
