(* ===== verification/Db_Admin.thy ===== *)
theory Db_Admin
  imports Db_Store Fetch_Policy
begin

text \<open>
  The tables the API manages beside the pipeline: executors, fetchers and audit events
  (src/db/executors.ts, src/db/fetchers.ts, src/db/audit.ts), and the counting and deletion of
  sites (src/db/sites.ts).
\<close>

section \<open>Executors and fetchers\<close>

definition createExecutor :: "string \<Rightarrow> ms \<Rightarrow> create_executor_input \<Rightarrow> db \<Rightarrow> db \<times> executor_row" where
  "createExecutor newId now inp d =
     (let r = \<lparr>xr_id = orElse (ix_id inp) newId, xr_kind = ix_kind inp, xr_name = ix_name inp,
           capabilities = ix_capabilities inp, xr_status = orElse (ix_status inp) ''active'',
           xr_createdAt = now, xr_updatedAt = now\<rparr>
      in (d\<lparr>executors := executors d @ [r]\<rparr>, r))"

definition getExecutor :: "db \<Rightarrow> string \<Rightarrow> executor_row option" where
  "getExecutor d i = find (\<lambda>r. xr_id r = i) (executors d)"

definition listExecutors :: "db \<Rightarrow> executor_row list" where
  "listExecutors d = sort_key xr_createdAt (executors d)"

definition createFetcher :: "ms \<Rightarrow> create_fetcher_input \<Rightarrow> db \<Rightarrow> db \<times> fetcher_row" where
  "createFetcher now inp d =
     (let r = \<lparr>fe_id = if_id inp, fe_executorId = if_executorId inp, fe_fetchMode = if_fetchMode inp,
           fe_region = if_region inp, fe_profile = if_profile inp, fe_createdAt = now, fe_updatedAt = now\<rparr>
      in (d\<lparr>fetchers := fetchers d @ [r]\<rparr>, r))"

definition getFetcher :: "db \<Rightarrow> string \<Rightarrow> fetcher_row option" where
  "getFetcher d i = find (\<lambda>r. fe_id r = i) (fetchers d)"

definition listFetchers :: "db \<Rightarrow> fetcher_row list" where
  "listFetchers d = sort_key fe_createdAt (fetchers d)"

section \<open>Audit events\<close>

definition recordAuditEvent :: "string \<Rightarrow> ms \<Rightarrow> create_audit_event_input \<Rightarrow> db \<Rightarrow> db \<times> audit_event_row" where
  "recordAuditEvent newId now inp d =
     (let r = \<lparr>au_id = orElse (iu_id inp) newId, actor = iu_actor inp, au_action = iu_action inp,
           subject = iu_subject inp, au_reason = iu_reason inp, au_payload = iu_payload inp, au_createdAt = now\<rparr>
      in (d\<lparr>audit_events := audit_events d @ [r]\<rparr>, r))"

definition listAuditEventsBySubject :: "db \<Rightarrow> string \<Rightarrow> nat \<Rightarrow> audit_event_row list" where
  "listAuditEventsBySubject d subj limit =
     take limit (sort_key au_createdAt (filter (\<lambda>r. subject r = subj) (audit_events d)))"

definition listRecentAuditEvents :: "db \<Rightarrow> nat \<Rightarrow> audit_event_row list" where
  "listRecentAuditEvents d limit = take limit (order_desc au_createdAt (audit_events d))"

definition countAuditEvents :: "db \<Rightarrow> nat" where
  "countAuditEvents d = length (audit_events d)"

section \<open>Sites\<close>

definition countSites :: "db \<Rightarrow> nat" where
  "countSites d = length (sites d)"

text \<open>The five statements of the batch on the policy tables and the database.\<close>

definition deleteSiteStatements :: "string \<Rightarrow> (policy_tables \<times> db \<Rightarrow> policy_tables \<times> db) list" where
  "deleteSiteStatements i =
     [\<lambda>(p, d). (p\<lparr>fetcher_policy_entries := filter (\<lambda>e. \<not> list_ex (\<lambda>r. pol_id r = pe_policy_id e \<and> pol_site_id r = i)
                   (fetcher_policies p)) (fetcher_policy_entries p)\<rparr>, d),
      \<lambda>(p, d). (p\<lparr>fetcher_policies := filter (\<lambda>r. pol_site_id r \<noteq> i) (fetcher_policies p)\<rparr>, d),
      \<lambda>(p, d). (p, d\<lparr>robots_policies := filter (\<lambda>r. rp_siteId r \<noteq> i) (robots_policies d)\<rparr>),
      \<lambda>(p, d). (p, d\<lparr>subscriptions := filter (\<lambda>r. su_siteId r \<noteq> Some i) (subscriptions d)\<rparr>),
      \<lambda>(p, d). (p, d\<lparr>sites := filter (\<lambda>r. st_id r \<noteq> i) (sites d)\<rparr>)]"

definition deleteSiteCascade :: "string \<Rightarrow> policy_tables \<times> db \<Rightarrow> (policy_tables \<times> db) \<times> bool" where
  "deleteSiteCascade i w =
     (foldl (\<lambda>acc stmt. stmt acc) w (deleteSiteStatements i), list_ex (\<lambda>r. st_id r = i) (sites (snd w)))"

section \<open>Facts\<close>

lemma getExecutor_create:
  "find (\<lambda>r. xr_id r = i) (executors d) = None \<Longrightarrow> createExecutor i now (inp\<lparr>ix_id := None\<rparr>) d = (d', r) \<Longrightarrow>
   getExecutor d' i = Some r"
  by (auto simp: createExecutor_def getExecutor_def Let_def find_append_case)

lemma getFetcher_create:
  "getFetcher d (if_id inp) = None \<Longrightarrow> createFetcher now inp d = (d', r) \<Longrightarrow> getFetcher d' (if_id inp) = Some r"
  by (auto simp: createFetcher_def getFetcher_def Let_def find_append_case)

text \<open>
  The tables that refer to a site directly: entries to policies, policies, robots policies and
  site-wide subscriptions to sites.
\<close>

definition site_refs :: "policy_tables \<times> db \<Rightarrow> bool" where
  "site_refs w \<longleftrightarrow> (case w of (p, d) \<Rightarrow>
     list_all (\<lambda>e. list_ex (\<lambda>r. pol_id r = pe_policy_id e) (fetcher_policies p)) (fetcher_policy_entries p) \<and>
     list_all (\<lambda>r. list_ex (\<lambda>s. st_id s = pol_site_id r) (sites d)) (fetcher_policies p) \<and>
     list_all (\<lambda>r. list_ex (\<lambda>s. st_id s = rp_siteId r) (sites d)) (robots_policies d) \<and>
     list_all (\<lambda>r. case su_siteId r of None \<Rightarrow> True | Some i \<Rightarrow> list_ex (\<lambda>s. st_id s = i) (sites d)) (subscriptions d))"

text \<open>
  The batch that deletes a site is safe to apply statement by statement: after each of its
  statements every entry has its policy and every policy, robots policy and site-wide subscription its
  site, which is what the foreign keys demand. The site is gone at the end, and nothing of the other
  sites is.
\<close>

theorem deleteSiteCascade_keeps_references:
  assumes "site_refs w"
  shows "site_refs (foldl (\<lambda>acc stmt. stmt acc) w (take k (deleteSiteStatements i))) \<and>
    (case deleteSiteCascade i w of
       ((p, d), deleted) \<Rightarrow> getSite d i = None \<and> deleted = (getSite (snd w) i \<noteq> None) \<and>
         filter (\<lambda>r. pol_site_id r \<noteq> i) (fetcher_policies p) = filter (\<lambda>r. pol_site_id r \<noteq> i) (fetcher_policies (fst w)) \<and>
         sites d = filter (\<lambda>r. st_id r \<noteq> i) (sites (snd w)))"
proof -
  obtain p d where w: "w = (p, d)" by fastforce
  have cases: "k = 0 \<or> k = 1 \<or> k = 2 \<or> k = 3 \<or> k = 4 \<or> k \<ge> 5" by linarith
  have "site_refs (foldl (\<lambda>acc stmt. stmt acc) w (take k (deleteSiteStatements i)))"
    using assms cases
    apply (elim disjE; simp add: w deleteSiteStatements_def site_refs_def list_all_iff list_ex_iff
        numeral_eq_Suc split: option.splits)
    apply (metis (no_types, lifting))+
    apply (intro conjI allI impI; metis (no_types, lifting))
    done
  moreover have "getSite d' i = None \<longleftrightarrow> \<not> list_ex (\<lambda>r. st_id r = i) (sites d')" for d'
    by (auto simp: getSite_def find_None_iff list_ex_iff)
  ultimately show ?thesis
    by (auto simp: w deleteSiteCascade_def deleteSiteStatements_def list_ex_iff)
qed

theorem deleteSiteCascade_keeps_references_witness:
  "let p = \<lparr>fetcher_policies = [\<lparr>pol_id = ''p'', pol_site_id = ''s'', pol_created_at = 0, pol_updated_at = 0\<rparr>],
             fetcher_policy_entries = [\<lparr>pe_id = ''e'', pe_policy_id = ''p'', pe_fetcher_id = ''cf-http'',
               pe_order_index = 0, pe_proceed_on = None\<rparr>]\<rparr>;
       d = \<lparr>sites = [\<lparr>st_id = ''s'', st_name = ''n'', st_primaryOrigin = None, st_createdAt = 0, st_updatedAt = 0\<rparr>],
             sources = [], monitors = [], targets = [], check_jobs = [], check_attempts = [], snapshots = [],
             changes = [], destinations = [], subscriptions = [], deliveries = [], robots_policies = [],
             robots_evaluations = [], executors = [], fetchers = [], audit_events = []\<rparr>
   in site_refs (p, d) \<and> getSite (snd (fst (deleteSiteCascade ''s'' (p, d)))) ''s'' = None"
proof -
  have "site_refs (p, d) \<Longrightarrow> getSite (snd (fst (deleteSiteCascade i (p, d)))) i = None" for p d i
    using deleteSiteCascade_keeps_references [of "(p, d)" 0 i] by (auto split: prod.splits)
  then show ?thesis
    by (simp add: Let_def site_refs_def)
qed

end
