(* ===== verification/Net_Guard.thy ===== *)
theory Net_Guard
  imports Js_String Contracts
begin

text \<open>
  The address and URL checks of src/net (ip.ts, ssrf.ts). Numbers a host text can spell are
  natural numbers; the source compares the ones beyond the range of a JavaScript integer with a
  bound and rejects them. The platform's URL parser and the name resolution are arguments.
\<close>

section \<open>IPv4 addresses\<close>

datatype ip_block_reason = Loopback | Private | Link_local | Cgn | Metadata | Invalid

record ip_check_result =
  blocked :: bool
  ip_reason :: "ip_block_reason option"

definition block :: "ip_block_reason \<Rightarrow> ip_check_result" where
  "block r = \<lparr>blocked = True, ip_reason = Some r\<rparr>"

definition pass :: ip_check_result where
  "pass = \<lparr>blocked = False, ip_reason = None\<rparr>"

definition is_oct_digit :: "char \<Rightarrow> bool" where
  "is_oct_digit c \<longleftrightarrow> 48 \<le> code c \<and> code c \<le> 55"

definition parseIPv4Part :: "string \<Rightarrow> nat option" where
  "parseIPv4Part raw =
     (if raw = '''' then None
      else if 3 \<le> length raw \<and> (take 2 raw = ''0x'' \<or> take 2 raw = ''0X'') \<and> list_all is_hex_digit (drop 2 raw)
      then Some (parse_base 16 0 (drop 2 raw))
      else if 2 \<le> length raw \<and> take 1 raw = ''0'' \<and> list_all is_oct_digit (drop 1 raw)
      then Some (parse_base 8 0 (drop 1 raw))
      else if list_all is_digit raw then Some (parse_base 10 0 raw)
      else None)"

definition is_alnum_dot :: "char \<Rightarrow> bool" where
  "is_alnum_dot c \<longleftrightarrow> is_digit c \<or> (65 \<le> code c \<and> code c \<le> 90) \<or> (97 \<le> code c \<and> code c \<le> 122) \<or>
     c = CHR ''.''"

fun collect :: "'a option list \<Rightarrow> 'a list option" where
  "collect [] = Some []"
| "collect (None # _) = None"
| "collect (Some x # xs) = map_option (\<lambda>ys. x # ys) (collect xs)"

text \<open>The loop that fills \<open>lastBytes\<close> from the right: \<open>last & 0xff\<close>, then \<open>last / 256\<close>.\<close>

fun last_bytes :: "nat \<Rightarrow> nat \<Rightarrow> nat list" where
  "last_bytes 0 v = []"
| "last_bytes (Suc n) v = last_bytes n (v div 256) @ [v mod 256]"

definition parseIPv4 :: "string \<Rightarrow> nat list option" where
  "parseIPv4 host =
     (if host = '''' \<or> \<not> list_all is_alnum_dot host then None
      else let parts = split_on CHR ''.'' host
           in if length parts > 4 then None
              else (case collect (map parseIPv4Part parts) of
                      None \<Rightarrow> None
                    | Some values \<Rightarrow>
                        if list_ex (\<lambda>v. v > 255) (butlast values) then None
                        else let remainingCount = 4 - (length values - 1)
                             in if last values > 256 ^ remainingCount - 1 then None
                                else Some (butlast values @ last_bytes remainingCount (last values))))"

definition classifyIPv4 :: "nat list \<Rightarrow> ip_check_result" where
  "classifyIPv4 bs =
     (let a = bs ! 0; b = bs ! 1 in
      if a = 127 then block Loopback
      else if a = 0 then block Invalid
      else if a = 169 \<and> b = 254 then
        (if bs ! 2 = 169 \<and> bs ! 3 = 254 then block Metadata else block Link_local)
      else if a = 10 then block Private
      else if a = 172 \<and> b \<ge> 16 \<and> b \<le> 31 then block Private
      else if a = 192 \<and> b = 168 then block Private
      else if a = 100 \<and> b \<ge> 64 \<and> b \<le> 127 then block Cgn
      else if a \<ge> 224 then block Invalid
      else pass)"

section \<open>IPv6 addresses\<close>

text \<open>\<open>toString(16)\<close>\<close>

fun show_hex :: "nat \<Rightarrow> string" where
  "show_hex n = (if n < 16 then [hex_lower n] else show_hex (n div 16) @ [hex_lower (n mod 16)])"

declare show_hex.simps [simp del]

definition hex2 :: "nat \<Rightarrow> string" where
  "hex2 n = padStart 2 CHR ''0'' (show_hex n)"

text \<open>\<open>split('::')\<close>\<close>

fun split_dcolon :: "string \<Rightarrow> string list" where
  "split_dcolon [] = [[]]"
| "split_dcolon [c] = [[c]]"
| "split_dcolon (c # e # cs) =
     (if c = CHR '':'' \<and> e = CHR '':'' then [] # split_dcolon cs
      else (case split_dcolon (e # cs) of [] \<Rightarrow> [[c]] | p # ps \<Rightarrow> (c # p) # ps))"

definition parse_group :: "string \<Rightarrow> nat option" where
  "parse_group g =
     (if 1 \<le> length g \<and> length g \<le> 4 \<and> list_all is_hex_digit g then Some (parse_base 16 0 g) else None)"

definition parseGroups :: "string \<Rightarrow> nat list option" where
  "parseGroups s = (if s = '''' then Some [] else collect (map parse_group (split_on CHR '':'' s)))"

definition strip_brackets :: "string \<Rightarrow> string" where
  "strip_brackets h =
     (if startsWith h ''['' \<and> endsWith h '']'' then take (length h - 2) (drop 1 h) else h)"

text \<open>The embedded IPv4 address of the last group, rewritten as two groups.\<close>

definition expand_v4 :: "string \<Rightarrow> string option" where
  "expand_v4 host =
     (case lastIndexOf CHR '':'' host of
        None \<Rightarrow> Some host
      | Some lastColon \<Rightarrow>
          if CHR ''.'' \<notin> set host then Some host
          else (case parseIPv4 (drop (lastColon + 1) host) of
                  None \<Rightarrow> None
                | Some v \<Rightarrow> Some (take (lastColon + 1) host @ hex2 (v ! 0) @ hex2 (v ! 1) @
                                  '':'' @ hex2 (v ! 2) @ hex2 (v ! 3))))"

definition parseIPv6 :: "string \<Rightarrow> nat list option" where
  "parseIPv6 rawHost =
     (let host0 = strip_brackets rawHost
      in if host0 = '''' then None
         else case expand_v4 host0 of
                None \<Rightarrow> None
              | Some host \<Rightarrow>
                  (case split_dcolon host of
                     [p] \<Rightarrow>
                       (case parseGroups p of
                          None \<Rightarrow> None
                        | Some gs \<Rightarrow> if length gs \<noteq> 8 then None else Some gs)
                   | [p, q] \<Rightarrow>
                       (case (parseGroups p, parseGroups q) of
                          (Some front, Some back) \<Rightarrow>
                            if length front + length back > 8 then None
                            else Some (front @ replicate (8 - length front - length back) 0 @ back)
                        | _ \<Rightarrow> None)
                   | _ \<Rightarrow> None))"

definition embedded_v4 :: "nat list \<Rightarrow> nat list" where
  "embedded_v4 gs = [gs ! 6 div 256, gs ! 6 mod 256, gs ! 7 div 256, gs ! 7 mod 256]"

text \<open>
  The source compares the padded hexadecimal text with fd00:0ec2:0000:0000:0000:0000:0000:0254,
  which is the comparison of the groups. \<open>g & 0xffc0\<close> and \<open>g & 0xfe00\<close> of a 16-bit group clear the
  low six and nine bits.
\<close>

definition classifyIPv6 :: "nat list \<Rightarrow> ip_check_result" where
  "classifyIPv6 gs =
     (if list_all (\<lambda>n. n = 0) (take 7 gs) \<and> gs ! 7 = 1 then block Loopback
      else if list_all (\<lambda>n. n = 0) gs then block Invalid
      else if gs = [0xfd00, 0x0ec2, 0, 0, 0, 0, 0, 0x0254] then block Metadata
      else if list_all (\<lambda>n. n = 0) (take 5 gs) \<and> gs ! 5 = 0xffff then classifyIPv4 (embedded_v4 gs)
      else if list_all (\<lambda>n. n = 0) (take 6 gs) then classifyIPv4 (embedded_v4 gs)
      else if gs ! 0 - gs ! 0 mod 64 = 0xfe80 then block Link_local
      else if gs ! 0 - gs ! 0 mod 512 = 0xfc00 then block Private
      else pass)"

section \<open>Host names\<close>

definition KNOWN_BLOCKED_HOSTNAMES :: "string list" where
  "KNOWN_BLOCKED_HOSTNAMES =
     [''localhost'', ''metadata.google.internal'', ''metadata.internal'', ''instance-data.ec2.internal'']"

definition classifyHostname :: "string \<Rightarrow> ip_check_result" where
  "classifyHostname hostnameRaw =
     (let host = toLowerCase hostnameRaw in
      if startsWith host ''['' \<and> endsWith host '']'' then
        (case parseIPv6 host of Some gs \<Rightarrow> classifyIPv6 gs | None \<Rightarrow> pass)
      else (case parseIPv4 host of
              Some v4 \<Rightarrow> classifyIPv4 v4
            | None \<Rightarrow>
                (case parseIPv6 host of
                   Some v6 \<Rightarrow> classifyIPv6 v6
                 | None \<Rightarrow>
                     if host = ''localhost'' \<or> endsWith host ''.localhost'' then block Loopback
                     else if host \<in> set KNOWN_BLOCKED_HOSTNAMES then block Metadata
                     else pass)))"

definition classifyIpAddress :: "string \<Rightarrow> ip_check_result" where
  "classifyIpAddress ip =
     (case parseIPv4 ip of
        Some v4 \<Rightarrow> classifyIPv4 v4
      | None \<Rightarrow> (case parseIPv6 ip of Some v6 \<Rightarrow> classifyIPv6 v6 | None \<Rightarrow> pass))"

section \<open>URLs\<close>

record ssrf_check_result =
  allowed :: bool
  ssrf_reason :: "string option"

definition allow :: ssrf_check_result where
  "allow = \<lparr>allowed = True, ssrf_reason = None\<rparr>"

definition deny :: "string \<Rightarrow> ssrf_check_result" where
  "deny reason = \<lparr>allowed = False, ssrf_reason = Some reason\<rparr>"

definition ALLOWED_PORTS :: "nat list" where
  "ALLOWED_PORTS = [80, 443, 8080, 8443]"

definition defaultPortFor :: "string \<Rightarrow> nat" where
  "defaultPortFor proto = (if proto = ''https:'' then 443 else 80)"

fun reason_name :: "ip_block_reason \<Rightarrow> string" where
  "reason_name Loopback = ''loopback''"
| "reason_name Private = ''private''"
| "reason_name Link_local = ''link-local''"
| "reason_name Cgn = ''cgn''"
| "reason_name Metadata = ''metadata''"
| "reason_name Invalid = ''invalid''"

definition deny_class :: "ip_check_result \<Rightarrow> ssrf_check_result" where
  "deny_class c = deny (case ip_reason c of None \<Rightarrow> ''private'' | Some r \<Rightarrow> reason_name r)"

definition url_port :: "web_url \<Rightarrow> nat" where
  "url_port u = (if port u = '''' then defaultPortFor (protocol u) else parse_base 10 0 (port u))"

definition checkUrlForSsrf :: "url_parser \<Rightarrow> string \<Rightarrow> ssrf_check_result" where
  "checkUrlForSsrf newURL url =
     (case newURL url None of
        None \<Rightarrow> deny ''invalid_url''
      | Some u \<Rightarrow>
          if protocol u \<noteq> ''http:'' \<and> protocol u \<noteq> ''https:'' then deny ''scheme''
          else if username u \<noteq> '''' \<or> password u \<noteq> '''' then deny ''userinfo''
          else if url_port u \<notin> set ALLOWED_PORTS then deny ''port''
          else if hostname u = '''' then deny ''invalid_url''
          else let c = classifyHostname (hostname u)
               in if blocked c then deny_class c else allow)"

text \<open>
  \<open>resolve host\<close> is the answer to both queries, the addresses of the A records first;
  \<^const>\<open>None\<close> when one of them throws.
\<close>

fun check_addresses :: "string list \<Rightarrow> ssrf_check_result" where
  "check_addresses [] = allow"
| "check_addresses (a # as) =
     (let c = classifyIpAddress a in if blocked c then deny_class c else check_addresses as)"

definition is_ip_literal :: "string \<Rightarrow> bool" where
  "is_ip_literal host =
     (let bare = strip_brackets host in parseIPv4 bare \<noteq> None \<or> parseIPv6 bare \<noteq> None)"

definition resolveAndCheck ::
  "url_parser \<Rightarrow> (string \<Rightarrow> string list option) \<Rightarrow> string \<Rightarrow> ssrf_check_result" where
  "resolveAndCheck newURL resolve url =
     (let static = checkUrlForSsrf newURL url
      in if \<not> allowed static then static
         else (case newURL url None of
                 None \<Rightarrow> deny ''invalid_url''
               | Some u \<Rightarrow>
                   if is_ip_literal (hostname u) then allow
                   else (case resolve (hostname u) of
                           None \<Rightarrow> deny ''dns_resolution_failed''
                         | Some [] \<Rightarrow> deny ''dns_resolution_failed''
                         | Some addresses \<Rightarrow> check_addresses addresses)))"

text \<open>The resolver over DNS-over-HTTPS: the answers of one response.\<close>

record doh_answer =
  ans_type :: nat
  ans_data :: string

record doh_response =
  doh_ok :: bool
  doh_status :: int
  doh_Answer :: "doh_answer list option"

datatype dns_record_type = A | AAAA

definition record_type_number :: "dns_record_type \<Rightarrow> nat" where
  "record_type_number t = (case t of A \<Rightarrow> 1 | AAAA \<Rightarrow> 28)"

definition doh_records :: "dns_record_type \<Rightarrow> doh_response \<Rightarrow> string list option" where
  "doh_records t res =
     (if \<not> doh_ok res then None
      else if doh_status res \<noteq> 0 then None
      else Some (map ans_data (filter (\<lambda>a. ans_type a = record_type_number t) (orElse (doh_Answer res) []))))"

text \<open>\<open>query\<close> is the parsed response to one request, \<^const>\<open>None\<close> when the request throws.\<close>

definition doh_resolve ::
  "(string \<Rightarrow> dns_record_type \<Rightarrow> doh_response option) \<Rightarrow> string \<Rightarrow> string list option" where
  "doh_resolve query host =
     (case (Option.bind (query host A) (doh_records A), Option.bind (query host AAAA) (doh_records AAAA)) of
        (Some as, Some aaaas) \<Rightarrow> Some (as @ aaaas)
      | _ \<Rightarrow> None)"

section \<open>Lemmas\<close>

lemma last_bytes_length [simp]: "length (last_bytes n v) = n"
  by (induction n arbitrary: v) auto

lemma last_bytes_lt: "b \<in> set (last_bytes n v) \<Longrightarrow> b < 256"
  by (induction n arbitrary: v) auto

fun bytes_value :: "nat \<Rightarrow> nat list \<Rightarrow> nat" where
  "bytes_value acc [] = acc"
| "bytes_value acc (b # bs) = bytes_value (acc * 256 + b) bs"

lemma bytes_value_append: "bytes_value acc (bs @ [b]) = bytes_value acc bs * 256 + b"
  by (induction bs arbitrary: acc) auto

lemma last_bytes_value: "v < 256 ^ n \<Longrightarrow> bytes_value 0 (last_bytes n v) = v"
proof (induction n arbitrary: v)
  case (Suc n)
  have "v div 256 < 256 ^ n" using Suc.prems by (simp add: less_mult_imp_div_less mult.commute)
  with Suc.IH show ?case by (simp add: bytes_value_append)
qed simp

lemma collect_Some: "collect xs = Some ys \<longleftrightarrow> xs = map Some ys"
proof (induction xs arbitrary: ys)
  case (Cons x xs)
  then show ?case by (cases x; cases ys) auto
qed auto

lemma collect_length: "collect xs = Some ys \<Longrightarrow> length ys = length xs"
  by (simp add: collect_Some)

lemma parseIPv4_bytes:
  assumes "parseIPv4 host = Some v"
  shows "length v = 4 \<and> (\<forall>b \<in> set v. b < 256)"
proof -
  from assms obtain vs where c: "collect (map parseIPv4Part (split_on CHR ''.'' host)) = Some vs"
    and len: "length (split_on CHR ''.'' host) \<le> 4"
    and le: "\<forall>x \<in> set (butlast vs). x \<le> 255"
    and v: "v = butlast vs @ last_bytes (4 - (length vs - 1)) (last vs)"
    by (auto simp: parseIPv4_def Let_def list_ex_iff not_less split: if_splits option.splits)
  have "length vs = length (split_on CHR ''.'' host)" using collect_length [OF c] by simp
  moreover have "length (split_on CHR ''.'' host) \<noteq> 0" by simp
  ultimately have "length v = 4" using len v by simp
  then show ?thesis using le v last_bytes_lt by (fastforce simp: less_Suc_eq_le)
qed

lemma hex_digit_value: "is_hex_digit c \<Longrightarrow> digit_value c < 16"
  by (auto simp: is_hex_digit_def digit_value_def is_digit_def)

lemma parse_base_lt:
  "\<forall>c \<in> set s. digit_value c < b \<Longrightarrow> parse_base b acc s < (acc + 1) * b ^ length s"
proof (induction s arbitrary: acc)
  case (Cons c s)
  have "parse_base b acc (c # s) < (acc * b + digit_value c + 1) * b ^ length s"
    using Cons by simp
  also have "\<dots> \<le> (acc * b + b) * b ^ length s"
    using Cons.prems by (intro mult_right_mono) auto
  also have "\<dots> = (acc + 1) * b ^ length (c # s)" by (simp add: algebra_simps)
  finally show ?case .
qed simp

lemma parse_group_lt:
  assumes "parse_group g = Some n"
  shows "n < 65536"
proof -
  from assms have g: "length g \<le> 4" "\<forall>c \<in> set g. digit_value c < 16" and n: "n = parse_base 16 0 g"
    by (auto simp: parse_group_def list_all_iff hex_digit_value split: if_splits)
  have "n < 16 ^ length g" using parse_base_lt [OF g(2), of 0] n by simp
  also have "\<dots> \<le> 16 ^ 4" using g(1) by (intro power_increasing) auto
  finally show ?thesis by simp
qed

lemma parseGroups_lt: "parseGroups s = Some gs \<Longrightarrow> \<forall>g \<in> set gs. g < 65536"
  unfolding parseGroups_def
  by (auto simp: collect_Some split: if_splits) (metis (no_types, lifting) imageE image_eqI list.set_map parse_group_lt)

lemma parseIPv6_groups:
  assumes "parseIPv6 h = Some gs"
  shows "length gs = 8 \<and> (\<forall>g \<in> set gs. g < 65536)"
  using assms
  by (auto simp: parseIPv6_def Let_def dest!: parseGroups_lt split: if_splits option.splits list.splits)

lemma show_nat_digits: "\<forall>c \<in> set (show_nat n). is_digit c"
proof (induction n rule: show_nat.induct)
  case (1 n)
  then show ?case by (subst show_nat.simps) (auto simp: is_digit_def)
qed

lemma parse_base_append: "parse_base b acc (s @ t) = parse_base b (parse_base b acc s) t"
  by (induction s arbitrary: acc) auto

lemma parse_show_nat: "parse_base 10 0 (show_nat n) = n"
proof (induction n rule: show_nat.induct)
  case (1 n)
  show ?case
  proof (cases "n < 10")
    case True
    then show ?thesis by (subst show_nat.simps) (simp add: digit_value_def is_digit_def)
  next
    case False
    then show ?thesis
      by (subst show_nat.simps) (simp add: 1 [OF False] parse_base_append digit_value_def is_digit_def)
  qed
qed

text \<open>An octal-looking part is the number itself only without a leading zero, which \<open>show_nat\<close> never writes.\<close>

lemma show_nat_head: "0 < n \<Longrightarrow> \<exists>c cs. show_nat n = c # cs \<and> c \<noteq> CHR ''0''"
proof (induction n rule: show_nat.induct)
  case (1 n)
  show ?case
  proof (cases "n < 10")
    case True
    have "code (char_of (48 + n) :: char) \<noteq> code CHR ''0''" using True 1(2) by (simp add: code_def)
    then have "char_of (48 + n) \<noteq> CHR ''0''" by (metis)
    with True show ?thesis by (subst show_nat.simps) auto
  next
    case False
    then have "0 < n div 10" by auto
    from 1(1) [OF False this] obtain c cs where "show_nat (n div 10) = c # cs" "c \<noteq> CHR ''0''" by blast
    with False show ?thesis by (subst show_nat.simps) auto
  qed
qed

lemma digit_not_x: "is_digit c \<Longrightarrow> c \<noteq> CHR ''x'' \<and> c \<noteq> CHR ''X'' \<and> c \<noteq> CHR ''.''"
  by (auto simp: is_digit_def code_def)

lemma show_nat_nonempty: "show_nat n \<noteq> ''''"
  by (subst show_nat.simps) simp

lemma parseIPv4Part_show: "parseIPv4Part (show_nat n) = Some n"
proof -
  have dig: "list_all is_digit (show_nat n)" using show_nat_digits by (simp add: list_all_iff)
  have nx: "take 2 (show_nat n) \<noteq> ''0x'' \<and> take 2 (show_nat n) \<noteq> ''0X''"
  proof (rule ccontr)
    assume "\<not> ?thesis"
    then have "CHR ''x'' \<in> set (take 2 (show_nat n)) \<or> CHR ''X'' \<in> set (take 2 (show_nat n))" by auto
    then have "CHR ''x'' \<in> set (show_nat n) \<or> CHR ''X'' \<in> set (show_nat n)" by (auto dest: in_set_takeD)
    with show_nat_digits digit_not_x show False by blast
  qed
  have no: "\<not> (2 \<le> length (show_nat n) \<and> take 1 (show_nat n) = ''0'')"
  proof (cases "n = 0")
    case True
    then show ?thesis by (subst (1 2) show_nat.simps) simp
  next
    case False
    then show ?thesis using show_nat_head [of n] by auto
  qed
  show ?thesis using dig nx no show_nat_nonempty [of n] parse_show_nat [of n]
    by (auto simp: parseIPv4Part_def)
qed

lemma last_bytes_4:
  assumes "a < 256" "b < 256" "c < 256" "d < 256"
  shows "last_bytes 4 (((a * 256 + b) * 256 + c) * 256 + d) = [a, b, c, d]"
proof -
  have four: "(4::nat) = Suc (Suc (Suc (Suc 0)))" by simp
  have step: "last_bytes (Suc n) (x * 256 + y) = last_bytes n x @ [y]" if "y < 256" for n x y
    using that by simp
  have "last_bytes (Suc 0) a = [a]" using assms(1) by simp
  then show ?thesis unfolding four by (simp only: step assms append.simps)
qed

lemma quad_le:
  assumes "a < 256" "b < 256" "c < 256" "d < (256::nat)"
  shows "((a * 256 + b) * 256 + c) * 256 + d \<le> 256 ^ 4 - 1"
proof -
  have "((a * 256 + b) * 256 + c) * 256 + d \<le> ((255 * 256 + 255) * 256 + 255) * 256 + 255"
    using assms by (intro add_mono mult_right_mono) auto
  also have "\<dots> = 256 ^ 4 - 1" by simp
  finally show ?thesis .
qed

lemma parse_decimal_host:
  assumes "n \<le> 256 ^ 4 - 1"
  shows "parseIPv4 (show_nat n) = Some (last_bytes 4 n)"
proof -
  have "CHR ''.'' \<notin> set (show_nat n)" using show_nat_digits digit_not_x by blast
  then have "split_on CHR ''.'' (show_nat n) = [show_nat n]" by (rule split_on_none)
  moreover have "list_all is_alnum_dot (show_nat n)"
    using show_nat_digits [of n] by (simp add: list_all_iff is_alnum_dot_def)
  ultimately show ?thesis
    using assms show_nat_nonempty [of n] by (simp add: parseIPv4_def parseIPv4Part_show Let_def)
qed

text \<open>
  An IPv4 address is read back from its dotted form, and a host text that is one decimal
  number below 2 to the 32 is read as the address with that value, so the two spellings of one
  address are classified alike; whatever is accepted is four bytes.
\<close>

theorem parseIPv4_spellings:
  "(\<forall>a < 256. \<forall>b < 256. \<forall>c < 256. \<forall>d < 256.
      parseIPv4 (join ''.'' [show_nat a, show_nat b, show_nat c, show_nat d]) = Some [a, b, c, d] \<and>
      parseIPv4 (show_nat (((a * 256 + b) * 256 + c) * 256 + d)) = Some [a, b, c, d]) \<and>
   (\<forall>host v. parseIPv4 host = Some v \<longrightarrow> length v = 4 \<and> (\<forall>x \<in> set v. x < 256))"
proof (intro conjI allI impI)
  fix a b c d :: nat assume lt: "a < 256" "b < 256" "c < 256" "d < 256"
  let ?ps = "[show_nat a, show_nat b, show_nat c, show_nat d]"
  let ?h = "join ''.'' ?ps"
  have nd: "CHR ''.'' \<notin> set (show_nat n)" for n using show_nat_digits digit_not_x by blast
  have sp: "split_on CHR ''.'' ?h = ?ps" by (rule split_on_join) (use nd in auto)
  have ad: "list_all is_alnum_dot (show_nat n)" for n
    using show_nat_digits [of n] by (simp add: list_all_iff is_alnum_dot_def)
  then have "list_all is_alnum_dot ?h" by (simp add: is_alnum_dot_def)
  then show "parseIPv4 ?h = Some [a, b, c, d]"
    using lt show_nat_nonempty [of a]
    by (simp add: parseIPv4_def sp [simplified] parseIPv4Part_show Let_def)
  show "parseIPv4 (show_nat (((a * 256 + b) * 256 + c) * 256 + d)) = Some [a, b, c, d]"
    unfolding parse_decimal_host [OF quad_le [OF lt]] last_bytes_4 [OF lt] ..
qed (use parseIPv4_bytes in blast)+

theorem parseIPv4_spellings_witness:
  "parseIPv4 (join ''.'' [show_nat 127, show_nat 0, show_nat 0, show_nat 1]) = Some [127, 0, 0, 1]"
  using parseIPv4_spellings by simp

lemma allowed_simps [simp]:
  "allowed allow" "\<not> allowed (deny r)" "\<not> allowed (deny_class c)"
  by (simp_all add: allow_def deny_def deny_class_def)

lemma checkUrlForSsrf_allowed:
  "allowed (checkUrlForSsrf newURL url) \<longleftrightarrow>
   (\<exists>u. newURL url None = Some u \<and> protocol u \<in> {''http:'', ''https:''} \<and> username u = '''' \<and>
      password u = '''' \<and> url_port u \<in> set ALLOWED_PORTS \<and> hostname u \<noteq> '''' \<and>
      \<not> blocked (classifyHostname (hostname u)))"
  by (auto simp: checkUrlForSsrf_def Let_def split: option.splits)

lemma check_addresses_allowed:
  "allowed (check_addresses as) \<longleftrightarrow> (\<forall>a \<in> set as. \<not> blocked (classifyIpAddress a))"
  by (induction as) (auto simp: Let_def)

text \<open>
  C17. A URL passes the full check exactly when it is http or https without credentials on an
  allowed port, its host is neither a blocked literal nor a blocked name, and, unless the host is
  a literal, both address queries succeeded with at least one answer and none of the answers is
  blocked. A failed or empty resolution refuses.
\<close>

theorem resolveAndCheck_allowed:
  "allowed (resolveAndCheck newURL resolve url) \<longleftrightarrow>
   (\<exists>u. newURL url None = Some u \<and> protocol u \<in> {''http:'', ''https:''} \<and> username u = '''' \<and>
      password u = '''' \<and> url_port u \<in> {80, 443, 8080, 8443} \<and> hostname u \<noteq> '''' \<and>
      \<not> blocked (classifyHostname (hostname u)) \<and>
      (is_ip_literal (hostname u) \<or>
       (\<exists>addresses. resolve (hostname u) = Some addresses \<and> addresses \<noteq> [] \<and>
          (\<forall>a \<in> set addresses. \<not> blocked (classifyIpAddress a)))))"
proof -
  have ports: "set ALLOWED_PORTS = {80, 443, 8080, 8443}" by (auto simp: ALLOWED_PORTS_def)
  show ?thesis
  proof (cases "allowed (checkUrlForSsrf newURL url)")
    case True
    then obtain u where u: "newURL url None = Some u"
      by (auto simp: checkUrlForSsrf_allowed)
    have "allowed (case resolve (hostname u) of None \<Rightarrow> deny ''dns_resolution_failed''
            | Some [] \<Rightarrow> deny ''dns_resolution_failed'' | Some (a # as) \<Rightarrow> check_addresses (a # as)) \<longleftrightarrow>
        (\<exists>addresses. resolve (hostname u) = Some addresses \<and> addresses \<noteq> [] \<and>
          (\<forall>a \<in> set addresses. \<not> blocked (classifyIpAddress a)))"
      by (auto simp: check_addresses_allowed simp del: check_addresses.simps
          split: option.splits list.splits)
    with True u show ?thesis
      unfolding resolveAndCheck_def Let_def checkUrlForSsrf_allowed ports by auto
  next
    case False
    then have "\<not> allowed (resolveAndCheck newURL resolve url)" by (simp add: resolveAndCheck_def Let_def)
    with False [unfolded checkUrlForSsrf_allowed ports] show ?thesis by blast
  qed
qed

theorem resolveAndCheck_allowed_witness:
  "let u = \<lparr>href = ''http://a/'', protocol = ''http:'', username = '''', password = '''',
        hostname = ''a'', port = '''', pathname = ''/'', search = '''', origin = ''http://a''\<rparr>
   in allowed (resolveAndCheck (\<lambda>s b. Some u) (\<lambda>h. Some [''93.184.216.34'']) ''http://a/'') \<and>
      \<not> allowed (resolveAndCheck (\<lambda>s b. Some u) (\<lambda>h. Some [''93.184.216.34'', ''10.0.0.1'']) ''http://a/'')"
proof -
  have "\<not> blocked (classifyHostname ''a'')" "\<not> is_ip_literal ''a''"
    "\<not> blocked (classifyIpAddress ''93.184.216.34'')" "blocked (classifyIpAddress ''10.0.0.1'')" by code_simp+
  then show ?thesis
    unfolding Let_def resolveAndCheck_allowed by (simp add: url_port_def defaultPortFor_def)
qed

text \<open>
  A trailing dot, which names the same host, defeats the check of host names: the blocked
  names are not blocked when they are written with the dot of a fully qualified name.
\<close>

theorem trailing_dot_host_passes:
  "blocked (classifyHostname ''localhost'') \<and> \<not> blocked (classifyHostname ''localhost.'') \<and>
   blocked (classifyHostname ''metadata.google.internal'') \<and>
   \<not> blocked (classifyHostname ''metadata.google.internal.'')"
  by code_simp

end
