(* ===== verification/Http_Fetch.thy ===== *)
theory Http_Fetch
  imports Complex_Main Js_String Contracts Net_Guard
begin

text \<open>
  The limited HTTP fetcher (src/fetch/http.ts): headers, the bounded body, the classification of
  the last response and the loop over redirects.

  The platform is an argument: its URL parser, UTF-8 decoder, date parser, base64 decoder and the
  check of header names and values. The network is a function that gets the URL, the headers and
  its own state, so a server may answer the same request differently each time; a response body
  is a list of chunks followed by the end of the stream or by an exception (a reset connection, the
  abort of the time limit). What the source does to release a body it does not read has no effect
  on the result and is left out.
\<close>

section \<open>Numbers in text\<close>

text \<open>
  The JavaScript conversion \<open>Number(text)\<close>, \<^const>\<open>None\<close> where the result is not a finite number.
\<close>

definition digits :: "string \<Rightarrow> bool" where
  "digits s \<longleftrightarrow> s \<noteq> '''' \<and> list_all is_digit s"

definition radix_literal :: "string \<Rightarrow> rat option" where
  "radix_literal s =
     (let p = toLowerCase (take 2 s); t = drop 2 s
      in if t = '''' then None
         else if p = ''0x'' \<and> list_all is_hex_digit t then Some (of_nat (parse_base 16 0 t))
         else if p = ''0o'' \<and> list_all (\<lambda>c. is_digit c \<and> digit_value c < 8) t
         then Some (of_nat (parse_base 8 0 t))
         else if p = ''0b'' \<and> list_all (\<lambda>c. is_digit c \<and> digit_value c < 2) t
         then Some (of_nat (parse_base 2 0 t))
         else None)"

definition split_at :: "char list \<Rightarrow> string \<Rightarrow> string \<times> string option" where
  "split_at cs s =
     (case dropWhile (\<lambda>c. c \<notin> set cs) s of
        [] \<Rightarrow> (s, None)
      | _ # t \<Rightarrow> (takeWhile (\<lambda>c. c \<notin> set cs) s, Some t))"

definition signed_part :: "string \<Rightarrow> bool \<times> string" where
  "signed_part s =
     (case s of CHR ''-'' # t \<Rightarrow> (True, t) | CHR ''+'' # t \<Rightarrow> (False, t) | _ \<Rightarrow> (False, s))"

definition mantissa :: "string \<Rightarrow> rat option" where
  "mantissa s =
     (case split_at ''.'' s of
        (i, f) \<Rightarrow>
          (let fs = orElse f ''''
           in if i @ fs \<noteq> '''' \<and> list_all is_digit (i @ fs)
              then Some (of_nat (parse_base 10 0 (i @ fs)) / 10 ^ length fs) else None))"

definition decimal_literal :: "string \<Rightarrow> rat option" where
  "decimal_literal s =
     (case split_at ''eE'' s of
        (m, None) \<Rightarrow> mantissa m
      | (m, Some e) \<Rightarrow>
          (case (mantissa m, signed_part e) of
             (Some v, neg, ds) \<Rightarrow>
               if digits ds
               then Some (if neg then v / 10 ^ parse_base 10 0 ds else v * 10 ^ parse_base 10 0 ds)
               else None
           | _ \<Rightarrow> None))"

definition js_number :: "string \<Rightarrow> rat option" where
  "js_number text =
     (let s = js_trim text
      in if s = '''' then Some 0
         else (case radix_literal s of
                 Some v \<Rightarrow> Some v
               | None \<Rightarrow> (case signed_part s of
                            (neg, t) \<Rightarrow> map_option (\<lambda>v. if neg then - v else v) (decimal_literal t))))"

section \<open>The platform\<close>

datatype thrown = ErrorObject string string | OtherValue string

type_synonym http_headers = "(string \<times> string) list"

record platform =
  newURL :: url_parser
  decodeText :: "bytes \<Rightarrow> string"
  dateParse :: "string \<Rightarrow> ms option"
  atob :: "string \<Rightarrow> bytes option"
  validHeader :: "string \<Rightarrow> string \<Rightarrow> bool"

datatype http_body = NoBody | Stream "bytes list" "thrown option"

record http_response =
  hr_status :: int
  hr_headers :: http_headers
  hr_body :: http_body

type_synonym 'n network = "string \<Rightarrow> http_headers \<Rightarrow> 'n \<Rightarrow> (thrown + http_response) \<times> 'n"

definition truthy :: "string option \<Rightarrow> string option" where
  "truthy x = (case x of Some [] \<Rightarrow> None | _ \<Rightarrow> x)"

definition set_header :: "platform \<Rightarrow> string \<Rightarrow> string \<Rightarrow> http_headers \<Rightarrow> thrown + http_headers" where
  "set_header pf k v hs =
     (if validHeader pf k v then Inr (AList.update (toLowerCase k) v hs)
      else Inl (ErrorObject ''TypeError'' ''invalid header''))"

fun set_all_headers :: "platform \<Rightarrow> (string \<times> string) list \<Rightarrow> http_headers \<Rightarrow> thrown + http_headers" where
  "set_all_headers pf [] hs = Inr hs"
| "set_all_headers pf ((k, v) # kvs) hs =
     (case set_header pf k v hs of Inl e \<Rightarrow> Inl e | Inr hs' \<Rightarrow> set_all_headers pf kvs hs')"

section \<open>Requests\<close>

record fetch_limits =
  maxBytes :: nat
  maxRedirects :: nat
  totalTimeoutMs :: ms

definition DEFAULT_FETCH_LIMITS :: fetch_limits where
  "DEFAULT_FETCH_LIMITS = \<lparr>maxBytes = 5 * 1024 * 1024, maxRedirects = 5, totalTimeoutMs = 30000\<rparr>"

record fetch_request =
  fr_url :: string
  fr_userAgent :: string
  fr_headers :: "(string \<times> string) list option"
  fr_etag :: "string option"
  fr_lastModified :: "string option"
  fr_maxBytes :: "nat option"
  fr_maxRedirects :: "nat option"
  fr_totalTimeoutMs :: "ms option"
  allowedContentTypes :: "string list option"

definition limits_of :: "fetch_request \<Rightarrow> fetch_limits" where
  "limits_of req =
     \<lparr>maxBytes = orElse (fr_maxBytes req) (maxBytes DEFAULT_FETCH_LIMITS),
      maxRedirects = orElse (fr_maxRedirects req) (maxRedirects DEFAULT_FETCH_LIMITS),
      totalTimeoutMs = orElse (fr_totalTimeoutMs req) (totalTimeoutMs DEFAULT_FETCH_LIMITS)\<rparr>"

definition REDIRECT_STATUSES :: "int list" where
  "REDIRECT_STATUSES = [301, 302, 303, 307, 308]"

definition isRedirectStatus :: "int \<Rightarrow> bool" where
  "isRedirectStatus st \<longleftrightarrow> st \<in> set REDIRECT_STATUSES"

definition DEFAULT_ACCEPT_LANGUAGE :: string where
  "DEFAULT_ACCEPT_LANGUAGE = ''ja-JP,ja;q=0.9,en-US;q=0.8,en;q=0.7''"

definition opt_header :: "string \<Rightarrow> string option \<Rightarrow> (string \<times> string) list" where
  "opt_header k v = (case truthy v of None \<Rightarrow> [] | Some x \<Rightarrow> [(k, x)])"

definition buildRequestHeaders :: "platform \<Rightarrow> fetch_request \<Rightarrow> thrown + http_headers" where
  "buildRequestHeaders pf req =
     set_all_headers pf
       ([(''user-agent'', fr_userAgent req), (''accept-language'', DEFAULT_ACCEPT_LANGUAGE),
         (''referer'', fr_url req)] @
        orElse (fr_headers req) [] @
        opt_header ''if-none-match'' (fr_etag req) @
        opt_header ''if-modified-since'' (fr_lastModified req)) []"

definition failure :: "failure_class \<Rightarrow> int option \<Rightarrow> string \<Rightarrow> int option \<Rightarrow> fetch_outcome" where
  "failure c st msg retry =
     FetchFailure \<lparr>failureClass = c, fail_status = st, fail_message = msg, retryAfterSeconds = retry\<rparr>"

definition classifyNetworkError :: "thrown \<Rightarrow> fetch_outcome" where
  "classifyNetworkError err =
     (case err of
        ErrorObject name msg \<Rightarrow>
          if name = ''AbortError'' \<or> name = ''TimeoutError''
          then failure Timeout None (''request timed out: '' @ (if msg = '''' then name else msg)) None
          else failure Network_error None msg None
      | OtherValue s \<Rightarrow> failure Network_error None s None)"

section \<open>The bounded body\<close>

text \<open>The body read, \<^const>\<open>None\<close> when it is too large, or the exception of the stream.\<close>

fun read_limited :: "nat \<Rightarrow> nat \<Rightarrow> bytes list \<Rightarrow> bytes list \<Rightarrow> thrown option \<Rightarrow> thrown + bytes option" where
  "read_limited m read acc [] e = (case e of None \<Rightarrow> Inr (Some (concat acc)) | Some t \<Rightarrow> Inl t)"
| "read_limited m read acc (v # vs) e =
     (let total' = read + length v
      in if total' > m then Inr None else read_limited m total' (acc @ [v]) vs e)"

definition declared_too_large :: "http_response \<Rightarrow> nat \<Rightarrow> bool" where
  "declared_too_large res m =
     (case map_of (hr_headers res) ''content-length'' of
        None \<Rightarrow> False
      | Some text \<Rightarrow> (case js_number text of None \<Rightarrow> False | Some n \<Rightarrow> n > of_nat m))"

definition readBodyWithLimit :: "http_response \<Rightarrow> nat \<Rightarrow> thrown + bytes option" where
  "readBodyWithLimit res m =
     (if declared_too_large res m then Inr None
      else (case hr_body res of
              NoBody \<Rightarrow> Inr (Some [])
            | Stream vs e \<Rightarrow> read_limited m 0 [] vs e))"

section \<open>The last response\<close>

definition QUOTE :: char where "QUOTE = char_of (39::nat)"

definition matchesAllowedContentType :: "string \<Rightarrow> string list \<Rightarrow> bool" where
  "matchesAllowedContentType ct allow_list =
     list_ex (\<lambda>prefix. startsWith (toLowerCase ct) (toLowerCase prefix)) allow_list"

definition detectCaptchaSignal :: "http_headers \<Rightarrow> string \<Rightarrow> bool" where
  "detectCaptchaSignal hs bodyText \<longleftrightarrow>
     list_ex (\<lambda>(key, v). startsWith (toLowerCase key) ''cf-chl-'' \<or> toLowerCase key = ''cf-mitigated'') hs \<or>
     str_includes (toLowerCase bodyText) ''captcha'' \<or> str_includes (toLowerCase bodyText) ''challenge''"

definition parseRetryAfterHeader :: "platform \<Rightarrow> ms \<Rightarrow> string option \<Rightarrow> int option" where
  "parseRetryAfterHeader pf now v =
     (case truthy v of
        None \<Rightarrow> None
      | Some text \<Rightarrow>
          (let trimmed = js_trim text
           in if digits trimmed then Some (int (parse_base 10 0 trimmed))
              else (case dateParse pf trimmed of
                      None \<Rightarrow> None
                    | Some dateMs \<Rightarrow>
                        (let diffSeconds = (dateMs - now + 500) div 1000
                         in Some (if diffSeconds > 0 then diffSeconds else 0)))))"

definition success_of :: "http_response \<Rightarrow> bool \<Rightarrow> string \<Rightarrow> bytes option \<Rightarrow> ms \<Rightarrow> fetch_outcome" where
  "success_of res nm url body duration =
     FetchSuccess \<lparr>ok_status = hr_status res, notModified = nm, finalUrl = url,
       ok_contentType = map_of (hr_headers res) ''content-type'',
       ok_etag = map_of (hr_headers res) ''etag'',
       ok_lastModified = map_of (hr_headers res) ''last-modified'', ok_body = body, ok_durationMs = duration\<rparr>"

definition too_large :: "int \<Rightarrow> nat \<Rightarrow> fetch_outcome" where
  "too_large st m =
     failure Too_large (Some st) (''response body exceeded maxBytes ('' @ show_nat m @ '')'') None"

definition type_refused :: "http_response \<Rightarrow> fetch_request \<Rightarrow> bool" where
  "type_refused res req =
     (case allowedContentTypes req of
        None \<Rightarrow> False
      | Some al \<Rightarrow> al \<noteq> [] \<and>
          (case truthy (map_of (hr_headers res) ''content-type'') of
             None \<Rightarrow> True
           | Some ct \<Rightarrow> \<not> matchesAllowedContentType ct al))"

definition handleTerminalResponse ::
  "platform \<Rightarrow> http_response \<Rightarrow> string \<Rightarrow> fetch_request \<Rightarrow> fetch_limits \<Rightarrow> ms \<Rightarrow> ms \<Rightarrow> thrown + fetch_outcome" where
  "handleTerminalResponse pf res url req limits startedAt now =
     (let st = hr_status res
      in if st = 304 then Inr (success_of res True url None (now - startedAt))
         else if st = 401 \<or> st = 407
         then Inr (failure Auth_required (Some st) (''authentication required (status '' @ show_int st @ '')'') None)
         else if st = 403
         then (case readBodyWithLimit res (maxBytes limits) of
                 Inl e \<Rightarrow> Inl e
               | Inr None \<Rightarrow> Inr (too_large st (maxBytes limits))
               | Inr (Some body) \<Rightarrow>
                   if detectCaptchaSignal (hr_headers res) (decodeText pf body)
                   then Inr (failure Captcha_challenge (Some st) ''captcha/bot challenge detected on 403 response'' None)
                   else Inr (failure Http_403 (Some st) ''forbidden (403)'' None))
         else if st = 404 \<or> st = 410
         then Inr (failure Not_found (Some st) (''resource not found (status '' @ show_int st @ '')'') None)
         else if st = 429
         then Inr (failure Http_429 (Some st) ''rate limited (429)''
                     (parseRetryAfterHeader pf now (map_of (hr_headers res) ''retry-after'')))
         else if st \<ge> 500 \<and> st < 600
         then Inr (failure Http_5xx (Some st) (''server error (status '' @ show_int st @ '')'') None)
         else if st \<ge> 200 \<and> st < 300
         then (if type_refused res req
               then Inr (failure Invalid_content_type (Some st)
                      (''content-type '' @ [QUOTE] @ orElse (map_of (hr_headers res) ''content-type'') ''(none)'' @
                       [QUOTE] @ '' not in allowed list'') None)
               else (case readBodyWithLimit res (maxBytes limits) of
                       Inl e \<Rightarrow> Inl e
                     | Inr None \<Rightarrow> Inr (too_large st (maxBytes limits))
                     | Inr (Some body) \<Rightarrow> Inr (success_of res False url (Some body) (now - startedAt))))
         else Inr (failure Network_error (Some st) (''unexpected status '' @ show_int st) None))"

section \<open>The loop over redirects\<close>

definition blocked_outcome :: "ssrf_check_result \<Rightarrow> fetch_outcome" where
  "blocked_outcome g =
     failure Ssrf_blocked None (''url blocked by ssrf policy: '' @ orElse (ssrf_reason g) ''unknown'') None"

definition guard_refusal :: "(string \<Rightarrow> ssrf_check_result) option \<Rightarrow> string \<Rightarrow> ssrf_check_result option" where
  "guard_refusal guard url =
     (case guard of None \<Rightarrow> None | Some g \<Rightarrow> if \<not> allowed (g url) then Some (g url) else None)"

function http_loop ::
  "platform \<Rightarrow> (string \<Rightarrow> ssrf_check_result) option \<Rightarrow> 'n network \<Rightarrow> fetch_request \<Rightarrow> fetch_limits \<Rightarrow>
   http_headers \<Rightarrow> ms \<Rightarrow> ('n \<Rightarrow> ms) \<Rightarrow> nat \<Rightarrow> string \<Rightarrow> 'n \<Rightarrow> (thrown + fetch_outcome) \<times> 'n" where
  "http_loop pf guard net req limits hs startedAt now followed url s =
     (case guard_refusal guard url of
        Some g \<Rightarrow> (Inr (blocked_outcome g), s)
      | None \<Rightarrow>
          (case net url hs s of
             (Inl err, s1) \<Rightarrow> (Inr (classifyNetworkError err), s1)
           | (Inr res, s1) \<Rightarrow>
               (let st = hr_status res
                in if isRedirectStatus st
                   then (case truthy (map_of (hr_headers res) ''location'') of
                           None \<Rightarrow> (Inr (failure Network_error (Some st)
                                     (''redirect status '' @ show_int st @ '' missing Location header'') None), s1)
                         | Some location \<Rightarrow>
                             if followed \<ge> maxRedirects limits
                             then (Inr (failure Network_error (Some st)
                                     (''too_many_redirects: exceeded '' @ show_nat (maxRedirects limits) @ '' redirects'') None), s1)
                             else (case newURL pf location (Some url) of
                                     None \<Rightarrow> (Inr (failure Network_error (Some st) ''invalid redirect Location header'' None), s1)
                                   | Some u \<Rightarrow>
                                       http_loop pf guard net req limits hs startedAt now (followed + 1) (href u) s1))
                   else (handleTerminalResponse pf res url req limits startedAt (now s1), s1))))"
  by pat_completeness auto

termination http_loop
  by (relation "measure (\<lambda>(pf, guard, net, req, limits, hs, startedAt, now, followed, url, s).
      maxRedirects limits - followed)") auto

declare http_loop.simps [simp del]

definition httpFetch ::
  "platform \<Rightarrow> (string \<Rightarrow> ssrf_check_result) option \<Rightarrow> 'n network \<Rightarrow> fetch_request \<Rightarrow> ms \<Rightarrow> ('n \<Rightarrow> ms) \<Rightarrow> 'n \<Rightarrow>
   (thrown + fetch_outcome) \<times> 'n" where
  "httpFetch pf guard net req startedAt now s =
     (case buildRequestHeaders pf req of
        Inl e \<Rightarrow> (Inl e, s)
      | Inr hs \<Rightarrow> http_loop pf guard net req (limits_of req) hs startedAt now 0 (fr_url req) s)"

section \<open>What is requested\<close>

text \<open>The network that also writes down the URLs it is asked for.\<close>

definition logging :: "'n network \<Rightarrow> ('n \<times> string list) network" where
  "logging net url hs s = (case net url hs (fst s) of (r, n) \<Rightarrow> (r, n, snd s @ [url]))"

definition passes :: "(string \<Rightarrow> ssrf_check_result) option \<Rightarrow> string \<Rightarrow> bool" where
  "passes guard url \<longleftrightarrow> guard_refusal guard url = None"

lemma passes_guard [simp]: "passes (Some g) url \<longleftrightarrow> allowed (g url)" "passes None url"
  by (simp_all add: passes_def guard_refusal_def)

lemma http_loop_log:
  "\<exists>us. snd (snd (http_loop pf guard (logging net) req limits hs t0 now k url s)) = snd s @ us \<and>
     length us \<le> maxRedirects limits - k + 1 \<and> list_all (passes guard) us \<and>
     (us \<noteq> [] \<longrightarrow> hd us = url)"
proof (induction pf guard "logging net" req limits hs t0 now k url s rule: http_loop.induct)
  case (1 pf guard req limits hs t0 now k url s)
  show ?case
  proof (cases "guard_refusal guard url")
    case (Some g)
    then show ?thesis by (subst http_loop.simps) simp
  next
    case None
    then have p: "passes guard url" by (simp add: passes_def)
    obtain r n where net: "net url hs (fst s) = (r, n)" by fastforce
    then have lg: "logging net url hs s = (r, n, snd s @ [url])" by (simp add: logging_def)
    show ?thesis
    proof (cases "\<exists>res location u. r = Inr res \<and> isRedirectStatus (hr_status res) \<and>
        truthy (map_of (hr_headers res) ''location'') = Some location \<and> k < maxRedirects limits \<and>
        newURL pf location (Some url) = Some u")
      case True
      then obtain res location u where c: "r = Inr res" "isRedirectStatus (hr_status res)"
        "truthy (map_of (hr_headers res) ''location'') = Some location" "\<not> k \<ge> maxRedirects limits"
        "newURL pf location (Some url) = Some u" by auto
      from "1.hyps" [OF None lg [symmetric, unfolded c(1)] refl refl c(2,3,4,5)]
      obtain us where us: "snd (snd (http_loop pf guard (logging net) req limits hs t0 now (k + 1) (href u) (n, snd s @ [url])))
          = (snd s @ [url]) @ us" "length us \<le> maxRedirects limits - (k + 1) + 1" "list_all (passes guard) us"
        by auto
      moreover have "http_loop pf guard (logging net) req limits hs t0 now k url s =
          http_loop pf guard (logging net) req limits hs t0 now (k + 1) (href u) (n, snd s @ [url])"
        using None lg c by (subst http_loop.simps) (simp add: Let_def)
      ultimately show ?thesis using p c(4) by (intro exI [of _ "url # us"]) auto
    next
      case False
      have "snd (snd (http_loop pf guard (logging net) req limits hs t0 now k url s)) = snd s @ [url]"
        using None lg False by (subst http_loop.simps) (auto simp: Let_def split: sum.splits option.splits)
      with p show ?thesis by (intro exI [of _ "[url]"]) simp
    qed
  qed
qed

text \<open>
  C22. Following redirects asks the network for at most one URL more than the redirect limit, the
  first one is the URL of the request, and every one of them, redirect targets included, passed
  the URL guard.
\<close>

theorem httpFetch_requests_guarded:
  "case httpFetch pf guard (logging net) req t0 now (n, []) of
     (out, n', urls) \<Rightarrow>
       length urls \<le> maxRedirects (limits_of req) + 1 \<and> list_all (passes guard) urls \<and>
       take 1 urls \<in> {[], [fr_url req]}"
proof (cases "buildRequestHeaders pf req")
  case (Inl e)
  then show ?thesis by (simp add: httpFetch_def)
next
  case (Inr hs)
  from http_loop_log [of pf guard net req "limits_of req" hs t0 now 0 "fr_url req" "(n, [])"]
  obtain us where "snd (snd (httpFetch pf guard (logging net) req t0 now (n, []))) = us"
    "length us \<le> maxRedirects (limits_of req) + 1" "list_all (passes guard) us" "us \<noteq> [] \<longrightarrow> hd us = fr_url req"
    by (auto simp: httpFetch_def Inr)
  then show ?thesis by (cases us) (auto split: prod.splits)
qed

section \<open>What is returned\<close>

lemma read_limited_spec:
  "n = length (concat acc) \<Longrightarrow> read_limited m n acc vs e = Inr (Some b) \<Longrightarrow> n \<le> m \<Longrightarrow> 
   b = concat (acc @ vs) \<and> length b \<le> m"
  by (induction m n acc vs e rule: read_limited.induct) (auto simp: Let_def split: option.splits if_splits)

lemma readBodyWithLimit_spec:
  "readBodyWithLimit res m = Inr (Some b) \<Longrightarrow>
   length b \<le> m \<and> (case hr_body res of NoBody \<Rightarrow> b = [] | Stream vs e \<Rightarrow> b = concat vs)"
  using read_limited_spec [of 0 "[]" m _ _ b]
  by (auto simp: readBodyWithLimit_def split: if_splits http_body.splits)

definition success_ok :: "nat \<Rightarrow> fetch_success \<Rightarrow> bool" where
  "success_ok m r \<longleftrightarrow> (notModified r \<longleftrightarrow> ok_status r = 304) \<and>
     (case ok_body r of
        None \<Rightarrow> notModified r
      | Some b \<Rightarrow> ok_status r \<in> {200..<300} \<and> length b \<le> m)"

lemma handleTerminalResponse_success:
  "handleTerminalResponse pf res url req limits t0 now = Inr (FetchSuccess r) \<Longrightarrow>
   success_ok (maxBytes limits) r \<and> finalUrl r = url"
  by (auto simp: handleTerminalResponse_def Let_def failure_def too_large_def success_of_def success_ok_def
      dest: readBodyWithLimit_spec split: if_splits sum.splits option.splits)

lemma http_loop_success:
  "http_loop pf guard net req limits hs t0 now k url s = (Inr (FetchSuccess r), s') \<Longrightarrow>
   success_ok (maxBytes limits) r \<and> passes guard (finalUrl r)"
proof (induction pf guard net req limits hs t0 now k url s rule: http_loop.induct)
  case (1 pf guard net req limits hs t0 now k url s)
  note eq = 1(2) [unfolded http_loop.simps [of pf guard net req limits hs t0 now k url s]]
  show ?case
  proof (cases "guard_refusal guard url")
    case (Some g)
    with eq show ?thesis by (simp add: blocked_outcome_def failure_def)
  next
    case None
    obtain x s1 where net: "net url hs s = (x, s1)" by fastforce
    show ?thesis
    proof (cases x)
      case (Inl err)
      with eq None net show ?thesis
        by (simp add: classifyNetworkError_def failure_def split: thrown.splits if_splits)
    next
      case (Inr res)
      show ?thesis
      proof (cases "isRedirectStatus (hr_status res)")
        case True
        with eq None net Inr obtain location u where c:
          "truthy (map_of (hr_headers res) ''location'') = Some location" "\<not> maxRedirects limits \<le> k"
          "newURL pf location (Some url) = Some u"
          "http_loop pf guard net req limits hs t0 now (k + 1) (href u) s1 = (Inr (FetchSuccess r), s')"
          by (auto simp: Let_def failure_def split: option.splits if_splits)
        from "1.IH" [OF None net [symmetric, unfolded Inr] refl refl True c(1,2,3) c(4)] show ?thesis .
      next
        case False
        with eq None net Inr have "handleTerminalResponse pf res url req limits t0 (now s1) = Inr (FetchSuccess r)"
          by (auto simp: Let_def)
        with handleTerminalResponse_success None show ?thesis by (fastforce simp: passes_def)
      qed
    qed
  qed
qed

text \<open>
  A successful fetch is a 304 without a body or a 2xx whose body has at most the permitted
  number of bytes, and the URL it reports as final passed the guard.
\<close>

theorem httpFetch_success_bounded:
  "case httpFetch pf guard net req t0 now s of
     (Inr (FetchSuccess r), s') \<Rightarrow> success_ok (maxBytes (limits_of req)) r \<and> passes guard (finalUrl r)
   | _ \<Rightarrow> True"
proof -
  obtain x s' where h: "httpFetch pf guard net req t0 now s = (x, s')" by fastforce
  then show ?thesis
    by (auto simp: httpFetch_def dest: http_loop_success split: sum.splits fetch_outcome.splits)
qed

end
