(* ===== verification/Api_Http.thy ===== *)
theory Api_Http
  imports Db_Admin Http_Fetch
begin

text \<open>
  What the routes of the management API share: its errors (src/api/errors.ts), the request body,
  pagination and validation (src/api/http.ts). The texts of the messages are left out, an error is its
  status and its code. A response has a JSON body, or a text that is passed through from the store.
\<close>

section \<open>Errors and responses\<close>

record api_error =
  ae_status :: nat
  ae_code :: string

text \<open>What a handler throws: an error of the API, or anything else.\<close>

datatype raised = Api api_error | Unexpected thrown

definition api_raise :: "nat \<Rightarrow> string \<Rightarrow> raised" where
  "api_raise st c = Api \<lparr>ae_status = st, ae_code = c\<rparr>"

definition badRequest :: "string \<Rightarrow> raised" where "badRequest c = api_raise 400 c"

definition notFound :: "string \<Rightarrow> raised" where "notFound c = api_raise 404 c"

definition conflict :: "string \<Rightarrow> raised" where "conflict c = api_raise 409 c"

definition serviceUnavailable :: "string \<Rightarrow> raised" where "serviceUnavailable c = api_raise 503 c"

definition forbidden :: "string \<Rightarrow> raised" where "forbidden c = api_raise 403 c"

definition payloadTooLarge :: "string \<Rightarrow> raised" where "payloadTooLarge c = api_raise 413 c"

datatype api_body = Json json | Plain string | Empty

record response =
  res_status :: nat
  res_headers :: http_headers
  res_body :: api_body

definition json_response :: "nat \<Rightarrow> json \<Rightarrow> response" where
  "json_response st v = \<lparr>res_status = st, res_headers = [], res_body = Json v\<rparr>"

definition error_body :: "string \<Rightarrow> json" where
  "error_body c = JObj [(''error'', JObj [(''code'', JStr c)])]"

text \<open>A handler changes the state also when it throws.\<close>

type_synonym 's handler = "'s \<Rightarrow> (raised + response) \<times> 's"

definition onError :: "raised \<Rightarrow> response" where
  "onError e =
     (case e of
        Api a \<Rightarrow> json_response (ae_status a) (error_body (ae_code a))
      | Unexpected t \<Rightarrow> json_response 500 (error_body ''internal_error''))"

definition finish_request :: "'s handler \<Rightarrow> 's \<Rightarrow> response \<times> 's" where
  "finish_request h w = (case h w of (Inl e, w1) \<Rightarrow> (onError e, w1) | (Inr res, w1) \<Rightarrow> (res, w1))"

definition methodNotAllowed :: response where
  "methodNotAllowed = json_response 405 (error_body ''method_not_allowed'')"

section \<open>Requests\<close>

text \<open>
  \<open>rq_header\<close> looks a header up by its lower case name, \<open>rq_query\<close> a query parameter; the body comes in chunks.
\<close>

record request =
  rq_method :: string
  rq_path :: string
  rq_header :: "string \<Rightarrow> string option"
  rq_query :: "string \<Rightarrow> string option"
  rq_chunks :: "string list"

definition rq_text :: "request \<Rightarrow> string" where
  "rq_text rq = concat (rq_chunks rq)"

text \<open>
  \<open>JSON.parse\<close> and \<open>Number\<close> (\<^const>\<open>None\<close> when the result is not a finite number) are arguments.
\<close>

definition readJsonBody :: "(string \<Rightarrow> json option) \<Rightarrow> request \<Rightarrow> raised + json" where
  "readJsonBody parse rq =
     (if js_trim (rq_text rq) = '''' then Inr (JObj [])
      else if \<not> str_includes (toLowerCase (orElse (rq_header rq ''content-type'') '''')) ''application/json''
      then Inl (badRequest ''invalid_content_type'')
      else (case parse (rq_text rq) of
              None \<Rightarrow> Inl (badRequest ''invalid_json'')
            | Some v \<Rightarrow> Inr v))"

text \<open>
  A schema is checked in two steps: \<open>shape\<close> is the package's check of types, enumerations and unknown
  keys with the value it infers, \<open>ok\<close> the bounds and patterns the schema declares.
\<close>

definition parseWith :: "(json \<Rightarrow> 'b option) \<Rightarrow> ('b \<Rightarrow> bool) \<Rightarrow> json \<Rightarrow> raised + 'b" where
  "parseWith shape ok v =
     (case shape v of
        None \<Rightarrow> Inl (badRequest ''validation_error'')
      | Some b \<Rightarrow> if ok b then Inr b else Inl (badRequest ''validation_error''))"

definition read_body ::
  "(string \<Rightarrow> json option) \<Rightarrow> (json \<Rightarrow> 'b option) \<Rightarrow> ('b \<Rightarrow> bool) \<Rightarrow> request \<Rightarrow> raised + 'b" where
  "read_body parse shape ok rq =
     (case readJsonBody parse rq of Inl e \<Rightarrow> Inl e | Inr v \<Rightarrow> parseWith shape ok v)"

lemma read_body_ok: "read_body parse shape ok rq = Inr b \<Longrightarrow> ok b"
  by (auto simp: read_body_def parseWith_def split: sum.splits option.splits if_splits)

section \<open>Steps of a handler\<close>

text \<open>
  A handler is a sequence of steps on the state; the left side of a result is what was thrown, after
  which the rest is not run.
\<close>

type_synonym ('a, 's) step = "'s \<Rightarrow> (raised + 'a) \<times> 's"

definition chain :: "('a, 's) step \<Rightarrow> ('a \<Rightarrow> ('b, 's) step) \<Rightarrow> ('b, 's) step" where
  "chain m f s = (case m s of (Inl e, s1) \<Rightarrow> (Inl e, s1) | (Inr a, s1) \<Rightarrow> f a s1)"

definition gives :: "'a \<Rightarrow> ('a, 's) step" where "gives a s = (Inr a, s)"

definition raises :: "raised \<Rightarrow> ('a, 's) step" where "raises e s = (Inl e, s)"

definition checked :: "raised + 'a \<Rightarrow> ('a, 's) step" where "checked r s = (r, s)"

definition require :: "('s \<Rightarrow> 'a option) \<Rightarrow> raised \<Rightarrow> ('a, 's) step" where
  "require f e s = (case f s of None \<Rightarrow> (Inl e, s) | Some v \<Rightarrow> (Inr v, s))"

definition reject_if :: "('s \<Rightarrow> bool) \<Rightarrow> raised \<Rightarrow> (unit, 's) step" where
  "reject_if b e s = (if b s then (Inl e, s) else (Inr (), s))"

definition reads :: "('s \<Rightarrow> 'a) \<Rightarrow> ('a, 's) step" where "reads f s = (Inr (f s), s)"

definition runs :: "('s \<Rightarrow> 'a \<times> 's) \<Rightarrow> ('a, 's) step" where
  "runs f s = (case f s of (a, s1) \<Rightarrow> (Inr a, s1))"

text \<open>A call whose exception is none of the API's own.\<close>

definition calls :: "('s \<Rightarrow> (thrown + 'a) \<times> 's) \<Rightarrow> ('a, 's) step" where
  "calls f s = (case f s of (Inl e, s1) \<Rightarrow> (Inl (Unexpected e), s1) | (Inr a, s1) \<Rightarrow> (Inr a, s1))"

text \<open>
  \<open>wp I m Q s\<close>: from \<open>s\<close>, the step ends in \<open>I\<close> when it throws and in \<open>Q\<close> of its result otherwise.
\<close>

definition wp :: "('s \<Rightarrow> bool) \<Rightarrow> ('a, 's) step \<Rightarrow> ('a \<Rightarrow> 's \<Rightarrow> bool) \<Rightarrow> 's \<Rightarrow> bool" where
  "wp I m Q s = (case m s of (Inl e, s1) \<Rightarrow> I s1 | (Inr a, s1) \<Rightarrow> Q a s1)"

lemma wp_chain: "wp I (chain m f) Q s = wp I m (\<lambda>a. wp I (f a) Q) s"
  by (auto simp: wp_def chain_def split: prod.split sum.split)

lemma wp_gives: "wp I (gives x) Q = Q x"
  by (simp add: wp_def gives_def fun_eq_iff)

lemma wp_raises: "wp I (raises e) Q s = I s"
  and wp_checked: "wp I (checked r) Q s = (case r of Inl e \<Rightarrow> I s | Inr a \<Rightarrow> Q a s)"
  and wp_require: "wp I (require g e) Q s = (case g s of None \<Rightarrow> I s | Some a \<Rightarrow> Q a s)"
  and wp_reads: "wp I (reads h) Q s = Q (h s) s"
  by (auto simp: wp_def raises_def checked_def require_def reads_def split: sum.split option.split)

lemma wp_reject_if: "wp I (reject_if b e) Q s = (if b s then I s else Q () s)"
  by (simp add: wp_def reject_if_def)

lemmas wp_steps = wp_chain wp_gives wp_raises wp_checked wp_require wp_reads wp_reject_if

lemma wp_runs: "wp I (runs f) Q s = (case f s of (a, s1) \<Rightarrow> Q a s1)"
  by (simp add: wp_def runs_def split: prod.split)

lemma wp_calls: "wp I (calls f) Q s = (case f s of (Inl e, s1) \<Rightarrow> I s1 | (Inr a, s1) \<Rightarrow> Q a s1)"
  by (auto simp: wp_def calls_def split: prod.split sum.split)

text \<open>A handler that keeps a property of the state, whether it answers or throws.\<close>

definition keeps_inv :: "('s \<Rightarrow> bool) \<Rightarrow> ('a, 's) step \<Rightarrow> bool" where
  "keeps_inv I m \<longleftrightarrow> (\<forall>s. I s \<longrightarrow> wp I m (\<lambda>a. I) s)"

lemma keeps_invD: "keeps_inv I m \<Longrightarrow> I s \<Longrightarrow> I (snd (m s))"
  by (cases "m s") (auto simp: keeps_inv_def wp_def split: sum.splits dest: spec [of _ s])

lemma finish_keeps: "keeps_inv I h \<Longrightarrow> I s \<Longrightarrow> I (snd (finish_request h s))"
  using keeps_invD [of I h s] by (auto simp: finish_request_def split: prod.split sum.split)

section \<open>Pagination\<close>

record pagination =
  pg_limit :: nat
  pg_offset :: nat

definition DEFAULT_LIMIT :: nat where "DEFAULT_LIMIT = 50"

definition MAX_LIMIT :: nat where "MAX_LIMIT = 500"

definition whole_number :: "(string \<Rightarrow> rat option) \<Rightarrow> string \<Rightarrow> raised + nat" where
  "whole_number toNumber t =
     (case toNumber t of
        None \<Rightarrow> Inl (badRequest ''invalid_pagination'')
      | Some r \<Rightarrow>
          if of_int \<lfloor>r\<rfloor> \<noteq> r \<or> r < 0 then Inl (badRequest ''invalid_pagination'') else Inr (nat \<lfloor>r\<rfloor>))"

definition parsePagination :: "(string \<Rightarrow> rat option) \<Rightarrow> request \<Rightarrow> raised + pagination" where
  "parsePagination toNumber rq =
     (case (case rq_query rq ''limit'' of
              None \<Rightarrow> Inr DEFAULT_LIMIT
            | Some t \<Rightarrow> (case whole_number toNumber t of Inl e \<Rightarrow> Inl e | Inr n \<Rightarrow> Inr (min n MAX_LIMIT))) of
        Inl e \<Rightarrow> Inl e
      | Inr limit \<Rightarrow>
          (case (case rq_query rq ''offset'' of None \<Rightarrow> Inr 0 | Some t \<Rightarrow> whole_number toNumber t) of
             Inl e \<Rightarrow> Inl e
           | Inr offset \<Rightarrow> Inr \<lparr>pg_limit = limit, pg_offset = offset\<rparr>))"

definition paginate :: "'a list \<Rightarrow> pagination \<Rightarrow> 'a list" where
  "paginate items p = take (pg_limit p) (drop (pg_offset p) items)"

text \<open>The window the statements of src/db take.\<close>

definition window_of :: "pagination \<Rightarrow> (nat \<times> nat) option" where
  "window_of p = Some (pg_limit p, pg_offset p)"

lemma page_length: "parsePagination toNumber rq = Inr p \<Longrightarrow> length (paginate items p) \<le> 500"
  by (auto simp: parsePagination_def paginate_def DEFAULT_LIMIT_def MAX_LIMIT_def split: option.splits sum.splits)

lemma wp_keeps:
  assumes "keeps_inv I m" "I s" "\<And>a s1. I s1 \<Longrightarrow> Q a s1"
  shows "wp I m Q s"
  using assms by (auto simp: keeps_inv_def wp_def split: prod.splits sum.splits)

lemma wp_same: "wp I m (\<lambda>a. I) s = I (snd (m s))"
  by (simp add: wp_def split: prod.split sum.split)

lemma keeps_inv_iff: "keeps_inv I m \<longleftrightarrow> (\<forall>s. I s \<longrightarrow> I (snd (m s)))"
  by (simp add: keeps_inv_def wp_same)

end
