(* ===== verification/Crawler.thy ===== *)
theory Crawler
  imports Prelude
begin

text \<open>
  The job broker of pull executors (src/do/crawlerObject.ts): its tables, the promises and timers
  it keeps in memory, and one definition per stretch of code between two awaits. The clock, the
  identifiers, the random tokens and SHA-256 are arguments. Two lists of history, which the code
  does not keep, record the leases handed out and the waiters that were answered.
\<close>

section \<open>State\<close>

definition RUNNER_ALIVE_WINDOW_MS :: ms where "RUNNER_ALIVE_WINDOW_MS = 60000"
definition LEASE_WAIT_MS :: ms where "LEASE_WAIT_MS = 10000"
definition RESULT_WAIT_MS :: ms where "RESULT_WAIT_MS = 40000"
definition TERMINAL_RETENTION_MS :: ms where "TERMINAL_RETENTION_MS = 60 * 60000"
definition RUNNER_RETENTION_MS :: ms where "RUNNER_RETENTION_MS = 24 * 60 * 60000"
definition STATS_WINDOW_MS :: ms where "STATS_WINDOW_MS = 60 * 60000"
definition MAX_RUNNER_ROWS :: nat where "MAX_RUNNER_ROWS = 32"

datatype unavailable_reason = Runner_offline | Maintenance | Lease_timeout | Result_timeout

record runner_response =
  rs_status :: int
  rs_url :: string
  rs_contentType :: "string option"
  rs_headers :: "(string \<times> string) list"
  rs_body :: string
  rs_truncated :: bool
  rs_durationMs :: ms

datatype runner_result = RunnerResponse runner_response | RunnerError failure_class string

datatype submit_outcome = Result runner_result | Unavailable unavailable_reason

record job_request =
  rq_url :: string
  rq_maxBytes :: nat
  rq_headers :: "(string \<times> string) list"

record submit_limits =
  aliveWindowMs :: "ms option"
  leaseWaitMs :: "ms option"
  resultWaitMs :: "ms option"

datatype job_state = Queued | Leased | Completed | Expired

record job_row =
  job_id :: string
  fetch_mode :: string
  payload :: job_request
  state :: job_state
  token_hash :: "string option"
  runner_id :: "string option"
  created_at :: ms
  queue_deadline :: ms
  result_wait_ms :: ms
  lease_deadline :: "ms option"
  terminal_at :: "ms option"

record runner_row =
  rn_id :: string
  last_seen :: ms
  version :: string
  fetch_modes :: "string list"
  concurrency :: int
  inflight :: int
  offline :: bool

datatype crawler_event = Ev_completed | Ev_expired | Ev_rejected

datatype complete_outcome =
  Accepted | Duplicate | Lease_mismatch | Lease_expired | Job_not_found | Payload_too_large

record crawler =
  jobs :: "job_row list"
  runners :: "runner_row list"
  events :: "(ms \<times> crawler_event) list"
  meta_online :: "bool option"
  waiters :: "string list"
  queueTimers :: "string list"
  resultTimers :: "string list"
  alarm_at :: "ms option"
  issued :: "(string \<times> string) list"
  resolved :: "(string \<times> submit_outcome) list"

definition crawler_start :: crawler where
  "crawler_start = \<lparr>jobs = [], runners = [], events = [], meta_online = None, waiters = [],
     queueTimers = [], resultTimers = [], alarm_at = None, issued = [], resolved = []\<rparr>"

section \<open>Runners\<close>

record runner_info =
  ri_runnerId :: string
  ri_version :: "string option"
  ri_fetchModes :: "string list"
  ri_concurrency :: "int option"
  ri_inflight :: "int option"

definition recordEvent :: "crawler_event \<Rightarrow> ms \<Rightarrow> crawler \<Rightarrow> crawler" where
  "recordEvent kind now s = s\<lparr>events := events s @ [(now, kind)]\<rparr>"

definition liveRunners :: "ms \<Rightarrow> ms \<Rightarrow> crawler \<Rightarrow> runner_row list" where
  "liveRunners now window s = filter (\<lambda>r. last_seen r \<ge> now - window \<and> \<not> offline r) (runners s)"

definition checkTransition :: "ms \<Rightarrow> crawler \<Rightarrow> crawler" where
  "checkTransition now s =
     (let online = (liveRunners now RUNNER_ALIVE_WINDOW_MS s \<noteq> [])
      in if meta_online s = Some online then s else s\<lparr>meta_online := Some online\<rparr>)"

definition new_runner :: "runner_info \<Rightarrow> ms \<Rightarrow> runner_row" where
  "new_runner info now = \<lparr>rn_id = ri_runnerId info, last_seen = now, version = orElse (ri_version info) '''',
     fetch_modes = ri_fetchModes info, concurrency = orElse (ri_concurrency info) 1,
     inflight = orElse (ri_inflight info) 0, offline = False\<rparr>"

definition seen_runner :: "runner_info \<Rightarrow> ms \<Rightarrow> runner_row \<Rightarrow> runner_row" where
  "seen_runner info now r = r\<lparr>last_seen := now, offline := False, fetch_modes := ri_fetchModes info,
     version := orElse (ri_version info) (version r),
     concurrency := orElse (ri_concurrency info) (concurrency r),
     inflight := orElse (ri_inflight info) (inflight r)\<rparr>"

definition touchRunner :: "runner_info \<Rightarrow> ms \<Rightarrow> crawler \<Rightarrow> crawler" where
  "touchRunner info now s =
     (let P = (\<lambda>r. rn_id r = ri_runnerId info);
          rs = (if list_ex P (runners s) then update_where P (seen_runner info now) (runners s)
                else runners s @ [new_runner info now]);
          surplus = map rn_id (drop MAX_RUNNER_ROWS (order_desc last_seen rs))
      in checkTransition now (s\<lparr>runners := filter (\<lambda>r. rn_id r \<notin> set surplus) rs\<rparr>))"

section \<open>The alarm time\<close>

definition min_of :: "ms list \<Rightarrow> ms option" where
  "min_of ts = (if ts = [] then None else Some (Min (set ts)))"

definition alarm_candidates :: "crawler \<Rightarrow> ms list" where
  "alarm_candidates s =
     List.map_filter id
       [min_of (map queue_deadline (filter (\<lambda>j. state j = Queued) (jobs s))),
        min_of (List.map_filter lease_deadline (filter (\<lambda>j. state j = Leased) (jobs s))),
        map_option (\<lambda>t. t + TERMINAL_RETENTION_MS) (min_of (List.map_filter terminal_at (jobs s))),
        map_option (\<lambda>t. t + RUNNER_RETENTION_MS) (min_of (map last_seen (runners s))),
        (if runners s \<noteq> [] \<and> meta_online s = Some True
         then Some (Max (set (map last_seen (runners s))) + RUNNER_ALIVE_WINDOW_MS + 1) else None)]"

definition scheduleAlarm :: "ms \<Rightarrow> crawler \<Rightarrow> crawler" where
  "scheduleAlarm now s =
     (case min_of (alarm_candidates s) of
        None \<Rightarrow> s\<lparr>alarm_at := None\<rparr>
      | Some t \<Rightarrow> s\<lparr>alarm_at := Some (max t (now + 1000))\<rparr>)"

section \<open>Waiters, timers and expiry\<close>

definition set_job :: "string \<Rightarrow> (job_row \<Rightarrow> job_row) \<Rightarrow> crawler \<Rightarrow> crawler" where
  "set_job i f s = s\<lparr>jobs := update_where (\<lambda>j. job_id j = i) f (jobs s)\<rparr>"

definition find_job :: "crawler \<Rightarrow> string \<Rightarrow> job_row option" where
  "find_job s i = find (\<lambda>j. job_id j = i) (jobs s)"

definition clearTimers :: "string \<Rightarrow> crawler \<Rightarrow> crawler" where
  "clearTimers i s = s\<lparr>queueTimers := removeAll i (queueTimers s), resultTimers := removeAll i (resultTimers s)\<rparr>"

definition resolveWaiter :: "string \<Rightarrow> submit_outcome \<Rightarrow> crawler \<Rightarrow> crawler" where
  "resolveWaiter i out s =
     (if i \<notin> set (waiters s) then s
      else s\<lparr>waiters := removeAll i (waiters s), resolved := resolved s @ [(i, out)]\<rparr>)"

datatype expire_stage = Stage_lease | Stage_result

definition from_state :: "expire_stage \<Rightarrow> job_state" where
  "from_state stage = (case stage of Stage_lease \<Rightarrow> Queued | Stage_result \<Rightarrow> Leased)"

definition mark_offline :: "ms \<Rightarrow> string option \<Rightarrow> crawler \<Rightarrow> crawler" where
  "mark_offline now rid s =
     (case rid of
        None \<Rightarrow> s
      | Some r \<Rightarrow> if r = '''' then s else
          checkTransition now
            (s\<lparr>runners := update_where (\<lambda>x. rn_id x = r) (\<lambda>x. x\<lparr>offline := True\<rparr>) (runners s)\<rparr>))"

definition expireJob :: "ms \<Rightarrow> expire_stage \<Rightarrow> string \<Rightarrow> crawler \<Rightarrow> crawler" where
  "expireJob now stage i s =
     (case find_job s i of
        None \<Rightarrow> s
      | Some row \<Rightarrow>
          if state row \<noteq> from_state stage then s
          else let s1 = set_job i (\<lambda>j. j\<lparr>state := Expired, terminal_at := Some now\<rparr>) s;
                   s2 = recordEvent Ev_expired now (clearTimers i s1);
                   s3 = (if stage = Stage_result then mark_offline now (runner_id row) s2 else s2);
                   s4 = resolveWaiter i (Unavailable (if stage = Stage_lease then Lease_timeout
                                                      else Result_timeout)) s3
               in scheduleAlarm now s4)"

section \<open>Submitting a job\<close>

text \<open>
  The part of \<open>submitAndWait\<close> after the maintenance flag was read: an immediate answer, or the job
  and its promise. A second job with the same id violates the primary key.
\<close>

definition submit ::
  "bool \<Rightarrow> ms \<Rightarrow> string \<Rightarrow> string \<Rightarrow> job_request \<Rightarrow> submit_limits \<Rightarrow> crawler \<Rightarrow>
   crawler \<times> (js_error + submit_outcome option)" where
  "submit maintenance now i mode request limits s =
     (if maintenance then (s, Inr (Some (Unavailable Maintenance)))
      else if \<not> list_ex (\<lambda>r. mode \<in> set (fetch_modes r))
                (liveRunners now (orElse (aliveWindowMs limits) RUNNER_ALIVE_WINDOW_MS) s)
      then (s, Inr (Some (Unavailable Runner_offline)))
      else if find_job s i \<noteq> None then (s, Inl (JsError ''UNIQUE constraint failed: jobs.job_id''))
      else let lease_wait = orElse (leaseWaitMs limits) LEASE_WAIT_MS;
               j = \<lparr>job_id = i, fetch_mode = mode, payload = request, state = Queued, token_hash = None,
                    runner_id = None, created_at = now, queue_deadline = now + lease_wait,
                    result_wait_ms = orElse (resultWaitMs limits) RESULT_WAIT_MS,
                    lease_deadline = None, terminal_at = None\<rparr>
           in (scheduleAlarm now
                 (s\<lparr>jobs := jobs s @ [j], waiters := i # waiters s, queueTimers := i # queueTimers s\<rparr>),
               Inr None))"

section \<open>Leasing\<close>

definition claim_candidates :: "nat \<Rightarrow> string list \<Rightarrow> crawler \<Rightarrow> job_row list" where
  "claim_candidates maxJobs modes s =
     take maxJobs (filter (\<lambda>j. job_id j \<in> set (waiters s))
       (sort_key created_at (filter (\<lambda>j. state j = Queued \<and> fetch_mode j \<in> set modes) (jobs s))))"

definition claim_one :: "ms \<Rightarrow> string \<Rightarrow> job_row \<times> string \<Rightarrow> crawler \<Rightarrow> crawler" where
  "claim_one now rid jt s =
     (case jt of (row, token) \<Rightarrow>
        s\<lparr>jobs := update_where (\<lambda>j. job_id j = job_id row \<and> state j = Queued)
             (\<lambda>j. j\<lparr>state := Leased, runner_id := Some rid,
                   lease_deadline := Some (now + result_wait_ms row)\<rparr>) (jobs s),
          queueTimers := removeAll (job_id row) (queueTimers s),
          resultTimers := job_id row # resultTimers s,
          issued := issued s @ [(job_id row, token)]\<rparr>)"

text \<open>
  The synchronous half of \<open>claim\<close>: the jobs that become leased, each with a fresh token. The
  second half stores the hashes of the tokens; the tokens leave the object after it.
\<close>

definition claim_jobs ::
  "ms \<Rightarrow> string \<Rightarrow> nat \<Rightarrow> string list \<Rightarrow> (nat \<Rightarrow> string) \<Rightarrow> crawler \<Rightarrow> crawler \<times> (job_row \<times> string) list" where
  "claim_jobs now rid maxJobs modes newToken s =
     (if modes = [] then (s, [])
      else let cs = claim_candidates maxJobs modes s;
               claimed = zip cs (map newToken [0..<length cs])
           in (foldl (\<lambda>acc c. claim_one now rid c acc) s claimed, claimed))"

definition store_hashes ::
  "(string \<Rightarrow> string) \<Rightarrow> ms \<Rightarrow> (job_row \<times> string) list \<Rightarrow> crawler \<Rightarrow> crawler" where
  "store_hashes sha256Hex now claimed s =
     (let s' = foldl (\<lambda>acc (row, token). set_job (job_id row) (\<lambda>j. j\<lparr>token_hash := Some (sha256Hex token)\<rparr>) acc)
                 s claimed
      in if claimed \<noteq> [] then scheduleAlarm now s' else s')"

section \<open>Completing\<close>

definition maxBase64Length :: "nat \<Rightarrow> nat" where
  "maxBase64Length maxBytes = ((maxBytes + 2) div 3) * 4"

definition too_large_result :: "job_request \<Rightarrow> runner_result \<Rightarrow> bool" where
  "too_large_result rq r =
     (case r of RunnerResponse x \<Rightarrow> length (rs_body x) > maxBase64Length (rq_maxBytes rq)
      | RunnerError _ _ \<Rightarrow> False)"

definition complete ::
  "(string \<Rightarrow> string) \<Rightarrow> ms \<Rightarrow> string \<Rightarrow> string \<Rightarrow> runner_result \<Rightarrow> crawler \<Rightarrow> crawler \<times> complete_outcome" where
  "complete sha256Hex now i leaseToken result s =
     (case find_job s i of
        None \<Rightarrow> (s, Job_not_found)
      | Some row \<Rightarrow>
          if token_hash row = None \<or> token_hash row \<noteq> Some (sha256Hex leaseToken)
          then (recordEvent Ev_rejected now s, Lease_mismatch)
          else if state row = Completed then (s, Duplicate)
          else if state row \<noteq> Leased then (recordEvent Ev_rejected now s, Lease_expired)
          else if too_large_result (payload row) result then (recordEvent Ev_rejected now s, Payload_too_large)
          else let s1 = set_job i (\<lambda>j. j\<lparr>state := Completed, terminal_at := Some now\<rparr>) s;
                   s2 = recordEvent Ev_completed now (clearTimers i s1);
                   s3 = resolveWaiter i (Result result) s2
               in (scheduleAlarm now s3, Accepted))"

section \<open>The alarm\<close>

definition alarm :: "ms \<Rightarrow> crawler \<Rightarrow> crawler" where
  "alarm now s =
     (let lateQueued = map job_id (filter (\<lambda>j. state j = Queued \<and> queue_deadline j \<le> now) (jobs s));
          s1 = foldl (\<lambda>acc i. expireJob now Stage_lease i acc) s lateQueued;
          lateLeased = map job_id (filter (\<lambda>j. state j = Leased \<and>
                         (case lease_deadline j of None \<Rightarrow> False | Some t \<Rightarrow> t \<le> now)) (jobs s1));
          s2 = foldl (\<lambda>acc i. expireJob now Stage_result i acc) s1 lateLeased;
          s3 = s2\<lparr>jobs := filter (\<lambda>j. \<not> (case terminal_at j of None \<Rightarrow> False
                                        | Some t \<Rightarrow> t \<le> now - TERMINAL_RETENTION_MS)) (jobs s2),
                  runners := filter (\<lambda>r. \<not> last_seen r \<le> now - RUNNER_RETENTION_MS) (runners s2),
                  events := filter (\<lambda>e. \<not> fst e < now - STATS_WINDOW_MS) (events s2)\<rparr>
      in scheduleAlarm now (checkTransition now s3))"

text \<open>A reset of the object keeps the tables and the alarm and forgets what is in memory.\<close>

definition reset :: "crawler \<Rightarrow> crawler" where
  "reset s = s\<lparr>waiters := [], queueTimers := [], resultTimers := []\<rparr>"

section \<open>Status\<close>

record crawler_status =
  cs_online :: bool
  cs_lastHeartbeat :: "ms option"
  cs_queued :: nat
  cs_completed :: nat
  cs_expired :: nat
  cs_rejected :: nat

definition count_events :: "ms \<Rightarrow> crawler_event \<Rightarrow> crawler \<Rightarrow> nat" where
  "count_events now kind s = length (filter (\<lambda>e. fst e \<ge> now - STATS_WINDOW_MS \<and> snd e = kind) (events s))"

definition crawlerStatus :: "ms \<Rightarrow> crawler \<Rightarrow> crawler_status" where
  "crawlerStatus now s =
     (let lastSeen = fold (\<lambda>r m. max m (last_seen r)) (runners s) 0
      in \<lparr>cs_online = list_ex (\<lambda>r. \<not> offline r \<and> last_seen r \<ge> now - RUNNER_ALIVE_WINDOW_MS) (runners s),
          cs_lastHeartbeat = (if lastSeen > 0 then Some lastSeen else None),
          cs_queued = length (filter (\<lambda>j. state j = Queued) (jobs s)),
          cs_completed = count_events now Ev_completed s,
          cs_expired = count_events now Ev_expired s,
          cs_rejected = count_events now Ev_rejected s\<rparr>)"

section \<open>Runs of the object\<close>

text \<open>
  One step per stretch of code that runs without an await. A job id is \<open>crypto.randomUUID()\<close> and
  was never used before; \<open>used\<close> is the set of the ids so far. The hashes of a claim are stored by
  a later step: other steps may come between.
\<close>

inductive crawler_step :: "(string \<Rightarrow> string) \<Rightarrow> crawler \<times> string set \<Rightarrow> crawler \<times> string set \<Rightarrow> bool"
  for sha :: "string \<Rightarrow> string" where
  step_submit: "i \<notin> used \<Longrightarrow> submit maint now i mode rq limits s = (s', r) \<Longrightarrow>
     crawler_step sha (s, used) (s', insert i used)"
| step_touch: "crawler_step sha (s, used) (touchRunner info now s, used)"
| step_heartbeat: "crawler_step sha (s, used) (scheduleAlarm now (touchRunner info now s), used)"
| step_claim: "claim_jobs now rid n modes newToken s = (s', claimed) \<Longrightarrow> crawler_step sha (s, used) (s', used)"
| step_hashes: "set (map (\<lambda>(row, token). (job_id row, token)) claimed) \<subseteq> set (issued s) \<Longrightarrow>
     crawler_step sha (s, used) (store_hashes sha now claimed s, used)"
| step_queue_timer: "i \<in> set (queueTimers s) \<Longrightarrow> crawler_step sha (s, used) (expireJob now Stage_lease i s, used)"
| step_result_timer: "i \<in> set (resultTimers s) \<Longrightarrow> crawler_step sha (s, used) (expireJob now Stage_result i s, used)"
| step_complete: "complete sha now i tok result s = (s', out) \<Longrightarrow> crawler_step sha (s, used) (s', used)"
| step_alarm: "crawler_step sha (s, used) (alarm now s, used)"
| step_reset: "crawler_step sha (s, used) (reset s, used)"

inductive crawler_run :: "(string \<Rightarrow> string) \<Rightarrow> crawler \<times> string set \<Rightarrow> bool"
  for sha :: "string \<Rightarrow> string" where
  run_start: "crawler_run sha (crawler_start, {})"
| run_step: "crawler_run sha x \<Longrightarrow> crawler_step sha x y \<Longrightarrow> crawler_run sha y"

end
