(* ===== verification/Fetchers.thy ===== *)
theory Fetchers
  imports Http_Fetch Fetch_Policy Crawler Db_Store
begin

text \<open>
  The fetcher implementations and their registry (src/fetch/gcpHttp.ts, homeHttp.ts,
  registry.ts) and the fetch of one target through the fetcher policy (src/pipeline/fetchTarget.ts).
  Parsed JSON is a \<^term>\<open>json\<close> value; \<open>JSON.parse\<close>, \<open>JSON.stringify\<close>, the signing of the executor
  token and the calls of the executors are arguments.
\<close>

section \<open>JSON values\<close>

text \<open>A property of a parsed object; \<^const>\<open>None\<close> is \<open>undefined\<close>.\<close>

fun field :: "string \<Rightarrow> json \<Rightarrow> json option" where
  "field k (JObj kvs) = map_of kvs k"
| "field k _ = None"

fun str_field :: "json option \<Rightarrow> string option" where
  "str_field (Some (JStr s)) = Some s"
| "str_field _ = None"

fun int_field :: "json option \<Rightarrow> int option" where
  "int_field (Some (JNum q)) = (if q = of_int \<lfloor>q\<rfloor> then Some \<lfloor>q\<rfloor> else None)"
| "int_field _ = None"

fun bool_field :: "json option \<Rightarrow> bool option" where
  "bool_field (Some (JBool b)) = Some b"
| "bool_field _ = None"

fun obj_field :: "json option \<Rightarrow> (string \<times> json) list option" where
  "obj_field (Some (JObj kvs)) = Some kvs"
| "obj_field _ = None"

definition isRecord :: "json \<Rightarrow> bool" where
  "isRecord v \<longleftrightarrow> obj_field (Some v) \<noteq> None"

section \<open>Answers of an executor (src/fetch/gcpHttp.ts)\<close>

fun class_name :: "failure_class \<Rightarrow> string" where
  "class_name Network_error = ''network_error''"
| "class_name Timeout = ''timeout''"
| "class_name Http_5xx = ''http_5xx''"
| "class_name Http_429 = ''http_429''"
| "class_name Http_403 = ''http_403''"
| "class_name Not_found = ''not_found''"
| "class_name Auth_required = ''auth_required''"
| "class_name Blocked_by_robots = ''blocked_by_robots''"
| "class_name Ssrf_blocked = ''ssrf_blocked''"
| "class_name Too_large = ''too_large''"
| "class_name Captcha_challenge = ''captcha_challenge''"
| "class_name Invalid_content_type = ''invalid_content_type''"
| "class_name Parse_error = ''parse_error''"
| "class_name Internal_error = ''internal_error''"
| "class_name Executor_unavailable = ''executor_unavailable''"

definition EXECUTOR_FAILURE_CLASSES :: "failure_class list" where
  "EXECUTOR_FAILURE_CLASSES = [Ssrf_blocked, Timeout, Network_error, Too_large]"

definition executor_class :: "string \<Rightarrow> failure_class option" where
  "executor_class name = find (\<lambda>c. class_name c = name) EXECUTOR_FAILURE_CLASSES"

record executor_names =
  label :: string
  prefix :: string

definition synthetic_headers :: "platform \<Rightarrow> (string \<times> json) list \<Rightarrow> http_headers" where
  "synthetic_headers pf kvs =
     foldl (\<lambda>hs (k, v). case str_field (Some v) of
              None \<Rightarrow> hs
            | Some text \<Rightarrow> (case set_header pf k text hs of Inl _ \<Rightarrow> hs | Inr hs' \<Rightarrow> hs')) [] kvs"

definition plain_request :: "string \<Rightarrow> string \<Rightarrow> fetch_request" where
  "plain_request url ua =
     \<lparr>fr_url = url, fr_userAgent = ua, fr_headers = None, fr_etag = None, fr_lastModified = None,
      fr_maxBytes = None, fr_maxRedirects = None, fr_totalTimeoutMs = None, allowedContentTypes = None\<rparr>"

definition executor_error :: "json \<Rightarrow> executor_names \<Rightarrow> fetch_outcome" where
  "executor_error p names =
     (let cls = orElse (str_field (field ''failureClass'' p)) '''';
          msg = orElse (str_field (field ''message'' p)) (label names @ '' reported a failure'')
      in case executor_class cls of
           None \<Rightarrow> failure Internal_error None (label names @ '' returned unknown failure class: '' @ cls) None
         | Some c \<Rightarrow> failure c None (prefix names @ '': '' @ msg) None)"

definition null_body_status :: "int \<Rightarrow> bool" where
  "null_body_status st \<longleftrightarrow> st = 204 \<or> st = 205 \<or> st = 304"

definition executor_response ::
  "platform \<Rightarrow> int \<Rightarrow> string \<Rightarrow> (string \<times> json) list \<Rightarrow> string \<Rightarrow> bool \<Rightarrow> string \<Rightarrow> string \<Rightarrow> fetch_limits \<Rightarrow> ms \<Rightarrow> ms \<Rightarrow>
   executor_names \<Rightarrow> (string \<Rightarrow> ssrf_check_result) option \<Rightarrow> thrown + fetch_outcome" where
  "executor_response pf st url hs bodyBase64 truncated invUrl ua limits startedAt now names guard =
     (case guard_refusal guard url of
        Some g \<Rightarrow> Inr (failure Ssrf_blocked None
                   (''final url blocked by ssrf policy: '' @ orElse (ssrf_reason g) ''unknown'') None)
      | None \<Rightarrow>
          if truncated \<and> ((st \<ge> 200 \<and> st < 300) \<or> st = 403) then Inr (too_large st (maxBytes limits))
          else (case atob pf bodyBase64 of
                  None \<Rightarrow> Inr (failure Internal_error None (label names @ '' returned an invalid body encoding'') None)
                | Some body \<Rightarrow>
                    handleTerminalResponse pf
                      \<lparr>hr_status = st, hr_headers = synthetic_headers pf hs,
                       hr_body = (if null_body_status st \<or> body = [] then NoBody else Stream [body] None)\<rparr>
                      url (plain_request invUrl ua) limits startedAt now))"

definition outcomeFromExecutorPayload ::
  "platform \<Rightarrow> json \<Rightarrow> string \<Rightarrow> string \<Rightarrow> fetch_limits \<Rightarrow> ms \<Rightarrow> ms \<Rightarrow> executor_names \<Rightarrow>
   (string \<Rightarrow> ssrf_check_result) option \<Rightarrow> thrown + fetch_outcome" where
  "outcomeFromExecutorPayload pf p invUrl ua limits startedAt now names guard =
     (if field ''kind'' p = Some (JStr ''error'') then Inr (executor_error p names)
      else if field ''kind'' p \<noteq> Some (JStr ''response'')
      then Inr (failure Internal_error None (label names @ '' returned an unexpected payload'') None)
      else (case (int_field (field ''status'' p), str_field (field ''url'' p), obj_field (field ''headers'' p),
                  str_field (field ''body'' p), bool_field (field ''truncated'' p)) of
              (Some st, Some url, Some hs, Some body, Some truncated) \<Rightarrow>
                if st < 200 \<or> st > 599
                then Inr (failure Internal_error None (label names @ '' returned a malformed response'') None)
                else executor_response pf st url hs body truncated invUrl ua limits startedAt now names guard
            | _ \<Rightarrow> Inr (failure Internal_error None (label names @ '' returned a malformed response'') None)))"

section \<open>Invocations\<close>

record fetch_env =
  GCP_EXECUTOR_URL :: "string option"
  GCP_EXECUTOR_SIGNING_KEY :: "string option"

record invocation =
  inv_url :: string
  inv_userAgent :: string
  inv_etag :: "string option"
  inv_lastModified :: "string option"
  inv_headers :: "(string \<times> string) list option"
  inv_env :: fetch_env
  inv_urlGuard :: "string \<Rightarrow> ssrf_check_result"
  inv_submitLimits :: "submit_limits option"

text \<open>
  What the fetchers call: the network of the Worker, the POST of a signed JSON body, the signature,
  JSON text, and the job of the CrawlerObject (\<open>submitAndWait\<close>). The last two thread the same state.
\<close>

record 'n services =
  sv_net :: "'n network"
  sv_post :: "string \<Rightarrow> string \<Rightarrow> json \<Rightarrow> 'n \<Rightarrow> (thrown + http_response) \<times> 'n"
  sv_sign :: "string \<Rightarrow> json \<Rightarrow> thrown + string"
  sv_parseJson :: "string \<Rightarrow> json option"
  sv_submit :: "string \<Rightarrow> string \<Rightarrow> job_request \<Rightarrow> submit_limits \<Rightarrow> 'n \<Rightarrow> (thrown + submit_outcome) \<times> 'n"
  sv_resolve :: "string \<Rightarrow> string list option"
  sv_clock :: "'n \<Rightarrow> ms"
  sv_uuid :: "'n \<Rightarrow> string"

definition responseLimit :: "nat \<Rightarrow> nat" where
  "responseLimit m = (m * 4 + 2) div 3 + 16 * 1024"

text \<open>The argument of the message of an exception.\<close>

fun thrown_message :: "thrown \<Rightarrow> string" where
  "thrown_message (ErrorObject name msg) = msg"
| "thrown_message (OtherValue s) = s"

definition executor_request_headers :: "invocation \<Rightarrow> (string \<times> string) list" where
  "executor_request_headers iv =
     [(''user-agent'', inv_userAgent iv), (''accept-language'', DEFAULT_ACCEPT_LANGUAGE), (''referer'', inv_url iv)] @
     opt_header ''if-none-match'' (inv_etag iv) @ opt_header ''if-modified-since'' (inv_lastModified iv)"

definition gcp_failure :: "string \<Rightarrow> fetch_outcome" where
  "gcp_failure msg = failure Internal_error None msg None"

definition gcp_answer ::
  "platform \<Rightarrow> 'n services \<Rightarrow> invocation \<Rightarrow> ms \<Rightarrow> http_response \<Rightarrow> 'n \<Rightarrow> thrown + fetch_outcome" where
  "gcp_answer pf sv iv startedAt res s =
     (if hr_status res \<noteq> 200
      then Inr (if hr_status res \<in> {502, 503, 504}
                then failure Network_error None
                       (''gcp executor unavailable (status '' @ show_int (hr_status res) @ '')'') None
                else gcp_failure (''gcp executor rejected the request (status '' @ show_int (hr_status res) @ '')''))
      else (case readBodyWithLimit res (responseLimit (maxBytes DEFAULT_FETCH_LIMITS)) of
              Inl err \<Rightarrow> Inr (classifyNetworkError err)
            | Inr None \<Rightarrow> Inr (gcp_failure ''gcp executor response exceeded the expected size'')
            | Inr (Some body) \<Rightarrow>
                (case sv_parseJson sv (decodeText pf body) of
                   None \<Rightarrow> Inr (gcp_failure ''gcp executor returned invalid JSON'')
                 | Some p \<Rightarrow>
                     if \<not> isRecord p then Inr (gcp_failure ''gcp executor returned an unexpected payload'')
                     else outcomeFromExecutorPayload pf p (inv_url iv) (inv_userAgent iv) DEFAULT_FETCH_LIMITS
                            startedAt (sv_clock sv s) \<lparr>label = ''gcp executor'', prefix = ''gcp-http''\<rparr> None)))"

definition gcpHttpFetch ::
  "platform \<Rightarrow> 'n services \<Rightarrow> invocation \<Rightarrow> 'n \<Rightarrow> (thrown + fetch_outcome) \<times> 'n" where
  "gcpHttpFetch pf sv iv s =
     (let endpointRaw = js_trim (orElse (GCP_EXECUTOR_URL (inv_env iv)) '''');
          signingKey = js_trim (orElse (GCP_EXECUTOR_SIGNING_KEY (inv_env iv)) '''')
      in if endpointRaw = ''''
         then (Inr (gcp_failure ''gcp-http is not configured: GCP_EXECUTOR_URL is empty''), s)
         else if signingKey = ''''
         then (Inr (gcp_failure ''gcp-http is not configured: GCP_EXECUTOR_SIGNING_KEY is not set''), s)
         else (case newURL pf endpointRaw None of
                 None \<Rightarrow> (Inr (gcp_failure ''gcp-http is misconfigured: GCP_EXECUTOR_URL is not a valid URL''), s)
               | Some endpoint \<Rightarrow>
                   if protocol endpoint \<noteq> ''https:''
                   then (Inr (gcp_failure ''gcp-http is misconfigured: GCP_EXECUTOR_URL must be https''), s)
                   else if \<not> allowed (inv_urlGuard iv (inv_url iv))
                   then (Inr (blocked_outcome (inv_urlGuard iv (inv_url iv))), s)
                   else (let startedAt = sv_clock sv s;
                             body = JObj [(''url'', JStr (inv_url iv)),
                                          (''maxBytes'', JNum (of_nat (maxBytes DEFAULT_FETCH_LIMITS))),
                                          (''headers'', JObj (map (\<lambda>(k, v). (k, JStr v)) (executor_request_headers iv)))]
                         in case sv_sign sv signingKey body of
                              Inl err \<Rightarrow> (Inr (gcp_failure (''gcp-http failed to sign request: '' @ thrown_message err)), s)
                            | Inr token \<Rightarrow>
                                (case sv_post sv (href endpoint) token body s of
                                   (Inl err, s1) \<Rightarrow> (Inr (classifyNetworkError err), s1)
                                 | (Inr res, s1) \<Rightarrow> (gcp_answer pf sv iv startedAt res s1, s1)))))"

section \<open>The home runner (src/fetch/homeHttp.ts)\<close>

definition HOME_EXECUTOR_ID :: string where
  "HOME_EXECUTOR_ID = ''home''"

definition RUNNER_REQUEST_HEADERS :: "string list" where
  "RUNNER_REQUEST_HEADERS =
     [''user-agent'', ''accept'', ''accept-language'', ''referer'', ''if-none-match'', ''if-modified-since'']"

definition buildHeaders :: "invocation \<Rightarrow> (string \<times> string) list" where
  "buildHeaders iv =
     foldl (\<lambda>hs (k, v). AList.update k v hs)
       (foldl (\<lambda>hs (k, v). let key = toLowerCase k
                 in if key \<in> set RUNNER_REQUEST_HEADERS then AList.update key v hs else hs) []
          (orElse (inv_headers iv) []))
       (executor_request_headers iv)"

definition json_of_result :: "runner_result \<Rightarrow> json" where
  "json_of_result r =
     (case r of
        RunnerResponse x \<Rightarrow> JObj [(''kind'', JStr ''response''), (''status'', JNum (of_int (rs_status x))),
          (''url'', JStr (rs_url x)),
          (''contentType'', (case rs_contentType x of None \<Rightarrow> JNull | Some c \<Rightarrow> JStr c)),
          (''headers'', JObj (map (\<lambda>(k, v). (k, JStr v)) (rs_headers x))), (''body'', JStr (rs_body x)),
          (''truncated'', JBool (rs_truncated x)), (''durationMs'', JNum (of_int (rs_durationMs x)))]
      | RunnerError c msg \<Rightarrow>
          JObj [(''kind'', JStr ''error''), (''failureClass'', JStr (class_name c)), (''message'', JStr msg)])"

fun reason_text :: "unavailable_reason \<Rightarrow> string" where
  "reason_text Runner_offline = ''runner_offline''"
| "reason_text Maintenance = ''maintenance''"
| "reason_text Lease_timeout = ''lease_timeout''"
| "reason_text Result_timeout = ''result_timeout''"

definition no_limits :: submit_limits where
  "no_limits = \<lparr>aliveWindowMs = None, leaseWaitMs = None, resultWaitMs = None\<rparr>"

text \<open>The second component is the id written to \<open>jobRef.executorJobId\<close>.\<close>

definition homeHttpFetch ::
  "platform \<Rightarrow> 'n services \<Rightarrow> invocation \<Rightarrow> 'n \<Rightarrow> ((thrown + fetch_outcome) \<times> string option) \<times> 'n" where
  "homeHttpFetch pf sv iv s =
     (let g = inv_urlGuard iv (inv_url iv)
      in if \<not> allowed g then ((Inr (blocked_outcome g), None), s)
         else (let dynamic = resolveAndCheck (newURL pf) (sv_resolve sv) (inv_url iv)
               in if \<not> allowed dynamic then ((Inr (blocked_outcome dynamic), None), s)
                  else (let startedAt = sv_clock sv s; jobId = sv_uuid sv s;
                            request = \<lparr>rq_url = inv_url iv, rq_maxBytes = maxBytes DEFAULT_FETCH_LIMITS,
                                       rq_headers = buildHeaders iv\<rparr>
                        in case sv_submit sv HOME_EXECUTOR_ID jobId request
                                  (orElse (inv_submitLimits iv) no_limits) s of
                             (Inl err, s1) \<Rightarrow>
                               ((Inr (failure Executor_unavailable None
                                   ''home-http: executor is unavailable (rpc failed)'' None), Some jobId), s1)
                           | (Inr (Unavailable reason), s1) \<Rightarrow>
                               ((Inr (failure Executor_unavailable None
                                   (''home-http: executor is unavailable ('' @ reason_text reason @ '')'') None), Some jobId), s1)
                           | (Inr (Result result), s1) \<Rightarrow>
                               ((outcomeFromExecutorPayload pf (json_of_result result) (inv_url iv) (inv_userAgent iv)
                                   DEFAULT_FETCH_LIMITS startedAt (sv_clock sv s1)
                                   \<lparr>label = ''home runner'', prefix = ''home-http''\<rparr> (Some (checkUrlForSsrf (newURL pf))),
                                 Some jobId), s1))))"

section \<open>The registry (src/fetch/registry.ts)\<close>

type_synonym 'n implementation =
  "invocation \<Rightarrow> 'n \<Rightarrow> ((thrown + fetch_outcome) \<times> string option) \<times> 'n"

definition PULL_FETCHER_IDS :: "string list" where
  "PULL_FETCHER_IDS = [''home-http'']"

definition cfHttp :: "platform \<Rightarrow> 'n services \<Rightarrow> 'n implementation" where
  "cfHttp pf sv iv s =
     (case httpFetch pf (Some (inv_urlGuard iv)) (sv_net sv)
        ((plain_request (inv_url iv) (inv_userAgent iv))
           \<lparr>fr_headers := inv_headers iv, fr_etag := inv_etag iv, fr_lastModified := inv_lastModified iv\<rparr>)
        (sv_clock sv s) (sv_clock sv) s of
      (r, s1) \<Rightarrow> ((r, None), s1))"

definition defaultFetcherRegistry :: "platform \<Rightarrow> 'n services \<Rightarrow> (string \<times> 'n implementation) list" where
  "defaultFetcherRegistry pf sv =
     [(''cf-http'', cfHttp pf sv),
      (''gcp-http'', \<lambda>iv s. case gcpHttpFetch pf sv iv s of (r, s1) \<Rightarrow> ((r, None), s1)),
      (''home-http'', homeHttpFetch pf sv)]"

definition runFetcher ::
  "(string \<times> 'n implementation) list \<Rightarrow> string \<Rightarrow> invocation \<Rightarrow> 'n \<Rightarrow> (fetch_outcome \<times> string option) \<times> 'n" where
  "runFetcher registry fid iv s =
     (case map_of registry fid of
        None \<Rightarrow> ((failure Internal_error None (''unknown fetcherId: '' @ fid) None, None), s)
      | Some impl \<Rightarrow>
          (case impl iv s of
             ((Inr out, job), s1) \<Rightarrow> ((out, job), s1)
           | ((Inl err, job), s1) \<Rightarrow>
               ((failure Internal_error None (''fetcher '' @ fid @ '' failed: '' @ thrown_message err) None, job), s1)))"

section \<open>An abort while the body is read\<close>

text \<open>A network that answers 200 and is aborted by the time limit before the body is complete.\<close>

definition stalling_net :: "'n network" where
  "stalling_net url hs s =
     (Inr \<lparr>hr_status = 200, hr_headers = [], hr_body = Stream [] (Some (ErrorObject ''TimeoutError'' ''signal timed out''))\<rparr>, s)"

lemma set_all_headers_valid:
  "\<forall>k v. validHeader pf k v \<Longrightarrow> \<exists>hs'. set_all_headers pf kvs hs = Inr hs'"
  by (induction kvs arbitrary: hs) (auto simp: set_header_def)

text \<open>
  The time limit of a fetch is reported as a timeout, which the policy may pass over, when it
  strikes before the response; when it strikes while the body is read the exception leaves the
  fetcher and the registry turns it into an internal error, which the policy does not pass over.
\<close>

theorem body_timeout_is_internal_error:
  "fst (fst (runFetcher (defaultFetcherRegistry (pf\<lparr>validHeader := \<lambda>k v. True\<rparr>) (sv\<lparr>sv_net := stalling_net\<rparr>))
       ''cf-http'' (iv\<lparr>inv_urlGuard := \<lambda>u. allow\<rparr>) s)) =
     failure Internal_error None ''fetcher cf-http failed: signal timed out'' None \<and>
   classifyNetworkError (ErrorObject ''TimeoutError'' ''signal timed out'') =
     failure Timeout None ''request timed out: signal timed out'' None \<and>
   shouldProceedToNext \<lparr>fetcherId = ''cf-http'', proceedOn = None\<rparr> Timeout \<and>
   \<not> shouldProceedToNext \<lparr>fetcherId = ''cf-http'', proceedOn = None\<rparr> Internal_error"
proof -
  let ?pf = "pf\<lparr>validHeader := \<lambda>k v. True\<rparr>"
  let ?req = "(plain_request (inv_url iv) (inv_userAgent iv))
    \<lparr>fr_headers := inv_headers iv, fr_etag := inv_etag iv, fr_lastModified := inv_lastModified iv\<rparr>"
  have "\<exists>hs. buildRequestHeaders ?pf ?req = Inr hs"
    unfolding buildRequestHeaders_def by (rule set_all_headers_valid) simp
  then obtain hs where hs: "buildRequestHeaders ?pf ?req = Inr hs" by blast
  have "fst (http_loop ?pf (Some (\<lambda>u. allow)) stalling_net ?req (limits_of ?req) hs t0 now 0 (inv_url iv) s) =
      Inl (ErrorObject ''TimeoutError'' ''signal timed out'')" for t0 now
    by (subst http_loop.simps)
      (simp add: guard_refusal_def allow_def stalling_net_def isRedirectStatus_def REDIRECT_STATUSES_def
        handleTerminalResponse_def type_refused_def plain_request_def readBodyWithLimit_def declared_too_large_def)
  then have "fst (httpFetch ?pf (Some (\<lambda>u. allow)) stalling_net ?req t0 now s) =
      Inl (ErrorObject ''TimeoutError'' ''signal timed out'')" for t0 now
    unfolding httpFetch_def hs by (simp add: plain_request_def)
  then have "fst (fst (cfHttp ?pf (sv\<lparr>sv_net := stalling_net\<rparr>) (iv\<lparr>inv_urlGuard := \<lambda>u. allow\<rparr>) s)) =
      Inl (ErrorObject ''TimeoutError'' ''signal timed out'')"
    by (simp add: cfHttp_def split: prod.split) (metis fst_conv)
  then show ?thesis
    by (auto simp: runFetcher_def defaultFetcherRegistry_def classifyNetworkError_def shouldProceedToNext_def
        NEVER_PROCEEDABLE_FAILURES_def DEFAULT_PROCEEDABLE_FAILURES_def split: prod.splits)
qed

end
