(* ===== verification/Fetch_Target.thy ===== *)
theory Fetch_Target
  imports Fetchers
begin

text \<open>
  The fetch of one target URL through the fetcher policy of its site
  (src/pipeline/fetchTarget.ts): every attempt is recorded as a row of check_attempts, a fetcher
  whose executor was unavailable is not tried again in the same check, and the time waited for
  pull fetchers is limited.
\<close>

definition PULL_WAIT_BUDGET_MS :: ms where "PULL_WAIT_BUDGET_MS = 55000"
definition MIN_PULL_WAIT_MS :: ms where "MIN_PULL_WAIT_MS = 5000"

text \<open>The part of the CheckContext this function changes, its local variables and the outer state.\<close>

record 'n fetch_state =
  unavailableFetchers :: "string list"
  pullWaitUsedMs :: ms
  nextIndex :: nat
  lastAttemptId :: "string option"
  store :: db
  outside :: 'n

record fetch_job =
  fj_checkJobId :: string
  fj_targetId :: string
  fj_url :: string
  fj_userAgent :: string
  fj_etag :: "string option"
  fj_lastModified :: "string option"
  fj_env :: fetch_env

record 'n runtime =
  rt_run :: "string \<Rightarrow> invocation \<Rightarrow> 'n \<Rightarrow> (fetch_outcome \<times> string option) \<times> 'n"
  rt_clock :: "'n \<Rightarrow> ms"
  rt_uuid :: "'n \<Rightarrow> string"
  rt_sleep :: "ms \<Rightarrow> 'n \<Rightarrow> 'n"
  rt_guard :: "string \<Rightarrow> ssrf_check_result"

definition is_pull :: "string \<Rightarrow> bool" where
  "is_pull fid \<longleftrightarrow> fid \<in> set PULL_FETCHER_IDS"

definition lease_wait :: "ms \<Rightarrow> ms" where
  "lease_wait remaining = min 10000 (remaining div 5)"

definition pull_limits :: "ms \<Rightarrow> submit_limits" where
  "pull_limits remaining =
     \<lparr>aliveWindowMs = None, leaseWaitMs = Some (lease_wait remaining),
      resultWaitMs = Some (min 40000 (remaining - lease_wait remaining))\<rparr>"

definition invocation_of :: "'n runtime \<Rightarrow> fetch_job \<Rightarrow> submit_limits option \<Rightarrow> invocation" where
  "invocation_of rt j limits =
     \<lparr>inv_url = fj_url j, inv_userAgent = fj_userAgent j, inv_etag = fj_etag j,
      inv_lastModified = fj_lastModified j, inv_headers = None, inv_env = fj_env j,
      inv_urlGuard = rt_guard rt, inv_submitLimits = limits\<rparr>"

definition choose_run ::
  "'n runtime \<Rightarrow> fetch_job \<Rightarrow> string \<Rightarrow> 'n fetch_state \<Rightarrow> (fetch_outcome \<times> string option) \<times> 'n" where
  "choose_run rt j fid s =
     (let remaining = PULL_WAIT_BUDGET_MS - pullWaitUsedMs s
      in if fid \<in> set (unavailableFetchers s)
         then ((failure Executor_unavailable None
                  (fid @ '': executor was unavailable earlier in this check'') None, None), outside s)
         else if is_pull fid \<and> remaining < MIN_PULL_WAIT_MS
         then ((failure Executor_unavailable None
                  (fid @ '': wait budget for this check is exhausted'') None, None), outside s)
         else rt_run rt fid (invocation_of rt j (if is_pull fid then Some (pull_limits remaining) else None))
                (outside s))"

definition attempt_input ::
  "fetch_job \<Rightarrow> string \<Rightarrow> string \<Rightarrow> nat \<Rightarrow> fetch_outcome \<Rightarrow> string option \<Rightarrow> create_check_attempt_input" where
  "attempt_input j attemptId fid index outcome job =
     \<lparr>ia_id = Some attemptId, ia_checkJobId = fj_checkJobId j, ia_targetId = fj_targetId j, ia_fetcherId = fid,
      ia_attemptIndex = index,
      ia_outcome = (case outcome of FetchSuccess _ \<Rightarrow> Attempt_success | FetchFailure _ \<Rightarrow> Attempt_failure),
      ia_failureClass = (case outcome of FetchSuccess _ \<Rightarrow> None | FetchFailure f \<Rightarrow> Some (failureClass f)),
      ia_statusCode = (case outcome of FetchSuccess r \<Rightarrow> Some (ok_status r) | FetchFailure f \<Rightarrow> fail_status f),
      ia_durationMs = (case outcome of FetchSuccess r \<Rightarrow> Some (ok_durationMs r) | FetchFailure f \<Rightarrow> None),
      ia_snapshotId = None,
      ia_errorMessage = (case outcome of FetchSuccess _ \<Rightarrow> None | FetchFailure f \<Rightarrow> Some (fail_message f)),
      ia_executorJobId = job, ia_startedAt = None, ia_finishedAt = None\<rparr>"

definition executor_gone :: "fetch_outcome \<Rightarrow> bool" where
  "executor_gone outcome = (case outcome of FetchSuccess _ \<Rightarrow> False
     | FetchFailure f \<Rightarrow> failureClass f = Executor_unavailable)"

definition executeFetcher ::
  "'n runtime \<Rightarrow> fetch_job \<Rightarrow> string \<Rightarrow> 'n fetch_state \<Rightarrow> fetch_outcome \<times> 'n fetch_state" where
  "executeFetcher rt j fid s =
     (case choose_run rt j fid s of
        ((outcome, job), n) \<Rightarrow>
          (let waited = (if is_pull fid then rt_clock rt n - rt_clock rt (outside s) else 0);
               attemptId = rt_uuid rt n
           in (outcome,
               s\<lparr>unavailableFetchers := (if executor_gone outcome then List.insert fid (unavailableFetchers s)
                                        else unavailableFetchers s),
                 pullWaitUsedMs := pullWaitUsedMs s + waited,
                 nextIndex := nextIndex s + 1,
                 lastAttemptId := Some attemptId,
                 store := fst (createCheckAttempt attemptId (rt_clock rt n)
                            (attempt_input j attemptId fid (nextIndex s) outcome job) (store s)),
                 outside := n\<rparr>)))"

definition fetchTargetThroughPolicy ::
  "'n runtime \<Rightarrow> fetcher_policy \<Rightarrow> fetch_job \<Rightarrow> 'n fetch_state \<Rightarrow>
   (policy_error list + fetch_outcome option \<times> string option) \<times> 'n fetch_state" where
  "fetchTargetThroughPolicy rt policy j s0 =
     (case runFetchSequence policy (executeFetcher rt j) (\<lambda>t s. s\<lparr>outside := rt_sleep rt t (outside s)\<rparr>)
             (default_opts\<lparr>isRetryable := Some (\<lambda>fid. \<not> is_pull fid)\<rparr>)
             (s0\<lparr>nextIndex := 0, lastAttemptId := None\<rparr>) of
        (Inl errs, s) \<Rightarrow> (Inl errs, s)
      | (Inr (outcome, attempts), s) \<Rightarrow> (Inr (outcome, lastAttemptId s), s))"

section \<open>Facts about a sequence of attempts\<close>

text \<open>
  A relation between the state before and after and the attempts made, that holds for one
  attempt and for the wait between two, and composes, holds for a whole sequence.
\<close>

locale attempt_relation =
  fixes R :: "'s \<Rightarrow> attempt list \<Rightarrow> 's \<Rightarrow> bool"
    and exec :: "string \<Rightarrow> 's \<Rightarrow> fetch_outcome \<times> 's"
    and sleep :: "ms \<Rightarrow> 's \<Rightarrow> 's"
  assumes none: "R s [] s"
    and sequence: "R s a s1 \<Longrightarrow> R s1 b s2 \<Longrightarrow> R s (a @ b) s2"
    and one: "exec fid s = (out, s1) \<Longrightarrow> R s [(fid, out)] s1"
    and wait: "R s [] (sleep t s)"
begin

lemma retry_loop_relates:
  "retry_loop exec sleep isR backoff fid left n o1 s = (o2, tried, s2) \<Longrightarrow> R s tried s2"
proof (induction left arbitrary: n o1 o2 s tried s2)
  case 0
  then show ?case using none by simp
next
  case (Suc left)
  show ?case
  proof (cases "retryable isR fid o1")
    case False
    with Suc.prems none show ?thesis by simp
  next
    case True
    obtain out s1 where e: "exec fid (sleep (backoff * int (Suc n)) s) = (out, s1)" by fastforce
    obtain o3 rest s3 where l: "retry_loop exec sleep isR backoff fid left (Suc n) out s1 = (o3, rest, s3)"
      by (metis prod_cases3)
    from sequence [OF sequence [OF wait one [OF e]] Suc.IH [OF l]] Suc.prems True e l
    show ?thesis by (auto simp: Let_def)
  qed
qed

lemma run_plan_relates:
  "run_plan exec sleep isR retries backoff plan lo s = (o2, made, s2) \<Longrightarrow> R s made s2"
proof (induction plan arbitrary: lo s o2 made s2)
  case Nil
  then show ?case using none by simp
next
  case (Cons entry plan)
  obtain o1 s1 where e: "exec (fetcherId entry) s = (o1, s1)" by fastforce
  obtain o3 tried s3 where l: "retry_loop exec sleep isR backoff (fetcherId entry) retries 0 o1 s1 = (o3, tried, s3)"
    by (metis prod_cases3)
  have r: "R s ((fetcherId entry, o1) # tried) s3"
    using sequence [OF one [OF e] retry_loop_relates [OF l]] by simp
  show ?case
  proof (cases "\<exists>f. o3 = FetchFailure f \<and> shouldProceedToNext entry (failureClass f)")
    case False
    with Cons.prems e l have "made = (fetcherId entry, o1) # tried" "s2 = s3"
      by (auto simp: Let_def split: fetch_outcome.splits if_splits)
    with r show ?thesis by simp
  next
    case True
    then obtain f where f: "o3 = FetchFailure f" "shouldProceedToNext entry (failureClass f)" by blast
    obtain o4 rest s4 where p: "run_plan exec sleep isR retries backoff plan (Some o3) s3 = (o4, rest, s4)"
      by (metis prod_cases3)
    from Cons.prems e l f p have "made = ((fetcherId entry, o1) # tried) @ rest" "s2 = s4"
      by (auto simp: Let_def)
    with sequence [OF r Cons.IH [OF p]] show ?thesis by simp
  qed
qed

lemma sequence_relates:
  "runFetchSequence p exec sleep opts s = (Inr (oc, attempts), s') \<Longrightarrow> R s attempts s'"
  by (auto simp: runFetchSequence_def Let_def dest: run_plan_relates split: sum.splits if_splits prod.splits)

end

section \<open>Every attempt is recorded\<close>

definition summary :: "check_attempt_row \<Rightarrow> (string \<times> string \<times> string) \<times> attempt_outcome \<times> failure_class option" where
  "summary r = ((at_checkJobId r, at_targetId r, at_fetcherId r), at_outcome r, at_failureClass r)"

definition expected :: "fetch_job \<Rightarrow> attempt \<Rightarrow> (string \<times> string \<times> string) \<times> attempt_outcome \<times> failure_class option" where
  "expected j a =
     ((fj_checkJobId j, fj_targetId j, fst a),
      (case snd a of FetchSuccess _ \<Rightarrow> (Attempt_success, None)
       | FetchFailure f \<Rightarrow> (Attempt_failure, Some (failureClass f))))"

definition recorded :: "fetch_job \<Rightarrow> 'n fetch_state \<Rightarrow> attempt list \<Rightarrow> 'n fetch_state \<Rightarrow> bool" where
  "recorded j s attempts s' \<longleftrightarrow>
     nextIndex s' = nextIndex s + length attempts \<and>
     (attempts = [] \<longrightarrow> lastAttemptId s' = lastAttemptId s) \<and>
     (\<exists>rows. check_attempts (store s') = check_attempts (store s) @ rows \<and>
        map summary rows = map (expected j) attempts \<and>
        map attemptIndex rows = [nextIndex s..<nextIndex s + length attempts] \<and>
        (rows \<noteq> [] \<longrightarrow> lastAttemptId s' = Some (at_id (last rows))))"

interpretation recorded: attempt_relation "recorded j" "executeFetcher rt j"
  "\<lambda>t s. s\<lparr>outside := rt_sleep rt t (outside s)\<rparr>" for j rt
proof
  fix s s1 s2 :: "'a fetch_state" and a b
  assume "recorded j s a s1" "recorded j s1 b s2"
  then obtain r1 r2 where rows:
    "check_attempts (store s1) = check_attempts (store s) @ r1" "map summary r1 = map (expected j) a"
    "map attemptIndex r1 = [nextIndex s..<nextIndex s + length a]"
    "r1 \<noteq> [] \<longrightarrow> lastAttemptId s1 = Some (at_id (last r1))"
    "check_attempts (store s2) = check_attempts (store s1) @ r2" "map summary r2 = map (expected j) b"
    "map attemptIndex r2 = [nextIndex s1..<nextIndex s1 + length b]"
    "r2 \<noteq> [] \<longrightarrow> lastAttemptId s2 = Some (at_id (last r2))"
    and n: "nextIndex s1 = nextIndex s + length a" "nextIndex s2 = nextIndex s1 + length b"
    and l: "a = [] \<longrightarrow> lastAttemptId s1 = lastAttemptId s" "b = [] \<longrightarrow> lastAttemptId s2 = lastAttemptId s1"
    unfolding recorded_def by blast
  have "length r1 = length a" "length r2 = length b"
    using rows(2,6) by (metis length_map)+
  moreover have "map attemptIndex (r1 @ r2) = [nextIndex s..<nextIndex s + length (a @ b)]"
    using rows(3,7) n upt_add_eq_append [of "nextIndex s" "nextIndex s + length a" "length b"]
    by (simp add: add.assoc)
  ultimately show "recorded j s (a @ b) s2"
    unfolding recorded_def using rows n l by (intro conjI exI [of _ "r1 @ r2"]) (auto simp: last_append)
next
  fix fid out and s s1 :: "'a fetch_state"
  assume e: "executeFetcher rt j fid s = (out, s1)"
  obtain job n where c: "choose_run rt j fid s = ((out, job), n)"
    using e by (cases "choose_run rt j fid s") (auto simp: executeFetcher_def Let_def)
  show "recorded j s [(fid, out)] s1"
    using e c unfolding recorded_def executeFetcher_def
    by (auto simp: Let_def createCheckAttempt_def attempt_input_def summary_def expected_def
        split: fetch_outcome.splits)
qed (auto simp: recorded_def)

lemma sequence_result:
  "runFetchSequence p exec sleep opts s = (Inr (oc, attempts), s') \<Longrightarrow>
   attempts \<noteq> [] \<and> oc = Some (snd (last attempts))"
  by (auto simp: runFetchSequence_def dest: run_plan_last split: sum.splits if_splits prod.splits)

lemma sequence_refused:
  assumes "maxAttempts opts = None" "runFetchSequence p exec sleep opts s = (Inl errs, s')"
  shows "\<not> policy_valid p \<and> s' = s"
proof -
  have "planAttempts p None = Inr (take 3 (orderList p)) \<and> take 3 (orderList p) \<noteq> []" if "policy_valid p"
    using that policy_valid_order(1) [OF that]
    by (auto simp: planAttempts_def policy_valid_def DEFAULT_MAX_ATTEMPTS_def)
  with assms show ?thesis
    by (auto simp: runFetchSequence_def split: sum.splits if_splits prod.splits)
qed


section \<open>The time waited for pull fetchers\<close>

text \<open>
  The executor keeps the limits of a job: it answers within its lease and result wait, and the
  checks before the submission take at most \<open>slack\<close> (the name resolution of home-http has its own
  time limit of five seconds).
\<close>

definition keeps_limits :: "'n runtime \<Rightarrow> ms \<Rightarrow> bool" where
  "keeps_limits rt slack \<longleftrightarrow>
     (\<forall>fid iv n remaining. is_pull fid \<longrightarrow> inv_submitLimits iv = Some (pull_limits remaining) \<longrightarrow>
        rt_clock rt (snd (rt_run rt fid iv n)) - rt_clock rt n \<le>
          lease_wait remaining + min 40000 (remaining - lease_wait remaining) + slack)"

definition stays_below :: "ms \<Rightarrow> 'n fetch_state \<Rightarrow> attempt list \<Rightarrow> 'n fetch_state \<Rightarrow> bool" where
  "stays_below b s attempts s' \<longleftrightarrow> (pullWaitUsedMs s \<le> b \<longrightarrow> pullWaitUsedMs s' \<le> b)"

lemma executeFetcher_wait:
  assumes "keeps_limits rt slack" "0 \<le> slack" "pullWaitUsedMs s \<le> PULL_WAIT_BUDGET_MS + slack"
  shows "pullWaitUsedMs (snd (executeFetcher rt j fid s)) \<le> PULL_WAIT_BUDGET_MS + slack"
proof -
  obtain out job n where c: "choose_run rt j fid s = ((out, job), n)" by (metis prod.exhaust)
  then have w: "pullWaitUsedMs (snd (executeFetcher rt j fid s)) =
      pullWaitUsedMs s + (if is_pull fid then rt_clock rt n - rt_clock rt (outside s) else 0)"
    by (simp add: executeFetcher_def Let_def)
  define remaining where "remaining = PULL_WAIT_BUDGET_MS - pullWaitUsedMs s"
  show ?thesis
  proof (cases "is_pull fid \<and> fid \<notin> set (unavailableFetchers s) \<and> \<not> remaining < MIN_PULL_WAIT_MS")
    case False
    with c w assms(3) show ?thesis
      by (auto simp: choose_run_def Let_def remaining_def split: if_splits)
  next
    case True
    with c have n: "n = snd (rt_run rt fid (invocation_of rt j (Some (pull_limits remaining))) (outside s))"
      by (simp add: choose_run_def Let_def remaining_def)
    from assms(1) True have "rt_clock rt n - rt_clock rt (outside s) \<le>
        lease_wait remaining + min 40000 (remaining - lease_wait remaining) + slack"
      unfolding keeps_limits_def n by (simp add: invocation_of_def)
    also have "\<dots> \<le> remaining + slack" by simp
    finally show ?thesis using w True by (simp add: remaining_def)
  qed
qed

lemma within_relation:
  assumes "keeps_limits rt slack" "0 \<le> slack"
  shows "attempt_relation (stays_below (PULL_WAIT_BUDGET_MS + slack)) (executeFetcher rt j)
    (\<lambda>t s. s\<lparr>outside := rt_sleep rt t (outside s)\<rparr>)"
proof
  fix fid out and s s1 :: "'a fetch_state"
  assume "executeFetcher rt j fid s = (out, s1)"
  with executeFetcher_wait [OF assms, of s j fid]
  show "stays_below (PULL_WAIT_BUDGET_MS + slack) s [(fid, out)] s1" by (simp add: stays_below_def)
qed (auto simp: stays_below_def)

text \<open>
  Whatever the policy, the retries and the targets of a check, the time waited for pull
  fetchers in it never exceeds the budget of 55 seconds by more than the slack of one call.
\<close>

theorem pull_wait_bounded:
  assumes "keeps_limits rt slack" "0 \<le> slack" "pullWaitUsedMs s \<le> 55000 + slack"
  shows "pullWaitUsedMs (snd (fetchTargetThroughPolicy rt policy j s)) \<le> 55000 + slack"
proof -
  let ?s = "s\<lparr>nextIndex := 0, lastAttemptId := None\<rparr>"
  let ?run = "runFetchSequence policy (executeFetcher rt j) (\<lambda>t s. s\<lparr>outside := rt_sleep rt t (outside s)\<rparr>)
      (default_opts\<lparr>isRetryable := Some (\<lambda>fid. \<not> is_pull fid)\<rparr>) ?s"
  obtain r s' where run: "?run = (r, s')" by fastforce
  show ?thesis
  proof (cases r)
    case (Inl errs)
    from sequence_refused [OF _ run [unfolded Inl]] have "s' = ?s" by (simp add: default_opts_def)
    with run Inl assms(3) show ?thesis by (simp add: fetchTargetThroughPolicy_def)
  next
    case (Inr x)
    obtain outcome attempts where x: "x = (outcome, attempts)" by fastforce
    from attempt_relation.sequence_relates [OF within_relation [OF assms(1,2)] run [unfolded Inr x]] assms(3)
    show ?thesis
      by (simp add: fetchTargetThroughPolicy_def run Inr x stays_below_def PULL_WAIT_BUDGET_MS_def)
  qed
qed

text \<open>A runner that never answers: its job runs into both limits.\<close>

definition silent_runner :: "ms runtime" where
  "silent_runner =
     \<lparr>rt_run = (\<lambda>fid iv t. ((failure Executor_unavailable None ''result_timeout'' None, Some ''job''),
        t + (case inv_submitLimits iv of None \<Rightarrow> 0
             | Some l \<Rightarrow> orElse (leaseWaitMs l) 0 + orElse (resultWaitMs l) 0))),
      rt_clock = id, rt_uuid = (\<lambda>t. ''attempt''), rt_sleep = (+), rt_guard = (\<lambda>u. allow)\<rparr>"

lemma silent_runner_limits: "keeps_limits silent_runner 0"
  by (simp add: keeps_limits_def silent_runner_def pull_limits_def)

definition empty_db :: db where
  "empty_db = \<lparr>sites = [], sources = [], monitors = [], targets = [], check_jobs = [], check_attempts = [],
     snapshots = [], changes = [], destinations = [], subscriptions = [], deliveries = [],
     robots_policies = [], robots_evaluations = [],
     executors = [], fetchers = [], audit_events = []\<rparr>"

definition fetch_start :: "ms fetch_state" where
  "fetch_start = \<lparr>unavailableFetchers = [], pullWaitUsedMs = 0, nextIndex = 0, lastAttemptId = None,
     store = empty_db, outside = 0\<rparr>"

definition home_job :: fetch_job where
  "home_job = \<lparr>fj_checkJobId = ''j'', fj_targetId = ''t'', fj_url = ''http://a/'', fj_userAgent = ''ua'',
     fj_etag = None, fj_lastModified = None,
     fj_env = \<lparr>GCP_EXECUTOR_URL = None, GCP_EXECUTOR_SIGNING_KEY = None\<rparr>\<rparr>"

definition home_policy :: fetcher_policy where
  "home_policy = \<lparr>allowList = [''home-http''], orderList = [\<lparr>fetcherId = ''home-http'', proceedOn = None\<rparr>]\<rparr>"

theorem pull_wait_bounded_witness:
  "let s = snd (fetchTargetThroughPolicy silent_runner home_policy home_job fetch_start)
   in pullWaitUsedMs s = 50000 \<and> pullWaitUsedMs (snd (fetchTargetThroughPolicy silent_runner home_policy home_job s)) \<le> 55000"
proof -
  have "pullWaitUsedMs (snd (fetchTargetThroughPolicy silent_runner home_policy home_job fetch_start)) = 50000"
    by code_simp
  then show ?thesis
    unfolding Let_def
    using pull_wait_bounded [OF silent_runner_limits, of
        "snd (fetchTargetThroughPolicy silent_runner home_policy home_job fetch_start)" home_policy home_job]
    by simp
qed

end
