(* ===== verification/Robots_Parser.thy ===== *)
theory Robots_Parser
  imports Js_String Contracts
begin

text \<open>
  The robots.txt parser (src/robots/parser.ts) and its data (src/robots/types.ts). Strings are
  lists of code units below 256, so a code point is a code unit, no surrogate occurs and the
  byte order mark, which the source removes at the start of the text, cannot occur.
\<close>

section \<open>Rules\<close>

datatype directive = Allow | Disallow

record robots_rule =
  directive :: directive
  rpattern :: string

record robots_group =
  userAgents :: "string list"
  rules :: "robots_rule list"

record robots_rules =
  groups :: "robots_group list"
  sitemaps :: "string list"

definition EMPTY_ROBOTS_RULES :: robots_rules where
  "EMPTY_ROBOTS_RULES = \<lparr>groups = [], sitemaps = []\<rparr>"

section \<open>Percent-encoding\<close>

definition isUnreservedByte :: "nat \<Rightarrow> bool" where
  "isUnreservedByte n \<longleftrightarrow> (65 \<le> n \<and> n \<le> 90) \<or> (97 \<le> n \<and> n \<le> 122) \<or> (48 \<le> n \<and> n \<le> 57) \<or>
     n = 45 \<or> n = 46 \<or> n = 95 \<or> n = 126"

definition pct_byte :: "nat \<Rightarrow> string" where
  "pct_byte b = [CHR ''%'', hex_upper (b div 16), hex_upper (b mod 16)]"

text \<open>\<open>TextEncoder\<close> on one code point below 256.\<close>

definition utf8_bytes :: "nat \<Rightarrow> nat list" where
  "utf8_bytes n = (if n < 128 then [n] else [192 + n div 64, 128 + n mod 64])"

definition encode_char :: "char \<Rightarrow> string" where
  "encode_char c =
     (let codePoint = code c in
      if codePoint > 126 then concat (map pct_byte (utf8_bytes codePoint))
      else if codePoint \<le> 32 \<or> codePoint = 127 then pct_byte codePoint
      else [c])"

definition decode_escape :: "char \<Rightarrow> char \<Rightarrow> string" where
  "decode_escape a b =
     (let n = 16 * digit_value a + digit_value b
      in if isUnreservedByte n then [char_of n] else [CHR ''%'', upper_ascii a, upper_ascii b])"

fun normalizePercentEncoding :: "string \<Rightarrow> string" where
  "normalizePercentEncoding [] = []"
| "normalizePercentEncoding (c # a # b # r) =
     (if c = CHR ''%'' \<and> is_hex_digit a \<and> is_hex_digit b
      then decode_escape a b @ normalizePercentEncoding r
      else encode_char c @ normalizePercentEncoding (a # b # r))"
| "normalizePercentEncoding (c # r) = encode_char c @ normalizePercentEncoding r"

section \<open>Lines and groups\<close>

definition stripComment :: "string \<Rightarrow> string" where
  "stripComment line = (case indexOf CHR ''#'' line of None \<Rightarrow> line | Some idx \<Rightarrow> take idx line)"

definition parseLine :: "string \<Rightarrow> (string \<times> string) option" where
  "parseLine line =
     (let withoutComment = js_trim (stripComment line)
      in if withoutComment = '''' then None
         else (case indexOf CHR '':'' withoutComment of
                 None \<Rightarrow> None
               | Some sep \<Rightarrow> Some (toLowerCase (js_trim (take sep withoutComment)),
                                   js_trim (drop (sep + 1) withoutComment))))"

definition isValidPathValue :: "string \<Rightarrow> bool" where
  "isValidPathValue value =
     (if value = '''' then True else startsWith value ''/'' \<or> startsWith value ''*'')"

definition CR :: char where "CR = char_of (13::nat)"
definition LF :: char where "LF = char_of (10::nat)"

text \<open>A carriage return, with the line feed after it if there is one, becomes a line feed.\<close>

fun unify_newlines :: "string \<Rightarrow> string" where
  "unify_newlines [] = []"
| "unify_newlines [c] = [if c = CR then LF else c]"
| "unify_newlines (c # d # ds) =
     (if c = CR \<and> d = LF then LF # unify_newlines ds
      else (if c = CR then LF else c) # unify_newlines (d # ds))"

record parse_state =
  ps_groups :: "robots_group list"
  ps_sitemaps :: "string list"
  currentAgents :: "string list"
  currentRules :: "robots_rule list"
  collectingAgents :: bool

definition flushGroup :: "parse_state \<Rightarrow> parse_state" where
  "flushGroup s =
     (let s' = (if currentAgents s \<noteq> []
                then s\<lparr>ps_groups := ps_groups s @ [\<lparr>userAgents = currentAgents s, rules = currentRules s\<rparr>]\<rparr>
                else s)
      in s'\<lparr>currentAgents := [], currentRules := []\<rparr>)"

definition on_user_agent :: "string \<Rightarrow> parse_state \<Rightarrow> parse_state" where
  "on_user_agent value s =
     (let s1 = (if \<not> collectingAgents s then flushGroup s else s);
          token = toLowerCase value;
          s2 = (if token \<noteq> '''' then s1\<lparr>currentAgents := currentAgents s1 @ [token]\<rparr> else s1)
      in s2\<lparr>collectingAgents := True\<rparr>)"

definition on_rule :: "directive \<Rightarrow> string \<Rightarrow> parse_state \<Rightarrow> parse_state" where
  "on_rule d value s0 =
     (let s = s0\<lparr>collectingAgents := False\<rparr>
      in if currentAgents s = [] then s
         else if \<not> isValidPathValue value then s
         else if d = Disallow \<and> value = '''' then s
         else s\<lparr>currentRules := currentRules s @
                [\<lparr>directive = d, rpattern = normalizePercentEncoding value\<rparr>]\<rparr>)"

definition on_sitemap :: "string \<Rightarrow> parse_state \<Rightarrow> parse_state" where
  "on_sitemap value s0 =
     (let s = s0\<lparr>collectingAgents := False\<rparr>
      in if value \<noteq> '''' then s\<lparr>ps_sitemaps := ps_sitemaps s @ [value]\<rparr> else s)"

definition parse_step :: "parse_state \<Rightarrow> string \<Rightarrow> parse_state" where
  "parse_step s rawLine =
     (case parseLine rawLine of
        None \<Rightarrow> s
      | Some (field, value) \<Rightarrow>
          if field = ''user-agent'' then on_user_agent value s
          else if field = ''allow'' then on_rule Allow value s
          else if field = ''disallow'' then on_rule Disallow value s
          else if field = ''sitemap'' then on_sitemap value s
          else s)"

definition parse_start :: parse_state where
  "parse_start = \<lparr>ps_groups = [], ps_sitemaps = [], currentAgents = [], currentRules = [],
     collectingAgents = False\<rparr>"

definition parseRobotsTxt :: "string \<Rightarrow> robots_rules" where
  "parseRobotsTxt text =
     (let lines = split_on LF (unify_newlines text);
          s = flushGroup (foldl parse_step parse_start lines)
      in \<lparr>groups = ps_groups s, sitemaps = ps_sitemaps s\<rparr>)"

section \<open>Lemmas\<close>

definition plain_char :: "char \<Rightarrow> bool" where
  "plain_char c \<longleftrightarrow> 33 \<le> code c \<and> code c \<le> 126"

lemma code_percent: "code CHR ''%'' = 37"
  by (simp add: code_def)

lemma hex_upper_plain: "n < 16 \<Longrightarrow> plain_char (hex_upper n)"
  by (auto simp: plain_char_def hex_upper_def)

lemma pct_byte_plain: "b < 256 \<Longrightarrow> list_all plain_char (pct_byte b)"
  by (auto simp: pct_byte_def intro!: hex_upper_plain) (simp add: plain_char_def code_percent)

lemma utf8_bytes_lt: "n < 256 \<Longrightarrow> b \<in> set (utf8_bytes n) \<Longrightarrow> b < 256"
proof -
  assume n: "n < 256" and b: "b \<in> set (utf8_bytes n)"
  have "n div 64 < 4" using n by (simp add: less_mult_imp_div_less)
  moreover have "n mod 64 < 64" by simp
  ultimately show "b < 256" using b n unfolding utf8_bytes_def
    by (cases "n < 128") (simp_all, linarith)
qed

lemma encode_char_plain: "list_all plain_char (encode_char c)"
proof -
  have "list_all plain_char (concat (map pct_byte (utf8_bytes (code c))))"
    using pct_byte_plain utf8_bytes_lt [OF code_lt] by (fastforce simp: list_all_iff)
  then show ?thesis
    using pct_byte_plain [of "code c"] by (auto simp: encode_char_def Let_def plain_char_def)
qed

lemma upper_ascii_hex: "is_hex_digit a \<Longrightarrow> plain_char (upper_ascii a)"
  by (auto simp: plain_char_def upper_ascii_def Let_def is_hex_digit_def is_digit_def)

lemma decode_escape_plain:
  "is_hex_digit a \<Longrightarrow> is_hex_digit b \<Longrightarrow> list_all plain_char (decode_escape a b)"
  by (auto simp: decode_escape_def Let_def isUnreservedByte_def upper_ascii_hex)
    (auto simp: plain_char_def code_percent)

lemma normalize_plain: "list_all plain_char (normalizePercentEncoding s)"
  by (induction s rule: normalizePercentEncoding.induct)
    (auto simp: encode_char_plain decode_escape_plain)

definition rule_ok :: "robots_rule \<Rightarrow> bool" where
  "rule_ok r \<longleftrightarrow> list_all plain_char (rpattern r) \<and>
     (rpattern r = '''' \<and> directive r = Allow \<or>
      startsWith (rpattern r) ''/'' \<or> startsWith (rpattern r) ''*'')"

definition group_ok :: "robots_group \<Rightarrow> bool" where
  "group_ok g \<longleftrightarrow> userAgents g \<noteq> [] \<and>
     list_all (\<lambda>a. a \<noteq> '''' \<and> toLowerCase a = a) (userAgents g) \<and> list_all rule_ok (rules g)"

definition state_ok :: "parse_state \<Rightarrow> bool" where
  "state_ok s \<longleftrightarrow> list_all group_ok (ps_groups s) \<and>
     list_all (\<lambda>a. a \<noteq> '''' \<and> toLowerCase a = a) (currentAgents s) \<and>
     list_all rule_ok (currentRules s) \<and> '''' \<notin> set (ps_sitemaps s)"

lemma toLowerCase_idem [simp]: "toLowerCase (toLowerCase s) = toLowerCase s"
  by (simp add: toLowerCase_def)

lemma flushGroup_ok: "state_ok s \<Longrightarrow> state_ok (flushGroup s)"
  by (auto simp: state_ok_def flushGroup_def Let_def group_ok_def)

lemma normalize_keeps_head:
  assumes "c = CHR ''/'' \<or> c = CHR ''*''"
  shows "\<exists>r. normalizePercentEncoding (c # s) = c # r"
proof -
  have "encode_char c = [c]" using assms by (auto simp: encode_char_def code_def)
  with assms show ?thesis by (cases s, simp, cases "tl s") auto
qed

lemma on_rule_ok: "state_ok s \<Longrightarrow> state_ok (on_rule d value s)"
proof -
  have "rule_ok \<lparr>directive = d, rpattern = normalizePercentEncoding value\<rparr>"
    if "isValidPathValue value" "\<not> (d = Disallow \<and> value = '''')"
  proof (cases "value")
    case Nil
    with that show ?thesis by (cases d) (auto simp: rule_ok_def)
  next
    case (Cons c cs)
    with that(1) have "c = CHR ''/'' \<or> c = CHR ''*''"
      by (auto simp: isValidPathValue_def startsWith_def)
    from normalize_keeps_head [OF this, of cs] this show ?thesis
      using normalize_plain [of "value"] by (auto simp: rule_ok_def startsWith_def Cons)
  qed
  then show "state_ok s \<Longrightarrow> state_ok (on_rule d value s)"
    by (auto simp: on_rule_def Let_def state_ok_def)
qed

lemma on_user_agent_ok: "state_ok s \<Longrightarrow> state_ok (on_user_agent value s)"
  using flushGroup_ok [of s] by (auto simp: on_user_agent_def Let_def state_ok_def)

lemma on_sitemap_ok: "state_ok s \<Longrightarrow> state_ok (on_sitemap value s)"
  by (auto simp: on_sitemap_def Let_def state_ok_def)

lemma parse_step_ok: "state_ok s \<Longrightarrow> state_ok (parse_step s line)"
  by (auto simp: parse_step_def on_rule_ok on_user_agent_ok on_sitemap_ok split: option.splits)

lemma parse_fold_ok: "state_ok s \<Longrightarrow> state_ok (foldl parse_step s lines)"
  by (induction lines arbitrary: s) (auto intro: parse_step_ok)

text \<open>
  Whatever bytes a site serves, the parsed robots.txt is well formed: every group has at
  least one lower-case, non-empty user agent, every pattern consists of printable ASCII and is
  empty (an allow only) or starts with a slash or a star, and no sitemap entry is empty.
\<close>

theorem parseRobotsTxt_wf:
  "list_all group_ok (groups (parseRobotsTxt robots)) \<and> '''' \<notin> set (sitemaps (parseRobotsTxt robots))"
proof -
  have "state_ok (flushGroup (foldl parse_step parse_start ls))" for ls
    by (intro flushGroup_ok parse_fold_ok) (simp add: parse_start_def state_ok_def)
  then show ?thesis by (simp add: parseRobotsTxt_def Let_def state_ok_def)
qed

text \<open>A second normalization changes a path when an escape that is itself escaped appears.\<close>

lemma normalize_not_idempotent:
  "normalizePercentEncoding ''%%341'' = ''%41'' \<and> normalizePercentEncoding ''%41'' = ''A''"
  by code_simp

end
