(* ===== verification/Robots_Evaluator.thy ===== *)
theory Robots_Evaluator
  imports Robots_Parser "HOL-Library.Multiset"
begin

text \<open>
  The evaluation of robots.txt rules (src/robots/evaluator.ts over the types of
  src/robots/types.ts): the wildcard matcher with its two pointers, the meaning of a pattern,
  the choice of the group and of the rule, and the verdict.
\<close>

section \<open>The wildcard matcher\<close>

text \<open>
  The main loop of \<open>globFullMatch\<close>: \<open>None\<close> is the early \<open>return false\<close>, \<open>Some i\<close> the value of
  \<open>pIdx\<close> when the text is used up. \<open>starIdx = -1\<close> is \<^const>\<open>None\<close>.
\<close>

function glob_loop :: "string \<Rightarrow> string \<Rightarrow> nat \<Rightarrow> nat \<Rightarrow> nat option \<Rightarrow> nat \<Rightarrow> nat option" where
  "glob_loop p t pIdx tIdx starIdx matchIdx =
     (if tIdx < length t then
        (if pIdx < length p \<and> (p ! pIdx = CHR ''*'' \<or> p ! pIdx = t ! tIdx) then
           (if p ! pIdx = CHR ''*'' then glob_loop p t (pIdx + 1) tIdx (Some pIdx) tIdx
            else glob_loop p t (pIdx + 1) (tIdx + 1) starIdx matchIdx)
         else (case starIdx of
                 Some s \<Rightarrow> glob_loop p t (s + 1) (matchIdx + 1) starIdx (matchIdx + 1)
               | None \<Rightarrow> None))
      else Some pIdx)"
  by pat_completeness auto

text \<open>
  Termination, for every call: a call is \<^emph>\<open>behind\<close> while no star is recorded before \<open>pIdx\<close>.
  Recording a star ends that or leaves fewer pattern characters after the recorded star; a
  retry moves \<open>matchIdx\<close>; a matched character moves \<open>tIdx\<close>.
\<close>

definition glob_rank :: "string \<Rightarrow> nat \<Rightarrow> nat option \<Rightarrow> nat" where
  "glob_rank p pIdx starIdx =
     (case starIdx of
        None \<Rightarrow> length p + 1
      | Some s \<Rightarrow> if pIdx \<le> s then length p + 1 else length p - s)"

termination glob_loop
  by (relation "measures [\<lambda>(p, t, pI, tI, st, mI). glob_rank p pI st,
       \<lambda>(p, t, pI, tI, st, mI). length t - mI, \<lambda>(p, t, pI, tI, st, mI). length t - tI]")
    (auto simp: glob_rank_def split: option.splits)

declare glob_loop.simps [simp del]

fun only_stars :: "string \<Rightarrow> bool" where
  "only_stars [] = True"
| "only_stars (c # cs) = (c = CHR ''*'' \<and> only_stars cs)"

definition globFullMatch :: "string \<Rightarrow> string \<Rightarrow> bool" where
  "globFullMatch pat text =
     (case glob_loop pat text 0 0 None 0 of
        None \<Rightarrow> False
      | Some pIdx \<Rightarrow> only_stars (drop pIdx pat))"

text \<open>The declarative meaning: a star stands for any string, every other character for itself.\<close>

fun glob :: "string \<Rightarrow> string \<Rightarrow> bool" where
  "glob [] t = (t = [])"
| "glob (c # p) t =
     (if c = CHR ''*'' then \<exists>k \<le> length t. glob p (drop k t)
      else (case t of [] \<Rightarrow> False | d # t' \<Rightarrow> d = c \<and> glob p t'))"

lemma glob_only_stars: "glob p [] = only_stars p"
  by (induction p) auto

lemma glob_literal:
  "CHR ''*'' \<notin> set lit \<Longrightarrow> glob (lit @ p) t \<longleftrightarrow> take (length lit) t = lit \<and> glob p (drop (length lit) t)"
  by (induction lit arbitrary: t) (auto split: list.splits)

lemma glob_star_Some: "j \<le> k \<Longrightarrow> k \<le> length t \<Longrightarrow> glob p (drop k t) \<Longrightarrow> glob (CHR ''*'' # p) (drop j t)"
  by (auto intro!: exI [of _ "k - j"])

lemma glob_star_iff:
  assumes "j \<le> length t"
  shows "glob (CHR ''*'' # p) (drop j t) \<longleftrightarrow> (\<exists>k. j \<le> k \<and> k \<le> length t \<and> glob p (drop k t))"
proof
  assume "glob (CHR ''*'' # p) (drop j t)"
  then obtain k where "k \<le> length t - j" "glob p (drop (k + j) t)" by auto
  with assms show "\<exists>k. j \<le> k \<and> k \<le> length t \<and> glob p (drop k t)"
    by (intro exI [of _ "k + j"]) auto
qed (use glob_star_Some in blast)

text \<open>
  What is known in the loop: the characters between the recorded star and \<open>pIdx\<close> are literals
  and were matched since \<open>matchIdx\<close>.
\<close>

definition glob_inv :: "string \<Rightarrow> string \<Rightarrow> nat \<Rightarrow> nat \<Rightarrow> nat option \<Rightarrow> nat \<Rightarrow> bool" where
  "glob_inv p t pI tI st mI \<longleftrightarrow> pI \<le> length p \<and> tI \<le> length t \<and>
     (\<forall>s. st = Some s \<longrightarrow> s < pI \<and> p ! s = CHR ''*'' \<and> mI \<le> tI \<and> tI - mI = pI - Suc s \<and>
        CHR ''*'' \<notin> set (take (pI - Suc s) (drop (Suc s) p)))"

definition glob_later :: "string \<Rightarrow> string \<Rightarrow> nat option \<Rightarrow> nat \<Rightarrow> bool" where
  "glob_later p t st mI \<longleftrightarrow>
     (\<exists>s k. st = Some s \<and> mI < k \<and> k \<le> length t \<and> glob (drop (Suc s) p) (drop k t))"

text \<open>A longer match of the recorded star leaves the literals after it further to the right.\<close>

lemma glob_later_shift:
  assumes "glob_inv p t pI tI st mI" "glob_later p t st mI"
  shows "\<exists>k > tI. k \<le> length t \<and> glob (drop pI p) (drop k t)"
proof -
  from assms(2) obtain s k where s: "st = Some s" and k: "mI < k" "k \<le> length t"
    and g: "glob (drop (Suc s) p) (drop k t)" by (auto simp: glob_later_def)
  define lit where "lit = take (pI - Suc s) (drop (Suc s) p)"
  have inv: "s < pI" "pI \<le> length p" "mI \<le> tI" "tI - mI = pI - Suc s" "CHR ''*'' \<notin> set lit"
    using assms(1) s by (auto simp: glob_inv_def lit_def)
  have "drop (Suc s) p = lit @ drop pI p"
    using inv(1,2) unfolding lit_def by (metis Suc_leI append_take_drop_id drop_drop le_add_diff_inverse2)
  with g have m: "take (length lit) (drop k t) = lit" "glob (drop pI p) (drop (k + length lit) t)"
    by (auto simp: glob_literal [OF inv(5)] add.commute)
  have len: "length lit = tI - mI" using inv by (simp add: lit_def)
  from m(1) have "length lit \<le> length t - k" by (metis length_drop length_take min.cobounded1)
  with m(2) len k inv(3) show ?thesis by (intro exI [of _ "k + length lit"]) auto
qed

lemma glob_later_step:
  assumes "st = Some s" "Suc mI \<le> length t"
  shows "glob_later p t st mI \<longleftrightarrow>
    glob (drop (Suc s) p) (drop (Suc mI) t) \<or> glob_later p t st (Suc mI)"
proof
  assume "glob_later p t st mI"
  then obtain k where k: "mI < k" "k \<le> length t" "glob (drop (Suc s) p) (drop k t)"
    using assms by (auto simp: glob_later_def)
  show "glob (drop (Suc s) p) (drop (Suc mI) t) \<or> glob_later p t st (Suc mI)"
  proof (cases "k = Suc mI")
    case False
    with k have "Suc mI < k" by simp
    with k assms show ?thesis unfolding glob_later_def by blast
  qed (use k in simp)
next
  assume "glob (drop (Suc s) p) (drop (Suc mI) t) \<or> glob_later p t st (Suc mI)"
  then show "glob_later p t st mI"
    using assms unfolding glob_later_def by (metis Suc_lessD lessI)
qed

lemma glob_loop_correct:
  "glob_inv p t pI tI st mI \<Longrightarrow>
   (case glob_loop p t pI tI st mI of None \<Rightarrow> False | Some i \<Rightarrow> only_stars (drop i p)) \<longleftrightarrow>
     glob (drop pI p) (drop tI t) \<or> glob_later p t st mI"
proof (induction p t pI tI st mI rule: glob_loop.induct)
  case (1 p t pI tI st mI)
  note inv = "1.prems"
  show ?case
  proof (cases "tI < length t")
    case False
    then have "tI = length t" using inv by (simp add: glob_inv_def)
    moreover from this have "\<not> glob_later p t st mI"
      using glob_later_shift [OF inv] by auto
    ultimately show ?thesis by (simp add: glob_loop.simps glob_only_stars)
  next
    case inText: True
    show ?thesis
    proof (cases "pI < length p \<and> (p ! pI = CHR ''*'' \<or> p ! pI = t ! tI)")
      case fit: True
      then have dp: "drop pI p = p ! pI # drop (Suc pI) p" by (simp add: Cons_nth_drop_Suc)
      show ?thesis
      proof (cases "p ! pI = CHR ''*''")
        case True
        have inv': "glob_inv p t (pI + 1) tI (Some pI) tI"
          using inv fit True by (auto simp: glob_inv_def)
        have "glob (drop pI p) (drop tI t) \<longleftrightarrow>
            glob (drop (Suc pI) p) (drop tI t) \<or> glob_later p t (Some pI) tI"
          using inText glob_star_iff [of tI t "drop (Suc pI) p"]
          unfolding dp True glob_later_def by (auto simp: le_less)
        moreover have "glob_later p t st mI \<Longrightarrow> glob (drop pI p) (drop tI t)"
          using glob_later_shift [OF inv] inText unfolding dp True
          by (metis glob_star_iff less_imp_le order_trans)
        ultimately show ?thesis
          using "1.IH"(1) [OF inText fit True inv'] inText fit True
          by (auto simp: glob_loop.simps [of p t pI])
      next
        case False
        have inv': "glob_inv p t (pI + 1) (tI + 1) st mI"
          using inv fit False inText
          by (fastforce simp: glob_inv_def take_Suc_conv_app_nth Suc_diff_Suc [symmetric] Suc_diff_le)
        have "glob (drop pI p) (drop tI t) \<longleftrightarrow> glob (drop (Suc pI) p) (drop (Suc tI) t)"
          using fit False inText unfolding dp by (simp add: Cons_nth_drop_Suc [symmetric])
        then show ?thesis
          using "1.IH"(2) [OF inText fit False inv'] inText fit False
          by (simp add: glob_loop.simps [of p t pI])
      qed
    next
      case nofit: False
      have no: "\<not> glob (drop pI p) (drop tI t)"
      proof (cases "pI < length p")
        case True
        then show ?thesis using nofit inText
          by (auto simp: Cons_nth_drop_Suc [symmetric])
      qed (use inText in simp)
      show ?thesis
      proof (cases st)
        case None
        then show ?thesis
          using inText nofit no by (subst glob_loop.simps) (auto simp: glob_later_def)
      next
        case (Some s)
        have inv': "glob_inv p t (s + 1) (mI + 1) st (mI + 1)"
          using inv Some inText by (auto simp: glob_inv_def)
        have "glob_later p t st mI \<longleftrightarrow>
            glob (drop (s + 1) p) (drop (mI + 1) t) \<or> glob_later p t st (mI + 1)"
          using glob_later_step [OF Some] inv' by (simp add: glob_inv_def)
        then show ?thesis
          using "1.IH"(3) [OF inText nofit Some, folded Some, OF inv'] inText nofit no Some
          by (subst glob_loop.simps) auto
      qed
    qed
  qed
qed

lemma globFullMatch_glob: "globFullMatch p t \<longleftrightarrow> glob p t"
  using glob_loop_correct [of p t 0 0 None 0]
  by (simp add: globFullMatch_def glob_inv_def glob_later_def)

section \<open>Patterns, groups and the verdict\<close>

definition matchesPattern :: "string \<Rightarrow> string \<Rightarrow> bool" where
  "matchesPattern pat path =
     (if pat = '''' then True
      else (let body = (if endsWith pat ''$'' then butlast pat else pat @ ''*'')
            in globFullMatch body path))"

definition agentMatches :: "string \<Rightarrow> string \<Rightarrow> bool" where
  "agentMatches declared uaToken =
     (if declared = '''' \<or> declared = ''*'' then False
      else str_includes (toLowerCase uaToken) (toLowerCase declared))"

definition better_rule :: "string \<Rightarrow> robots_rule option \<Rightarrow> robots_rule \<Rightarrow> robots_rule option" where
  "better_rule path best rule =
     (if \<not> matchesPattern (rpattern rule) path then best
      else (case best of
              None \<Rightarrow> Some rule
            | Some b \<Rightarrow>
                if length (rpattern rule) > length (rpattern b) then Some rule
                else if length (rpattern rule) = length (rpattern b) \<and>
                        directive rule = Allow \<and> directive b = Disallow then Some rule
                else best))"

definition bestRuleForPath :: "robots_rule list \<Rightarrow> string \<Rightarrow> robots_rule option" where
  "bestRuleForPath rs path = foldl (better_rule path) None rs"

definition pathAndQueryOf :: "url_parser \<Rightarrow> string \<Rightarrow> js_error + string" where
  "pathAndQueryOf newURL url =
     (case newURL url None of
        None \<Rightarrow> Inl TypeError
      | Some parsed \<Rightarrow>
          (let path = (if pathname parsed = '''' then ''/'' else pathname parsed)
           in Inr (normalizePercentEncoding (path @ search parsed))))"

text \<open>
  The two nested loops of \<open>selectApplicableGroups\<close>. A group is an object: \<open>matched.includes\<close>
  compares identities, so the model keeps the position of each group.
\<close>

definition select_agent ::
  "string \<Rightarrow> nat \<times> robots_group \<Rightarrow> nat \<times> (nat \<times> robots_group) list \<Rightarrow> string \<Rightarrow>
   nat \<times> (nat \<times> robots_group) list" where
  "select_agent uaToken grp acc ua =
     (case acc of (bestLen, matched) \<Rightarrow>
        if \<not> agentMatches ua uaToken then acc
        else if length ua > bestLen then (length ua, [grp])
        else if length ua = bestLen then
          (if fst grp \<in> fst ` set matched then acc else (bestLen, matched @ [grp]))
        else acc)"

definition select_group ::
  "string \<Rightarrow> nat \<times> (nat \<times> robots_group) list \<Rightarrow> nat \<times> robots_group \<Rightarrow>
   nat \<times> (nat \<times> robots_group) list" where
  "select_group uaToken acc grp =
     foldl (select_agent uaToken grp) acc (userAgents (snd grp))"

definition selectApplicableGroups :: "robots_rules \<Rightarrow> string \<Rightarrow> robots_group list \<times> string" where
  "selectApplicableGroups rs uaToken =
     (let matched = map snd (snd (foldl (select_group uaToken) (0, []) (enumerate 0 (groups rs))));
          wildcard = filter (\<lambda>g. ''*'' \<in> set (userAgents g)) (groups rs)
      in if matched \<noteq> [] then (matched, ''utsuroibot'')
         else if wildcard \<noteq> [] then (wildcard, ''*'')
         else ([], ''none''))"

record evaluate_result =
  ev_verdict :: robots_verdict
  ev_userAgentGroup :: string
  ev_matchedRule :: "string option"

definition show_directive :: "directive \<Rightarrow> string" where
  "show_directive d = (case d of Allow \<Rightarrow> ''allow'' | Disallow \<Rightarrow> ''disallow'')"

definition evaluateRobots ::
  "url_parser \<Rightarrow> robots_rules \<Rightarrow> string \<Rightarrow> string \<Rightarrow> js_error + evaluate_result" where
  "evaluateRobots newURL rs url uaToken =
     (case selectApplicableGroups rs uaToken of (gs, label) \<Rightarrow>
        if gs = [] then Inr \<lparr>ev_verdict = Allowed, ev_userAgentGroup = label, ev_matchedRule = None\<rparr>
        else (case pathAndQueryOf newURL url of
                Inl e \<Rightarrow> Inl e
              | Inr path \<Rightarrow>
                  (case bestRuleForPath (concat (map rules gs)) path of
                     None \<Rightarrow> Inr \<lparr>ev_verdict = Allowed, ev_userAgentGroup = label,
                                  ev_matchedRule = None\<rparr>
                   | Some best \<Rightarrow> Inr
                       \<lparr>ev_verdict = (if directive best = Allow then Allowed else Disallowed),
                        ev_userAgentGroup = label,
                        ev_matchedRule = Some (show_directive (directive best) @ '': '' @ rpattern best)\<rparr>)))"

section \<open>Lemmas\<close>

text \<open>The rank of a rule: its length, and at equal length an allow above a disallow.\<close>

definition rule_rank :: "robots_rule \<Rightarrow> nat" where
  "rule_rank r = 2 * length (rpattern r) + (if directive r = Allow then 1 else 0)"

lemma better_rule_rank:
  "better_rule path best rule =
     (if matchesPattern (rpattern rule) path \<and>
         (case best of None \<Rightarrow> True | Some b \<Rightarrow> rule_rank b < rule_rank rule)
      then Some rule else best)"
  by (cases "directive rule"; cases best; cases "directive (the best)")
    (auto simp: better_rule_def rule_rank_def)

lemma best_fold:
  assumes "foldl (better_rule path) acc rs = best"
    and "\<forall>b. acc = Some b \<longrightarrow> matchesPattern (rpattern b) path"
  shows "(best = None \<longleftrightarrow> acc = None \<and> (\<forall>r \<in> set rs. \<not> matchesPattern (rpattern r) path)) \<and>
    (\<forall>b. best = Some b \<longrightarrow> matchesPattern (rpattern b) path \<and>
       (b \<in> set rs \<or> acc = Some b) \<and>
       (\<forall>a. acc = Some a \<longrightarrow> rule_rank a \<le> rule_rank b) \<and>
       (\<forall>r \<in> set rs. matchesPattern (rpattern r) path \<longrightarrow> rule_rank r \<le> rule_rank b))"
  using assms
proof (induction rs arbitrary: acc)
  case (Cons r rs)
  let ?acc = "better_rule path acc r"
  have acc: "\<forall>b. ?acc = Some b \<longrightarrow> matchesPattern (rpattern b) path"
    using Cons.prems(2) by (auto simp: better_rule_rank)
  from Cons.IH [OF _ acc] Cons.prems(1)
  have IH: "(best = None \<longleftrightarrow> ?acc = None \<and> (\<forall>r \<in> set rs. \<not> matchesPattern (rpattern r) path)) \<and>
    (\<forall>b. best = Some b \<longrightarrow> matchesPattern (rpattern b) path \<and> (b \<in> set rs \<or> ?acc = Some b) \<and>
       (\<forall>a. ?acc = Some a \<longrightarrow> rule_rank a \<le> rule_rank b) \<and>
       (\<forall>r \<in> set rs. matchesPattern (rpattern r) path \<longrightarrow> rule_rank r \<le> rule_rank b))"
    by simp
  show ?case
  proof (cases "?acc = acc")
    case True
    with IH show ?thesis
      by (cases acc) (auto simp: better_rule_rank split: if_splits)
  next
    case False
    then have "?acc = Some r" "matchesPattern (rpattern r) path"
      "\<forall>a. acc = Some a \<longrightarrow> rule_rank a < rule_rank r"
      by (auto simp: better_rule_rank split: if_splits option.splits)
    with IH show ?thesis by (fastforce dest: less_imp_le)
  qed
qed auto

lemma bestRuleForPath_spec:
  "case bestRuleForPath rs path of
     None \<Rightarrow> \<forall>r \<in> set rs. \<not> matchesPattern (rpattern r) path
   | Some b \<Rightarrow> b \<in> set rs \<and> matchesPattern (rpattern b) path \<and>
       (\<forall>r \<in> set rs. matchesPattern (rpattern r) path \<longrightarrow> rule_rank r \<le> rule_rank b)"
  using best_fold [OF refl, of None path rs]
  by (auto simp: bestRuleForPath_def split: option.splits)

lemma rank_disallow:
  assumes "rule_rank r = rule_rank b"
  shows "directive r = directive b \<and> length (rpattern r) = length (rpattern b)"
  using assms unfolding rule_rank_def
  by (cases "directive r"; cases "directive b") (auto; presburger)+

lemma disallow_wins:
  "(\<exists>b. bestRuleForPath rs path = Some b \<and> directive b \<noteq> Allow) \<longleftrightarrow>
   (\<exists>d \<in> set rs. directive d = Disallow \<and> matchesPattern (rpattern d) path \<and>
      \<not> (\<exists>a \<in> set rs. matchesPattern (rpattern a) path \<and>
          (length (rpattern d) < length (rpattern a) \<or>
           length (rpattern d) = length (rpattern a) \<and> directive a = Allow)))"
  (is "?L \<longleftrightarrow> ?R")
proof
  assume ?L
  then obtain b where b: "bestRuleForPath rs path = Some b" "directive b = Disallow"
    by (metis directive.exhaust)
  with bestRuleForPath_spec [of rs path] have spec: "b \<in> set rs" "matchesPattern (rpattern b) path"
    "\<And>r. r \<in> set rs \<Longrightarrow> matchesPattern (rpattern r) path \<Longrightarrow> rule_rank r \<le> rule_rank b" by auto
  then show ?R using b(2)
    by (intro bexI [of _ b]) (auto simp: rule_rank_def split: if_splits dest!: spec(3))
next
  assume ?R
  then obtain d where d: "d \<in> set rs" "directive d = Disallow" "matchesPattern (rpattern d) path"
    and top: "\<And>a. a \<in> set rs \<Longrightarrow> matchesPattern (rpattern a) path \<Longrightarrow>
      length (rpattern a) \<le> length (rpattern d) \<and>
      (length (rpattern a) = length (rpattern d) \<longrightarrow> directive a \<noteq> Allow)"
    by (metis less_or_eq_imp_le linorder_neqE_nat)
  obtain b where b: "bestRuleForPath rs path = Some b"
    using bestRuleForPath_spec [of rs path] d by (cases "bestRuleForPath rs path") auto
  with bestRuleForPath_spec [of rs path] d
  have "rule_rank d \<le> rule_rank b" "b \<in> set rs" "matchesPattern (rpattern b) path" by auto
  with top [of b] d(2) have "directive b \<noteq> Allow" by (auto simp: rule_rank_def split: if_splits)
  with b show ?L by blast
qed

lemma glob_append_star: "glob (p @ ''*'') t \<longleftrightarrow> (\<exists>k \<le> length t. glob p (take k t))"
proof (induction p arbitrary: t)
  case Nil
  have "\<exists>k \<le> length t. drop k t = []" by (intro exI [of _ "length t"]) simp
  then show ?case by (auto intro: exI [of _ 0])
next
  case (Cons c p)
  show ?case
  proof (cases "c = CHR ''*''")
    case True
    have "(\<exists>j \<le> length t. \<exists>k \<le> length t - j. glob p (take k (drop j t))) \<longleftrightarrow>
        (\<exists>k \<le> length t. \<exists>j \<le> min (length t) k. glob p (drop j (take k t)))"
      (is "?L \<longleftrightarrow> ?R")
    proof
      assume ?L
      then obtain j k where "j \<le> length t" "k \<le> length t - j" "glob p (take k (drop j t))" by blast
      then show ?R
        by (intro exI [of _ "k + j"] conjI exI [of _ j]) (auto simp: take_drop)
    next
      assume ?R
      then obtain j k where jk: "k \<le> length t" "j \<le> k" "glob p (drop j (take k t))" by auto
      have "drop j (take k t) = take (k - j) (drop j t)" by (simp add: drop_take)
      with jk have "j \<le> length t" "k - j \<le> length t - j" "glob p (take (k - j) (drop j t))" by auto
      then show ?L by blast
    qed
    with True Cons show ?thesis by simp
  next
    case False
    show ?thesis
    proof (cases t)
      case (Cons d t')
      have "(\<exists>k \<le> length t. glob (c # p) (take k t)) \<longleftrightarrow> d = c \<and> (\<exists>k \<le> length t'. glob p (take k t'))"
        (is "?L \<longleftrightarrow> ?R")
      proof
        assume ?L
        then obtain k where "k \<le> length t" "glob (c # p) (take k t)" by blast
        with False Cons show ?R by (cases k) auto
      next
        assume ?R
        then obtain k where "d = c" "k \<le> length t'" "glob p (take k t')" by blast
        with False Cons show ?L by (intro exI [of _ "Suc k"]) simp
      qed
      with False Cons Cons.IH show ?thesis by simp
    qed (use False in simp)
  qed
qed

text \<open>
  C14. A pattern that ends in a dollar sign matches exactly the paths its wildcard expression
  matches, every other pattern matches the paths of which it matches a prefix, and the empty
  pattern matches every path.
\<close>

theorem matchesPattern_spec:
  "matchesPattern pat path \<longleftrightarrow>
     (if pat = '''' then True
      else if endsWith pat ''$'' then glob (butlast pat) path
      else (\<exists>k \<le> length path. glob pat (take k path)))"
  by (simp add: matchesPattern_def globFullMatch_glob glob_append_star)

text \<open>
  C15. The verdict for an URL the platform accepts: it is disallowed exactly when some rule of the
  selected groups that matches the path is a disallow and no matching allow rule is as long, and
  evaluation reports the label of the selected groups. An URL the platform refuses is an error
  unless no group applies.
\<close>

theorem evaluateRobots_verdict:
  "case selectApplicableGroups rs ua of (gs, label) \<Rightarrow>
   (case evaluateRobots newURL rs url ua of
      Inl e \<Rightarrow> e = TypeError \<and> gs \<noteq> [] \<and> newURL url None = None
    | Inr r \<Rightarrow> ev_userAgentGroup r = label \<and>
       (ev_verdict r = Disallowed \<longleftrightarrow>
         (\<exists>path. pathAndQueryOf newURL url = Inr path \<and>
           (\<exists>d \<in> set (concat (map rules gs)).
              directive d = Disallow \<and> matchesPattern (rpattern d) path \<and>
              \<not> (\<exists>a \<in> set (concat (map rules gs)). matchesPattern (rpattern a) path \<and>
                  (length (rpattern d) < length (rpattern a) \<or>
                   length (rpattern d) = length (rpattern a) \<and> directive a = Allow))))))"
proof (cases "selectApplicableGroups rs ua")
  case (Pair gs label)
  note sel = this
  show ?thesis
  proof (cases "gs = [] \<or> newURL url None = None")
    case True
    with sel show ?thesis by (auto simp: evaluateRobots_def pathAndQueryOf_def)
  next
    case False
    then obtain path where path: "pathAndQueryOf newURL url = Inr path" and gs: "gs \<noteq> []"
      by (auto simp: pathAndQueryOf_def Let_def)
    let ?rs = "concat (map rules gs)"
    show ?thesis
      using bestRuleForPath_spec [of ?rs path] disallow_wins [of ?rs path] sel path gs
      by (cases "bestRuleForPath ?rs path") (auto simp: evaluateRobots_def)
  qed
qed

end
