(* ===== verification/Robots_Check.thy ===== *)
theory Robots_Check
  imports Robots_Evaluator
begin

text \<open>
  The robots.txt check (src/robots/check.ts) and its cache in D1 (src/pipeline/robotsCache.ts).
  The request for robots.txt, the text decoder and the URL parser are arguments; the clock is
  read once per call. The contract \<open>RobotsCache\<close> of src/robots/types.ts is a locale.
\<close>

section \<open>Reading the body\<close>

definition MAX_ROBOTS_BYTES :: nat where
  "MAX_ROBOTS_BYTES = 500 * 1024"

definition DEFAULT_ROBOTS_TTL_SECONDS :: int where
  "DEFAULT_ROBOTS_TTL_SECONDS = 3600"

definition DEFAULT_UA_TOKEN :: string where
  "DEFAULT_UA_TOKEN = ''utsuroibot''"

text \<open>
  A body: the whole text as bytes when the response has no stream, or the chunks the reader
  yields, after which it ends (\<open>True\<close>) or a read throws (\<open>False\<close>).
\<close>

datatype response_body = NoStream bytes | Chunks "bytes list" bool

fun read_chunks :: "nat \<Rightarrow> nat \<Rightarrow> bytes list \<Rightarrow> bytes list \<Rightarrow> bool \<Rightarrow> bytes list option" where
  "read_chunks maxBytes n acc [] ends =
     (if n \<ge> maxBytes then Some acc else if ends then Some acc else None)"
| "read_chunks maxBytes n acc (v # vs) ends =
     (if n \<ge> maxBytes then Some acc
      else if v = [] then read_chunks maxBytes n acc vs ends
      else let remaining = maxBytes - n
           in if length v > remaining then Some (acc @ [take remaining v])
              else read_chunks maxBytes (n + length v) (acc @ [v]) vs ends)"

definition readCappedText :: "(bytes \<Rightarrow> string) \<Rightarrow> response_body \<Rightarrow> nat \<Rightarrow> string option" where
  "readCappedText decode body maxBytes =
     (case body of
        NoStream bs \<Rightarrow> Some (decode (if length bs \<le> maxBytes then bs else take maxBytes bs))
      | Chunks vs ends \<Rightarrow> map_option (\<lambda>cs. decode (concat cs)) (read_chunks maxBytes 0 [] vs ends))"

section \<open>Fetching\<close>

record cached_robots =
  cr_robotsUrl :: string
  cr_fetchedAt :: ms
  cr_rules :: robots_rules
  cr_unavailable :: bool

record robots_response =
  rr_status :: int
  rr_body :: response_body

definition fetchRobots ::
  "(bytes \<Rightarrow> string) \<Rightarrow> string \<Rightarrow> (string \<Rightarrow> robots_response option) \<Rightarrow> ms \<Rightarrow> cached_robots" where
  "fetchRobots decode robotsUrl fetchImpl nowIso =
     (let entry = (\<lambda>rs un. \<lparr>cr_robotsUrl = robotsUrl, cr_fetchedAt = nowIso, cr_rules = rs, cr_unavailable = un\<rparr>)
      in case fetchImpl robotsUrl of
           None \<Rightarrow> entry EMPTY_ROBOTS_RULES True
         | Some response \<Rightarrow>
             if rr_status response \<ge> 200 \<and> rr_status response < 300 then
               (case readCappedText decode (rr_body response) MAX_ROBOTS_BYTES of
                  Some text \<Rightarrow> entry (parseRobotsTxt text) False
                | None \<Rightarrow> entry EMPTY_ROBOTS_RULES True)
             else if rr_status response \<ge> 400 \<and> rr_status response < 500
             then entry EMPTY_ROBOTS_RULES False
             else entry EMPTY_ROBOTS_RULES True)"

section \<open>The check\<close>

record robots_decision =
  verdict :: robots_verdict
  robotsUrl :: string
  fetchedAt :: ms
  userAgentGroup :: string
  matchedRule :: "string option"
  unavailable :: bool
  fromCache :: bool

definition fresh :: "ms \<Rightarrow> int \<Rightarrow> cached_robots \<Rightarrow> bool" where
  "fresh now ttlSeconds cached =
     (let ageMs = now - cr_fetchedAt cached in ageMs \<ge> 0 \<and> ageMs < ttlSeconds * 1000)"

definition decide ::
  "url_parser \<Rightarrow> string \<Rightarrow> string \<Rightarrow> bool \<Rightarrow> cached_robots \<Rightarrow> js_error + robots_decision" where
  "decide newURL targetUrl uaToken fc entry =
     (if cr_unavailable entry
      then Inr \<lparr>verdict = Disallowed, robotsUrl = cr_robotsUrl entry, fetchedAt = cr_fetchedAt entry,
                userAgentGroup = ''unavailable'', matchedRule = None, unavailable = True, fromCache = fc\<rparr>
      else (case evaluateRobots newURL (cr_rules entry) targetUrl uaToken of
              Inl e \<Rightarrow> Inl e
            | Inr ev \<Rightarrow> Inr \<lparr>verdict = ev_verdict ev, robotsUrl = cr_robotsUrl entry,
                fetchedAt = cr_fetchedAt entry, userAgentGroup = ev_userAgentGroup ev,
                matchedRule = ev_matchedRule ev, unavailable = False, fromCache = fc\<rparr>))"

text \<open>The injected cache is a pair of operations on its state, or absent.\<close>

type_synonym 'c robots_cache_ops =
  "(string \<Rightarrow> 'c \<Rightarrow> cached_robots option) \<times> (string \<Rightarrow> cached_robots \<Rightarrow> 'c \<Rightarrow> 'c)"

definition checkRobots ::
  "url_parser \<Rightarrow> (bytes \<Rightarrow> string) \<Rightarrow> (string \<Rightarrow> robots_response option) \<Rightarrow> 'c robots_cache_ops option \<Rightarrow>
   int option \<Rightarrow> string option \<Rightarrow> ms \<Rightarrow> string \<Rightarrow> string \<Rightarrow> 'c \<Rightarrow> 'c \<times> (js_error + robots_decision)" where
  "checkRobots newURL decode fetchImpl cache ttlOpt uaOpt now originUrl targetUrl c =
     (let uaToken = orElse uaOpt DEFAULT_UA_TOKEN;
          ttlSeconds = orElse ttlOpt DEFAULT_ROBOTS_TTL_SECONDS
      in case newURL originUrl None of
           None \<Rightarrow> (c, Inl TypeError)
         | Some u \<Rightarrow>
             (case newURL ''/robots.txt'' (Some (origin u)) of
                None \<Rightarrow> (c, Inl TypeError)
              | Some r \<Rightarrow>
                  (let cached = (case cache of None \<Rightarrow> None
                                 | Some (get, put) \<Rightarrow>
                                     (case get (origin u) c of
                                        Some e \<Rightarrow> if fresh now ttlSeconds e then Some e else None
                                      | None \<Rightarrow> None))
                   in case cached of
                        Some e \<Rightarrow> (c, decide newURL targetUrl uaToken True e)
                      | None \<Rightarrow>
                          (let e = fetchRobots decode (href r) fetchImpl now;
                               c' = (case cache of None \<Rightarrow> c
                                     | Some (get, put) \<Rightarrow> if cr_unavailable e then c else put (origin u) e c)
                           in (c', decide newURL targetUrl uaToken False e)))))"

section \<open>The D1 cache\<close>

text \<open>
  The column \<open>rules\<close>: NULL, or a JSON text that parses or does not. \<open>JSON.parse\<close> gives back what
  \<open>JSON.stringify\<close> wrote.
\<close>

record robots_cache_row =
  rc_origin :: string
  rc_robots_url :: string
  rc_fetched_at :: ms
  rc_unavailable :: int
  rc_rules :: "robots_rules option option"
  rc_created_at :: ms
  rc_updated_at :: ms

definition toCachedRobots :: "robots_cache_row \<Rightarrow> cached_robots" where
  "toCachedRobots r =
     \<lparr>cr_robotsUrl = rc_robots_url r, cr_fetchedAt = rc_fetched_at r,
      cr_rules = (case rc_rules r of Some (Some rs) \<Rightarrow> rs | _ \<Rightarrow> EMPTY_ROBOTS_RULES),
      cr_unavailable = (rc_unavailable r = 1)\<rparr>"

definition d1_get :: "string \<Rightarrow> robots_cache_row list \<Rightarrow> cached_robots option" where
  "d1_get orig t = map_option toCachedRobots (find (\<lambda>r. rc_origin r = orig) t)"

definition d1_put :: "ms \<Rightarrow> string \<Rightarrow> cached_robots \<Rightarrow> robots_cache_row list \<Rightarrow> robots_cache_row list" where
  "d1_put now orig v t =
     (let un = (if cr_unavailable v then 1 else 0);
          rs = (if cr_unavailable v then None else Some (Some (cr_rules v)))
      in if list_ex (\<lambda>r. rc_origin r = orig) t
         then map (\<lambda>r. if rc_origin r = orig
                        then r\<lparr>rc_robots_url := cr_robotsUrl v, rc_fetched_at := cr_fetchedAt v,
                               rc_unavailable := un, rc_rules := rs, rc_updated_at := now\<rparr> else r) t
         else t @ [\<lparr>rc_origin = orig, rc_robots_url = cr_robotsUrl v, rc_fetched_at = cr_fetchedAt v,
                    rc_unavailable = un, rc_rules = rs, rc_created_at = now, rc_updated_at = now\<rparr>])"

section \<open>The contract of a cache\<close>

locale robots_cache =
  fixes get :: "string \<Rightarrow> 'c \<Rightarrow> cached_robots option"
    and put :: "string \<Rightarrow> cached_robots \<Rightarrow> 'c \<Rightarrow> 'c"
  assumes get_put: "\<not> cr_unavailable v \<Longrightarrow> get orig (put orig v c) = Some v"
    and get_put_other: "other \<noteq> orig \<Longrightarrow> get other (put orig v c) = get other c"
begin

lemma second_check_from_cache:
  assumes first: "checkRobots newURL decode fetchImpl (Some (get, put)) ttl ua now orig url c = (c', Inr d)"
    and available: "\<not> unavailable d"
    and t: "now \<le> now'" "now' - fetchedAt d < orElse ttl DEFAULT_ROBOTS_TTL_SECONDS * 1000"
  shows "checkRobots newURL decode fetchImpl' (Some (get, put)) ttl ua now' orig url c' =
    (c', Inr (d\<lparr>fromCache := True\<rparr>))"
proof -
  from first obtain u r where u: "newURL orig None = Some u" "newURL ''/robots.txt'' (Some (origin u)) = Some r"
    by (auto simp: checkRobots_def Let_def split: option.splits)
  let ?tok = "orElse ua DEFAULT_UA_TOKEN" and ?ttl = "orElse ttl DEFAULT_ROBOTS_TTL_SECONDS"
  have "\<exists>e fc. decide newURL url ?tok fc e = Inr d \<and> get (origin u) c' = Some e \<and> cr_fetchedAt e \<le> now"
  proof (cases "\<exists>e. get (origin u) c = Some e \<and> fresh now ?ttl e")
    case True
    then obtain e where "get (origin u) c = Some e" "fresh now ?ttl e" by blast
    with first u show ?thesis
      by (auto simp: checkRobots_def Let_def fresh_def)
  next
    case False
    let ?e = "fetchRobots decode (href r) fetchImpl now"
    have cached: "(case get (origin u) c of Some e \<Rightarrow> if fresh now ?ttl e then Some e else None | None \<Rightarrow> None) = None"
      using False by (auto split: option.splits)
    have d: "decide newURL url ?tok False ?e = Inr d"
      and c': "c' = (if cr_unavailable ?e then c else put (origin u) ?e c)"
      using first u cached by (auto simp: checkRobots_def Let_def)
    from d available have "\<not> cr_unavailable ?e" by (auto simp: decide_def)
    moreover have "cr_fetchedAt ?e = now"
      by (simp add: fetchRobots_def Let_def split: option.split)
    ultimately show ?thesis using d c' get_put by force
  qed
  then obtain e fc where e: "decide newURL url ?tok fc e = Inr d" "get (origin u) c' = Some e"
    "cr_fetchedAt e \<le> now" by blast
  from e(1) have "fetchedAt d = cr_fetchedAt e"
    by (auto simp: decide_def split: sum.splits if_splits)
  with t e(3) have "fresh now' ?ttl e" by (simp add: fresh_def)
  moreover have "decide newURL url ?tok True e = Inr (d\<lparr>fromCache := True\<rparr>)"
    using e(1) by (auto simp: decide_def split: sum.splits if_splits)
  ultimately show ?thesis using u e(2) by (simp add: checkRobots_def Let_def)
qed

end

lemma find_map_key:
  "(\<And>r. k (f r) = k r) \<Longrightarrow> find (\<lambda>r. k r = x) (map (\<lambda>r. if k r = y then f r else r) t) =
   map_option (\<lambda>r. if k r = y then f r else r) (find (\<lambda>r. k r = x) t)"
  by (induction t) auto

lemma list_ex_find: "list_ex P t \<longleftrightarrow> find P t \<noteq> None"
  by (auto simp: list_ex_iff find_None_iff)

interpretation d1c: robots_cache d1_get "d1_put now" for now
proof
  fix v :: cached_robots and orig t assume "\<not> cr_unavailable v"
  then show "d1_get orig (d1_put now orig v t) = Some v"
    by (cases "find (\<lambda>r. rc_origin r = orig) t")
      (auto simp: d1_get_def d1_put_def Let_def find_map_key find_append_case toCachedRobots_def
        list_ex_find dest: find_SomeD)
next
  fix other orig :: string and v :: cached_robots and t assume "other \<noteq> orig"
  then show "d1_get other (d1_put now orig v t) = d1_get other t"
    by (cases "find (\<lambda>r. rc_origin r = other) t")
      (auto simp: d1_get_def d1_put_def Let_def find_map_key find_append_case dest: find_SomeD)
qed

section \<open>Properties\<close>

text \<open>
  What an answer of the server means: a network error, a status outside 2xx and 4xx and a body
  that cannot be read are unavailable, 4xx is an empty set of rules, 2xx the parsed text.
\<close>

lemma fetchRobots_unavailable:
  "cr_unavailable (fetchRobots decode u fetchImpl now) \<longleftrightarrow>
   (case fetchImpl u of
      None \<Rightarrow> True
    | Some res \<Rightarrow> if rr_status res \<in> {200..<300} then readCappedText decode (rr_body res) MAX_ROBOTS_BYTES = None
        else rr_status res \<notin> {400..<500})"
  by (auto simp: fetchRobots_def Let_def split: option.splits)

text \<open>
  C16. The check fails closed and remembers only answers: when the result comes from a request
  that failed, or from a status that is neither 2xx nor 4xx, or from a body that cannot be read,
  the verdict is disallowed, marked unavailable, and the cache is as before; when the server
  answers 4xx everything is allowed.
\<close>

theorem checkRobots_fail_closed:
  "case checkRobots newURL decode fetchImpl (Some (d1_get, d1_put now)) ttl ua now orig url c of
     (c', Inr d) \<Rightarrow>
       (unavailable d \<longrightarrow> verdict d = Disallowed \<and> c' = c) \<and>
       (\<not> fromCache d \<longrightarrow>
          (unavailable d \<longleftrightarrow>
             (case fetchImpl (robotsUrl d) of None \<Rightarrow> True
              | Some res \<Rightarrow> if rr_status res \<in> {200..<300}
                  then readCappedText decode (rr_body res) MAX_ROBOTS_BYTES = None
                  else rr_status res \<notin> {400..<500})) \<and>
          (\<forall>res. fetchImpl (robotsUrl d) = Some res \<and> rr_status res \<in> {400..<500} \<longrightarrow>
             verdict d = Allowed \<and> d1_get (origin (the (newURL orig None))) c' \<noteq> None))
   | (c', Inl e) \<Rightarrow> e = TypeError"
proof -
  have empty: "evaluateRobots newURL EMPTY_ROBOTS_RULES url t =
      Inr \<lparr>ev_verdict = Allowed, ev_userAgentGroup = ''none'', ev_matchedRule = None\<rparr>" for t
    by (simp add: evaluateRobots_def selectApplicableGroups_def EMPTY_ROBOTS_RULES_def enumerate_eq_zip)
  have err: "evaluateRobots newURL rs url t = Inl e \<Longrightarrow> e = TypeError" for rs t e
    by (auto simp: evaluateRobots_def pathAndQueryOf_def Let_def split: prod.splits if_splits option.splits sum.splits)
  have derr: "decide newURL url t fc e = Inl x \<Longrightarrow> x = TypeError" for t fc e x
    using err by (auto simp: decide_def split: if_splits sum.splits)
  have dun: "decide newURL url t fc e = Inr d \<Longrightarrow>
      unavailable d = cr_unavailable e \<and> robotsUrl d = cr_robotsUrl e \<and> fromCache d = fc \<and>
      (unavailable d \<longrightarrow> verdict d = Disallowed) \<and>
      (\<not> unavailable d \<and> cr_rules e = EMPTY_ROBOTS_RULES \<longrightarrow> verdict d = Allowed)" for t fc e d
    using empty by (auto simp: decide_def split: if_splits sum.splits)
  have furl: "cr_robotsUrl (fetchRobots decode u fetchImpl now) = u" for u
    by (simp add: fetchRobots_def Let_def split: option.split)
  have f4: "fetchImpl u = Some res \<Longrightarrow> rr_status res \<in> {400..<500} \<Longrightarrow>
      cr_rules (fetchRobots decode u fetchImpl now) = EMPTY_ROBOTS_RULES" for u res
    by (simp add: fetchRobots_def Let_def)
  obtain c' r where run: "checkRobots newURL decode fetchImpl (Some (d1_get, d1_put now)) ttl ua now orig url c = (c', r)"
    by fastforce
  show ?thesis
  proof (cases r)
    case (Inl e)
    with run derr show ?thesis
      by (auto simp: checkRobots_def Let_def split: option.splits if_splits)
  next
    case (Inr d)
    with run obtain u w where u: "newURL orig None = Some u" "newURL ''/robots.txt'' (Some (origin u)) = Some w"
      by (auto simp: checkRobots_def Let_def split: option.splits)
    let ?tok = "orElse ua DEFAULT_UA_TOKEN" and ?e = "fetchRobots decode (href w) fetchImpl now"
    consider (hit) e where "decide newURL url ?tok True e = Inr d" "c' = c"
      | (miss) "decide newURL url ?tok False ?e = Inr d"
          "c' = (if cr_unavailable ?e then c else d1_put now (origin u) ?e c)"
      using run Inr u by (auto simp: checkRobots_def Let_def split: option.splits if_splits)
    then show ?thesis
    proof cases
      case hit
      from dun [OF hit(1)] hit(2) show ?thesis by (simp add: run Inr)
    next
      case miss
      from dun [OF miss(1)] furl have d: "unavailable d = cr_unavailable ?e" "robotsUrl d = href w"
        "\<not> fromCache d" "unavailable d \<longrightarrow> verdict d = Disallowed"
        "\<not> unavailable d \<and> cr_rules ?e = EMPTY_ROBOTS_RULES \<longrightarrow> verdict d = Allowed" by auto
      have "d1_get (origin u) c' \<noteq> None" if "\<not> cr_unavailable ?e"
        using miss(2) that d1c.get_put [OF that] by simp
      with d miss(2) u f4 [of "href w"] fetchRobots_unavailable [of decode "href w" fetchImpl now]
      show ?thesis by (auto simp: run Inr)
    qed
  qed
qed

text \<open>
  While an answer is younger than its time to live, the next check of the origin, for the same
  URL, gives the same decision from the cache, whatever the network would say.
\<close>

theorem checkRobots_cached:
  assumes "checkRobots newURL decode fetchImpl (Some (d1_get, d1_put now)) ttl ua now orig url c = (c', Inr d)"
    and "\<not> unavailable d" "now \<le> now'"
    and "now' - fetchedAt d < orElse ttl DEFAULT_ROBOTS_TTL_SECONDS * 1000"
  shows "checkRobots newURL decode fetchImpl' (Some (d1_get, d1_put now)) ttl ua now' orig url c' =
    (c', Inr (d\<lparr>fromCache := True\<rparr>))"
  using assms by (rule d1c.second_check_from_cache)

definition example_url :: url_parser where
  "example_url s b = Some \<lparr>href = ''http://a/robots.txt'', protocol = ''http:'', username = '''', password = '''',
     hostname = ''a'', port = '''', pathname = ''/private'', search = '''', origin = ''http://a''\<rparr>"

definition example_fetch :: "string \<Rightarrow> robots_response option" where
  "example_fetch u = Some \<lparr>rr_status = 404, rr_body = NoStream []\<rparr>"

theorem checkRobots_cached_witness:
  "\<exists>c' d. checkRobots example_url (\<lambda>b. '''') (\<lambda>u. None) (Some (d1_get, d1_put 0)) None None 1000
      ''http://a'' ''http://a/private'' c' = (c', Inr d) \<and> fromCache d \<and> verdict d = Allowed"
proof -
  let ?run = "checkRobots example_url (\<lambda>b. '''') example_fetch (Some (d1_get, d1_put 0)) None None 0
      ''http://a'' ''http://a/private'' []"
  have r: "?run = (fst ?run, Inr (projr (snd ?run)))" and
    p: "\<not> unavailable (projr (snd ?run))" "verdict (projr (snd ?run)) = Allowed" "fetchedAt (projr (snd ?run)) = 0"
    by (simp_all add: checkRobots_def example_url_def example_fetch_def d1_get_def Let_def fetchRobots_def
        decide_def evaluateRobots_def selectApplicableGroups_def EMPTY_ROBOTS_RULES_def enumerate_eq_zip)
  show ?thesis
    using checkRobots_cached [OF r p(1), of 1000 "\<lambda>u. None"] p
    by (intro exI [of _ "fst ?run"] exI [of _ "(projr (snd ?run))\<lparr>fromCache := True\<rparr>"])
      (simp add: DEFAULT_ROBOTS_TTL_SECONDS_def)
qed

theorem checkRobots_fail_closed_witness:
  "case checkRobots example_url (\<lambda>b. '''') (\<lambda>u. None) (Some (d1_get, d1_put 0)) None None 0
      ''http://a'' ''http://a/private'' [] of
     (c, Inr d) \<Rightarrow> unavailable d \<and> verdict d = Disallowed \<and> c = []
   | (c, Inl e) \<Rightarrow> False"
proof -
  let ?run = "checkRobots example_url (\<lambda>b. '''') (\<lambda>u. None) (Some (d1_get, d1_put 0)) None None 0
      ''http://a'' ''http://a/private'' []"
  have "isl (snd ?run) = False" "unavailable (projr (snd ?run))"
    by (simp_all add: checkRobots_def example_url_def d1_get_def Let_def fetchRobots_def decide_def)
  then show ?thesis
    using checkRobots_fail_closed [where newURL = example_url and decode = "\<lambda>b. ''''" and
        fetchImpl = "\<lambda>u. None" and ttl = None and ua = None and now = 0 and orig = "''http://a''" and
        url = "''http://a/private''" and c = "[]"]
    by (auto split: prod.splits sum.splits)
qed

lemma read_chunks_prefix:
  "length (concat acc) = n \<Longrightarrow> n \<le> m \<Longrightarrow>
   map_option concat (read_chunks m n acc vs ends) =
     (if ends \<or> m \<le> n + length (concat vs) then Some (take m (concat acc @ concat vs)) else None)"
  by (induction m n acc vs ends rule: read_chunks.induct) (auto simp: Let_def)

text \<open>
  Of a robots.txt body exactly the first 500 KiB are parsed, however the stream cuts it into
  chunks; a read that fails after that many bytes does not matter, an earlier one is an error.
\<close>

theorem readCappedText_prefix:
  "readCappedText decode (Chunks vs ends) MAX_ROBOTS_BYTES =
     (if ends \<or> 512000 \<le> length (concat vs) then Some (decode (take 512000 (concat vs))) else None) \<and>
   readCappedText decode (NoStream bs) MAX_ROBOTS_BYTES = Some (decode (take 512000 bs))"
proof -
  have "readCappedText decode (Chunks vs ends) m =
      map_option decode (map_option concat (read_chunks m 0 [] vs ends))" for m
    by (simp add: readCappedText_def option.map_comp comp_def)
  then show ?thesis
    using read_chunks_prefix [of "[]" 0 MAX_ROBOTS_BYTES vs ends]
    by (simp add: MAX_ROBOTS_BYTES_def readCappedText_def)
qed

end
