(* ===== verification/Pipeline_Notify.thy ===== *)
theory Pipeline_Notify
  imports Fetch_Target Robots_Check
begin

text \<open>
  The context of one check (src/pipeline/types.ts) and the stages that follow the detection of
  changes: classification (src/pipeline/classify.ts), title enrichment
  (src/pipeline/enrichTitle.ts) and the fan-out to deliveries and the notification queue
  (src/pipeline/notify.ts), with the object store helpers of src/pipeline/r2.ts.

  A stage is a function from the state to a result and the state; the left side of the result is an
  exception, which the stage above passes on unless the source catches it.
\<close>

section \<open>Actions\<close>

type_synonym ('a, 's) action = "'s \<Rightarrow> (thrown + 'a) \<times> 's"

definition andThen :: "('a, 's) action \<Rightarrow> ('a \<Rightarrow> ('b, 's) action) \<Rightarrow> ('b, 's) action" where
  "andThen m f s = (case m s of (Inl e, s1) \<Rightarrow> (Inl e, s1) | (Inr a, s1) \<Rightarrow> f a s1)"

fun for_each :: "('a \<Rightarrow> (unit, 's) action) \<Rightarrow> 'a list \<Rightarrow> (unit, 's) action" where
  "for_each f [] s = (Inr (), s)"
| "for_each f (x # xs) s =
     (case f x s of (Inl e, s1) \<Rightarrow> (Inl e, s1) | (Inr u, s1) \<Rightarrow> for_each f xs s1)"

lemma for_each_preserves:
  assumes "\<And>x s. x \<in> set xs \<Longrightarrow> P s \<Longrightarrow> P (snd (f x s))" "P s"
  shows "P (snd (for_each f xs s))"
  using assms
proof (induction xs arbitrary: s)
  case (Cons x xs)
  obtain r s1 where f: "f x s = (r, s1)" by fastforce
  with Cons.prems have "P s1" by (metis list.set_intros(1) snd_conv)
  with Cons f show ?case by (cases r) auto
qed simp

section \<open>The object store (src/pipeline/r2.ts)\<close>

datatype r2_value = R2_bytes bytes | R2_text string

type_synonym r2_bucket = "(string \<times> r2_value) list"

definition putIfAbsent :: "string \<Rightarrow> r2_value \<Rightarrow> r2_bucket \<Rightarrow> r2_bucket" where
  "putIfAbsent key body b = (if map_of b key \<noteq> None then b else AList.update key body b)"

definition bodyKey :: "string \<Rightarrow> string" where "bodyKey h = ''bodies/'' @ h"
definition normalizedKey :: "string \<Rightarrow> string" where "normalizedKey h = ''normalized/'' @ h"
definition diffKey :: "string \<Rightarrow> string" where "diffKey changeId = ''diffs/'' @ changeId"

text \<open>The source ends a cut preview with an ellipsis character, which the model leaves out.\<close>

definition truncateDiffPreview :: "string \<Rightarrow> nat \<Rightarrow> string" where
  "truncateDiffPreview diff maxChars =
     (if length diff \<le> maxChars then diff else take maxChars diff @ LF # '' (truncated)'')"

section \<open>The context of a check\<close>

record feed_item =
  stableKey :: string
  fi_url :: "string option"
  fi_title :: "string option"
  publishedAt :: "string option"
  updatedAt :: "string option"
  fi_summary :: "string option"
  fi_fields :: "(string \<times> string) list option"

text \<open>
  What a check carries and reads: rows loaded at its start, the clock, random ids (the k-th draw of
  the run), whether a send to the queue succeeds, and the platform.
\<close>

record 'n check_ctx =
  cc_monitor :: monitor_row
  cc_source :: source_row
  cc_site :: site_row
  cc_policy :: fetcher_policy
  cc_job :: check_job_row
  cc_userAgent :: string
  cc_env :: fetch_env
  cc_now :: "'n \<Rightarrow> ms"
  cc_uuid :: "nat \<Rightarrow> string"
  cc_sendFails :: "'n \<Rightarrow> thrown option"
  cc_runtime :: "'n runtime"
  cc_net :: "'n network"
  cc_platform :: platform
  cc_resolve :: "'n \<Rightarrow> string \<Rightarrow> string list option"
  cc_robotsFetch :: "'n \<Rightarrow> string \<Rightarrow> robots_response option"
  cc_regex :: "string \<Rightarrow> string \<Rightarrow> (string \<Rightarrow> bool) option"
  cc_htmlTitle :: "bytes \<Rightarrow> string option \<Rightarrow> thrown + string option"
  cc_sha256 :: "r2_value \<Rightarrow> string"

text \<open>
  What a check changes. \<open>uuids\<close> counts the random ids drawn, \<open>notifyQueue\<close> holds the delivery ids
  sent to NOTIFY_QUEUE.
\<close>

record 'n check_state =
  cx_fetch :: "'n fetch_state"
  changeIds :: "string list"
  titleFetchesUsed :: nat
  notifyQueue :: "string list"
  bucket :: r2_bucket
  robotsCache :: "robots_cache_row list"
  uuids :: nat

definition db_of :: "'n check_state \<Rightarrow> db" where
  "db_of s = store (cx_fetch s)"

definition set_db :: "db \<Rightarrow> 'n check_state \<Rightarrow> 'n check_state" where
  "set_db d s = s\<lparr>cx_fetch := (cx_fetch s)\<lparr>store := d\<rparr>\<rparr>"

definition net_of :: "'n check_state \<Rightarrow> 'n" where
  "net_of s = outside (cx_fetch s)"

definition now_of :: "'n check_ctx \<Rightarrow> 'n check_state \<Rightarrow> ms" where
  "now_of c s = cc_now c (net_of s)"

text \<open>A database operation that may use a fresh id.\<close>

definition with_id :: "'n check_ctx \<Rightarrow> (string \<Rightarrow> db \<Rightarrow> db \<times> 'r) \<Rightarrow> 'n check_state \<Rightarrow> 'r \<times> 'n check_state" where
  "with_id c f s =
     (case f (cc_uuid c (uuids s)) (db_of s) of (d, r) \<Rightarrow> (r, (set_db d s)\<lparr>uuids := uuids s + 1\<rparr>))"

lemma state_access [simp]:
  "db_of (set_db d s) = d" "net_of (set_db d s) = net_of s" "now_of c (set_db d s) = now_of c s"
  "uuids (set_db d s) = uuids s" "notifyQueue (set_db d s) = notifyQueue s" "changeIds (set_db d s) = changeIds s"
  "titleFetchesUsed (set_db d s) = titleFetchesUsed s" "bucket (set_db d s) = bucket s"
  "robotsCache (set_db d s) = robotsCache s"
  "db_of (s\<lparr>uuids := n\<rparr>) = db_of s" "db_of (s\<lparr>notifyQueue := q\<rparr>) = db_of s" "db_of (s\<lparr>changeIds := i\<rparr>) = db_of s"
  "db_of (s\<lparr>bucket := b\<rparr>) = db_of s" "db_of (s\<lparr>robotsCache := rc\<rparr>) = db_of s"
  "db_of (s\<lparr>titleFetchesUsed := n\<rparr>) = db_of s"
  "net_of (s\<lparr>uuids := n\<rparr>) = net_of s" "net_of (s\<lparr>notifyQueue := q\<rparr>) = net_of s" "net_of (s\<lparr>changeIds := i\<rparr>) = net_of s"
  "net_of (s\<lparr>bucket := b\<rparr>) = net_of s" "net_of (s\<lparr>robotsCache := rc\<rparr>) = net_of s"
  "net_of (s\<lparr>titleFetchesUsed := n\<rparr>) = net_of s"
  by (simp_all add: db_of_def set_db_def net_of_def now_of_def)

lemma now_access [simp]:
  "now_of c (s\<lparr>uuids := n\<rparr>) = now_of c s" "now_of c (s\<lparr>notifyQueue := q\<rparr>) = now_of c s"
  "now_of c (s\<lparr>changeIds := i\<rparr>) = now_of c s" "now_of c (s\<lparr>bucket := b\<rparr>) = now_of c s"
  "now_of c (s\<lparr>robotsCache := rc\<rparr>) = now_of c s" "now_of c (s\<lparr>titleFetchesUsed := n\<rparr>) = now_of c s"
  by (simp_all add: now_of_def)

section \<open>Fan-out (src/pipeline/notify.ts)\<close>

text \<open>The body of the loop over the subscriptions: one delivery, sent to the queue if it is new.\<close>

definition fanout_one ::
  "'n check_ctx \<Rightarrow> change_row \<Rightarrow> subscription_row \<Rightarrow> (unit, 'n check_state) action" where
  "fanout_one c change sub s =
     (case with_id c (\<lambda>u. createDeliveryIfNew u (now_of c s) (ch_id change) (su_destinationId sub)) s of
        (delivery, s1) \<Rightarrow>
          if inserted delivery
          then (case cc_sendFails c (net_of s1) of
                  Some e \<Rightarrow> (Inl e, s1)
                | None \<Rightarrow> (Inr (), s1\<lparr>notifyQueue := notifyQueue s1 @ [dl_id (row delivery)]\<rparr>))
          else (Inr (), s1))"

definition fanoutChange :: "'n check_ctx \<Rightarrow> change_row \<Rightarrow> (unit, 'n check_state) action" where
  "fanoutChange c change s =
     for_each (fanout_one c change)
       (listMatchingSubscriptions (db_of s) (st_id (cc_site c)) (mon_id (cc_monitor c)) (ch_kind change)
          (Some (orElse (ch_tags change) []))) s"

record detected_change =
  dc_row :: change_row
  dc_inserted :: bool
  watermarkAdvance :: "(string \<times> string) option"
  dc_item :: "feed_item option"

definition advance_watermark :: "'n check_ctx \<Rightarrow> detected_change \<Rightarrow> 'n check_state \<Rightarrow> 'n check_state" where
  "advance_watermark c d s =
     (case watermarkAdvance d of
        None \<Rightarrow> s
      | Some (targetId, w) \<Rightarrow> set_db (setTargetLastKnownUpdatedAt (now_of c s) targetId w (db_of s)) s)"

definition notify_one :: "'n check_ctx \<Rightarrow> detected_change \<Rightarrow> (unit, 'n check_state) action" where
  "notify_one c d =
     andThen (fanoutChange c (dc_row d))
       (\<lambda>u s. (Inr (), advance_watermark c d
          (if dc_inserted d then s\<lparr>changeIds := changeIds s @ [ch_id (dc_row d)]\<rparr> else s)))"

definition notifyDetectedChanges :: "'n check_ctx \<Rightarrow> detected_change list \<Rightarrow> (unit, 'n check_state) action" where
  "notifyDetectedChanges c detected = for_each (notify_one c) detected"

section \<open>Classification (src/pipeline/classify.ts)\<close>

record classify_match_input =
  cm_title :: "string option"
  cm_url :: "string option"
  cm_summary :: "string option"
  cm_fields :: "(string \<times> string) list option"

definition FIELD_VALUE_MAX_CHARS :: nat where "FIELD_VALUE_MAX_CHARS = 2000"

definition resolveFieldValue :: "classify_match_input \<Rightarrow> string \<Rightarrow> string option" where
  "resolveFieldValue inp name =
     (if name = ''title'' then cm_title inp
      else if name = ''url'' then cm_url inp
      else if name = ''summary'' then cm_summary inp
      else map_of (orElse (cm_fields inp) []) name)"

definition rule_matches ::
  "(string \<Rightarrow> string \<Rightarrow> (string \<Rightarrow> bool) option) \<Rightarrow> classify_match_input \<Rightarrow> classify_rule \<Rightarrow> bool" where
  "rule_matches regex inp rule =
     (case resolveFieldValue inp (cr_field rule) of
        None \<Rightarrow> False
      | Some raw \<Rightarrow>
          (let v = (if length raw > FIELD_VALUE_MAX_CHARS then take FIELD_VALUE_MAX_CHARS raw else raw)
           in case regex (cr_pattern rule) (orElse (cr_flags rule) '''') of
                None \<Rightarrow> False
              | Some test \<Rightarrow> test v))"

definition add_rule_tag ::
  "(string \<Rightarrow> string \<Rightarrow> (string \<Rightarrow> bool) option) \<Rightarrow> classify_match_input \<Rightarrow> string list \<Rightarrow> classify_rule \<Rightarrow> string list" where
  "add_rule_tag regex inp tags rule =
     (if rule_matches regex inp rule \<and> cr_tag rule \<notin> set tags then tags @ [cr_tag rule] else tags)"

definition computeTags ::
  "(string \<Rightarrow> string \<Rightarrow> (string \<Rightarrow> bool) option) \<Rightarrow> classify_config \<Rightarrow> classify_match_input \<Rightarrow> string list" where
  "computeTags regex cl inp =
     (let tags = foldl (add_rule_tag regex inp) [] (cl_rules cl)
      in case (tags, truthy (cl_defaultTag cl)) of
           ([], Some t) \<Rightarrow> [t]
         | _ \<Rightarrow> tags)"

definition match_input :: "detected_change \<Rightarrow> classify_match_input" where
  "match_input d =
     \<lparr>cm_title = (case ch_title (dc_row d) of Some t \<Rightarrow> Some t | None \<Rightarrow> Option.bind (dc_item d) fi_title),
      cm_url = Option.bind (dc_item d) fi_url, cm_summary = Option.bind (dc_item d) fi_summary,
      cm_fields = Option.bind (dc_item d) fi_fields\<rparr>"

definition classify_one ::
  "'n check_ctx \<Rightarrow> classify_config \<Rightarrow> detected_change \<Rightarrow> 'n check_state \<Rightarrow> detected_change \<times> 'n check_state" where
  "classify_one c cl d s =
     (if ch_tags (dc_row d) \<noteq> None then (d, s)
      else (case setChangeTagsIfNull (ch_id (dc_row d)) (computeTags (cc_regex c) cl (match_input d)) (db_of s) of
              (db', tags) \<Rightarrow> (d\<lparr>dc_row := (dc_row d)\<lparr>ch_tags := tags\<rparr>\<rparr>, set_db db' s)))"

fun map_state :: "('a \<Rightarrow> 's \<Rightarrow> 'b \<times> 's) \<Rightarrow> 'a list \<Rightarrow> 's \<Rightarrow> 'b list \<times> 's" where
  "map_state f [] s = ([], s)"
| "map_state f (x # xs) s = (case f x s of (y, s1) \<Rightarrow> (case map_state f xs s1 of (ys, s2) \<Rightarrow> (y # ys, s2)))"

definition classifyDetectedChanges ::
  "'n check_ctx \<Rightarrow> detected_change list \<Rightarrow> 'n check_state \<Rightarrow> detected_change list \<times> 'n check_state" where
  "classifyDetectedChanges c detected s =
     (case Option.bind (src_config (cc_source c)) sc_classify of
        None \<Rightarrow> (detected, s)
      | Some cl \<Rightarrow> map_state (classify_one c cl) detected s)"

section \<open>Title enrichment (src/pipeline/enrichTitle.ts)\<close>

definition MAX_TITLE_FETCHES_PER_CHECK :: nat where "MAX_TITLE_FETCHES_PER_CHECK = 10"

definition isHtmlContentType :: "string option \<Rightarrow> bool" where
  "isHtmlContentType ct = (case ct of None \<Rightarrow> False | Some t \<Rightarrow> str_includes (toLowerCase t) ''text/html'')"

text \<open>
  The fetch of one page for its title, without any record of attempts. \<^const>\<open>None\<close> stands for every
  reason to skip; the exceptions of the source are the left side. An exception of the fetcher ends the
  sequence without a title, as does the failure that stands for it here.
\<close>

definition title_fetcher :: "'n check_ctx \<Rightarrow> string \<Rightarrow> string \<Rightarrow> 'n \<Rightarrow> fetch_outcome \<times> 'n" where
  "title_fetcher c url fid n =
     (if fid = ''cf-http''
      then (case httpFetch (cc_platform c) (Some (checkUrlForSsrf (newURL (cc_platform c)))) (cc_net c)
                   (plain_request url (cc_userAgent c)) (cc_now c n) (cc_now c) n of
              (Inl e, n1) \<Rightarrow> (failure Internal_error None (thrown_message e) None, n1)
            | (Inr out, n1) \<Rightarrow> (out, n1))
      else (failure Internal_error None (''unknown fetcherId: '' @ fid) None, n))"

definition title_of_outcome :: "'n check_ctx \<Rightarrow> fetch_outcome option \<Rightarrow> thrown + string option" where
  "title_of_outcome c out =
     (case out of
        Some (FetchSuccess r) \<Rightarrow>
          (case ok_body r of
             Some body \<Rightarrow>
               if ok_status r \<noteq> 200 then Inr None
               else if \<not> isHtmlContentType (ok_contentType r) then Inr None
               else cc_htmlTitle c body (ok_contentType r)
           | None \<Rightarrow> Inr None)
      | _ \<Rightarrow> Inr None)"

definition set_net :: "'n \<Rightarrow> 'n check_state \<Rightarrow> 'n check_state" where
  "set_net n s = s\<lparr>cx_fetch := (cx_fetch s)\<lparr>outside := n\<rparr>\<rparr>"

lemma set_net_access [simp]:
  "db_of (set_net n s) = db_of s" "net_of (set_net n s) = n" "notifyQueue (set_net n s) = notifyQueue s"
  "changeIds (set_net n s) = changeIds s" "titleFetchesUsed (set_net n s) = titleFetchesUsed s"
  "uuids (set_net n s) = uuids s" "bucket (set_net n s) = bucket s" "robotsCache (set_net n s) = robotsCache s"
  by (simp_all add: set_net_def db_of_def net_of_def)

definition fetchTitleForUrl :: "'n check_ctx \<Rightarrow> string \<Rightarrow> (string option, 'n check_state) action" where
  "fetchTitleForUrl c url s =
     (let newUrl = newURL (cc_platform c)
      in if \<not> allowed (checkUrlForSsrf newUrl url) then (Inr None, s)
         else if \<not> allowed (resolveAndCheck newUrl (cc_resolve c (net_of s)) url) then (Inr None, s)
         else (case newUrl url None of
                 None \<Rightarrow> (Inr None, s)
               | Some u \<Rightarrow>
                   (case checkRobots newUrl (decodeText (cc_platform c)) (cc_robotsFetch c (net_of s))
                           (Some (d1_get, d1_put (now_of c s))) None None (now_of c s) (origin u) url (robotsCache s) of
                      (rc, Inl e) \<Rightarrow> (Inl (ErrorObject ''TypeError'' ''Invalid URL''), s\<lparr>robotsCache := rc\<rparr>)
                    | (rc, Inr decision) \<Rightarrow>
                        if verdict decision = Disallowed \<and>
                           getRobotsMode newUrl (db_of s) (st_id (cc_site c)) (origin u) = Enforce
                        then (Inr None, s\<lparr>robotsCache := rc\<rparr>)
                        else (case runFetchSequence (cc_policy c) (title_fetcher c url)
                                     (rt_sleep (cc_runtime c)) default_opts (net_of s) of
                                (Inl errs, n) \<Rightarrow>
                                  (Inl (ErrorObject ''FetcherPolicyInvalidError'' ''''), set_net n (s\<lparr>robotsCache := rc\<rparr>))
                              | (Inr (out, attempts), n) \<Rightarrow>
                                  (title_of_outcome c out, set_net n (s\<lparr>robotsCache := rc\<rparr>))))))"

definition needs_title :: "detected_change \<Rightarrow> bool" where
  "needs_title d \<longleftrightarrow> dc_inserted d \<and> ch_kind (dc_row d) = New \<and> ch_title (dc_row d) = None \<and> ch_targetUrl (dc_row d) \<noteq> ''''"

text \<open>
  The loop body with the budget. The source writes the counter back when the loop is over; nothing
  in the loop reads it, so the model counts in the state. Exceptions of one fetch are caught.
\<close>

definition enrich_one ::
  "'n check_ctx \<Rightarrow> detected_change \<Rightarrow> 'n check_state \<Rightarrow> detected_change \<times> 'n check_state" where
  "enrich_one c d s =
     (if \<not> needs_title d then (d, s)
      else if titleFetchesUsed s \<ge> MAX_TITLE_FETCHES_PER_CHECK then (d, s)
      else (case fetchTitleForUrl c (ch_targetUrl (dc_row d)) (s\<lparr>titleFetchesUsed := titleFetchesUsed s + 1\<rparr>) of
              (Inr (Some title), s1) \<Rightarrow>
                (d\<lparr>dc_row := (dc_row d)\<lparr>ch_title := Some title\<rparr>\<rparr>,
                 set_db (updateChangeTitle (ch_id (dc_row d)) title (db_of s1)) s1)
            | (_, s1) \<Rightarrow> (d, s1)))"

definition enrichDetectedChanges ::
  "'n check_ctx \<Rightarrow> detected_change list \<Rightarrow> 'n check_state \<Rightarrow> detected_change list \<times> 'n check_state" where
  "enrichDetectedChanges c = map_state (enrich_one c)"

end
