(* ===== verification/Pipeline_Feed.thy ===== *)
theory Pipeline_Feed
  imports Pipeline_Notify
begin

text \<open>
  The processing of the items of feeds, traversed sitemaps and extracted pages
  (src/pipeline/feed.ts): detection of new and updated items, then enrichment, classification and
  notification of what was detected.
\<close>

definition MAX_FEED_ITEMS_PER_CHECK :: nat where "MAX_FEED_ITEMS_PER_CHECK = 2000"

record existing_target_watermark =
  et_exists :: bool
  et_watermark :: "string option"

definition getExistingTargetWatermark :: "db \<Rightarrow> string \<Rightarrow> string \<Rightarrow> existing_target_watermark" where
  "getExistingTargetWatermark d m url =
     (case find_target d m url of
        None \<Rightarrow> \<lparr>et_exists = False, et_watermark = None\<rparr>
      | Some r \<Rightarrow> \<lparr>et_exists = True, et_watermark = lastKnownUpdatedAt r\<rparr>)"

definition item_change ::
  "'n check_ctx \<Rightarrow> bool \<Rightarrow> feed_item \<Rightarrow> string \<Rightarrow> change_kind \<Rightarrow> string \<Rightarrow> string \<Rightarrow> ms \<Rightarrow> create_change_input" where
  "item_change c summaryAsDiffPreview item url kind key targetId now =
     \<lparr>ic_id = None, ic_monitorId = mon_id (cc_monitor c), ic_targetId = Some targetId, ic_targetUrl = url,
      ic_kind = kind, ic_diffLevel = None, ic_dedupeKey = key, ic_previousSnapshotId = None,
      ic_snapshotId = None, ic_diffR2Key = None,
      ic_diffPreview = (if summaryAsDiffPreview then fi_summary item else None), ic_title = fi_title item,
      ic_detectedAt = Some now\<rparr>"

text \<open>The target of an item: created with the item's time as watermark, or left as it is.\<close>

definition touch_target ::
  "'n check_ctx \<Rightarrow> ms \<Rightarrow> feed_item \<Rightarrow> string \<Rightarrow> bool \<Rightarrow> 'n check_state \<Rightarrow> target_row \<times> 'n check_state" where
  "touch_target c now item url isNew s =
     (case with_id c (\<lambda>u. upsertTarget u (now_of c s)
              \<lparr>it_id = None, it_monitorId = mon_id (cc_monitor c), it_url = url,
               it_discoveredFrom = Some (stableKey item), it_firstSeenAt = None,
               it_lastKnownUpdatedAt = (if isNew then Some (updatedAt item) else None)\<rparr>) s of
        (target, s1) \<Rightarrow> (target, set_db (setTargetLastChecked (now_of c s1) (tg_id target) now (db_of s1)) s1))"

definition detect_item ::
  "'n check_ctx \<Rightarrow> bool \<Rightarrow> ms \<Rightarrow> feed_item \<Rightarrow> 'n check_state \<Rightarrow> detected_change list \<times> 'n check_state" where
  "detect_item c preview now item s =
     (case truthy (fi_url item) of
        None \<Rightarrow> ([], s)
      | Some url \<Rightarrow>
          if \<not> allowed (checkUrlForSsrf (newURL (cc_platform c)) url) then ([], s)
          else (let previous = getExistingTargetWatermark (db_of s) (mon_id (cc_monitor c)) url;
                    isNew = \<not> et_exists previous
                in case touch_target c now item url isNew s of
                     (target, s1) \<Rightarrow>
                       if mon_lastCheckedAt (cc_monitor c) = None then ([], s1)
                       else if isNew
                       then (case with_id c (\<lambda>u. insertChangeIfNew u (now_of c s1)
                                  (item_change c preview item url New (stableKey item) (tg_id target) now)) s1 of
                               (ins, s2) \<Rightarrow>
                                 ([\<lparr>dc_row = row ins, dc_inserted = inserted ins, watermarkAdvance = None,
                                    dc_item = Some item\<rparr>], s2))
                       else (case truthy (updatedAt item) of
                               None \<Rightarrow> ([], s1)
                             | Some w \<Rightarrow>
                                 if Some w = et_watermark previous then ([], s1)
                                 else (case with_id c (\<lambda>u. insertChangeIfNew u (now_of c s1)
                                            (item_change c preview item url Updated (stableKey item @ '':'' @ w)
                                               (tg_id target) now)) s1 of
                                         (ins, s2) \<Rightarrow>
                                           ([\<lparr>dc_row = row ins, dc_inserted = inserted ins,
                                              watermarkAdvance = Some (tg_id target, w), dc_item = Some item\<rparr>], s2)))))"

definition detectFeedChanges ::
  "'n check_ctx \<Rightarrow> feed_item list \<Rightarrow> nat \<Rightarrow> bool \<Rightarrow> 'n check_state \<Rightarrow>
   (detected_change list \<times> nat) \<times> 'n check_state" where
  "detectFeedChanges c items maxItems preview s =
     (let now = now_of c s; toProcess = take maxItems items
      in case map_state (detect_item c preview now) toProcess s of
           (ds, s1) \<Rightarrow> ((concat ds, length items - length toProcess), s1))"

text \<open>The result is the number of items cut off.\<close>

definition processFeedItems ::
  "'n check_ctx \<Rightarrow> feed_item list \<Rightarrow> nat \<Rightarrow> bool \<Rightarrow> (nat, 'n check_state) action" where
  "processFeedItems c items maxItems preview s =
     (case detectFeedChanges c items maxItems preview s of
        ((detected, truncatedCount), s1) \<Rightarrow>
          (case enrichDetectedChanges c detected s1 of
             (detected2, s2) \<Rightarrow>
               (case classifyDetectedChanges c detected2 s2 of
                  (detected3, s3) \<Rightarrow>
                    andThen (notifyDetectedChanges c detected3) (\<lambda>u s4. (Inr truncatedCount, s4)) s3)))"

section \<open>Facts\<close>

lemma map_state_preserves:
  assumes "\<And>x s. x \<in> set xs \<Longrightarrow> P s \<Longrightarrow> P (snd (f x s))" "P s"
  shows "P (snd (map_state f xs s))"
  using assms
proof (induction xs arbitrary: s)
  case (Cons x xs)
  obtain y s1 where f: "f x s = (y, s1)" by fastforce
  with Cons.prems have "P s1" by (metis list.set_intros(1) snd_conv)
  with Cons.IH Cons.prems(1) have "P (snd (map_state f xs s1))" by simp
  with f show ?case by (cases "map_state f xs s1") simp
qed simp

lemma map_state_empty:
  assumes "\<And>x s. fst (f x s) = []"
  shows "concat (fst (map_state f xs s)) = []"
proof (induction xs arbitrary: s)
  case (Cons x xs)
  obtain y s1 where f: "f x s = (y, s1)" by fastforce
  with assms [of x s] have "y = []" by simp
  with f Cons [of s1] show ?case by (cases "map_state f xs s1") auto
qed simp

lemma with_id_db: "db_of (snd (with_id c f s)) = fst (f (cc_uuid c (uuids s)) (db_of s))"
  and with_id_result: "fst (with_id c f s) = snd (f (cc_uuid c (uuids s)) (db_of s))"
  and with_id_rest [simp]: "notifyQueue (snd (with_id c f s)) = notifyQueue s"
    "changeIds (snd (with_id c f s)) = changeIds s" "net_of (snd (with_id c f s)) = net_of s"
    "titleFetchesUsed (snd (with_id c f s)) = titleFetchesUsed s"
  by (cases "f (cc_uuid c (uuids s)) (db_of s)"; simp add: with_id_def)+

text \<open>Everything but targets, with which a stage only works.\<close>

definition quiet :: "'n check_state \<Rightarrow> 'n check_state \<Rightarrow> bool" where
  "quiet s s' \<longleftrightarrow> changes (db_of s') = changes (db_of s) \<and> deliveries (db_of s') = deliveries (db_of s) \<and>
     notifyQueue s' = notifyQueue s \<and> changeIds s' = changeIds s"

lemma upsertTarget_others:
  "changes (fst (upsertTarget u now inp d)) = changes d" "deliveries (fst (upsertTarget u now inp d)) = deliveries d"
  by (auto simp: upsertTarget_def Let_def split: option.splits)

lemma touch_target_quiet: "quiet s (snd (touch_target c now item url isNew s))"
  by (auto simp: quiet_def touch_target_def with_id_def setTargetLastChecked_def upsertTarget_others split: prod.splits)
    (metis fst_conv upsertTarget_others)+

lemma detect_baseline:
  "mon_lastCheckedAt (cc_monitor c) = None \<Longrightarrow>
   fst (detect_item c p now item s) = [] \<and> quiet s (snd (detect_item c p now item s))"
  using touch_target_quiet [of s c now item]
  by (auto simp: detect_item_def Let_def quiet_def split: option.splits prod.splits)
    (metis snd_conv)+

text \<open>
  The first check of a monitor is a baseline: whatever the document lists, it creates no
  change and no delivery, sends nothing to the queue and always ends normally.
\<close>

theorem baseline_is_silent:
  assumes "mon_lastCheckedAt (cc_monitor c) = None"
  shows "case processFeedItems c items maxItems preview s of
    (r, s') \<Rightarrow> r = Inr (length items - maxItems) \<and> quiet s s'"
proof -
  let ?now = "now_of c s"
  obtain ds s1 where run: "map_state (detect_item c preview ?now) (take maxItems items) s = (ds, s1)" by fastforce
  have "concat (fst (map_state (detect_item c preview ?now) (take maxItems items) s)) = []"
    using detect_baseline [OF assms] by (intro map_state_empty) blast
  then have none: "concat ds = []" unfolding run by (simp only: fst_conv)
  have "quiet s (snd (map_state (detect_item c preview ?now) (take maxItems items) s))"
    by (rule map_state_preserves) (use detect_baseline [OF assms] in \<open>auto simp: quiet_def\<close>)
  with run have q: "quiet s s1" by simp
  have "detectFeedChanges c items maxItems preview s = (([], length items - maxItems), s1)"
    unfolding detectFeedChanges_def Let_def run by (simp only: none prod.case length_take) simp
  with q show ?thesis
    by (auto simp: processFeedItems_def enrichDetectedChanges_def classifyDetectedChanges_def
        notifyDetectedChanges_def andThen_def split: option.splits)
qed

section \<open>Fan-out and watermarks\<close>

lemma fanout_one_db:
  "targets (db_of (snd (fanout_one c ch sub s))) = targets (db_of s) \<and>
   changeIds (snd (fanout_one c ch sub s)) = changeIds s \<and>
   (\<exists>new. deliveries (db_of (snd (fanout_one c ch sub s))) = deliveries (db_of s) @ new) \<and>
   find (delivery_key (ch_id ch) (su_destinationId sub)) (deliveries (db_of (snd (fanout_one c ch sub s)))) \<noteq> None"
  by (auto simp: fanout_one_def with_id_def createDeliveryIfNew_def Let_def find_append_case delivery_key_def
      split: option.splits prod.splits)

lemma find_append_some: "find P xs \<noteq> None \<Longrightarrow> find P (xs @ ys) \<noteq> None"
  by (auto simp: find_append_case split: option.splits)

lemma fanout_each:
  "case for_each (fanout_one c ch) subs s of (r, s') \<Rightarrow>
     targets (db_of s') = targets (db_of s) \<and> changeIds s' = changeIds s \<and>
     (\<exists>new. deliveries (db_of s') = deliveries (db_of s) @ new) \<and>
     (r = Inr () \<longrightarrow> (\<forall>sub \<in> set subs. find (delivery_key (ch_id ch) (su_destinationId sub)) (deliveries (db_of s')) \<noteq> None))"
proof (induction subs arbitrary: s)
  case (Cons sub subs)
  obtain r s1 where f: "fanout_one c ch sub s = (r, s1)" by fastforce
  from fanout_one_db [of c ch sub s] obtain new where one: "targets (db_of s1) = targets (db_of s)"
    "changeIds s1 = changeIds s" "deliveries (db_of s1) = deliveries (db_of s) @ new"
    "find (delivery_key (ch_id ch) (su_destinationId sub)) (deliveries (db_of s1)) \<noteq> None"
    unfolding f by auto
  show ?case
  proof (cases r)
    case (Inl e)
    with f one show ?thesis by simp
  next
    case (Inr u)
    obtain r2 s2 where e: "for_each (fanout_one c ch) subs s1 = (r2, s2)" by fastforce
    from Cons.IH [of s1] obtain new2 where two: "targets (db_of s2) = targets (db_of s1)"
      "changeIds s2 = changeIds s1" "deliveries (db_of s2) = deliveries (db_of s1) @ new2"
      "r2 = Inr () \<longrightarrow> (\<forall>sub \<in> set subs. find (delivery_key (ch_id ch) (su_destinationId sub)) (deliveries (db_of s2)) \<noteq> None)"
      unfolding e by auto
    from find_append_some [OF one(4), of new2] f Inr e one two show ?thesis by auto
  qed
qed simp

text \<open>
  C24. Notifying one detected change either ends with a delivery row for every matching
  subscription, and only then lists the change and moves the watermark of its target; or it fails,
  and then the watermark and the list of changes are as before, so the next check detects the
  update again.
\<close>

theorem watermark_after_fanout:
  "case notify_one c d s of
     (Inl e, s') \<Rightarrow> targets (db_of s') = targets (db_of s) \<and> changeIds s' = changeIds s
   | (Inr u, s') \<Rightarrow>
       (\<forall>sub \<in> set (listMatchingSubscriptions (db_of s) (st_id (cc_site c)) (mon_id (cc_monitor c))
                      (ch_kind (dc_row d)) (Some (orElse (ch_tags (dc_row d)) []))).
          find (delivery_key (ch_id (dc_row d)) (su_destinationId sub)) (deliveries (db_of s')) \<noteq> None) \<and>
       changeIds s' = changeIds s @ (if dc_inserted d then [ch_id (dc_row d)] else []) \<and>
       (watermarkAdvance d = None \<longrightarrow> targets (db_of s') = targets (db_of s))"
proof -
  obtain r s1 where f: "fanoutChange c (dc_row d) s = (r, s1)" by fastforce
  have "changeIds (advance_watermark c d x) = changeIds x \<and> deliveries (db_of (advance_watermark c d x)) = deliveries (db_of x) \<and>
      (watermarkAdvance d = None \<longrightarrow> targets (db_of (advance_watermark c d x)) = targets (db_of x))" for x
    by (auto simp: advance_watermark_def setTargetLastKnownUpdatedAt_def split: option.splits)
  with fanout_each [where c = c and ch = "dc_row d" and s = s and subs = "listMatchingSubscriptions (db_of s)
      (st_id (cc_site c)) (mon_id (cc_monitor c)) (ch_kind (dc_row d)) (Some (orElse (ch_tags (dc_row d)) []))"] f
  show ?thesis
    by (cases r) (auto simp: notify_one_def andThen_def fanoutChange_def)
qed

section \<open>What is not detected twice\<close>

lemma find_target_touch:
  assumes "touch_target c now item url isNew s = (target, s1)"
  shows "\<exists>r. find_target (db_of s1) (mon_id (cc_monitor c)) url = Some r \<and>
    (find_target (db_of s) (mon_id (cc_monitor c)) url = None \<and> isNew \<longrightarrow> lastKnownUpdatedAt r = updatedAt item)"
proof -
  define inp where "inp = \<lparr>it_id = None, it_monitorId = mon_id (cc_monitor c), it_url = url,
    it_discoveredFrom = Some (stableKey item), it_firstSeenAt = None,
    it_lastKnownUpdatedAt = (if isNew then Some (updatedAt item) else None)\<rparr>"
  obtain d r where u: "upsertTarget (cc_uuid c (uuids s)) (now_of c s) inp (db_of s) = (d, r)" by fastforce
  have keys: "it_monitorId inp = mon_id (cc_monitor c)" "it_url inp = url"
    "it_lastKnownUpdatedAt inp = (if isNew then Some (updatedAt item) else None)" by (simp_all add: inp_def)
  from u have found: "\<exists>x. find_target d (mon_id (cc_monitor c)) url = Some x \<and>
      (find_target (db_of s) (mon_id (cc_monitor c)) url = None \<and> isNew \<longrightarrow> lastKnownUpdatedAt x = updatedAt item)"
    by (auto simp: upsertTarget_def keys find_target_def Let_def find_append_case find_update_where target_key_def
        split: option.splits if_splits)
  have "db_of s1 = setTargetLastChecked (now_of c s) (tg_id r) now d"
    using assms u by (auto simp: touch_target_def with_id_def simp flip: inp_def)
  moreover from found obtain x where x: "find_target d (mon_id (cc_monitor c)) url = Some x"
    "find_target (db_of s) (mon_id (cc_monitor c)) url = None \<and> isNew \<longrightarrow> lastKnownUpdatedAt x = updatedAt item" by blast
  ultimately have "find_target (db_of s1) (mon_id (cc_monitor c)) url = Some (if tg_id x = tg_id r
      then x\<lparr>tg_lastCheckedAt := Some now, tg_updatedAt := now_of c s\<rparr> else x)"
    by (simp add: setTargetLastChecked_def find_target_def find_update_where target_key_def)
  with x(2) show ?thesis by (cases "tg_id x = tg_id r") simp_all
qed


section \<open>An example\<close>

definition demo_url :: url_parser where
  "demo_url s b = Some \<lparr>href = s, protocol = ''http:'', username = '''', password = '''',
     hostname = ''a'', port = '''', pathname = ''/'', search = '''', origin = ''http://a''\<rparr>"

definition demo_monitor :: "ms option \<Rightarrow> monitor_row" where
  "demo_monitor lc = \<lparr>mon_id = ''m'', mon_siteId = ''s'', mon_sourceId = ''r'', mon_status = Active,
     stopReason = None, robotsEvaluationId = None, intervalSeconds = 60, mon_nextRunAt = Some 0,
     mon_lastCheckedAt = lc, mon_createdAt = 0, mon_updatedAt = 0\<rparr>"

definition demo_source :: source_row where
  "demo_source = \<lparr>src_id = ''r'', src_siteId = ''s'', src_type = Rss, src_url = ''http://a/'', src_config = None,
     src_createdAt = 0, src_updatedAt = 0\<rparr>"

definition demo_site :: site_row where
  "demo_site = \<lparr>st_id = ''s'', st_name = ''site'', st_primaryOrigin = None, st_createdAt = 0, st_updatedAt = 0\<rparr>"

definition demo_job :: check_job_row where
  "demo_job = \<lparr>cj_id = ''j'', cj_monitorId = ''m'', scheduledFor = 0, cj_status = Job_running,
     trigger = Scheduled, cj_startedAt = None, cj_finishedAt = None, cj_createdAt = 0\<rparr>"

definition demo_platform :: platform where
  "demo_platform = \<lparr>newURL = demo_url, decodeText = map (\<lambda>b. char_of (unat b)), dateParse = (\<lambda>s. None),
     atob = (\<lambda>s. None), validHeader = (\<lambda>k v. True)\<rparr>"

definition demo_ctx :: "ms option \<Rightarrow> thrown option \<Rightarrow> ms check_ctx" where
  "demo_ctx lc fails = \<lparr>cc_monitor = demo_monitor lc, cc_source = demo_source, cc_site = demo_site,
     cc_policy = home_policy, cc_job = demo_job, cc_userAgent = ''ua'', cc_env = fj_env home_job, cc_now = id,
     cc_uuid = (\<lambda>n. replicate n CHR ''i''), cc_sendFails = (\<lambda>n. fails), cc_runtime = silent_runner,
     cc_net = (\<lambda>u h n. (Inl (OtherValue ''offline''), n)), cc_platform = demo_platform,
     cc_resolve = (\<lambda>n h. None), cc_robotsFetch = (\<lambda>n u. None), cc_regex = (\<lambda>p f. None),
     cc_htmlTitle = (\<lambda>b t. Inr None), cc_sha256 = (\<lambda>v. ''hash'')\<rparr>"

definition demo_subscription :: subscription_row where
  "demo_subscription = \<lparr>su_id = ''u'', su_destinationId = ''x'', su_siteId = None, su_monitorId = None,
     su_tag = None, su_changeKind = None, su_createdAt = 0, su_updatedAt = 0\<rparr>"

definition demo_db :: db where
  "demo_db = empty_db\<lparr>
     destinations := [\<lparr>ds_id = ''x'', ds_name = ''n'', webhookUrl = ''w'', enabled = True, archivedAt = None,
       threadId = None, ds_createdAt = 0, ds_updatedAt = 0\<rparr>],
     subscriptions := [demo_subscription]\<rparr>"

definition demo_state :: "ms check_state" where
  "demo_state = \<lparr>cx_fetch = fetch_start\<lparr>store := demo_db\<rparr>, changeIds = [], titleFetchesUsed = 0, notifyQueue = [],
     bucket = [], robotsCache = [], uuids = 0\<rparr>"

definition demo_item :: feed_item where
  "demo_item = \<lparr>stableKey = ''k'', fi_url = Some ''http://a/1'', fi_title = Some ''one'', publishedAt = None,
     updatedAt = None, fi_summary = None, fi_fields = None\<rparr>"

lemma demo_allowed: "allowed (checkUrlForSsrf demo_url ''http://a/1'')"
  by code_simp

theorem baseline_is_silent_witness:
  "case processFeedItems (demo_ctx None None) [demo_item] 2000 False demo_state of
    (r, s') \<Rightarrow> r = Inr 0 \<and> quiet demo_state s'"
  using baseline_is_silent [where c = "demo_ctx None None" and items = "[demo_item]" and maxItems = 2000
      and preview = False and s = demo_state]
  by (simp add: demo_ctx_def demo_monitor_def split: prod.splits)

definition demo_change :: detected_change where
  "demo_change = \<lparr>dc_row = \<lparr>ch_id = ''i'', ch_monitorId = ''m'', ch_targetId = Some '''', ch_targetUrl = ''http://a/1'',
       ch_kind = New, diffLevel = None, dedupeKey = ''k'', previousSnapshotId = None,
       ch_snapshotId = None, diffR2Key = None, diffPreview = None, ch_title = Some ''one'',
       ch_tags = None, detectedAt = 5, ch_createdAt = 0\<rparr>,
     dc_inserted = True, watermarkAdvance = None, dc_item = Some demo_item\<rparr>"

lemma demo_detect:
  "fst (detect_item (demo_ctx (Some 0) None) False 5 demo_item demo_state) = [demo_change]"
  by (simp add: detect_item_def demo_item_def truthy_def demo_ctx_def demo_platform_def demo_allowed
      demo_monitor_def demo_state_def demo_db_def empty_db_def fetch_start_def db_of_def set_db_def with_id_def
      getExistingTargetWatermark_def find_target_def touch_target_def upsertTarget_def insertChangeIfNew_def
      item_change_def setTargetLastChecked_def now_of_def net_of_def demo_change_def Let_def)

lemma demo_matching:
  "listMatchingSubscriptions demo_db (st_id (cc_site (demo_ctx (Some 0) None))) (mon_id (cc_monitor (demo_ctx (Some 0) None)))
     (ch_kind (dc_row demo_change)) (Some (orElse (ch_tags (dc_row demo_change)) [])) = [demo_subscription]"
  by (simp add: listMatchingSubscriptions_def demo_db_def empty_db_def demo_subscription_def wildcard_or_def
      getDestination_def)

theorem watermark_after_fanout_witness:
  "case notify_one (demo_ctx (Some 0) None) demo_change demo_state of
     (r, s') \<Rightarrow> r = Inr () \<and> find (delivery_key ''i'' ''x'') (deliveries (db_of s')) \<noteq> None \<and> changeIds s' = [''i'']"
proof -
  have d: "db_of demo_state = demo_db" "changeIds demo_state = []" by (simp_all add: demo_state_def db_of_def)
  have "fst (fanout_one (demo_ctx (Some 0) None) (dc_row demo_change) demo_subscription demo_state) = Inr ()"
    by (simp add: fanout_one_def demo_ctx_def split: prod.splits)
  then obtain s1 where "fanout_one (demo_ctx (Some 0) None) (dc_row demo_change) demo_subscription demo_state = (Inr (), s1)"
    by (metis prod.collapse)
  then have "fst (notify_one (demo_ctx (Some 0) None) demo_change demo_state) = Inr ()"
    unfolding notify_one_def fanoutChange_def andThen_def d demo_matching by simp
  then show ?thesis
    using watermark_after_fanout [where c = "demo_ctx (Some 0) None" and d = demo_change and s = demo_state, unfolded d demo_matching]
    by (auto simp: demo_change_def demo_subscription_def split: prod.splits)
qed


end
