(* ===== verification/Run_Check.thy ===== *)
theory Run_Check
  imports Pipeline_Feed
begin

text \<open>
  One check of a monitor (src/pipeline/runCheck.ts): loading the rows, starting the job of the
  slot, the SSRF and robots checks, the host lease, the fetch, the content processing and the end
  of the job. The content processor is an argument here; Content_Processor has the real ones.
\<close>

section \<open>Results and arguments\<close>

datatype check_run_kind = Run_completed | Run_policy_stopped | Run_deferred | Run_skipped

record check_run_result =
  kind :: check_run_kind
  nextRunAt :: "ms option"
  run_retryAfterMs :: "ms option"
  run_changeIds :: "string list"

record content_input =
  in_target :: target_row
  in_previousSnapshot :: "snapshot_row option"
  in_checkAttemptId :: "string option"
  in_outcome :: fetch_success
  in_body :: bytes

type_synonym 'n content_processor = "'n check_ctx \<Rightarrow> content_input \<Rightarrow> (unit, 'n check_state) action"

text \<open>
  The other parties of a check: the fetcher policies, the host limiter of an origin (its calls are
  remote and may fail), the read of the latest snapshot (which may fail like every query; it is the
  one query between the grant of the lease and the block that gives it back), the processor and
  the random number of the jitter.
\<close>

record 'n run_env =
  re_policies :: policy_tables
  re_acquire :: "string \<Rightarrow> 'n \<Rightarrow> (thrown + host_lease_result) \<times> 'n"
  re_release :: "string \<Rightarrow> string \<Rightarrow> lease_outcome \<Rightarrow> 'n \<Rightarrow> 'n"
  re_latestSnapshot :: "db \<Rightarrow> string \<Rightarrow> thrown + snapshot_row option"
  re_process :: "'n content_processor"
  re_random :: "'n \<Rightarrow> rat"

definition ROBOTS_UNAVAILABLE_STOP_THRESHOLD :: int where "ROBOTS_UNAVAILABLE_STOP_THRESHOLD = 3"

definition error :: "string \<Rightarrow> thrown" where
  "error msg = ErrorObject ''Error'' msg"

section \<open>The end of a job\<close>

definition jitterMs :: "rat \<Rightarrow> int \<Rightarrow> ms" where
  "jitterMs random interval =
     (let capSeconds = min (of_int interval / 10) 60
      in if capSeconds \<le> 0 then 0 else \<lfloor>random * capSeconds * 1000\<rfloor>)"

definition finishJob ::
  "'n run_env \<Rightarrow> 'n check_ctx \<Rightarrow> check_job_status \<Rightarrow> 'n check_state \<Rightarrow> check_run_result \<times> 'n check_state" where
  "finishJob re c status s =
     (let nowMs = now_of c s; mid = mon_id (cc_monitor c);
          next = nowMs + intervalSeconds (cc_monitor c) * 1000 +
                 jitterMs (re_random re (net_of s)) (intervalSeconds (cc_monitor c));
          d = setMonitorNextRun nowMs mid (Some next)
                (setMonitorLastChecked nowMs mid nowMs
                  (updateCheckJobStatus (cj_id (cc_job c)) status None (Some nowMs) (db_of s)))
      in (\<lparr>kind = Run_completed, nextRunAt = Some next, run_retryAfterMs = None, run_changeIds = changeIds s\<rparr>,
          set_db d s))"

section \<open>Loading\<close>

definition skip_for_status :: "monitor_row \<Rightarrow> job_trigger \<Rightarrow> bool" where
  "skip_for_status m trig \<longleftrightarrow> mon_status m = Archived \<or> mon_status m = Blocked_by_robots_txt \<or>
     (mon_status m = Paused \<and> trig \<noteq> Manual)"

definition skipped :: "monitor_row \<Rightarrow> check_run_result" where
  "skipped m = \<lparr>kind = Run_skipped, nextRunAt = mon_nextRunAt m, run_retryAfterMs = None, run_changeIds = []\<rparr>"

definition load_rows ::
  "'n run_env \<Rightarrow> monitor_row \<Rightarrow> db \<Rightarrow> thrown + source_row \<times> site_row \<times> fetcher_policy" where
  "load_rows re m d =
     (case getSource d (mon_sourceId m) of
        None \<Rightarrow> Inl (error (''runMonitorCheck: source not found: '' @ mon_sourceId m))
      | Some src \<Rightarrow>
          (case getSite d (mon_siteId m) of
             None \<Rightarrow> Inl (error (''runMonitorCheck: site not found: '' @ mon_siteId m))
           | Some site \<Rightarrow>
               (case getFetcherPolicy (re_policies re) (st_id site) of
                  None \<Rightarrow> Inl (error (''runMonitorCheck: no fetcher policy configured for site: '' @ st_id site))
                | Some p \<Rightarrow> Inr (src, site, p))))"

section \<open>The checks before the lease\<close>

definition first_fetcher :: "fetcher_policy \<Rightarrow> string" where
  "first_fetcher p = (case orderList p of [] \<Rightarrow> ''unknown'' | e # es \<Rightarrow> fetcherId e)"

definition refused_attempt ::
  "'n check_ctx \<Rightarrow> target_row \<Rightarrow> failure_class \<Rightarrow> string \<Rightarrow> 'n check_state \<Rightarrow> 'n check_state" where
  "refused_attempt c target cls msg s =
     snd (with_id c (\<lambda>u. createCheckAttempt u (now_of c s)
       \<lparr>ia_id = None, ia_checkJobId = cj_id (cc_job c), ia_targetId = tg_id target,
        ia_fetcherId = first_fetcher (cc_policy c), ia_attemptIndex = 0, ia_outcome = Attempt_failure,
        ia_failureClass = Some cls, ia_statusCode = None, ia_durationMs = None, ia_snapshotId = None,
        ia_errorMessage = Some msg, ia_executorJobId = None, ia_startedAt = None, ia_finishedAt = None\<rparr>) s)"

definition ssrf_result :: "'n check_ctx \<Rightarrow> 'n check_state \<Rightarrow> ssrf_check_result" where
  "ssrf_result c s =
     (let url = src_url (cc_source c); static = checkUrlForSsrf (newURL (cc_platform c)) url
      in if allowed static then resolveAndCheck (newURL (cc_platform c)) (cc_resolve c (net_of s)) url else static)"

definition robots_check ::
  "'n check_ctx \<Rightarrow> string \<Rightarrow> (robots_decision \<times> robots_evaluation_row, 'n check_state) action" where
  "robots_check c orig s =
     (case checkRobots (newURL (cc_platform c)) (decodeText (cc_platform c)) (cc_robotsFetch c (net_of s))
             (Some (d1_get, d1_put (now_of c s))) None None (now_of c s) orig (src_url (cc_source c)) (robotsCache s) of
        (rc, Inl e) \<Rightarrow> (Inl (ErrorObject ''TypeError'' ''Invalid URL''), s\<lparr>robotsCache := rc\<rparr>)
      | (rc, Inr decision) \<Rightarrow>
          (let s1 = s\<lparr>robotsCache := rc\<rparr>
           in case with_id c (\<lambda>u. createRobotsEvaluation u (now_of c s1)
                    \<lparr>iv_id = None, iv_origin = orig, iv_verdict = verdict decision, iv_robotsUrl = robotsUrl decision,
                     iv_checkedAt = Some (fetchedAt decision), iv_userAgentGroup = userAgentGroup decision,
                     iv_matchedRule = matchedRule decision, iv_unavailable = Some (unavailable decision),
                     iv_robotsWouldBlock = Some (verdict decision = Disallowed), iv_robotsHash = None\<rparr>) s1 of
                (evaluation, s2) \<Rightarrow> (Inr (decision, evaluation), s2)))"

definition consecutive_unavailable :: "db \<Rightarrow> string \<Rightarrow> robots_decision \<Rightarrow> nat" where
  "consecutive_unavailable d orig decision =
     (if unavailable decision
      then countConsecutiveUnavailableRobotsEvaluations d orig ROBOTS_UNAVAILABLE_STOP_THRESHOLD else 0)"

definition robots_transient :: "db \<Rightarrow> string \<Rightarrow> robots_decision \<Rightarrow> bool" where
  "robots_transient d orig decision \<longleftrightarrow>
     unavailable decision \<and> int (consecutive_unavailable d orig decision) < ROBOTS_UNAVAILABLE_STOP_THRESHOLD"

definition robots_message :: "db \<Rightarrow> string \<Rightarrow> robots_decision \<Rightarrow> string" where
  "robots_message d orig decision =
     (if robots_transient d orig decision
      then ''robots_unavailable: '' @ robotsUrl decision @ '' (consecutive '' @
           show_nat (consecutive_unavailable d orig decision) @ ''/'' @
           show_int ROBOTS_UNAVAILABLE_STOP_THRESHOLD @ '')''
      else ''blocked_by_robots: '' @ robotsUrl decision @ '' ('' @ orElse (matchedRule decision) ''unavailable'' @ '')'')"

definition robots_stop_reason :: "robots_decision \<Rightarrow> string" where
  "robots_stop_reason decision =
     (case truthy (matchedRule decision) of
        Some rule \<Rightarrow> ''robots.txt disallow: '' @ rule
      | None \<Rightarrow> ''robots.txt unavailable (5xx/network error) '' @ show_int ROBOTS_UNAVAILABLE_STOP_THRESHOLD @ '' times in a row'')"

text \<open>What a refusal by robots.txt does: a failed check, or the stop of the monitor.\<close>

definition robots_refusal ::
  "'n run_env \<Rightarrow> 'n check_ctx \<Rightarrow> target_row \<Rightarrow> string \<Rightarrow> robots_decision \<Rightarrow> robots_evaluation_row \<Rightarrow>
   'n check_state \<Rightarrow> check_run_result \<times> 'n check_state" where
  "robots_refusal re c target orig decision evaluation s =
     (let s1 = refused_attempt c target Blocked_by_robots (robots_message (db_of s) orig decision) s
      in if robots_transient (db_of s) orig decision then finishJob re c Job_failed s1
         else (\<lparr>kind = Run_policy_stopped, nextRunAt = None, run_retryAfterMs = None, run_changeIds = []\<rparr>,
               set_db (policyStopMonitor (now_of c s1) (mon_id (cc_monitor c)) (robots_stop_reason decision)
                        (Some (rv_id evaluation))
                        (updateCheckJobStatus (cj_id (cc_job c)) Job_policy_stopped None (Some (now_of c s1)) (db_of s1))) s1))"

section \<open>Under the lease\<close>

definition lease_report :: "fetch_outcome option \<Rightarrow> lease_outcome" where
  "lease_report outcome =
     (case outcome of
        None \<Rightarrow> (Some Internal_error, None)
      | Some (FetchSuccess r) \<Rightarrow> (None, None)
      | Some (FetchFailure f) \<Rightarrow> (Some (failureClass f), retryAfterSeconds f))"

definition target_job :: "'n check_ctx \<Rightarrow> target_row \<Rightarrow> snapshot_row option \<Rightarrow> fetch_job" where
  "target_job c target latest =
     \<lparr>fj_checkJobId = cj_id (cc_job c), fj_targetId = tg_id target, fj_url = src_url (cc_source c),
      fj_userAgent = cc_userAgent c, fj_etag = Option.bind latest sn_etag,
      fj_lastModified = Option.bind latest sn_lastModified, fj_env = cc_env c\<rparr>"

text \<open>
  The body of the inner \<open>try\<close>: its result or exception, the outcome of the fetch as far as it is
  known, and the state.
\<close>

definition fetch_and_process ::
  "'n run_env \<Rightarrow> 'n check_ctx \<Rightarrow> target_row \<Rightarrow> snapshot_row option \<Rightarrow> 'n check_state \<Rightarrow>
   ((thrown + check_job_status) \<times> fetch_outcome option) \<times> 'n check_state" where
  "fetch_and_process re c target latest s =
     (case fetchTargetThroughPolicy (cc_runtime c) (cc_policy c) (target_job c target latest) (cx_fetch s) of
        (Inl errs, fs) \<Rightarrow> ((Inl (ErrorObject ''FetcherPolicyInvalidError'' ''''), None), s\<lparr>cx_fetch := fs\<rparr>)
      | (Inr (outcome, lastId), fs) \<Rightarrow>
          (let s1 = s\<lparr>cx_fetch := fs\<rparr>
           in case outcome of
                None \<Rightarrow> ((Inl (ErrorObject ''TypeError'' ''''), None), s1)
              | Some (FetchFailure f) \<Rightarrow> ((Inr Job_failed, outcome), s1)
              | Some (FetchSuccess r) \<Rightarrow>
                  (let s2 = set_db (setTargetLastChecked (now_of c s1) (tg_id target) (now_of c s1) (db_of s1)) s1
                   in case ok_body r of
                        None \<Rightarrow> ((Inr Job_succeeded, outcome), s2)
                      | Some body \<Rightarrow>
                          if notModified r then ((Inr Job_succeeded, outcome), s2)
                          else (case re_process re c \<lparr>in_target = target, in_previousSnapshot = latest,
                                       in_checkAttemptId = lastId, in_outcome = r, in_body = body\<rparr> s2 of
                                  (Inl e, s3) \<Rightarrow> ((Inl e, outcome), s3)
                                | (Inr u, s3) \<Rightarrow> ((Inr Job_succeeded, outcome), s3)))))"

text \<open>The blocks \<open>catch\<close> (the job fails, the exception goes on) and \<open>finally\<close> (the release).\<close>

definition under_lease ::
  "'n run_env \<Rightarrow> 'n check_ctx \<Rightarrow> string \<Rightarrow> string \<Rightarrow> target_row \<Rightarrow> snapshot_row option \<Rightarrow>
   (check_run_result, 'n check_state) action" where
  "under_lease re c orig lease target latest s =
     (case fetch_and_process re c target latest s of
        ((r, outcome), s1) \<Rightarrow>
          (case (case r of Inl e \<Rightarrow> (Inl e, snd (finishJob re c Job_failed s1))
                 | Inr status \<Rightarrow> (case finishJob re c status s1 of (res, s2) \<Rightarrow> (Inr res, s2))) of
             (x, s2) \<Rightarrow> (x, set_net (re_release re orig lease (lease_report outcome) (net_of s2)) s2)))"

definition with_host_lease ::
  "'n run_env \<Rightarrow> 'n check_ctx \<Rightarrow> string \<Rightarrow> target_row \<Rightarrow> (check_run_result, 'n check_state) action" where
  "with_host_lease re c orig target s =
     (case re_acquire re orig (net_of s) of
        (Inl e, n) \<Rightarrow> (Inl e, set_net n s)
      | (Inr lease, n) \<Rightarrow>
          (let s1 = set_net n s
           in if \<not> granted lease
              then (Inr \<lparr>kind = Run_deferred, nextRunAt = mon_nextRunAt (cc_monitor c),
                         run_retryAfterMs = Some (orElse (retryAfterMs lease) 5000), run_changeIds = []\<rparr>,
                    set_db (updateCheckJobStatus (cj_id (cc_job c)) Job_pending None None (db_of s1)) s1)
              else (case re_latestSnapshot re (db_of s1) (tg_id target) of
                      Inl e \<Rightarrow> (Inl e, s1)
                    | Inr latest \<Rightarrow> under_lease re c orig (orElse (leaseId lease) '''') target latest s1)))"

section \<open>The whole check\<close>

definition run_job :: "'n run_env \<Rightarrow> 'n check_ctx \<Rightarrow> (check_run_result, 'n check_state) action" where
  "run_job re c s0 =
     (case with_id c (\<lambda>u. upsertTarget u (now_of c s0)
              \<lparr>it_id = None, it_monitorId = mon_id (cc_monitor c), it_url = src_url (cc_source c),
               it_discoveredFrom = None, it_firstSeenAt = None, it_lastKnownUpdatedAt = None\<rparr>) s0 of
        (target, s) \<Rightarrow>
          (let ssrf = ssrf_result c s
           in if \<not> allowed ssrf
              then (case finishJob re c Job_failed (refused_attempt c target Ssrf_blocked
                           (''ssrf_blocked: '' @ orElse (ssrf_reason ssrf) ''unknown'') s) of
                      (res, s1) \<Rightarrow> (Inr res, s1))
              else (case newURL (cc_platform c) (src_url (cc_source c)) None of
                      None \<Rightarrow> (Inl (ErrorObject ''TypeError'' ''Invalid URL''), s)
                    | Some u \<Rightarrow>
                        (let robotsMode = getRobotsMode (newURL (cc_platform c)) (db_of s) (st_id (cc_site c)) (origin u)
                         in andThen (robots_check c (origin u))
                              (\<lambda>(decision, evaluation) s1.
                                 if verdict decision = Disallowed \<and> robotsMode = Enforce
                                 then (case robots_refusal re c target (origin u) decision evaluation s1 of
                                         (res, s2) \<Rightarrow> (Inr res, s2))
                                 else with_host_lease re c (origin u) target s1) s))))"

text \<open>
  \<open>c0\<close> is the context without the rows and the job, which are loaded here. A run starts with an
  empty list of change ids and fresh budgets.
\<close>

definition start_state :: "'n check_state \<Rightarrow> 'n check_state" where
  "start_state s = s\<lparr>changeIds := [], titleFetchesUsed := 0,
     cx_fetch := (cx_fetch s)\<lparr>unavailableFetchers := [], pullWaitUsedMs := 0\<rparr>\<rparr>"

definition runMonitorCheck ::
  "'n run_env \<Rightarrow> 'n check_ctx \<Rightarrow> job_trigger \<Rightarrow> string \<Rightarrow> (check_run_result, 'n check_state) action" where
  "runMonitorCheck re c0 trig monitorId s =
     (case getMonitor (db_of s) monitorId of
        None \<Rightarrow> (Inl (error (''runMonitorCheck: monitor not found: '' @ monitorId)), s)
      | Some m \<Rightarrow>
          if skip_for_status m trig then (Inr (skipped m), s)
          else (case load_rows re m (db_of s) of
                  Inl e \<Rightarrow> (Inl e, s)
                | Inr (src, site, p) \<Rightarrow>
                    (let slot = (if trig = Manual then now_of c0 s else orElse (mon_nextRunAt m) (now_of c0 s))
                     in case with_id c0 (\<lambda>u. createCheckJobIfNew u (now_of c0 s)
                              \<lparr>ij_id = None, ij_monitorId = monitorId, ij_scheduledFor = slot, ij_status = None,
                               ij_trigger = Some trig\<rparr>) s of
                          (jobResult, s1) \<Rightarrow>
                            if \<not> inserted jobResult \<and> cj_status (row jobResult) \<noteq> Job_pending
                            then (Inr (skipped m), s1)
                            else run_job re (c0\<lparr>cc_monitor := m, cc_source := src, cc_site := site, cc_policy := p,
                                                cc_job := row jobResult\<rparr>)
                                   (start_state (set_db (updateCheckJobStatus (cj_id (row jobResult)) Job_running
                                      (Some (now_of c0 s1)) None (db_of s1)) s1)))))"

section \<open>The rows of the schedule\<close>

definition job_of :: "db \<Rightarrow> string \<Rightarrow> ms \<Rightarrow> check_job_row option" where
  "job_of d m slot = find (\<lambda>r. cj_monitorId r = m \<and> scheduledFor r = slot) (check_jobs d)"

definition sched :: "db \<Rightarrow> db \<Rightarrow> bool" where
  "sched d d' \<longleftrightarrow> check_jobs d' = check_jobs d \<and> monitors d' = monitors d"

definition keeps_schedule :: "'n content_processor \<Rightarrow> bool" where
  "keeps_schedule process \<longleftrightarrow> (\<forall>c i s. sched (db_of s) (db_of (snd (process c i s))))"

lemma sched_refl [simp]: "sched d d"
  by (simp add: sched_def)

lemma sched_trans: "sched a b \<Longrightarrow> sched b c \<Longrightarrow> sched a c"
  by (simp add: sched_def)

lemma sched_job: "sched d d' \<Longrightarrow> job_of d' m slot = job_of d m slot"
  and sched_monitor: "sched d d' \<Longrightarrow> getMonitor d' m = getMonitor d m"
  by (simp_all add: sched_def job_of_def getMonitor_def)

lemma sched_ops [simp]:
  "sched d (fst (upsertTarget u now ti d))" "sched d (fst (createCheckAttempt u now ai d))"
  "sched d (fst (createRobotsEvaluation u now ri d))" "sched d (setTargetLastChecked now t w d)"
  by (auto simp: sched_def upsertTarget_def createCheckAttempt_def createRobotsEvaluation_def
      setTargetLastChecked_def Let_def split: option.split)

lemma sched_with_id:
  "with_id c f s = (x, s') \<Longrightarrow> (\<And>u. sched (db_of s) (fst (f u (db_of s)))) \<Longrightarrow> sched (db_of s) (db_of s')"
  by (metis snd_conv with_id_db)

lemma sched_refused [simp]: "sched (db_of s) (db_of (refused_attempt c t cls msg s))"
  by (simp add: refused_attempt_def with_id_db)

lemma sched_robots_check:
  assumes r: "robots_check c orig s = (r, s')"
  shows "sched (db_of s) (db_of s')"
proof -
  let ?check = "checkRobots (newURL (cc_platform c)) (decodeText (cc_platform c)) (cc_robotsFetch c (net_of s))
    (Some (d1_get, d1_put (now_of c s))) None None (now_of c s) orig (src_url (cc_source c)) (robotsCache s)"
  obtain rc x where check: "?check = (rc, x)" by fastforce
  have same: "db_of (s\<lparr>robotsCache := rc\<rparr>) = db_of s" by (simp add: db_of_def)
  from r check show ?thesis
    by (cases x) (auto simp: robots_check_def Let_def same split: prod.splits dest!: sched_with_id)
qed

definition same_schedule :: "'n fetch_state \<Rightarrow> attempt list \<Rightarrow> 'n fetch_state \<Rightarrow> bool" where
  "same_schedule s a s' \<longleftrightarrow> sched (store s) (store s')"

interpretation scheduled: attempt_relation same_schedule "executeFetcher rt j"
  "\<lambda>t s. s\<lparr>outside := rt_sleep rt t (outside s)\<rparr>" for rt j
proof
  fix fid out and s s1 :: "'a fetch_state"
  assume "executeFetcher rt j fid s = (out, s1)"
  then show "same_schedule s [(fid, out)] s1"
    by (auto simp: executeFetcher_def Let_def same_schedule_def split: prod.splits)
qed (auto simp: same_schedule_def intro: sched_trans)

lemma sched_fetch:
  "fetchTargetThroughPolicy rt p j fs = (r, fs') \<Longrightarrow> sched (store fs) (store fs')"
proof -
  assume f: "fetchTargetThroughPolicy rt p j fs = (r, fs')"
  let ?run = "runFetchSequence p (executeFetcher rt j) (\<lambda>t s. s\<lparr>outside := rt_sleep rt t (outside s)\<rparr>)
    (default_opts\<lparr>isRetryable := Some (\<lambda>fid. \<not> is_pull fid)\<rparr>) (fs\<lparr>nextIndex := 0, lastAttemptId := None\<rparr>)"
  obtain x s' where run: "?run = (x, s')" by fastforce
  with f have "fs' = s'"
    by (auto simp: fetchTargetThroughPolicy_def split: sum.splits prod.splits)
  moreover have "sched (store fs) (store s')"
  proof (cases x)
    case (Inl e)
    from sequence_refused [OF _ run [unfolded Inl]] show ?thesis by (simp add: default_opts_def)
  next
    case (Inr y)
    obtain oc att where "y = (oc, att)" by fastforce
    from scheduled.sequence_relates [OF run [unfolded Inr this]] show ?thesis by (simp add: same_schedule_def)
  qed
  ultimately show ?thesis by simp
qed

section \<open>A check settles its slot\<close>

definition ready :: "'n check_ctx \<Rightarrow> string \<Rightarrow> ms \<Rightarrow> db \<Rightarrow> bool" where
  "ready c m slot d \<longleftrightarrow> mon_id (cc_monitor c) = m \<and>
     (\<exists>j. job_of d m slot = Some j \<and> cj_id j = cj_id (cc_job c)) \<and>
     (\<exists>mon. getMonitor d m = Some mon \<and> mon_nextRunAt mon = mon_nextRunAt (cc_monitor c))"

definition settled :: "string \<Rightarrow> ms \<Rightarrow> check_run_result \<Rightarrow> db \<Rightarrow> bool" where
  "settled m slot res d \<longleftrightarrow>
     (\<exists>j mon. job_of d m slot = Some j \<and> getMonitor d m = Some mon \<and>
        (case kind res of
           Run_completed \<Rightarrow> cj_status j \<in> {Job_succeeded, Job_failed} \<and> nextRunAt res \<noteq> None \<and>
             mon_nextRunAt mon = nextRunAt res
         | Run_policy_stopped \<Rightarrow> cj_status j = Job_policy_stopped \<and> mon_status mon = Blocked_by_robots_txt \<and>
             mon_nextRunAt mon = None
         | Run_deferred \<Rightarrow> cj_status j = Job_pending \<and> mon_nextRunAt mon = nextRunAt res
         | Run_skipped \<Rightarrow> False))"

lemma ready_sched: "ready c m slot d \<Longrightarrow> sched d d' \<Longrightarrow> ready c m slot d'"
  by (simp add: ready_def sched_job sched_monitor)

lemma job_of_update:
  "job_of (updateCheckJobStatus i st a b d) m slot =
   map_option (\<lambda>r. if cj_id r = i then r\<lparr>cj_status := st, cj_startedAt := coalesce a (cj_startedAt r),
     cj_finishedAt := coalesce b (cj_finishedAt r)\<rparr> else r) (job_of d m slot)"
  by (simp add: job_of_def updateCheckJobStatus_def find_update_where)

lemma job_of_with_monitor [simp]: "job_of (with_monitor i f d) m slot = job_of d m slot"
  by (simp add: job_of_def with_monitor_def)

lemma getMonitor_update [simp]: "getMonitor (updateCheckJobStatus i st a b d) m = getMonitor d m"
  by (simp add: getMonitor_def updateCheckJobStatus_def)

lemma getMonitor_with_monitor:
  "(\<And>r. mon_id (f r) = mon_id r) \<Longrightarrow>
   getMonitor (with_monitor i f d) m = map_option (\<lambda>r. if mon_id r = i then f r else r) (getMonitor d m)"
  by (simp add: getMonitor_def with_monitor_def find_update_where)

lemma getMonitor_id: "getMonitor d m = Some r \<Longrightarrow> mon_id r = m"
  by (auto simp: getMonitor_def find_Some_iff)

lemmas monitor_statements = setMonitorNextRun_def setMonitorLastChecked_def policyStopMonitor_def
  getMonitor_with_monitor job_of_update

lemma finish_settles:
  assumes "ready c m slot (db_of s)" and "finishJob re c st s = (res, s')"
    and "st \<in> {Job_succeeded, Job_failed}"
  shows "settled m slot res (db_of s')"
proof -
  from assms(1) obtain j mon where j: "job_of (db_of s) m slot = Some j" "cj_id j = cj_id (cc_job c)"
    and mon: "getMonitor (db_of s) m = Some mon" and m: "mon_id (cc_monitor c) = m"
    by (auto simp: ready_def)
  show ?thesis
    using assms(2,3) j mon m getMonitor_id [OF mon]
    by (auto simp: finishJob_def Let_def settled_def monitor_statements)
qed

lemma refusal_settles:
  assumes "ready c m slot (db_of s)" and ref: "robots_refusal re c t orig dec ev s = (res, s')"
  shows "settled m slot res (db_of s')"
proof -
  let ?s1 = "refused_attempt c t Blocked_by_robots (robots_message (db_of s) orig dec) s"
  have ready: "ready c m slot (db_of ?s1)"
    using assms(1) by (rule ready_sched) simp
  show ?thesis
  proof (cases "robots_transient (db_of s) orig dec")
    case True
    with ref have "finishJob re c Job_failed ?s1 = (res, s')" by (simp add: robots_refusal_def Let_def)
    with ready show ?thesis by (rule finish_settles) simp
  next
    case False
    from ready obtain j mon where j: "job_of (db_of ?s1) m slot = Some j" "cj_id j = cj_id (cc_job c)"
      and mon: "getMonitor (db_of ?s1) m = Some mon" and m: "mon_id (cc_monitor c) = m"
      by (auto simp: ready_def)
    from False ref j mon m getMonitor_id [OF mon] show ?thesis
      by (auto simp: robots_refusal_def Let_def settled_def monitor_statements)
  qed
qed

lemma fetch_keeps_schedule:
  assumes keeps: "keeps_schedule (re_process re)"
    and f: "fetch_and_process re c t latest s = ((r, oc), s')"
  shows "sched (db_of s) (db_of s')"
proof -
  obtain x fs where x: "fetchTargetThroughPolicy (cc_runtime c) (cc_policy c) (target_job c t latest) (cx_fetch s) = (x, fs)"
    by fastforce
  have s1: "sched (db_of s) (db_of (s\<lparr>cx_fetch := fs\<rparr>))"
    using sched_fetch [OF x] by (simp add: db_of_def)
  have step: "sched (db_of s) (db_of (set_db (setTargetLastChecked a i b (db_of (s\<lparr>cx_fetch := fs\<rparr>))) (s\<lparr>cx_fetch := fs\<rparr>)))" for a i b
    using s1 by (auto intro: sched_trans)
  have proc: "sched (db_of s2) (db_of s3)" if "re_process re c i s2 = (y, s3)" for i s2 y s3
    using keeps that by (metis keeps_schedule_def snd_conv)
  show ?thesis
    using f s1 step
    by (auto simp: fetch_and_process_def x Let_def split: sum.splits prod.splits option.splits fetch_outcome.splits if_splits
        dest!: proc intro: sched_trans) (blast intro: sched_trans)+
qed

lemma fetch_status: "fetch_and_process re c t latest s = ((Inr st, oc), s') \<Longrightarrow> st \<in> {Job_succeeded, Job_failed}"
  by (auto simp: fetch_and_process_def Let_def split: sum.splits prod.splits option.splits fetch_outcome.splits if_splits)

lemma lease_settles:
  assumes keeps: "keeps_schedule (re_process re)" and ready: "ready c m slot (db_of s)"
    and run: "under_lease re c orig lease t latest s = (Inr res, s')"
  shows "settled m slot res (db_of s')"
proof -
  obtain r oc s1 where f: "fetch_and_process re c t latest s = ((r, oc), s1)" by (metis prod.exhaust)
  from ready_sched [OF ready fetch_keeps_schedule [OF keeps f]] have ready1: "ready c m slot (db_of s1)" .
  obtain st where r: "r = Inr st"
    using run by (cases r) (auto simp: under_lease_def f)
  obtain res1 s2 where fin: "finishJob re c st s1 = (res1, s2)" by fastforce
  with run have "res = res1" "db_of s' = db_of s2" by (auto simp: under_lease_def f r)
  with finish_settles [OF ready1 fin fetch_status [OF f [unfolded r]]] show ?thesis by simp
qed

lemma host_lease_settles:
  assumes keeps: "keeps_schedule (re_process re)" and ready: "ready c m slot (db_of s)"
    and run: "with_host_lease re c orig t s = (Inr res, s')"
  shows "settled m slot res (db_of s')"
proof -
  obtain x n where acq: "re_acquire re orig (net_of s) = (x, n)" by fastforce
  with run obtain lease where x: "x = Inr lease" by (cases x) (auto simp: with_host_lease_def)
  show ?thesis
  proof (cases "granted lease")
    case True
    with run acq x obtain latest where
      "under_lease re c orig (orElse (leaseId lease) '''') t latest (set_net n s) = (Inr res, s')"
      by (auto simp: with_host_lease_def Let_def split: sum.splits)
    with ready show ?thesis by (intro lease_settles [OF keeps]) simp_all
  next
    case False
    from ready obtain j mon where "job_of (db_of s) m slot = Some j" "cj_id j = cj_id (cc_job c)"
      "getMonitor (db_of s) m = Some mon" "mon_nextRunAt mon = mon_nextRunAt (cc_monitor c)"
      by (auto simp: ready_def)
    with False run acq x show ?thesis
      by (auto simp: with_host_lease_def Let_def settled_def job_of_update)
  qed
qed

lemma job_settles:
  assumes keeps: "keeps_schedule (re_process re)" and ready: "ready c m slot (db_of s0)"
    and run: "run_job re c s0 = (Inr res, s')"
  shows "settled m slot res (db_of s')"
proof -
  obtain t s where t: "with_id c (\<lambda>u. upsertTarget u (now_of c s0)
     \<lparr>it_id = None, it_monitorId = mon_id (cc_monitor c), it_url = src_url (cc_source c),
      it_discoveredFrom = None, it_firstSeenAt = None, it_lastKnownUpdatedAt = None\<rparr>) s0 = (t, s)" by fastforce
  from sched_with_id [OF t] have ready: "ready c m slot (db_of s)" by (intro ready_sched [OF ready]) simp
  show ?thesis
  proof (cases "allowed (ssrf_result c s)")
    case False
    let ?s1 = "refused_attempt c t Ssrf_blocked (''ssrf_blocked: '' @ orElse (ssrf_reason (ssrf_result c s)) ''unknown'') s"
    have "ready c m slot (db_of ?s1)" using ready by (rule ready_sched) simp
    moreover have "finishJob re c Job_failed ?s1 = (res, s')"
      using False run t by (auto simp: run_job_def Let_def split: prod.splits)
    ultimately show ?thesis by (rule finish_settles) simp
  next
    case True
    with run t obtain u where u: "newURL (cc_platform c) (src_url (cc_source c)) None = Some u"
      by (auto simp: run_job_def Let_def split: option.splits)
    obtain x s1 where rob: "robots_check c (origin u) s = (x, s1)" by fastforce
    with run t True u obtain dec ev where x: "x = Inr (dec, ev)"
      by (cases x) (auto simp: run_job_def Let_def andThen_def)
    from ready_sched [OF ready sched_robots_check [OF rob]] have ready1: "ready c m slot (db_of s1)" .
    show ?thesis
    proof (cases "verdict dec = Disallowed \<and> getRobotsMode (newURL (cc_platform c)) (db_of s) (st_id (cc_site c)) (origin u) = Enforce")
      case True
      with run t \<open>allowed _\<close> u rob x have "robots_refusal re c t (origin u) dec ev s1 = (res, s')"
        by (auto simp: run_job_def Let_def andThen_def split: prod.splits)
      with ready1 show ?thesis by (rule refusal_settles)
    next
      case False
      with run t \<open>allowed _\<close> u rob x have "with_host_lease re c (origin u) t s1 = (Inr res, s')"
        by (auto simp: run_job_def Let_def andThen_def split: if_splits prod.splits)
      with keeps ready1 show ?thesis by (rule host_lease_settles)
    qed
  qed
qed

definition slot_of :: "'n check_ctx \<Rightarrow> job_trigger \<Rightarrow> string \<Rightarrow> 'n check_state \<Rightarrow> ms" where
  "slot_of c trig m s =
     (if trig = Manual then now_of c s
      else orElse (Option.bind (getMonitor (db_of s) m) mon_nextRunAt) (now_of c s))"

lemma created_job:
  assumes "createCheckJobIfNew u now inp d = (d', r)"
  shows "job_of d' (ij_monitorId inp) (ij_scheduledFor inp) = Some (row r)" "monitors d' = monitors d"
    "\<not> inserted r \<Longrightarrow> d' = d"
  using assms
  by (auto simp: createCheckJobIfNew_def job_of_def Let_def find_append_case split: option.splits)

lemma start_state_db [simp]: "db_of (start_state s) = db_of s"
  by (simp add: start_state_def db_of_def)

lemma check_cases:
  assumes run: "runMonitorCheck re c trig m s = (Inr res, s')"
  obtains (skipped) "kind res = Run_skipped" "sched (db_of s) (db_of s')"
  | (ran) c' s1 where "ready c' m (slot_of c trig m s) (db_of s1)" "run_job re c' s1 = (Inr res, s')"
proof -
  from run obtain mon where mon: "getMonitor (db_of s) m = Some mon"
    by (auto simp: runMonitorCheck_def split: option.splits)
  show thesis
  proof (cases "skip_for_status mon trig")
    case True
    with run mon show thesis by (intro skipped) (auto simp: runMonitorCheck_def skipped_def)
  next
    case False
    with run mon obtain src site p where rows: "load_rows re mon (db_of s) = Inr (src, site, p)"
      by (cases "load_rows re mon (db_of s)") (auto simp: runMonitorCheck_def)
    let ?slot = "slot_of c trig m s"
    have slot: "?slot = (if trig = Manual then now_of c s else orElse (mon_nextRunAt mon) (now_of c s))"
      by (simp add: slot_of_def mon)
    let ?inp = "\<lparr>ij_id = None, ij_monitorId = m, ij_scheduledFor = ?slot, ij_status = None, ij_trigger = Some trig\<rparr>"
    obtain jr s1 where job: "with_id c (\<lambda>u. createCheckJobIfNew u (now_of c s) ?inp) s = (jr, s1)" by fastforce
    then obtain u where new: "createCheckJobIfNew u (now_of c s) ?inp (db_of s) = (db_of s1, jr)"
      by (auto simp: with_id_def split: prod.splits)
    note created = created_job [OF new, simplified]
    let ?c = "c\<lparr>cc_monitor := mon, cc_source := src, cc_site := site, cc_policy := p, cc_job := row jr\<rparr>"
    let ?s1 = "start_state (set_db (updateCheckJobStatus (cj_id (row jr)) Job_running (Some (now_of c s1)) None (db_of s1)) s1)"
    have result: "(if \<not> inserted jr \<and> cj_status (row jr) \<noteq> Job_pending then (Inr (skipped mon), s1)
        else run_job re ?c ?s1) = (Inr res, s')"
      using run mon False rows job [unfolded slot] by (simp add: runMonitorCheck_def Let_def)
    show thesis
    proof (cases "\<not> inserted jr \<and> cj_status (row jr) \<noteq> Job_pending")
      case True
      with result created show thesis by (intro skipped) (auto simp: skipped_def)
    next
      case False
      from mon created(2) have "getMonitor (db_of s1) m = Some mon" by (simp add: getMonitor_def)
      with created(1) getMonitor_id [OF mon] have "ready ?c m ?slot (db_of ?s1)"
        by (simp add: ready_def job_of_update)
      with False result show thesis by (intro ran) auto
    qed
  qed
qed

lemma check_settles:
  assumes "keeps_schedule (re_process re)"
    and "runMonitorCheck re c trig m s = (Inr res, s')" and "kind res \<noteq> Run_skipped"
  shows "settled m (slot_of c trig m s) res (db_of s')"
  using assms(2)
proof (cases rule: check_cases)
  case (ran c' s1)
  from job_settles [OF assms(1) this] show ?thesis .
qed (use assms(3) in simp)

text \<open>
  A check that is not skipped settles the job of its slot before it answers. If it completed, the
  job succeeded or failed and the monitor's next run is the one in the answer. If robots.txt stopped
  it, job and monitor are stopped and no run is due. If the host limiter refused, the job of the same
  slot waits as pending and the monitor still points at it. This holds for every content processor
  that leaves jobs and monitors alone.
\<close>

theorem check_settles_slot:
  assumes "keeps_schedule (re_process re)"
    and "runMonitorCheck re c trig m s = (Inr res, s')" and "kind res \<noteq> Run_skipped"
  shows "settled m (slot_of c trig m s) res (db_of s')"
  using assms by (rule check_settles)

lemma taken_slot:
  assumes "getMonitor (db_of s) m = Some mon" and "mon_nextRunAt mon = Some slot"
    and "job_of (db_of s) m slot = Some j" and "cj_status j \<noteq> Job_pending"
  shows taken_slot_unchanged: "db_of (snd (runMonitorCheck re c Scheduled m s)) = db_of s"
    and taken_slot_result: "fst (runMonitorCheck re c Scheduled m s) = Inr res \<Longrightarrow> kind res = Run_skipped"
proof -
  have new: "createCheckJobIfNew u now \<lparr>ij_id = None, ij_monitorId = m, ij_scheduledFor = slot,
      ij_status = None, ij_trigger = Some Scheduled\<rparr> (db_of s) = (db_of s, \<lparr>inserted = False, row = j\<rparr>)" for u now
    using assms(3) by (simp add: createCheckJobIfNew_def job_of_def)
  show "db_of (snd (runMonitorCheck re c Scheduled m s)) = db_of s"
    using assms(1,2,4) by (auto simp: runMonitorCheck_def with_id_def new split: sum.split)
  show "fst (runMonitorCheck re c Scheduled m s) = Inr res \<Longrightarrow> kind res = Run_skipped"
    using assms(1,2,4) by (auto simp: runMonitorCheck_def with_id_def new skipped_def split: sum.splits if_splits)
qed

section \<open>The host lease\<close>

text \<open>
  C26. A granted lease is given back: once the latest snapshot is read, whatever the fetch and the
  content processing do, exceptions included, the last thing that happens outside is the release of
  this lease, and an exception leaves the job failed. When the read of the latest snapshot itself fails
  the lease is kept, against the comment above it.
\<close>

theorem lease_given_back:
  assumes "re_acquire re orig (net_of s) = (Inr lease, n)" and "granted lease"
    and "with_host_lease re c orig t s = (r, s')"
  shows "case re_latestSnapshot re (db_of s) (tg_id t) of
      Inr latest \<Rightarrow> (\<exists>n' rep. net_of s' = re_release re orig (orElse (leaseId lease) '''') rep n')
    | Inl e \<Rightarrow> r = Inl e \<and> net_of s' = n \<and> db_of s' = db_of s"
proof (cases "re_latestSnapshot re (db_of s) (tg_id t)")
  case (Inl e)
  with assms show ?thesis by (auto simp: with_host_lease_def Let_def)
next
  case (Inr latest)
  with assms have "under_lease re c orig (orElse (leaseId lease) '''') t latest (set_net n s) = (r, s')"
    by (simp add: with_host_lease_def Let_def)
  with Inr show ?thesis
    by (auto simp: under_lease_def split: prod.splits simp del: split_paired_Ex) blast
qed

section \<open>An example\<close>

text \<open>A monitor of a private address: the check ends with the failed job of the SSRF guard.\<close>

definition private_url :: url_parser where
  "private_url s b = Some \<lparr>href = s, protocol = ''http:'', username = '''', password = '''',
     hostname = ''10.0.0.1'', port = '''', pathname = ''/'', search = '''', origin = ''http://10.0.0.1''\<rparr>"

definition check_ctx0 :: "url_parser \<Rightarrow> ms check_ctx" where
  "check_ctx0 up = (demo_ctx None None)\<lparr>cc_platform := demo_platform\<lparr>newURL := up\<rparr>\<rparr>"

definition check_state0 :: "check_job_row list \<Rightarrow> ms check_state" where
  "check_state0 js = set_db (demo_db\<lparr>monitors := [demo_monitor None], sources := [demo_source], sites := [demo_site],
     check_jobs := js\<rparr>) demo_state"

definition free_host :: host_lease_result where
  "free_host = \<lparr>granted = True, leaseId = Some ''l'', retryAfterMs = None\<rparr>"

text \<open>The outside state is the clock; giving the lease back moves it by one.\<close>

definition check_env :: "ms run_env" where
  "check_env = \<lparr>re_policies = \<lparr>fetcher_policies = [\<lparr>pol_id = ''p'', pol_site_id = ''s'', pol_created_at = 0, pol_updated_at = 0\<rparr>],
       fetcher_policy_entries = []\<rparr>,
     re_acquire = (\<lambda>o1 n. (Inr free_host, n)), re_release = (\<lambda>o1 l rep n. n + 1),
     re_latestSnapshot = (\<lambda>d t. Inr None), re_process = (\<lambda>c i s. (Inr (), s)), re_random = (\<lambda>n. 0)\<rparr>"

lemma private_run:
  "case fst (runMonitorCheck check_env (check_ctx0 private_url) Scheduled ''m'' (check_state0 [])) of
     Inr res \<Rightarrow> kind res = Run_completed | Inl e \<Rightarrow> False"
  by code_simp

theorem check_settles_slot_witness:
  "case runMonitorCheck check_env (check_ctx0 private_url) Scheduled ''m'' (check_state0 []) of
     (Inr res, s') \<Rightarrow> settled ''m'' 0 res (db_of s') | (Inl e, s') \<Rightarrow> False"
proof -
  have keeps: "keeps_schedule (re_process check_env)" by (simp add: keeps_schedule_def check_env_def)
  have slot: "slot_of (check_ctx0 private_url) Scheduled ''m'' (check_state0 []) = 0"
    by (simp add: slot_of_def check_state0_def getMonitor_def demo_monitor_def)
  obtain r s' where run: "runMonitorCheck check_env (check_ctx0 private_url) Scheduled ''m'' (check_state0 []) = (r, s')"
    by fastforce
  with private_run obtain res where "r = Inr res" "kind res = Run_completed"
    by (cases r) simp_all
  with run check_settles_slot [OF keeps run [unfolded this(1)]] show ?thesis
    by (simp add: slot)
qed

definition demo_target :: target_row where
  "demo_target = \<lparr>tg_id = ''t'', tg_monitorId = ''m'', tg_url = ''http://a/'', discoveredFrom = None, firstSeenAt = 0,
     tg_lastCheckedAt = None, lastKnownUpdatedAt = None, tg_createdAt = 0, tg_updatedAt = 0\<rparr>"

theorem lease_given_back_witness:
  "case with_host_lease check_env (check_ctx0 demo_url) ''o'' demo_target (check_state0 []) of
     (r, s') \<Rightarrow> \<exists>n' rep. net_of s' = re_release check_env ''o'' ''l'' rep n'"
  using lease_given_back [where re = check_env and c = "check_ctx0 demo_url" and orig = "''o''" and t = demo_target
      and s = "check_state0 []" and lease = free_host]
  by (simp add: check_env_def free_host_def split: prod.splits)

end
