(* ===== verification/Content_Processors.thy ===== *)
theory Content_Processors
  imports Run_Check
begin

text \<open>
  The content processors of a check: page text (src/pipeline/pageContent.ts), page items
  (src/pipeline/pageItems.ts), feeds (processFeedContent of src/pipeline/feed.ts) and one sitemap as
  a document (src/pipeline/sitemapDirect.ts), with the comparison of normalised contents
  (src/normalize/diff.ts) and the header charset (src/normalize/charset.ts).
\<close>

section \<open>Arguments\<close>

record normalized_content =
  normalizedHtml :: string
  extractedText :: string
  rawHash :: string
  normalizedHash :: string
  textHash :: string
  normalizationVersion :: int

record normalize_options =
  no_baseUrl :: string
  no_ignoreSelectors :: "string list option"
  no_includeSelectors :: "string list option"
  no_stripQueryParams :: "string list option"

record extract_items_options =
  xo_itemSelector :: string
  xo_linkSelector :: "string option"
  xo_titleSelector :: "string option"
  xo_baseUrl :: string
  xo_headerCharset :: "string option"
  xo_fields :: "extract_field list option"

record adapter_parse_result =
  pr_kind :: source_type
  pr_items :: "feed_item list"
  childSitemaps :: "string list"
  pr_title :: "string option"

text \<open>A run of lines of \<open>diffLines\<close>, by its number of lines.\<close>

datatype line_run = Added nat | Removed nat | Common nat

text \<open>
  The parsers and libraries of the processors: the HTML normaliser, the item extractor and the XML
  adapters (whose errors are exceptions), and \<open>diffLines\<close> and \<open>createTwoFilesPatch\<close> of the package
  diff.
\<close>

record content_env =
  ce_normalize :: "bytes \<Rightarrow> normalize_options \<Rightarrow> string option \<Rightarrow> thrown + normalized_content"
  ce_extractItems :: "bytes \<Rightarrow> extract_items_options \<Rightarrow> thrown + feed_item list"
  ce_parseSource :: "source_type \<Rightarrow> bytes \<Rightarrow> string \<Rightarrow> string option \<Rightarrow> thrown + adapter_parse_result"
  ce_diffLines :: "string \<Rightarrow> string \<Rightarrow> line_run list"
  ce_patch :: "string \<Rightarrow> string \<Rightarrow> nat \<Rightarrow> string"

definition is_parse_error :: "thrown \<Rightarrow> bool" where
  "is_parse_error e = (case e of ErrorObject n m \<Rightarrow> n = ''AdapterParseError'' | OtherValue v \<Rightarrow> False)"

section \<open>The charset of a content type (src/normalize/charset.ts)\<close>

text \<open>
  The expression \<open>charset\s*=\s*("?)([^;"\s]+)\1\<close> at the start of a text. The class excludes the quote,
  so a quoted value either ends at its quote or does not match.
\<close>

definition charset_value_char :: "char \<Rightarrow> bool" where
  "charset_value_char ch \<longleftrightarrow> ch \<noteq> CHR '';'' \<and> ch \<noteq> CHR 0x22 \<and> \<not> js_space ch"

definition charset_at :: "string \<Rightarrow> string option" where
  "charset_at t =
     (if toLowerCase (take 7 t) \<noteq> ''charset'' then None
      else (case dropWhile js_space (drop 7 t) of
              [] \<Rightarrow> None
            | e # r \<Rightarrow>
                if e \<noteq> CHR ''='' then None
                else (case dropWhile js_space r of
                        [] \<Rightarrow> None
                      | q # r2 \<Rightarrow>
                          if q = CHR 0x22
                          then (let v = takeWhile charset_value_char r2
                                in if v \<noteq> [] \<and> take 1 (drop (length v) r2) = [q] then Some v else None)
                          else (let v = takeWhile charset_value_char (q # r2)
                                in if v \<noteq> [] then Some v else None))))"

fun charset_search :: "string \<Rightarrow> string option" where
  "charset_search [] = None"
| "charset_search (ch # t) = (case charset_at (ch # t) of Some v \<Rightarrow> Some v | None \<Rightarrow> charset_search t)"

definition extractCharsetFromContentType :: "string option \<Rightarrow> string option" where
  "extractCharsetFromContentType contentType = Option.bind (truthy contentType) charset_search"

section \<open>Differences (src/normalize/diff.ts)\<close>

record text_diff_result =
  td_changed :: bool
  unifiedDiff :: string
  addedCount :: nat
  removedCount :: nat

fun added_lines :: "line_run \<Rightarrow> nat" where
  "added_lines (Added n) = n" | "added_lines (Removed n) = 0" | "added_lines (Common n) = 0"

fun removed_lines :: "line_run \<Rightarrow> nat" where
  "removed_lines (Added n) = 0" | "removed_lines (Removed n) = n" | "removed_lines (Common n) = 0"

definition diffText :: "content_env \<Rightarrow> string \<Rightarrow> string \<Rightarrow> nat option \<Rightarrow> text_diff_result" where
  "diffText ce before after contextOpt =
     (let runs = ce_diffLines ce before after;
          a = sum_list (map added_lines runs); r = sum_list (map removed_lines runs);
          changed = (a > 0 \<or> r > 0)
      in \<lparr>td_changed = changed, unifiedDiff = (if changed then ce_patch ce before after (orElse contextOpt 3) else ''''),
          addedCount = a, removedCount = r\<rparr>)"

definition compareSnapshots :: "normalized_content \<Rightarrow> normalized_content \<Rightarrow> diff_level option" where
  "compareSnapshots before after =
     (if rawHash before = rawHash after then None
      else if normalizedHash before = normalizedHash after then None
      else if textHash before = textHash after then Some Normalized_hash
      else Some Text_hash)"

section \<open>Shared steps\<close>

definition put_body :: "string \<Rightarrow> r2_value \<Rightarrow> 'n check_state \<Rightarrow> 'n check_state" where
  "put_body key v s = s\<lparr>bucket := putIfAbsent key v (bucket s)\<rparr>"

definition put_diff :: "string \<Rightarrow> string \<Rightarrow> 'n check_state \<Rightarrow> 'n check_state" where
  "put_diff key v s = s\<lparr>bucket := AList.update key (R2_text v) (bucket s)\<rparr>"

text \<open>The text of an object, or nothing when the key is not given or the object is not there.\<close>

definition read_text :: "'n check_ctx \<Rightarrow> string option \<Rightarrow> 'n check_state \<Rightarrow> string" where
  "read_text c key s =
     (case truthy key of
        None \<Rightarrow> ''''
      | Some k \<Rightarrow>
          (case map_of (bucket s) k of
             None \<Rightarrow> ''''
           | Some (R2_text t) \<Rightarrow> t
           | Some (R2_bytes b) \<Rightarrow> decodeText (cc_platform c) b))"

text \<open>The fields of a snapshot every processor fills from the answer.\<close>

definition snapshot_input ::
  "'n check_ctx \<Rightarrow> target_row \<Rightarrow> string option \<Rightarrow> ms \<Rightarrow> fetch_success \<Rightarrow> string \<Rightarrow> string option \<Rightarrow> create_snapshot_input" where
  "snapshot_input c t attemptId fetched out raw r2key =
     \<lparr>is_id = None, is_monitorId = mon_id (cc_monitor c), is_targetId = tg_id t, is_checkAttemptId = attemptId,
      is_fetchedAt = Some fetched, is_httpStatus = Some (ok_status out), is_contentType = ok_contentType out,
      is_etag = ok_etag out, is_lastModified = ok_lastModified out, is_bodyHash = Some raw, is_r2Key = r2key,
      is_normalizedHash = None, is_normalizedR2Key = None, is_textHash = None, is_normalizationVersion = None\<rparr>"

definition store_snapshot :: "'n check_ctx \<Rightarrow> create_snapshot_input \<Rightarrow> 'n check_state \<Rightarrow> snapshot_row \<times> 'n check_state" where
  "store_snapshot c inp s = with_id c (\<lambda>u. createSnapshot u (now_of c s) inp) s"

definition parse_body ::
  "content_env \<Rightarrow> 'n check_ctx \<Rightarrow> fetch_success \<Rightarrow> bytes \<Rightarrow> thrown + adapter_parse_result" where
  "parse_body ce c out body =
     ce_parseSource ce (src_type (cc_source c)) body (src_url (cc_source c))
       (extractCharsetFromContentType (ok_contentType out))"

text \<open>The answer \<open>{ changed, level }\<close> of the source is changed exactly when it has a level.\<close>

definition DIFF_PREVIEW_CHARS :: nat where "DIFF_PREVIEW_CHARS = 2000"

text \<open>
  The change of a document that differs from its last snapshot: the row (its id names the diff
  object), the diff object if the row is new, and the notification.
\<close>

definition update_change ::
  "'n check_ctx \<Rightarrow> target_row \<Rightarrow> snapshot_row \<Rightarrow> snapshot_row \<Rightarrow> diff_level \<Rightarrow> string \<Rightarrow> string \<Rightarrow> string option \<Rightarrow>
   string option \<Rightarrow> ms \<Rightarrow> (unit, 'n check_state) action" where
  "update_change c t previous snap level key diff preview title fetched s =
     (case with_id c (\<lambda>u. insertChangeIfNew u (now_of c s)
              \<lparr>ic_id = Some u, ic_monitorId = mon_id (cc_monitor c), ic_targetId = Some (tg_id t),
               ic_targetUrl = tg_url t, ic_kind = Updated, ic_diffLevel = Some level, ic_dedupeKey = key,
               ic_previousSnapshotId = Some (sn_id previous), ic_snapshotId = Some (sn_id snap),
               ic_diffR2Key = (if diff \<noteq> '''' then Some (diffKey u) else None), ic_diffPreview = preview,
               ic_title = title, ic_detectedAt = Some fetched\<rparr>) s of
        (ins, s1) \<Rightarrow>
          notifyDetectedChanges c
            [\<lparr>dc_row = row ins, dc_inserted = inserted ins, watermarkAdvance = None, dc_item = None\<rparr>]
            (if inserted ins \<and> diff \<noteq> '''' then put_diff (diffKey (cc_uuid c (uuids s))) diff s1 else s1))"

section \<open>Page text (src/pipeline/pageContent.ts)\<close>

definition page_options :: "'n check_ctx \<Rightarrow> target_row \<Rightarrow> normalize_options" where
  "page_options c t =
     \<lparr>no_baseUrl = tg_url t, no_ignoreSelectors = Option.bind (src_config (cc_source c)) ignoreSelectors,
      no_includeSelectors = Option.bind (src_config (cc_source c)) includeSelectors,
      no_stripQueryParams = Option.bind (src_config (cc_source c)) stripQueryParams\<rparr>"

definition previous_content :: "snapshot_row \<Rightarrow> normalized_content \<Rightarrow> normalized_content" where
  "previous_content p n =
     \<lparr>normalizedHtml = '''', extractedText = '''', rawHash = orElse (bodyHash p) '''',
      normalizedHash = orElse (sn_normalizedHash p) '''', textHash = orElse (sn_textHash p) '''',
      normalizationVersion = orElse (sn_normalizationVersion p) (normalizationVersion n)\<rparr>"

definition page_snapshot ::
  "'n check_ctx \<Rightarrow> target_row \<Rightarrow> string option \<Rightarrow> fetch_success \<Rightarrow> bytes \<Rightarrow> normalized_content \<Rightarrow> 'n check_state \<Rightarrow>
   snapshot_row \<times> 'n check_state" where
  "page_snapshot c t attemptId out body n s =
     (let s2 = put_body (normalizedKey (textHash n)) (R2_text (extractedText n))
                 (put_body (bodyKey (rawHash n)) (R2_bytes body) s)
      in store_snapshot c ((snapshot_input c t attemptId (now_of c s) out (rawHash n) (Some (bodyKey (rawHash n))))
           \<lparr>is_normalizedHash := Some (normalizedHash n), is_normalizedR2Key := Some (normalizedKey (textHash n)),
            is_textHash := Some (textHash n), is_normalizationVersion := Some (normalizationVersion n)\<rparr>) s2)"

definition processPageContent ::
  "content_env \<Rightarrow> 'n check_ctx \<Rightarrow> content_input \<Rightarrow> (unit, 'n check_state) action" where
  "processPageContent ce c i s =
     (case ce_normalize ce (in_body i) (page_options c (in_target i))
             (extractCharsetFromContentType (ok_contentType (in_outcome i))) of
        Inl e \<Rightarrow> (Inl e, s)
      | Inr n \<Rightarrow>
          (case page_snapshot c (in_target i) (in_checkAttemptId i) (in_outcome i) (in_body i) n s of
             (snap, s1) \<Rightarrow>
               (case in_previousSnapshot i of
                  None \<Rightarrow> (Inr (), s1)
                | Some previous \<Rightarrow>
                    (case compareSnapshots (previous_content previous n) n of
                       None \<Rightarrow> (Inr (), s1)
                     | Some level \<Rightarrow>
                         (let diff = unifiedDiff (diffText ce (read_text c (normalizedR2Key previous) s1) (extractedText n) None)
                          in update_change c (in_target i) previous snap level
                               (if level = Text_hash then textHash n else normalizedHash n) diff
                               (if diff \<noteq> '''' then Some (truncateDiffPreview diff DIFF_PREVIEW_CHARS) else None)
                               None (now_of c s) s1)))))"

section \<open>Page items (src/pipeline/pageItems.ts)\<close>

definition formatFieldsAsSummary :: "(string \<times> string) list \<Rightarrow> string option" where
  "formatFieldsAsSummary fs =
     (if fs = [] then None else Some (join [LF] (map (\<lambda>(n, v). n @ '': '' @ v) fs)))"

definition extracted_to_item :: "feed_item \<Rightarrow> feed_item" where
  "extracted_to_item x = x\<lparr>fi_summary := formatFieldsAsSummary (orElse (fi_fields x) [])\<rparr>"

definition processPageItems ::
  "content_env \<Rightarrow> 'n check_ctx \<Rightarrow> content_input \<Rightarrow> (unit, 'n check_state) action" where
  "processPageItems ce c i s =
     (case Option.bind (src_config (cc_source c)) sc_extract of
        None \<Rightarrow> (Inr (), s)
      | Some x \<Rightarrow>
          (case ce_extractItems ce (in_body i)
                  \<lparr>xo_itemSelector = itemSelector x, xo_linkSelector = linkSelector x, xo_titleSelector = titleSelector x,
                   xo_baseUrl = finalUrl (in_outcome i),
                   xo_headerCharset = extractCharsetFromContentType (ok_contentType (in_outcome i)),
                   xo_fields = ex_fields x\<rparr> of
             Inl e \<Rightarrow> (Inl e, s)
           | Inr extracted \<Rightarrow>
               andThen (if extracted = [] then (\<lambda>s0. (Inr 0, s0))
                        else processFeedItems c (map extracted_to_item extracted) MAX_FEED_ITEMS_PER_CHECK True)
                 (\<lambda>cut s1. (Inr (), snd (store_snapshot c (snapshot_input c (in_target i) (in_checkAttemptId i)
                    (now_of c s1) (in_outcome i) (cc_sha256 c (R2_bytes (in_body i))) None) s1))) s))"

section \<open>Feeds (src/pipeline/feed.ts)\<close>

definition processFeedContent ::
  "content_env \<Rightarrow> 'n check_ctx \<Rightarrow> content_input \<Rightarrow> (unit, 'n check_state) action" where
  "processFeedContent ce c i s =
     (let raw = cc_sha256 c (R2_bytes (in_body i));
          s1 = put_body (bodyKey raw) (R2_bytes (in_body i)) s
      in case parse_body ce c (in_outcome i) (in_body i) of
           Inl e \<Rightarrow> (if is_parse_error e then Inr () else Inl e, s1)
         | Inr parsed \<Rightarrow>
             (case store_snapshot c (snapshot_input c (in_target i) (in_checkAttemptId i) (now_of c s1)
                     (in_outcome i) raw (Some (bodyKey raw))) s1 of
                (snap, s2) \<Rightarrow>
                  andThen (processFeedItems c (pr_items parsed) MAX_FEED_ITEMS_PER_CHECK False)
                    (\<lambda>cut s3. (Inr (), s3)) s2))"

section \<open>A sitemap as a document (src/pipeline/sitemapDirect.ts)\<close>

definition SITEMAP_DOCUMENT_VERSION :: int where "SITEMAP_DOCUMENT_VERSION = 1"

text \<open>The map from locations to the time of their first occurrence, in the order of insertion.\<close>

fun by_loc :: "feed_item list \<Rightarrow> (string \<times> string option) list" where
  "by_loc [] = []"
| "by_loc (x # xs) =
     (case truthy (fi_url x) of
        None \<Rightarrow> by_loc xs
      | Some u \<Rightarrow> (u, updatedAt x) # filter (\<lambda>e. fst e \<noteq> u) (by_loc xs))"

definition TAB :: char where "TAB = CHR 0x09"

definition document_line :: "feed_item list \<Rightarrow> string \<Rightarrow> string" where
  "document_line items loc = loc @ [TAB] @ orElse (Option.bind (map_of (by_loc items) loc) id) ''-'' @ [LF]"

definition buildSitemapDocument :: "feed_item list \<Rightarrow> string" where
  "buildSitemapDocument items = concat (map (document_line items) (sort (map fst (by_loc items))))"

definition sitemap_snapshot ::
  "'n check_ctx \<Rightarrow> target_row \<Rightarrow> string option \<Rightarrow> fetch_success \<Rightarrow> bytes \<Rightarrow> string \<Rightarrow> 'n check_state \<Rightarrow>
   snapshot_row \<times> 'n check_state" where
  "sitemap_snapshot c t attemptId out body document s =
     (let raw = cc_sha256 c (R2_bytes body); h = cc_sha256 c (R2_text document);
          s2 = put_body (normalizedKey h) (R2_text document) (put_body (bodyKey raw) (R2_bytes body) s)
      in store_snapshot c ((snapshot_input c t attemptId (now_of c s) out raw (Some (bodyKey raw)))
           \<lparr>is_normalizedHash := Some h, is_normalizedR2Key := Some (normalizedKey h), is_textHash := Some h,
            is_normalizationVersion := Some SITEMAP_DOCUMENT_VERSION\<rparr>) s2)"

definition processSitemapDirect ::
  "content_env \<Rightarrow> 'n check_ctx \<Rightarrow> content_input \<Rightarrow> (unit, 'n check_state) action" where
  "processSitemapDirect ce c i s =
     (case parse_body ce c (in_outcome i) (in_body i) of
        Inl e \<Rightarrow> (if is_parse_error e then Inr () else Inl e, s)
      | Inr parsed \<Rightarrow>
          (let document = buildSitemapDocument (pr_items parsed); h = cc_sha256 c (R2_text document)
           in case sitemap_snapshot c (in_target i) (in_checkAttemptId i) (in_outcome i) (in_body i) document s of
                (snap, s1) \<Rightarrow>
                  (case in_previousSnapshot i of
                     None \<Rightarrow> (Inr (), s1)
                   | Some previous \<Rightarrow>
                       if mon_lastCheckedAt (cc_monitor c) = None \<or> sn_textHash previous = Some h then (Inr (), s1)
                       else (let d = diffText ce (read_text c (normalizedR2Key previous) s1) document None;
                                 summary = ''+'' @ show_nat (addedCount d) @ ''/-'' @ show_nat (removedCount d) @ '' URL''
                             in if \<not> td_changed d then (Inr (), s1)
                                else update_change c (in_target i) previous snap Text_hash h (unifiedDiff d)
                                       (Some (if unifiedDiff d \<noteq> ''''
                                              then summary @ [LF] @ truncateDiffPreview (unifiedDiff d) DIFF_PREVIEW_CHARS
                                              else summary))
                                       (Some summary) (now_of c s) s1))))"

section \<open>The sitemap document\<close>

lemma by_loc_distinct: "distinct (map fst (by_loc items))"
proof (induction items)
  case (Cons x xs)
  then show ?case by (auto simp: distinct_map_filter split: option.split)
qed simp

definition same_entries :: "feed_item list \<Rightarrow> feed_item list \<Rightarrow> bool" where
  "same_entries xs ys \<longleftrightarrow> map_of (by_loc xs) = map_of (by_loc ys)"

lemma same_locs: "same_entries xs ys \<Longrightarrow> sort (map fst (by_loc xs)) = sort (map fst (by_loc ys))"
proof -
  assume "same_entries xs ys"
  then have "set (map fst (by_loc xs)) = set (map fst (by_loc ys))"
    by (metis same_entries_def dom_map_of_conv_image_fst list.set_map)
  then show ?thesis
    by (metis by_loc_distinct distinct_sort set_sort sorted_distinct_set_unique sorted_sort)
qed

lemma LF_char: "LF = CHR 0x0A"
  by code_simp

text \<open>A text made of lines determines the lines.\<close>

lemma lines_unique:
  assumes "\<forall>l \<in> set ls. LF \<notin> set l" "\<forall>l \<in> set ms. LF \<notin> set l"
    and "concat (map (\<lambda>l. l @ [LF]) ls) = concat (map (\<lambda>l. l @ [LF]) ms)"
  shows "ls = ms"
  using assms
proof (induction ls arbitrary: ms)
  case (Cons l ls)
  from Cons.prems(3) obtain k ks where ms: "ms = k # ks" by (cases ms) auto
  let ?rest = "\<lambda>xs. concat (map (\<lambda>l. l @ [LF]) xs)"
  have cut: "takeWhile (\<lambda>x. x \<noteq> LF) (l @ LF # zs) = l" if "LF \<notin> set l" for l zs :: string
    using that by (induction l) auto
  from Cons.prems(3) have eq: "l @ LF # ?rest ls = k @ LF # ?rest ks" by (simp add: ms)
  moreover from Cons.prems(1,2) have "LF \<notin> set l" "LF \<notin> set k" by (auto simp: ms)
  ultimately have "l = k" using cut [of l] cut [of k] by (metis (no_types))
  with eq Cons.prems(1,2) Cons.IH [of ks] show ?case by (simp add: ms)
qed (auto simp: concat_eq_Nil_conv)

definition plain_items :: "feed_item list \<Rightarrow> bool" where
  "plain_items items \<longleftrightarrow>
     list_all (\<lambda>(loc, w). TAB \<notin> set loc \<and> LF \<notin> set loc \<and>
       (case w of None \<Rightarrow> True | Some t \<Rightarrow> LF \<notin> set t \<and> t \<noteq> ''-'')) (by_loc items)"

lemma document_lines:
  "buildSitemapDocument items =
   concat (map (\<lambda>l. l @ [LF]) (map (\<lambda>loc. loc @ TAB # orElse (Option.bind (map_of (by_loc items) loc) id) ''-'')
     (sort (map fst (by_loc items)))))"
  by (simp add: buildSitemapDocument_def document_line_def [abs_def] comp_def)

lemma plain_lookup:
  assumes "plain_items items" "map_of (by_loc items) loc = Some w"
  shows "TAB \<notin> set loc" "LF \<notin> set loc" "w = Some t \<Longrightarrow> LF \<notin> set t \<and> t \<noteq> ''-''"
  using assms by (auto simp: plain_items_def list_all_iff dest!: map_of_SomeD)

lemma line_unique:
  assumes "TAB \<notin> set a" "TAB \<notin> set b" "a @ TAB # v = b @ TAB # w"
  shows "a = b \<and> v = w"
proof -
  have cut: "takeWhile (\<lambda>x. x \<noteq> TAB) (l @ TAB # zs) = l" if "TAB \<notin> set l" for l zs :: string
    using that by (induction l) auto
  from assms cut [of a v] cut [of b w] have "a = b" by metis
  with assms(3) show ?thesis by simp
qed

lemma document_determines:
  assumes "plain_items xs" "plain_items ys" and eq: "buildSitemapDocument xs = buildSitemapDocument ys"
  shows "same_entries xs ys"
proof -
  define val where "val items loc = orElse (Option.bind (map_of (by_loc items) loc) id) ''-''" for items loc
  define locs where "locs items = sort (map fst (by_loc items))" for items
  have set_locs: "set (locs items) = dom (map_of (by_loc items))" for items
    by (simp add: locs_def dom_map_of_conv_image_fst)
  have clean: "LF \<notin> set (loc @ TAB # val items loc) \<and> TAB \<notin> set loc"
    if "plain_items items" "loc \<in> set (locs items)" for items loc
  proof -
    from that(2) set_locs [of items] obtain w where w: "map_of (by_loc items) loc = Some w" by auto
    from plain_lookup [OF that(1) w] show ?thesis
      by (cases w) (auto simp: val_def w TAB_def LF_char)
  qed
  from eq have "concat (map (\<lambda>l. l @ [LF]) (map (\<lambda>loc. loc @ TAB # val xs loc) (locs xs))) =
      concat (map (\<lambda>l. l @ [LF]) (map (\<lambda>loc. loc @ TAB # val ys loc) (locs ys)))"
    by (simp add: document_lines val_def locs_def)
  then have lines: "map (\<lambda>loc. loc @ TAB # val xs loc) (locs xs) = map (\<lambda>loc. loc @ TAB # val ys loc) (locs ys)"
    by (intro lines_unique) (use clean assms(1,2) in auto)
  have "locs xs = locs ys"
  proof (rule nth_equalityI)
    show len: "length (locs xs) = length (locs ys)" using lines by (metis length_map)
    fix k assume k: "k < length (locs xs)"
    have k2: "k < length (locs ys)" using k len by simp
    from arg_cong [OF lines, of "\<lambda>ls. ls ! k"]
    have "locs xs ! k @ TAB # val xs (locs xs ! k) = locs ys ! k @ TAB # val ys (locs ys ! k)"
      using k k2 by simp
    moreover have "TAB \<notin> set (locs xs ! k)" "TAB \<notin> set (locs ys ! k)"
      using clean [OF assms(1) nth_mem [OF k]] clean [OF assms(2) nth_mem [OF k2]] by simp_all
    ultimately show "locs xs ! k = locs ys ! k" using line_unique by blast
  qed
  with lines have vals: "val xs loc = val ys loc" if "loc \<in> set (locs xs)" for loc
    using that by auto
  show ?thesis
    unfolding same_entries_def
  proof
    fix loc
    show "map_of (by_loc xs) loc = map_of (by_loc ys) loc"
    proof (cases "loc \<in> set (locs xs)")
      case False
      then have "map_of (by_loc xs) loc = None" "map_of (by_loc ys) loc = None"
        using set_locs [of xs] set_locs [of ys] \<open>locs xs = locs ys\<close> by (auto simp: domIff)
      then show ?thesis by simp
    next
      case True
      then have "loc \<in> dom (map_of (by_loc xs))" "loc \<in> dom (map_of (by_loc ys))"
        using set_locs [of xs] set_locs [of ys] \<open>locs xs = locs ys\<close> by simp_all
      then obtain v w where v: "map_of (by_loc xs) loc = Some v" and w: "map_of (by_loc ys) loc = Some w"
        by blast
      from vals [OF True] plain_lookup(3) [OF assms(1) v] plain_lookup(3) [OF assms(2) w] show ?thesis
        by (cases v; cases w) (auto simp: val_def v w)
    qed
  qed
qed

text \<open>
  The document of a sitemap stands for its entries: two lists of items have the same document
  exactly when they have the same locations with the same times, whatever their order and
  repetitions (the first occurrence counts), so the comparison of documents detects exactly the
  changes of the set. Locations must not contain tabs or line ends, and times neither line ends nor
  be the single dash that stands for no time.
\<close>

theorem sitemap_document_canonical:
  assumes "plain_items xs" "plain_items ys"
  shows "buildSitemapDocument xs = buildSitemapDocument ys \<longleftrightarrow> same_entries xs ys"
proof
  assume "same_entries xs ys"
  with same_locs [OF this] show "buildSitemapDocument xs = buildSitemapDocument ys"
    by (simp add: buildSitemapDocument_def document_line_def [abs_def] same_entries_def)
qed (rule document_determines [OF assms])

definition demo_entry :: "string \<Rightarrow> string option \<Rightarrow> feed_item" where
  "demo_entry u w = demo_item\<lparr>stableKey := u, fi_url := Some u, updatedAt := w\<rparr>"

theorem sitemap_document_canonical_witness:
  "let xs = [demo_entry ''b'' None, demo_entry ''a'' (Some ''1''), demo_entry ''b'' (Some ''2'')];
       ys = [demo_entry ''a'' (Some ''1''), demo_entry ''b'' None]
   in (buildSitemapDocument xs = buildSitemapDocument ys) = same_entries xs ys \<and>
      buildSitemapDocument ys = ''a'' @ [TAB] @ ''1'' @ [LF] @ ''b'' @ [TAB] @ ''-'' @ [LF]"
proof -
  have plain: "plain_items [demo_entry ''b'' None, demo_entry ''a'' (Some ''1''), demo_entry ''b'' (Some ''2'')]"
    "plain_items [demo_entry ''a'' (Some ''1''), demo_entry ''b'' None]"
    by (simp_all add: plain_items_def demo_entry_def demo_item_def truthy_def TAB_def LF_char)
  have "buildSitemapDocument [demo_entry ''a'' (Some ''1''), demo_entry ''b'' None] =
      ''a'' @ [TAB] @ ''1'' @ [LF] @ ''b'' @ [TAB] @ ''-'' @ [LF]"
    by code_simp
  with sitemap_document_canonical [OF plain] show ?thesis
    by (simp add: Let_def)
qed

section \<open>Fan-out of a change that is already there\<close>

lemma fanout_one_existing:
  assumes "find (delivery_key (ch_id ch) (su_destinationId sub)) (deliveries (db_of s)) \<noteq> None"
  shows "fanout_one c ch sub s = (Inr (), s\<lparr>uuids := uuids s + 1\<rparr>)"
proof -
  have "set_db (db_of s) s = s" by (simp add: set_db_def db_of_def)
  with assms show ?thesis
    by (auto simp: fanout_one_def with_id_def createDeliveryIfNew_def)
qed

lemma fanout_existing:
  assumes "list_all (\<lambda>sub. find (delivery_key (ch_id ch) (su_destinationId sub)) (deliveries (db_of s)) \<noteq> None) subs"
  shows "fst (for_each (fanout_one c ch) subs s) = Inr () \<and> quiet s (snd (for_each (fanout_one c ch) subs s)) \<and>
    sched (db_of s) (db_of (snd (for_each (fanout_one c ch) subs s)))"
  using assms
proof (induction subs arbitrary: s)
  case (Cons sub subs)
  let ?s1 = "s\<lparr>uuids := uuids s + 1\<rparr>"
  from Cons.prems have one: "fanout_one c ch sub s = (Inr (), ?s1)"
    by (intro fanout_one_existing) simp
  from Cons.prems Cons.IH [of ?s1] show ?case
    by (auto simp: one quiet_def)
qed (simp add: quiet_def)

text \<open>
  A delivery whose message could not be sent stays unsent: the row of the delivery is stored before
  the message, so when the send fails the check ends with its error, and every later fan-out of the
  change to that subscription finds the row and sends nothing. The recovery the code describes
  needs the message to be sent again.
\<close>

theorem failed_send_not_repeated:
  assumes "find (delivery_key (ch_id ch) (su_destinationId sub)) (deliveries (db_of s)) = None"
    and "cc_sendFails c (net_of s) = Some e"
    and "fanout_one c ch sub s = (r, s1)" and "deliveries (db_of later) = deliveries (db_of s1)"
  shows "r = Inl e \<and> notifyQueue s1 = notifyQueue s \<and>
    notifyQueue (snd (fanout_one c' ch sub later)) = notifyQueue later"
proof -
  have first: "r = Inl e \<and> notifyQueue s1 = notifyQueue s \<and>
      find (delivery_key (ch_id ch) (su_destinationId sub)) (deliveries (db_of s1)) \<noteq> None"
    using assms(1-3) by (auto simp: fanout_one_def with_id_def createDeliveryIfNew_def Let_def find_append_case
        delivery_key_def)
  with assms(4) have "find (delivery_key (ch_id ch) (su_destinationId sub)) (deliveries (db_of later)) \<noteq> None" by simp
  from first fanout_one_existing [OF this, of c'] show ?thesis by simp
qed

section \<open>Changes of pages that are not reported\<close>

lemma stored_snapshot:
  assumes "store_snapshot c inp s = (r, s')"
  shows "bodyHash r = is_bodyHash inp" "sn_normalizedHash r = is_normalizedHash inp" "sn_textHash r = is_textHash inp"
    "normalizedR2Key r = is_normalizedR2Key inp" "quiet s s'" "sched (db_of s) (db_of s')" "targets (db_of s') = targets (db_of s)"
  using assms by (auto simp: store_snapshot_def with_id_def createSnapshot_def Let_def quiet_def sched_def)

lemma put_body_access [simp]: "db_of (put_body k v s) = db_of s" "now_of c (put_body k v s) = now_of c s"
  "quiet s0 (put_body k v s) = quiet s0 s" "quiet (put_body k v s) s0 = quiet s s0"
  by (simp_all add: put_body_def quiet_def)

lemma stored_page:
  assumes "page_snapshot c t a out body n s = (r, s')"
  shows "bodyHash r = Some (rawHash n)" "sn_normalizedHash r = Some (normalizedHash n)" "sn_textHash r = Some (textHash n)"
    "quiet s s'" "sched (db_of s) (db_of s')"
  using stored_snapshot [OF assms [unfolded page_snapshot_def Let_def]]
  by (simp_all add: snapshot_input_def)

text \<open>
  A change of a page is lost when the check ends between the snapshot and the change: the snapshot
  an interrupted check stored becomes the previous one of the next check, whose hashes agree, so
  the same content is no change any more and nothing is stored or sent.
\<close>

theorem interrupted_page_change_lost:
  assumes "ce_normalize ce (in_body i) (page_options c (in_target i))
      (extractCharsetFromContentType (ok_contentType (in_outcome i))) = Inr n"
    and "page_snapshot c0 t0 a0 out0 body0 n s0 = (snap, s1)" and "in_previousSnapshot i = Some snap"
  shows "case processPageContent ce c i s of (r, s') \<Rightarrow> r = Inr () \<and> quiet s s'"
proof -
  obtain snap2 s2 where p: "page_snapshot c (in_target i) (in_checkAttemptId i) (in_outcome i) (in_body i) n s = (snap2, s2)"
    by fastforce
  have "compareSnapshots (previous_content snap n) n = None"
    using stored_page [OF assms(2)] by (simp add: compareSnapshots_def previous_content_def)
  with assms stored_page [OF p] show ?thesis
    by (simp add: processPageContent_def p)
qed

text \<open>
  A page that returns to a text it was reported with before is not reported again: the key of a
  change is the hash of the text, so the old change is found, no change is stored or listed, and once
  that change has its deliveries nothing is sent.
\<close>

theorem returned_text_not_reported:
  assumes "ce_normalize ce (in_body i) (page_options c (in_target i))
      (extractCharsetFromContentType (ok_contentType (in_outcome i))) = Inr n"
    and "in_previousSnapshot i = Some p" and "compareSnapshots (previous_content p n) n = Some Text_hash"
    and "find (change_key (mon_id (cc_monitor c)) (textHash n)) (changes (db_of s)) = Some old"
    and "list_all (\<lambda>sub. find (delivery_key (ch_id old) (su_destinationId sub)) (deliveries (db_of s)) \<noteq> None)
      (subscriptions (db_of s))"
  shows "case processPageContent ce c i s of (r, s') \<Rightarrow> r = Inr () \<and> quiet s s'"
proof -
  obtain snap s1 where p: "page_snapshot c (in_target i) (in_checkAttemptId i) (in_outcome i) (in_body i) n s = (snap, s1)"
    by fastforce
  from stored_page [OF p] have q: "quiet s s1" by simp
  with assms(4) have old: "find (change_key (mon_id (cc_monitor c)) (textHash n)) (changes (db_of s1)) = Some old"
    by (simp add: quiet_def)
  have subs1: "subscriptions (db_of s1) = subscriptions (db_of s)"
    using p by (auto simp: page_snapshot_def store_snapshot_def with_id_def createSnapshot_def Let_def)
  have upd: "update_change c t prev sn Text_hash (textHash n) diff pv ti w s1 =
      notifyDetectedChanges c [\<lparr>dc_row = old, dc_inserted = False, watermarkAdvance = None, dc_item = None\<rparr>]
        (s1\<lparr>uuids := uuids s1 + 1\<rparr>)" for t prev sn diff pv ti w
  proof -
    have "set_db (db_of s1) s1 = s1" by (simp add: set_db_def db_of_def)
    then show ?thesis by (simp add: update_change_def with_id_def insertChangeIfNew_def old)
  qed
  let ?s2 = "s1\<lparr>uuids := uuids s1 + 1\<rparr>"
  let ?subs = "listMatchingSubscriptions (db_of ?s2) (st_id (cc_site c)) (mon_id (cc_monitor c)) (ch_kind old)
      (Some (orElse (ch_tags old) []))"
  have "list_all (\<lambda>sub. find (delivery_key (ch_id old) (su_destinationId sub)) (deliveries (db_of ?s2)) \<noteq> None) ?subs"
    using assms(5) q subs1 by (auto simp: list_all_iff listMatchingSubscriptions_def quiet_def)
  from fanout_existing [OF this, of c] q show ?thesis
    using assms(1-3)
    by (cases "for_each (fanout_one c old) ?subs ?s2")
      (auto simp: processPageContent_def p upd notifyDetectedChanges_def notify_one_def andThen_def fanoutChange_def
        advance_watermark_def quiet_def)
qed

section \<open>Examples\<close>

definition demo_text :: "string \<Rightarrow> normalized_content" where
  "demo_text h = \<lparr>normalizedHtml = h, extractedText = h, rawHash = h, normalizedHash = h, textHash = h,
     normalizationVersion = 2\<rparr>"

definition demo_env :: "string \<Rightarrow> content_env" where
  "demo_env h = \<lparr>ce_normalize = (\<lambda>b opts cs. Inr (demo_text h)), ce_extractItems = (\<lambda>b opts. Inr []),
     ce_parseSource = (\<lambda>t b u cs. Inl (ErrorObject ''AdapterParseError'' '''')), ce_diffLines = (\<lambda>a b. [Added 1]),
     ce_patch = (\<lambda>a b n. ''+'')\<rparr>"

definition demo_answer :: fetch_success where
  "demo_answer = \<lparr>ok_status = 200, notModified = False, finalUrl = ''http://a/'', ok_contentType = None, ok_etag = None,
     ok_lastModified = None, ok_body = Some [], ok_durationMs = 0\<rparr>"

definition demo_input :: "snapshot_row option \<Rightarrow> content_input" where
  "demo_input p = \<lparr>in_target = demo_target, in_previousSnapshot = p, in_checkAttemptId = None,
     in_outcome = demo_answer, in_body = []\<rparr>"

definition demo_snapshot :: "string \<Rightarrow> snapshot_row" where
  "demo_snapshot h = fst (page_snapshot (demo_ctx (Some 0) None) demo_target None demo_answer [] (demo_text h) demo_state)"

lemma demo_normalized:
  "ce_normalize (demo_env h) (in_body (demo_input p)) (page_options c (in_target (demo_input p)))
     (extractCharsetFromContentType (ok_contentType (in_outcome (demo_input p)))) = Inr (demo_text h)"
  by (simp add: demo_env_def)

theorem failed_send_not_repeated_witness:
  "case fanout_one (demo_ctx (Some 0) (Some (OtherValue ''queue''))) (dc_row demo_change) demo_subscription demo_state of
    (r, s1) \<Rightarrow> r = Inl (OtherValue ''queue'') \<and>
      notifyQueue (snd (fanout_one (demo_ctx (Some 0) None) (dc_row demo_change) demo_subscription s1)) = notifyQueue s1"
  using failed_send_not_repeated [where c = "demo_ctx (Some 0) (Some (OtherValue ''queue''))" and e = "OtherValue ''queue''"
      and ch = "dc_row demo_change" and sub = demo_subscription and s = demo_state and c' = "demo_ctx (Some 0) None"]
  by (auto simp: demo_state_def db_of_def demo_ctx_def demo_db_def fetch_start_def empty_db_def split: prod.splits)

theorem interrupted_page_change_lost_witness:
  "case processPageContent (demo_env ''h'') (demo_ctx (Some 0) None) (demo_input (Some (demo_snapshot ''h''))) demo_state of
    (r, s') \<Rightarrow> r = Inr () \<and> quiet demo_state s'"
proof -
  obtain snap s1 where p: "page_snapshot (demo_ctx (Some 0) None) demo_target None demo_answer [] (demo_text ''h'') demo_state = (snap, s1)"
    by fastforce
  then have snap: "in_previousSnapshot (demo_input (Some (demo_snapshot ''h''))) = Some snap"
    by (simp add: demo_input_def demo_snapshot_def)
  show ?thesis by (rule interrupted_page_change_lost [OF demo_normalized p snap])
qed

definition reported_state :: "ms check_state" where
  "reported_state = set_db (demo_db\<lparr>changes := [(dc_row demo_change)\<lparr>dedupeKey := ''h''\<rparr>],
     deliveries := [\<lparr>dl_id = ''d'', dl_changeId = ''i'', dl_destinationId = ''x'', dl_status = Delivered, attemptCount = 1,
       lastError = None, deliveredAt = Some 1, dl_createdAt = 0, dl_updatedAt = 0, claimedAt = None\<rparr>]\<rparr>) demo_state"

theorem returned_text_not_reported_witness:
  "case processPageContent (demo_env ''h'') (demo_ctx (Some 0) None) (demo_input (Some (demo_snapshot ''other''))) reported_state of
    (r, s') \<Rightarrow> r = Inr () \<and> quiet reported_state s'"
proof -
  obtain snap s1 where p: "page_snapshot (demo_ctx (Some 0) None) demo_target None demo_answer [] (demo_text ''other'') demo_state = (snap, s1)"
    by fastforce
  then have snap: "in_previousSnapshot (demo_input (Some (demo_snapshot ''other''))) = Some snap"
    by (simp add: demo_input_def demo_snapshot_def)
  have cmp: "compareSnapshots (previous_content snap (demo_text ''h'')) (demo_text ''h'') = Some Text_hash"
    using stored_page [OF p] by (simp add: compareSnapshots_def previous_content_def demo_text_def)
  have old: "find (change_key (mon_id (cc_monitor (demo_ctx (Some 0) None))) (textHash (demo_text ''h''))) (changes (db_of reported_state)) =
      Some ((dc_row demo_change)\<lparr>dedupeKey := ''h''\<rparr>)"
    by (simp add: reported_state_def change_key_def demo_ctx_def demo_monitor_def demo_text_def demo_change_def)
  have sent: "list_all (\<lambda>sub. find (delivery_key (ch_id ((dc_row demo_change)\<lparr>dedupeKey := ''h''\<rparr>)) (su_destinationId sub))
      (deliveries (db_of reported_state)) \<noteq> None) (subscriptions (db_of reported_state))"
    by (simp add: reported_state_def delivery_key_def demo_change_def demo_db_def demo_subscription_def)
  show ?thesis
    by (rule returned_text_not_reported [OF demo_normalized snap cmp old sent])
qed

end
