(* ===== verification/Sitemap_Traversal.thy ===== *)
theory Sitemap_Traversal
  imports Content_Processors Db_Admin
begin

text \<open>
  The traversal of sitemaps (src/pipeline/sitemapTraversal.ts): children whose time is newer than
  their watermark are fetched and expanded, down to a depth, up to a number of children per index
  and a number of fetches per check; what was over off is counted and recorded.
\<close>

section \<open>Constants, counters and parameters\<close>

definition MAX_CHILD_SITEMAPS :: nat where "MAX_CHILD_SITEMAPS = 20"

definition DEFAULT_LASTMOD_MAX_AGE_DAYS :: int where "DEFAULT_LASTMOD_MAX_AGE_DAYS = 3"

definition DEFAULT_MAX_TRAVERSAL_DEPTH :: int where "DEFAULT_MAX_TRAVERSAL_DEPTH = 3"

definition MAX_TRAVERSAL_FETCHES_PER_CHECK :: nat where "MAX_TRAVERSAL_FETCHES_PER_CHECK = 50"

record traversal_counts =
  childrenTruncated :: nat
  depthTruncated :: nat
  originBlocked :: nat
  missingLastmodSkipped :: nat
  feedItemsTruncated :: nat
  fetchBudgetTruncated :: nat
  fetchesUsed :: nat
  patternExcluded :: nat

definition newCounts :: traversal_counts where
  "newCounts = \<lparr>childrenTruncated = 0, depthTruncated = 0, originBlocked = 0, missingLastmodSkipped = 0,
     feedItemsTruncated = 0, fetchBudgetTruncated = 0, fetchesUsed = 0, patternExcluded = 0\<rparr>"

definition truncationTotal :: "traversal_counts \<Rightarrow> nat" where
  "truncationTotal n = childrenTruncated n + depthTruncated n + feedItemsTruncated n + fetchBudgetTruncated n"

text \<open>
  The cutoff as text, the depth limit and the fetch limit, which do not change during a traversal.
  \<open>toISOString\<close> is the rendering of a time.
\<close>

record traversal_limits =
  tl_cutoff :: string
  tl_maxDepth :: int
  tl_maxFetches :: nat

record traversal_env =
  te_content :: content_env
  toISOString :: "ms \<Rightarrow> string"

type_synonym 'n trav = "'n check_state \<times> traversal_counts"

section \<open>Selection\<close>

fun filterItemsForTraversal ::
  "feed_item list \<Rightarrow> string \<Rightarrow> traversal_counts \<Rightarrow> feed_item list \<times> traversal_counts" where
  "filterItemsForTraversal [] cutoff n = ([], n)"
| "filterItemsForTraversal (x # xs) cutoff n =
     (case truthy (fi_url x) of
        None \<Rightarrow> filterItemsForTraversal xs cutoff n
      | Some u \<Rightarrow>
          (case updatedAt x of
             None \<Rightarrow> filterItemsForTraversal xs cutoff (n\<lparr>missingLastmodSkipped := missingLastmodSkipped n + 1\<rparr>)
           | Some w \<Rightarrow>
               if w < cutoff then filterItemsForTraversal xs cutoff n
               else (case filterItemsForTraversal xs cutoff n of (kept, n1) \<Rightarrow> (x # kept, n1))))"

text \<open>
  A pattern as an anchored expression: \<open>*\<close> stands for \<open>.*\<close>, whose dot matches no line terminator,
  every other character for itself.
\<close>

definition dot_matches :: "char \<Rightarrow> bool" where
  "dot_matches ch \<longleftrightarrow> ch \<noteq> CHR 0x0A \<and> ch \<noteq> CHR 0x0D"

fun globToRegExp :: "string \<Rightarrow> string \<Rightarrow> bool" where
  "globToRegExp [] t = (t = [])"
| "globToRegExp (q # qs) [] = (q = CHR ''*'' \<and> globToRegExp qs [])"
| "globToRegExp (q # qs) (x # xs) =
     (if q = CHR ''*'' then globToRegExp qs (x # xs) \<or> (dot_matches x \<and> globToRegExp (q # qs) xs)
      else x = q \<and> globToRegExp qs xs)"

definition file_name :: "string \<Rightarrow> string" where
  "file_name path = rev (takeWhile (\<lambda>ch. ch \<noteq> CHR ''/'') (rev path))"

definition matchesChildIncludePattern :: "url_parser \<Rightarrow> string \<Rightarrow> string list \<Rightarrow> bool" where
  "matchesChildIncludePattern newUrl childUrl patterns =
     (case newUrl childUrl None of
        None \<Rightarrow> False
      | Some u \<Rightarrow> list_ex (\<lambda>q. globToRegExp q (file_name (pathname u))) patterns)"

type_synonym child_entry = "string \<times> string option"

fun eligible_children ::
  "url_parser \<Rightarrow> string list option \<Rightarrow> string \<Rightarrow> child_entry list \<Rightarrow> traversal_counts \<Rightarrow>
   (string \<times> string) list \<times> traversal_counts" where
  "eligible_children newUrl patterns cutoff [] n = ([], n)"
| "eligible_children newUrl patterns cutoff ((loc, lastmod) # es) n =
     (case lastmod of
        None \<Rightarrow> eligible_children newUrl patterns cutoff es (n\<lparr>missingLastmodSkipped := missingLastmodSkipped n + 1\<rparr>)
      | Some w \<Rightarrow>
          if w < cutoff then eligible_children newUrl patterns cutoff es n
          else if orElse patterns [] \<noteq> [] \<and> \<not> matchesChildIncludePattern newUrl loc (orElse patterns [])
          then eligible_children newUrl patterns cutoff es (n\<lparr>patternExcluded := patternExcluded n + 1\<rparr>)
          else (case eligible_children newUrl patterns cutoff es n of (kept, n1) \<Rightarrow> ((loc, w) # kept, n1)))"

text \<open>Newest first; entries of the same time keep the order of the document.\<close>

definition newest_first :: "(string \<times> string) list \<Rightarrow> (string \<times> string) list" where
  "newest_first es = rev (sort_key snd (rev es))"

definition selectChildEntries ::
  "url_parser \<Rightarrow> child_entry list \<Rightarrow> string \<Rightarrow> traversal_counts \<Rightarrow> string list option \<Rightarrow>
   (string \<times> string) list \<times> traversal_counts" where
  "selectChildEntries newUrl es cutoff n patterns =
     (case eligible_children newUrl patterns cutoff es n of (kept, n1) \<Rightarrow> (newest_first kept, n1))"

definition child_entries :: "adapter_parse_result \<Rightarrow> child_entry list" where
  "child_entries parsed = List.map_filter (\<lambda>x. map_option (\<lambda>u. (u, updatedAt x)) (fi_url x)) (pr_items parsed)"

text \<open>The children an index may expand, with what was over off counted.\<close>

definition select_children ::
  "traversal_limits \<Rightarrow> 'n check_ctx \<Rightarrow> adapter_parse_result \<Rightarrow> traversal_counts \<Rightarrow>
   (string \<times> string) list \<times> traversal_counts" where
  "select_children lts c parsed n =
     (case selectChildEntries (newURL (cc_platform c)) (child_entries parsed) (tl_cutoff lts) n
             (Option.bind (src_config (cc_source c)) childIncludePatterns) of
        (selected, n1) \<Rightarrow>
          (take MAX_CHILD_SITEMAPS selected,
           if length selected > MAX_CHILD_SITEMAPS
           then n1\<lparr>childrenTruncated := childrenTruncated n1 + (length selected - MAX_CHILD_SITEMAPS)\<rparr> else n1))"

definition isWithinSiteOrigin :: "url_parser \<Rightarrow> string \<Rightarrow> string option \<Rightarrow> bool" where
  "isWithinSiteOrigin newUrl childUrl primaryOrigin =
     (case truthy primaryOrigin of
        None \<Rightarrow> False
      | Some po \<Rightarrow>
          (case newUrl childUrl None of
             None \<Rightarrow> False
           | Some u \<Rightarrow> (case newUrl po None of None \<Rightarrow> False | Some v \<Rightarrow> origin u = origin v)))"

section \<open>One child, up to its parsed document\<close>

definition mark_checked :: "'n check_ctx \<Rightarrow> target_row \<Rightarrow> 'n check_state \<Rightarrow> 'n check_state" where
  "mark_checked c t s = set_db (setTargetLastChecked (now_of c s) (tg_id t) (now_of c s) (db_of s)) s"

text \<open>Origin, target, baseline and watermark: the target if the child is to be fetched.\<close>

definition enter_child ::
  "'n check_ctx \<Rightarrow> string \<Rightarrow> string \<Rightarrow> 'n trav \<Rightarrow> target_row option \<times> 'n trav" where
  "enter_child c url lastmod =
     (\<lambda>(s, n).
        if \<not> isWithinSiteOrigin (newURL (cc_platform c)) url (st_primaryOrigin (cc_site c))
        then (None, (s, n\<lparr>originBlocked := originBlocked n + 1\<rparr>))
        else (let previous = getExistingTargetWatermark (db_of s) (mon_id (cc_monitor c)) url;
                  isNew = \<not> et_exists previous
              in case with_id c (\<lambda>u. upsertTarget u (now_of c s)
                        \<lparr>it_id = None, it_monitorId = mon_id (cc_monitor c), it_url = url,
                         it_discoveredFrom = Some ''sitemap-index'', it_firstSeenAt = None,
                         it_lastKnownUpdatedAt = (if isNew then Some (Some lastmod) else None)\<rparr>) s of
                   (t, s1) \<Rightarrow>
                     if mon_lastCheckedAt (cc_monitor c) = None then (None, (mark_checked c t s1, n))
                     else if \<not> isNew \<and> (case et_watermark previous of None \<Rightarrow> False | Some w \<Rightarrow> lastmod \<le> w)
                     then (None, (mark_checked c t s1, n))
                     else (Some t, (s1, n))))"

definition child_permitted :: "'n check_ctx \<Rightarrow> string \<Rightarrow> (bool, 'n check_state) action" where
  "child_permitted c url s =
     (let newUrl = newURL (cc_platform c)
      in if \<not> allowed (checkUrlForSsrf newUrl url) then (Inr False, s)
         else if \<not> allowed (resolveAndCheck newUrl (cc_resolve c (net_of s)) url) then (Inr False, s)
         else (case newUrl url None of
                 None \<Rightarrow> (Inr False, s)
               | Some u \<Rightarrow>
                   (case checkRobots newUrl (decodeText (cc_platform c)) (cc_robotsFetch c (net_of s))
                           (Some (d1_get, d1_put (now_of c s))) None None (now_of c s) (origin u) url (robotsCache s) of
                      (rc, Inl e) \<Rightarrow> (Inl (ErrorObject ''TypeError'' ''Invalid URL''), s\<lparr>robotsCache := rc\<rparr>)
                    | (rc, Inr decision) \<Rightarrow>
                        (Inr (\<not> (verdict decision = Disallowed \<and>
                               getRobotsMode newUrl (db_of s) (st_id (cc_site c)) (origin u) = Enforce)),
                         s\<lparr>robotsCache := rc\<rparr>))))"

definition child_job :: "'n check_ctx \<Rightarrow> target_row \<Rightarrow> string \<Rightarrow> snapshot_row option \<Rightarrow> fetch_job" where
  "child_job c t url latest =
     \<lparr>fj_checkJobId = cj_id (cc_job c), fj_targetId = tg_id t, fj_url = url, fj_userAgent = cc_userAgent c,
      fj_etag = Option.bind latest sn_etag, fj_lastModified = Option.bind latest sn_lastModified, fj_env = cc_env c\<rparr>"

text \<open>The document of a child, if it was fetched, is new and can be parsed.\<close>

definition fetch_child ::
  "traversal_env \<Rightarrow> 'n check_ctx \<Rightarrow> string \<Rightarrow> target_row \<Rightarrow> (adapter_parse_result option, 'n check_state) action" where
  "fetch_child te c url t s =
     (case fetchTargetThroughPolicy (cc_runtime c) (cc_policy c)
             (child_job c t url (getLatestSnapshotForTarget (db_of s) (tg_id t))) (cx_fetch s) of
        (Inl errs, fs) \<Rightarrow> (Inl (ErrorObject ''FetcherPolicyInvalidError'' ''''), s\<lparr>cx_fetch := fs\<rparr>)
      | (Inr (outcome, lastId), fs) \<Rightarrow>
          (let s1 = s\<lparr>cx_fetch := fs\<rparr>
           in case outcome of
                None \<Rightarrow> (Inl (ErrorObject ''TypeError'' ''''), s1)
              | Some (FetchFailure f) \<Rightarrow> (Inr None, s1)
              | Some (FetchSuccess r) \<Rightarrow>
                  (case ok_body r of
                     None \<Rightarrow> (Inr None, mark_checked c t s1)
                   | Some body \<Rightarrow>
                       if notModified r then (Inr None, mark_checked c t s1)
                       else (case ce_parseSource (te_content te) Sitemap body url
                                    (extractCharsetFromContentType (ok_contentType r)) of
                               Inl e \<Rightarrow> (Inr None, mark_checked c t s1)
                             | Inr parsed \<Rightarrow> (Inr (Some parsed), mark_checked c t s1)))))"

definition open_child ::
  "traversal_env \<Rightarrow> traversal_limits \<Rightarrow> 'n check_ctx \<Rightarrow> string \<Rightarrow> string \<Rightarrow>
   ((target_row \<times> adapter_parse_result) option, 'n trav) action" where
  "open_child te lts c url lastmod w =
     (case enter_child c url lastmod w of
        (None, w1) \<Rightarrow> (Inr None, w1)
      | (Some t, (s1, n1)) \<Rightarrow>
          (case child_permitted c url s1 of
             (Inl e, s2) \<Rightarrow> (Inl e, (s2, n1))
           | (Inr ok, s2) \<Rightarrow>
               if \<not> ok then (Inr None, (s2, n1))
               else if fetchesUsed n1 \<ge> tl_maxFetches lts
               then (Inr None, (s2, n1\<lparr>fetchBudgetTruncated := fetchBudgetTruncated n1 + 1\<rparr>))
               else (case fetch_child te c url t s2 of
                       (Inl e, s3) \<Rightarrow> (Inl e, (s3, n1\<lparr>fetchesUsed := fetchesUsed n1 + 1\<rparr>))
                     | (Inr found, s3) \<Rightarrow>
                         (Inr (map_option (\<lambda>parsed. (t, parsed)) found), (s3, n1\<lparr>fetchesUsed := fetchesUsed n1 + 1\<rparr>)))))"

section \<open>The recursion\<close>

text \<open>The entries of a child that is a plain sitemap; the result says whether all were processed.\<close>

definition expand_urlset ::
  "traversal_limits \<Rightarrow> 'n check_ctx \<Rightarrow> adapter_parse_result \<Rightarrow> (bool, 'n trav) action" where
  "expand_urlset lts c parsed =
     (\<lambda>(s, n).
        case filterItemsForTraversal (pr_items parsed) (tl_cutoff lts) n of
          (kept, n1) \<Rightarrow>
            if kept = [] then (Inr True, (s, n1))
            else (case processFeedItems c kept MAX_FEED_ITEMS_PER_CHECK False s of
                    (Inl e, s1) \<Rightarrow> (Inl e, (s1, n1))
                  | (Inr over, s1) \<Rightarrow>
                      if over > 0 then (Inr False, (s1, n1\<lparr>feedItemsTruncated := feedItemsTruncated n1 + over\<rparr>))
                      else (Inr True, (s1, n1))))"

definition advance_child :: "'n check_ctx \<Rightarrow> target_row \<Rightarrow> string \<Rightarrow> 'n check_state \<Rightarrow> 'n check_state" where
  "advance_child c t lastmod s = set_db (setTargetLastKnownUpdatedAt (now_of c s) (tg_id t) lastmod (db_of s)) s"

text \<open>
  \<open>traverse_children\<close> is the loop of \<open>traverseSitemapIndex\<close>, \<open>expand_child\<close> step 8 of
  \<open>traverseChild\<close>, whose result is whether the watermark may advance.
\<close>

function
  traverseChild :: "traversal_env \<Rightarrow> traversal_limits \<Rightarrow> 'n check_ctx \<Rightarrow> string \<Rightarrow> string \<Rightarrow> nat \<Rightarrow> (unit, 'n trav) action" and
  expand_child :: "traversal_env \<Rightarrow> traversal_limits \<Rightarrow> 'n check_ctx \<Rightarrow> adapter_parse_result \<Rightarrow> nat \<Rightarrow> (bool, 'n trav) action" and
  traverse_children :: "traversal_env \<Rightarrow> traversal_limits \<Rightarrow> 'n check_ctx \<Rightarrow> (string \<times> string) list \<Rightarrow> nat \<Rightarrow> (unit, 'n trav) action"
where
  "traverseChild te lts c url lastmod depth w =
     (case open_child te lts c url lastmod w of
        (Inl e, w1) \<Rightarrow> (Inl e, w1)
      | (Inr None, w1) \<Rightarrow> (Inr (), w1)
      | (Inr (Some (t, parsed)), w1) \<Rightarrow>
          (case expand_child te lts c parsed depth w1 of
             (Inl e, w2) \<Rightarrow> (Inl e, w2)
           | (Inr whole, (s2, n2)) \<Rightarrow> (Inr (), (if whole then advance_child c t lastmod s2 else s2, n2))))"
| "expand_child te lts c parsed depth w =
     (if pr_kind parsed = Sitemap then expand_urlset lts c parsed w
      else if int depth + 1 < tl_maxDepth lts
      then (case select_children lts c parsed (snd w) of
              (es, n1) \<Rightarrow>
                (case traverse_children te lts c es (depth + 1) (fst w, n1) of
                   (Inl e, w2) \<Rightarrow> (Inl e, w2)
                 | (Inr u, w2) \<Rightarrow> (Inr (\<not> truncationTotal (snd w2) > truncationTotal (snd w)), w2)))
      else (Inr False, (fst w, (snd w)\<lparr>depthTruncated := depthTruncated (snd w) + 1\<rparr>)))"
| "traverse_children te lts c [] depth w = (Inr (), w)"
| "traverse_children te lts c (e # es) depth w =
     (case traverseChild te lts c (fst e) (snd e) depth w of
        (Inl err, w1) \<Rightarrow> (Inl err, w1)
      | (Inr u, w1) \<Rightarrow> traverse_children te lts c es depth w1)"
  by pat_completeness auto

termination
  by (relation "measures
    [\<lambda>x. case x of Inl (te, lts, c, url, lastmod, depth, w) \<Rightarrow> nat (tl_maxDepth lts - int depth)
        | Inr (Inl (te, lts, c, parsed, depth, w)) \<Rightarrow> nat (tl_maxDepth lts - int depth)
        | Inr (Inr (te, lts, c, es, depth, w)) \<Rightarrow> nat (tl_maxDepth lts - int depth),
     \<lambda>x. case x of Inl y \<Rightarrow> 1 | Inr (Inl y) \<Rightarrow> 0
        | Inr (Inr (te, lts, c, es, depth, w)) \<Rightarrow> length es + 2]") auto

declare traverseChild.simps [simp del] expand_child.simps [simp del] traverse_children.simps [simp del]

lemmas traversal_eqs = traverseChild.simps expand_child.simps traverse_children.simps

definition traverseSitemapIndex ::
  "traversal_env \<Rightarrow> traversal_limits \<Rightarrow> 'n check_ctx \<Rightarrow> adapter_parse_result \<Rightarrow> nat \<Rightarrow> (unit, 'n trav) action" where
  "traverseSitemapIndex te lts c parsed depth =
     (\<lambda>(s, n). case select_children lts c parsed n of (es, n1) \<Rightarrow> traverse_children te lts c es depth (s, n1))"

section \<open>The record of what was over off\<close>

definition any_count :: "traversal_counts \<Rightarrow> bool" where
  "any_count n \<longleftrightarrow> childrenTruncated n > 0 \<or> depthTruncated n > 0 \<or> originBlocked n > 0 \<or> missingLastmodSkipped n > 0 \<or>
     feedItemsTruncated n > 0 \<or> fetchBudgetTruncated n > 0 \<or> patternExcluded n > 0"

definition truncation_payload :: "traversal_counts \<Rightarrow> int \<Rightarrow> traversal_limits \<Rightarrow> json" where
  "truncation_payload n maxAgeDays lts =
     JObj (map (\<lambda>(k, v). (k, JNum (of_int v)))
       [(''childrenTruncated'', int (childrenTruncated n)), (''depthTruncated'', int (depthTruncated n)),
        (''originBlocked'', int (originBlocked n)), (''missingLastmodSkipped'', int (missingLastmodSkipped n)),
        (''feedItemsTruncated'', int (feedItemsTruncated n)), (''fetchBudgetTruncated'', int (fetchBudgetTruncated n)),
        (''patternExcluded'', int (patternExcluded n)), (''maxChildSitemaps'', int MAX_CHILD_SITEMAPS),
        (''maxDepth'', tl_maxDepth lts), (''lastmodMaxAgeDays'', maxAgeDays),
        (''maxTraversalFetchesPerCheck'', int (tl_maxFetches lts))])"

definition recordTruncationIfAny ::
  "'n check_ctx \<Rightarrow> traversal_counts \<Rightarrow> int \<Rightarrow> traversal_limits \<Rightarrow> 'n check_state \<Rightarrow> 'n check_state" where
  "recordTruncationIfAny c n maxAgeDays lts s =
     (if \<not> any_count n then s
      else if truncationTotal n = 0 then s
      else snd (with_id c (\<lambda>u. recordAuditEvent u (now_of c s)
             \<lparr>iu_id = None, iu_actor = ''system'', iu_action = ''monitor.traversal_truncated'',
              iu_subject = mon_id (cc_monitor c), iu_reason = None,
              iu_payload = Some (truncation_payload n maxAgeDays lts)\<rparr>) s))"

section \<open>The processor\<close>

definition traversal_limits_of :: "traversal_env \<Rightarrow> 'n check_ctx \<Rightarrow> ms \<Rightarrow> nat \<Rightarrow> traversal_limits" where
  "traversal_limits_of te c now maxFetches =
     \<lparr>tl_cutoff = toISOString te (now - orElse (Option.bind (src_config (cc_source c)) lastmodMaxAgeDays)
                    DEFAULT_LASTMOD_MAX_AGE_DAYS * 86400000),
      tl_maxDepth = orElse (Option.bind (src_config (cc_source c)) maxDepth) DEFAULT_MAX_TRAVERSAL_DEPTH,
      tl_maxFetches = maxFetches\<rparr>"

definition traverse_document ::
  "traversal_env \<Rightarrow> traversal_limits \<Rightarrow> 'n check_ctx \<Rightarrow> adapter_parse_result \<Rightarrow> (unit, 'n trav) action" where
  "traverse_document te lts c parsed w =
     (if pr_kind parsed = Sitemap
      then (case expand_urlset lts c parsed w of (Inl e, w1) \<Rightarrow> (Inl e, w1) | (Inr b, w1) \<Rightarrow> (Inr (), w1))
      else traverseSitemapIndex te lts c parsed 0 w)"

definition processSitemapTraversal ::
  "traversal_env \<Rightarrow> nat \<Rightarrow> 'n check_ctx \<Rightarrow> content_input \<Rightarrow> (unit, 'n check_state) action" where
  "processSitemapTraversal te maxFetches c i s =
     (let raw = cc_sha256 c (R2_bytes (in_body i));
          s1 = put_body (bodyKey raw) (R2_bytes (in_body i)) s
      in case parse_body (te_content te) c (in_outcome i) (in_body i) of
           Inl e \<Rightarrow> (if is_parse_error e then Inr () else Inl e, s1)
         | Inr parsed \<Rightarrow>
             (case store_snapshot c (snapshot_input c (in_target i) (in_checkAttemptId i) (now_of c s1)
                     (in_outcome i) raw (Some (bodyKey raw))) s1 of
                (snap, s2) \<Rightarrow>
                  (let lts = traversal_limits_of te c (now_of c s2) maxFetches
                   in case traverse_document te lts c parsed (s2, newCounts) of
                        (Inl e, (s3, n)) \<Rightarrow> (Inl e, s3)
                      | (Inr u, (s3, n)) \<Rightarrow>
                          (Inr (), recordTruncationIfAny c n
                             (orElse (Option.bind (src_config (cc_source c)) lastmodMaxAgeDays) DEFAULT_LASTMOD_MAX_AGE_DAYS)
                             lts s3))))"

end
