(* ===== verification/Stage_Frame.thy ===== *)
theory Stage_Frame
  imports Sitemap_Traversal
begin

text \<open>
  What the stages of a check keep of the database. A relation between databases that holds across
  the few statements the stages use holds across every stage and every content processor; the
  properties interpret it with the relation they need.
\<close>

section \<open>The statements of the stages\<close>

locale row_frame =
  fixes R :: "db \<Rightarrow> db \<Rightarrow> bool"
  assumes refl [simp, intro]: "R d d"
    and trans: "R a b \<Longrightarrow> R b d \<Longrightarrow> R a d"
    and checked [simp]: "R d (setTargetLastChecked now t w d)"
    and watermark [simp]: "R d (setTargetLastKnownUpdatedAt now t v d)"
    and change [simp]: "R d (fst (insertChangeIfNew u now ic d))"
    and delivery [simp]: "R d (fst (createDeliveryIfNew u now ch dest d))"
    and titled [simp]: "R d (updateChangeTitle i title d)"
    and tagged [simp]: "R d (fst (setChangeTagsIfNull i tags d))"
    and snapshot [simp]: "R d (fst (createSnapshot u now sn d))"
begin

definition K :: "'n check_state \<Rightarrow> 'n check_state \<Rightarrow> bool" where
  "K s s' \<longleftrightarrow> R (db_of s) (db_of s')"

lemma K_refl [simp, intro]: "K s s"
  by (simp add: K_def)

lemma K_trans: "K s s1 \<Longrightarrow> K s1 s2 \<Longrightarrow> K s s2"
  unfolding K_def by (rule trans)

lemma K_same: "db_of s' = db_of s \<Longrightarrow> K s s'"
  by (simp add: K_def)

lemma K_set_db [simp]: "K s (set_db d s) \<longleftrightarrow> R (db_of s) d"
  by (simp add: K_def)

lemma K_with_id: "(\<And>u. R (db_of s) (fst (f u (db_of s)))) \<Longrightarrow> K s (snd (with_id c f s))"
  by (simp add: K_def with_id_db)

lemma K_andThen: "K s (snd (m s)) \<Longrightarrow> (\<And>a s1. K s1 (snd (f a s1))) \<Longrightarrow> K s (snd (andThen m f s))"
  by (auto simp: andThen_def split: prod.splits sum.splits intro: K_trans dest: meta_spec)

lemma K_for_each: "(\<And>x s. K s (snd (f x s))) \<Longrightarrow> K s (snd (for_each f xs s))"
  by (rule for_each_preserves [where P = "K s"]) (auto intro: K_trans)

lemma K_map_state: "(\<And>x s. K s (snd (f x s))) \<Longrightarrow> K s (snd (map_state f xs s))"
  by (rule map_state_preserves [where P = "K s"]) (auto intro: K_trans)

section \<open>Stages\<close>

lemma K_fanout_one: "K s (snd (fanout_one c ch sub s))"
proof -
  obtain ins s1 where w: "with_id c (\<lambda>u. createDeliveryIfNew u (now_of c s) (ch_id ch) (su_destinationId sub)) s = (ins, s1)"
    by fastforce
  have "K s s1" using K_with_id [of s _ c] by (metis delivery snd_conv w)
  then show ?thesis by (auto simp: fanout_one_def w K_def split: option.split)
qed

lemma K_notify: "K s (snd (notifyDetectedChanges c ds s))"
  unfolding notifyDetectedChanges_def notify_one_def
proof (intro K_for_each K_andThen)
  show "K s (snd (fanoutChange c (dc_row d) s))" for d s
    unfolding fanoutChange_def by (intro K_for_each K_fanout_one)
  show "K s (snd (Inr (), advance_watermark c d (if dc_inserted d then s\<lparr>changeIds := changeIds s @ [ch_id (dc_row d)]\<rparr> else s)))"
    for d s
    by (auto simp: advance_watermark_def K_def split: option.split)
qed

lemma K_classify: "K s (snd (classifyDetectedChanges c ds s))"
proof -
  have "K s (snd (classify_one c cl d s))" for cl d s
    by (auto simp: classify_one_def K_def split: prod.split) (metis fst_conv tagged)
  then show ?thesis
    by (auto simp: classifyDetectedChanges_def intro!: K_map_state split: option.split)
qed

lemma fetchTitle_db: "db_of (snd (fetchTitleForUrl c url s)) = db_of s"
  by (auto simp: fetchTitleForUrl_def Let_def split: option.split prod.split sum.split)

lemma K_enrich: "K s (snd (enrichDetectedChanges c ds s))"
proof -
  have "K s (snd (enrich_one c d s))" for d s
  proof -
    let ?s0 = "s\<lparr>titleFetchesUsed := Suc (titleFetchesUsed s)\<rparr>"
    obtain r s1 where f: "fetchTitleForUrl c (ch_targetUrl (dc_row d)) ?s0 = (r, s1)" by fastforce
    with fetchTitle_db [of c "ch_targetUrl (dc_row d)" ?s0] have "db_of s1 = db_of s" by simp
    with titled [of "db_of s"] show ?thesis
      by (auto simp: enrich_one_def f K_def split: sum.split option.split)
  qed
  then show ?thesis unfolding enrichDetectedChanges_def by (rule K_map_state)
qed

lemma K_insert: "with_id c (\<lambda>u. insertChangeIfNew u now (inp u)) s = (r, s1) \<Longrightarrow> K s s1"
  using K_with_id [of s "\<lambda>u. insertChangeIfNew u now (inp u)" c] by simp

section \<open>Processors\<close>

lemma K_put [simp]: "K s0 (put_body k v s) = K s0 s" "K (put_body k v s) s0 = K s s0" "K s0 (put_diff k txt s) = K s0 s"
  by (simp_all add: K_def put_diff_def put_body_def)

lemma K_snapshot: "store_snapshot c inp s = (r, s') \<Longrightarrow> K s s'"
  unfolding store_snapshot_def by (metis K_with_id snapshot snd_conv)

lemma K_update: "K s (snd (update_change c t prev sn level key diff pv ti w s))"
  by (auto simp: update_change_def split: prod.split dest!: K_insert intro!: K_trans [OF _ K_notify])

lemma K_page: "K s (snd (processPageContent ce c i s))"
proof -
  have page: "page_snapshot c t a out body n s = (r, s') \<Longrightarrow> K s s'" for t a out body n r s'
    unfolding page_snapshot_def Let_def by (drule K_snapshot) simp
  show ?thesis
    by (auto simp: processPageContent_def Let_def split: sum.split prod.split option.split
        dest!: page intro!: K_trans [OF _ K_update])
qed

lemma K_sitemap: "K s (snd (processSitemapDirect ce c i s))"
proof -
  have snap: "sitemap_snapshot c t a out body d s = (r, s') \<Longrightarrow> K s s'" for t a out body d r s'
    unfolding sitemap_snapshot_def Let_def by (drule K_snapshot) simp
  show ?thesis
    by (auto simp: processSitemapDirect_def Let_def split: sum.split prod.split option.split
        dest!: snap intro!: K_trans [OF _ K_update])
qed

lemma K_mark: "K s (mark_checked c t s)"
  by (simp add: mark_checked_def)

end

section \<open>Detection\<close>

locale stage_frame = row_frame +
  assumes target: "it_lastKnownUpdatedAt ti = None \<or> find_target d (it_monitorId ti) (it_url ti) = None \<Longrightarrow>
    R d (fst (upsertTarget u now ti d))"
begin

text \<open>Every upsert of the stages is of this kind: a time is given only when there is no row yet.\<close>

lemma new_target: "\<not> et_exists (getExistingTargetWatermark d m url) \<longleftrightarrow> find_target d m url = None"
  by (simp add: getExistingTargetWatermark_def split: option.split)

lemma K_target:
  "with_id c (\<lambda>u. upsertTarget u now inp) s = (t, s1) \<Longrightarrow>
   it_lastKnownUpdatedAt inp = None \<or> \<not> et_exists (getExistingTargetWatermark (db_of s) (it_monitorId inp) (it_url inp)) \<Longrightarrow>
   K s s1"
  using K_with_id [of s "\<lambda>u. upsertTarget u now inp" c] target by (simp add: new_target)

lemma K_touch:
  assumes "touch_target c now item url isNew s = (t, s')"
    and "isNew \<Longrightarrow> \<not> et_exists (getExistingTargetWatermark (db_of s) (mon_id (cc_monitor c)) url)"
  shows "K s s'"
  using assms
  by (cases isNew) (auto simp: touch_target_def split: prod.splits dest!: K_target intro: K_trans)

lemma K_detect: "K s (snd (detect_item c p now item s))"
proof -
  have old: "touch_target c now item url False s = (t, s1) \<Longrightarrow> K s s1" for url t s1
    by (erule K_touch) simp
  have new: "touch_target c now item url True s = (t, s1) \<Longrightarrow>
      \<not> et_exists (getExistingTargetWatermark (db_of s) (mon_id (cc_monitor c)) url) \<Longrightarrow> K s s1" for url t s1
    by (erule K_touch)
  show ?thesis
    by (auto simp: detect_item_def Let_def split: option.split prod.split dest: new dest!: old K_insert intro: K_trans)
qed

lemma K_items: "K s (snd (processFeedItems c items m p s))"
proof -
  obtain ds s1 where d: "map_state (detect_item c p (now_of c s)) (take m items) s = (ds, s1)" by fastforce
  obtain ds2 s2 where e: "enrichDetectedChanges c (concat ds) s1 = (ds2, s2)" by fastforce
  obtain ds3 s3 where l: "classifyDetectedChanges c ds2 s2 = (ds3, s3)" by fastforce
  have "K s s1" using K_map_state [of "detect_item c p (now_of c s)" s, OF K_detect] by (metis d snd_conv)
  moreover have "K s1 s2" using K_enrich [of s1 c "concat ds"] by (simp add: e)
  moreover have "K s2 s3" using K_classify [of s2 c ds2] by (simp add: l)
  moreover have "K s3 (snd (andThen (notifyDetectedChanges c ds3) (\<lambda>u s4. (Inr (length items - length (take m items)), s4)) s3))"
    by (rule K_andThen) (auto intro: K_notify)
  ultimately show ?thesis
    by (auto simp: processFeedItems_def detectFeedChanges_def Let_def d e l intro: K_trans)
qed

lemma K_page_items: "K s (snd (processPageItems ce c i s))"
  by (auto simp: processPageItems_def split: option.split sum.split
      intro!: K_andThen K_items K_snapshot [OF surjective_pairing])

lemma K_feed: "K s (snd (processFeedContent ce c i s))"
  by (auto simp: processFeedContent_def Let_def split: sum.split prod.split dest!: K_snapshot
      intro!: K_trans [OF _ K_andThen [OF K_items]])

lemma K_enter: "K (fst w) (fst (snd (enter_child c url lastmod w)))"
proof -
  obtain s n where w: "w = (s, n)" by fastforce
  show ?thesis
    by (auto simp: w enter_child_def Let_def split: prod.split dest!: K_target intro: K_trans K_mark)
qed

end

section \<open>Fetches\<close>

lemma permitted_db: "db_of (snd (child_permitted c url s)) = db_of s"
  by (auto simp: child_permitted_def Let_def split: option.split prod.split sum.split)

locale attempt_frame = row_frame +
  assumes attempt [simp]: "R d (fst (createCheckAttempt u now ai d))"
begin

lemma R_execute: "executeFetcher rt j fid s = (out, s1) \<Longrightarrow> R (store s) (store s1)"
  by (auto simp: executeFetcher_def Let_def split: prod.splits)

end

sublocale attempt_frame < attempts: attempt_relation "\<lambda>s a s'. R (store s) (store s')" "executeFetcher rt j"
  "\<lambda>t s. s\<lparr>outside := rt_sleep rt t (outside s)\<rparr>" for rt j
  by unfold_locales (auto intro: trans R_execute)

context attempt_frame
begin

lemma R_fetch: "fetchTargetThroughPolicy rt p j fs = (r, fs') \<Longrightarrow> R (store fs) (store fs')"
proof -
  assume f: "fetchTargetThroughPolicy rt p j fs = (r, fs')"
  let ?run = "runFetchSequence p (executeFetcher rt j) (\<lambda>t s. s\<lparr>outside := rt_sleep rt t (outside s)\<rparr>)
    (default_opts\<lparr>isRetryable := Some (\<lambda>fid. \<not> is_pull fid)\<rparr>) (fs\<lparr>nextIndex := 0, lastAttemptId := None\<rparr>)"
  obtain x s' where run: "?run = (x, s')" by fastforce
  with f have "fs' = s'"
    by (auto simp: fetchTargetThroughPolicy_def split: sum.splits prod.splits)
  moreover have "R (store fs) (store s')"
  proof (cases x)
    case (Inl e)
    from sequence_refused [OF _ run [unfolded Inl]] show ?thesis by (simp add: default_opts_def)
  next
    case (Inr y)
    obtain oc att where "y = (oc, att)" by fastforce
    from attempts.sequence_relates [OF run [unfolded Inr this]] show ?thesis by simp
  qed
  ultimately show ?thesis by simp
qed

lemma K_fetch_child: "K s (snd (fetch_child te c url t s))"
proof -
  obtain x fs where x: "fetchTargetThroughPolicy (cc_runtime c) (cc_policy c)
      (child_job c t url (getLatestSnapshotForTarget (db_of s) (tg_id t))) (cx_fetch s) = (x, fs)" by fastforce
  have s1: "K s (s\<lparr>cx_fetch := fs\<rparr>)" using R_fetch [OF x] by (simp add: K_def db_of_def)
  then have "K s (mark_checked c t (s\<lparr>cx_fetch := fs\<rparr>))" by (rule K_trans [OF _ K_mark])
  with s1 show ?thesis
    by (auto simp: fetch_child_def x Let_def split: sum.split prod.split option.split fetch_outcome.split)
qed

end

section \<open>The traversal\<close>

locale traversal_frame = stage_frame R + attempt_frame R for R +
  assumes audited [simp]: "R d (fst (recordAuditEvent u now au d))"
begin

lemma K_open: "K (fst w) (fst (snd (open_child te lts c url lastmod w)))"
proof -
  obtain o1 s1 n1 where e: "enter_child c url lastmod w = (o1, (s1, n1))" by (metis prod.exhaust)
  with K_enter [of w c url lastmod] have one: "K (fst w) s1" by simp
  obtain r s2 where p: "child_permitted c url s1 = (r, s2)" by fastforce
  with permitted_db [of c url s1] have two: "K s1 s2" by (simp add: K_same)
  from K_fetch_child [of s2 te c url] one two show ?thesis
    by (auto simp: open_child_def e p split: option.split sum.split prod.split) (metis K_trans snd_conv)+
qed

lemma K_urlset: "K (fst w) (fst (snd (expand_urlset lts c parsed w)))"
proof -
  obtain s n where w: "w = (s, n)" by fastforce
  have items: "processFeedItems c kept m p s = (r, s1) \<Longrightarrow> K s s1" for kept m p r s1
    using K_items [of s c kept m p] by simp
  show ?thesis
    by (auto simp: w expand_urlset_def split: prod.split sum.split dest!: items)
qed

lemma K_traverse:
  "K (fst w) (fst (snd (traverseChild te lts c url lastmod depth w)))"
  "K (fst w) (fst (snd (expand_child te lts c parsed depth w)))"
  "K (fst w) (fst (snd (traverse_children te lts c es depth w)))"
proof (induction te lts c url lastmod depth w and te lts c parsed depth w and te lts c es depth w
    rule: traverseChild_expand_child_traverse_children.induct)
  case (1 te lts c url lastmod depth w)
  have adv: "K s (advance_child c t lastmod s)" for t s by (simp add: advance_child_def)
  from K_open [of w te lts c url lastmod] 1 adv show ?case
    by (auto simp: traverseChild.simps split: prod.split sum.split option.split) (metis K_trans fst_conv snd_conv)+
next
  case (2 te lts c parsed depth w)
  from K_urlset [of w lts c parsed] 2 show ?case
    by (auto simp: expand_child.simps split: prod.split sum.split)
next
  case (4 te lts c e es depth w)
  then show ?case
    by (auto simp: traverse_children.simps split: prod.split sum.split) (metis K_trans fst_conv)+
qed (simp add: traverse_children.simps)

lemma K_traversal: "K s (snd (processSitemapTraversal te m c i s))"
proof -
  have doc: "K (fst w) (fst (snd (traverse_document te lts c parsed w)))" for w lts parsed
    using K_urlset [of w lts c parsed] K_traverse(3) [of "(fst w, n)" for n]
    by (auto simp: traverse_document_def traverseSitemapIndex_def split: prod.split sum.split)
  have rec: "K s (recordTruncationIfAny c n d lts s)" for n d lts s
    by (auto simp: recordTruncationIfAny_def intro!: K_with_id)
  show ?thesis
    by (auto simp: processSitemapTraversal_def Let_def split: sum.split prod.split dest!: K_snapshot)
      (metis K_trans doc rec fst_conv snd_conv)+
qed

end

section \<open>The whole check\<close>

locale settle_frame = row_frame +
  assumes job [simp]: "R d (fst (createCheckJobIfNew u now ij d))"
    and job_status [simp]: "R d (updateCheckJobStatus i st a b d)"
    and next_run [simp]: "R d (setMonitorNextRun now i n d)"
    and last_checked [simp]: "R d (setMonitorLastChecked now i t d)"
    and stopped [simp]: "R d (policyStopMonitor now i reason ev d)"
    and evaluation [simp]: "R d (fst (createRobotsEvaluation u now ri d))"
begin

lemma R_steps: "R a b \<Longrightarrow> R a (updateCheckJobStatus i st x y b)" "R a b \<Longrightarrow> R a (setMonitorNextRun now i n b)"
    "R a b \<Longrightarrow> R a (setMonitorLastChecked now i t b)" "R a b \<Longrightarrow> R a (policyStopMonitor now i reason ev b)"
    "R a b \<Longrightarrow> R a (setTargetLastChecked now i t b)"
  by (auto intro: trans)

lemma K_set_net [simp]: "K s (set_net n s') = K s s'" "K (set_net n s) s' = K s s'"
  by (simp_all add: K_def)

lemma K_finish: "finishJob re c st s = (res, s') \<Longrightarrow> K s s'"
  by (auto simp: finishJob_def Let_def K_def intro!: R_steps)

lemma K_robots: "robots_check c orig s = (r, s') \<Longrightarrow> K s s'"
proof -
  assume r: "robots_check c orig s = (r, s')"
  let ?check = "checkRobots (newURL (cc_platform c)) (decodeText (cc_platform c)) (cc_robotsFetch c (net_of s))
    (Some (d1_get, d1_put (now_of c s))) None None (now_of c s) orig (src_url (cc_source c)) (robotsCache s)"
  obtain rc x where check: "?check = (rc, x)" by fastforce
  have ev: "with_id c (\<lambda>u. createRobotsEvaluation u now ri) s0 = (e, s1) \<Longrightarrow> K s0 s1" for now ri s0 e s1
    using K_with_id [of s0 "\<lambda>u. createRobotsEvaluation u now ri" c] by simp
  have same: "K s (s\<lparr>robotsCache := rc\<rparr>)" by (simp add: K_same)
  from r check same show ?thesis
    by (cases x) (auto simp: robots_check_def Let_def split: prod.splits dest!: ev intro: K_trans)
qed

end

locale check_frame = traversal_frame R + settle_frame R for R
begin

lemma K_refused: "K s (refused_attempt c t cls msg s)"
  unfolding refused_attempt_def by (rule K_with_id) simp

lemma K_refusal: "robots_refusal re c t orig dec ev s = (res, s') \<Longrightarrow> K s s'"
  using K_refused [of s c t Blocked_by_robots "robots_message (db_of s) orig dec"]
  by (auto simp: robots_refusal_def Let_def K_def split: if_splits dest!: K_finish [unfolded K_def] intro!: R_steps intro: trans)

definition keeps :: "'n content_processor \<Rightarrow> bool" where
  "keeps process \<longleftrightarrow> (\<forall>c i s. K s (snd (process c i s)))"

lemma K_process:
  assumes keeps: "keeps (re_process re)" and f: "fetch_and_process re c t latest s = ((r, oc), s')"
  shows "K s s'"
proof -
  obtain x fs where x: "fetchTargetThroughPolicy (cc_runtime c) (cc_policy c) (target_job c t latest) (cx_fetch s) = (x, fs)"
    by fastforce
  have s1: "K s (s\<lparr>cx_fetch := fs\<rparr>)" using R_fetch [OF x] by (simp add: K_def db_of_def)
  then have step: "K s (set_db (setTargetLastChecked a i b (db_of (s\<lparr>cx_fetch := fs\<rparr>))) (s\<lparr>cx_fetch := fs\<rparr>))" for a i b
    by (auto simp: K_def intro: R_steps)
  have proc: "re_process re c i s2 = (y, s3) \<Longrightarrow> K s2 s3" for i s2 y s3
    using keeps by (metis keeps_def snd_conv)
  show ?thesis
    using f s1 step
    by (auto simp: fetch_and_process_def x Let_def simp del: K_set_db
        split: sum.splits prod.splits option.splits fetch_outcome.splits if_splits dest!: proc intro: K_trans)
qed

lemma K_lease:
  assumes keeps: "keeps (re_process re)" and run: "with_host_lease re c orig t s = (r, s')"
  shows "K s s'"
proof -
  have under: "under_lease re c orig lease t latest s0 = (r, s') \<Longrightarrow> K s0 s'" for lease latest s0
    by (auto simp: under_lease_def split: prod.splits sum.splits dest!: K_process [OF keeps] intro: K_trans)
      (metis K_finish K_trans surjective_pairing)+
  have "K s (set_db (updateCheckJobStatus i st a b (db_of (set_net n s))) (set_net n s))" for i st a b n
    by (simp add: K_def)
  with run show ?thesis
    by (auto simp: with_host_lease_def Let_def simp del: K_set_db split: prod.splits sum.splits if_splits dest!: under)
qed

lemma K_run_job:
  assumes keeps: "keeps (re_process re)" and run: "run_job re c s0 = (r, s')"
  shows "K s0 s'"
proof -
  have refused: "finishJob re c st (refused_attempt c t cls msg s) = (res, s1) \<Longrightarrow> K s s1" for st t cls msg s res s1
    by (metis K_finish K_refused K_trans)
  show ?thesis
    using run
    by (auto simp: run_job_def Let_def andThen_def split: prod.splits sum.splits if_splits option.splits
        dest!: K_target K_robots K_refusal K_lease [OF keeps] refused intro: K_trans)
qed

lemma K_check:
  assumes keeps: "keeps (re_process re)"
  shows "K s (snd (runMonitorCheck re c trig m s))"
proof -
  have new: "with_id c (\<lambda>u. createCheckJobIfNew u now ij) s = (jr, s1) \<Longrightarrow> K s s1" for now ij jr s1
    using K_with_id [of s "\<lambda>u. createCheckJobIfNew u now ij" c] by simp
  have start: "K s1 (start_state (set_db (updateCheckJobStatus i st a b (db_of s1)) s1))" for i st a b s1
    by (simp add: K_def)
  have ran: "K s1 (snd (run_job re c1 (start_state (set_db (updateCheckJobStatus i st a b (db_of s1)) s1))))"
    for i st a b s1 c1
    using K_run_job [OF keeps surjective_pairing] start by (rule K_trans [rotated])
  show ?thesis
    by (auto simp: runMonitorCheck_def Let_def split: option.split sum.split prod.split dest!: new
        intro: K_trans [OF _ ran])
qed

end

end
