(* ===== verification/Monitor_Object.thy ===== *)
theory Monitor_Object
  imports Run_Check
begin

text \<open>
  The durable object of a monitor (src/do/monitorObject.ts): its alarm, the in-memory flag of a
  running check, pause and resume, and the cron job that re-arms lost alarms
  (src/pipeline/reconcile.ts). The check is a parameter of the operations; the properties put
  \<^const>\<open>runMonitorCheck\<close> in its place.
\<close>

section \<open>State\<close>

record last_result =
  lr_status :: check_job_status
  lr_at :: ms

text \<open>The storage keys, the alarm of the object and the field \<open>running\<close>, which is not stored.\<close>

record monitor_object =
  mo_monitorId :: "string option"
  mo_alarm :: "ms option"
  mo_lastResult :: "last_result option"
  mo_running :: bool

definition new_monitor_object :: monitor_object where
  "new_monitor_object = \<lparr>mo_monitorId = None, mo_alarm = None, mo_lastResult = None, mo_running = False\<rparr>"

fun toLastResultStatus :: "check_run_kind \<Rightarrow> check_job_status" where
  "toLastResultStatus Run_completed = Job_succeeded"
| "toLastResultStatus Run_policy_stopped = Job_policy_stopped"
| "toLastResultStatus Run_deferred = Job_pending"
| "toLastResultStatus Run_skipped = Job_pending"

text \<open>A check and the clock, over the state the object does not own.\<close>

type_synonym 's check = "job_trigger \<Rightarrow> string \<Rightarrow> (check_run_result, 's) action"

type_synonym 's world = "monitor_object \<times> 's"

section \<open>Operations\<close>

definition mismatch :: "string \<Rightarrow> string \<Rightarrow> thrown" where
  "mismatch bound m =
     error (''MonitorObject: monitorId mismatch (bound to '' @ bound @ '', called with '' @ m @ '')'')"

definition bindMonitorId :: "string \<Rightarrow> monitor_object \<Rightarrow> thrown + monitor_object" where
  "bindMonitorId m obj =
     (case truthy (mo_monitorId obj) of
        Some existing \<Rightarrow> if existing \<noteq> m then Inl (mismatch existing m) else Inr obj
      | None \<Rightarrow> Inr (obj\<lparr>mo_monitorId := Some m\<rparr>))"

definition scheduleMonitor :: "string \<Rightarrow> ms option \<Rightarrow> (unit, 's world) action" where
  "scheduleMonitor m next =
     (\<lambda>(obj, s). case bindMonitorId m obj of
        Inl e \<Rightarrow> (Inl e, (obj, s))
      | Inr obj1 \<Rightarrow> (Inr (), (obj1\<lparr>mo_alarm := next\<rparr>, s)))"

definition applyResult :: "ms \<Rightarrow> check_run_result \<Rightarrow> monitor_object \<Rightarrow> monitor_object" where
  "applyResult now res obj =
     (let obj1 = obj\<lparr>mo_lastResult := Some \<lparr>lr_status = toLastResultStatus (kind res), lr_at = now\<rparr>\<rparr>
      in case kind res of
           Run_policy_stopped \<Rightarrow> obj1\<lparr>mo_alarm := None\<rparr>
         | Run_deferred \<Rightarrow> obj1\<lparr>mo_alarm := Some (now + orElse (run_retryAfterMs res) 5000)\<rparr>
         | Run_skipped \<Rightarrow> obj1
         | Run_completed \<Rightarrow> (case nextRunAt res of None \<Rightarrow> obj1 | Some t \<Rightarrow> obj1\<lparr>mo_alarm := Some t\<rparr>))"

text \<open>The \<open>try\<close> block with its \<open>finally\<close>, in two halves that other calls may come between.\<close>

definition begin_check :: "monitor_object \<Rightarrow> monitor_object" where
  "begin_check obj = obj\<lparr>mo_running := True\<rparr>"

definition end_check ::
  "('s \<Rightarrow> ms) \<Rightarrow> (thrown + check_run_result) \<times> 's \<Rightarrow> monitor_object \<Rightarrow> (unit, 's world) action" where
  "end_check now out obj w =
     (case out of
        (Inl e, s1) \<Rightarrow> (Inl e, (obj\<lparr>mo_running := False\<rparr>, s1))
      | (Inr res, s1) \<Rightarrow> (Inr (), ((applyResult (now s1) res obj)\<lparr>mo_running := False\<rparr>, s1)))"

definition runNowMonitor ::
  "'s check \<Rightarrow> ('s \<Rightarrow> ms) \<Rightarrow> string \<Rightarrow> (bool \<times> string option, 's world) action" where
  "runNowMonitor check now m =
     (\<lambda>(obj, s). case bindMonitorId m obj of
        Inl e \<Rightarrow> (Inl e, (obj, s))
      | Inr obj1 \<Rightarrow>
          if mo_running obj1
          then (Inr (False, Some ''a check is already running for this monitor''), (obj1, s))
          else andThen (end_check now (check Manual m s) (begin_check obj1))
                 (\<lambda>u w. (Inr (True, None), w)) (obj1, s))"

definition pauseMonitor :: "('s \<Rightarrow> ms) \<Rightarrow> ((db \<Rightarrow> db) \<Rightarrow> 's \<Rightarrow> 's) \<Rightarrow> string \<Rightarrow> (unit, 's world) action" where
  "pauseMonitor now on_db m =
     (\<lambda>(obj, s). case bindMonitorId m obj of
        Inl e \<Rightarrow> (Inl e, (obj, s))
      | Inr obj1 \<Rightarrow> (Inr (), (obj1\<lparr>mo_alarm := None\<rparr>, on_db (updateMonitorStatus (now s) m Paused) s)))"

definition resumeMonitor ::
  "('s \<Rightarrow> ms) \<Rightarrow> ('s \<Rightarrow> db) \<Rightarrow> ((db \<Rightarrow> db) \<Rightarrow> 's \<Rightarrow> 's) \<Rightarrow> string \<Rightarrow> (unit, 's world) action" where
  "resumeMonitor now get_db on_db m =
     (\<lambda>(obj, s). case bindMonitorId m obj of
        Inl e \<Rightarrow> (Inl e, (obj, s))
      | Inr obj1 \<Rightarrow>
          (let s1 = on_db (updateMonitorStatus (now s) m Active) s;
               stored = Option.bind (getMonitor (get_db s1) m) mon_nextRunAt;
               next = orElse stored (now s1);
               s2 = (if stored = None then on_db (setMonitorNextRun (now s1) m (Some next)) s1 else s1)
           in (Inr (), (obj1\<lparr>mo_alarm := Some next\<rparr>, s2))))"

record monitor_control_status =
  st_monitorId :: string
  st_nextRunAt :: "ms option"
  st_running :: bool
  st_paused :: bool
  st_lastResult :: "last_result option"

definition getMonitorStatus :: "('s \<Rightarrow> db) \<Rightarrow> string \<Rightarrow> (monitor_control_status, 's world) action" where
  "getMonitorStatus get_db m =
     (\<lambda>(obj, s). case bindMonitorId m obj of
        Inl e \<Rightarrow> (Inl e, (obj, s))
      | Inr obj1 \<Rightarrow>
          (Inr \<lparr>st_monitorId = m, st_nextRunAt = Option.bind (getMonitor (get_db s) m) mon_nextRunAt,
                st_running = mo_running obj1,
                st_paused = (map_option mon_status (getMonitor (get_db s) m) = Some Paused),
                st_lastResult = mo_lastResult obj1\<rparr>, (obj1, s)))"

text \<open>The handler of the alarm. The runtime has removed the alarm that fired.\<close>

definition alarm_handler :: "'s check \<Rightarrow> ('s \<Rightarrow> ms) \<Rightarrow> (unit, 's world) action" where
  "alarm_handler check now =
     (\<lambda>(obj, s). case truthy (mo_monitorId obj) of
        None \<Rightarrow> (Inr (), (obj, s))
      | Some m \<Rightarrow>
          if mo_running obj then (Inr (), (obj, s))
          else end_check now (check Scheduled m s) (begin_check obj) (obj, s))"

definition fire_alarm :: "'s check \<Rightarrow> ('s \<Rightarrow> ms) \<Rightarrow> (unit, 's world) action" where
  "fire_alarm check now = (\<lambda>(obj, s). alarm_handler check now (obj\<lparr>mo_alarm := None\<rparr>, s))"

section \<open>Reconciliation (src/pipeline/reconcile.ts)\<close>

definition DEFAULT_RECONCILE_GRACE_MS :: ms where "DEFAULT_RECONCILE_GRACE_MS = 5 * 60000"

text \<open>The objects of the namespace by monitor id, and the outcome of the remote call to one of them.\<close>

definition reconcile_one ::
  "(string \<Rightarrow> thrown option) \<Rightarrow> monitor_row \<Rightarrow> nat \<times> (string \<Rightarrow> monitor_object) \<Rightarrow> nat \<times> (string \<Rightarrow> monitor_object)" where
  "reconcile_one rpcFails mr =
     (\<lambda>(recovered, objs).
        case rpcFails (mon_id mr) of
          Some e \<Rightarrow> (recovered, objs)
        | None \<Rightarrow>
            (case scheduleMonitor (mon_id mr) (mon_nextRunAt mr) (objs (mon_id mr), ()) of
               (Inl e, w) \<Rightarrow> (recovered, objs)
             | (Inr u, w) \<Rightarrow> (recovered + 1, objs(mon_id mr := fst w))))"

definition runReconciliation ::
  "(string \<Rightarrow> thrown option) \<Rightarrow> ms \<Rightarrow> ms option \<Rightarrow> db \<Rightarrow> (string \<Rightarrow> monitor_object) \<Rightarrow> nat \<times> (string \<Rightarrow> monitor_object)" where
  "runReconciliation rpcFails now graceMs d objs =
     fold (reconcile_one rpcFails) (listMonitorsDue d (now - orElse graceMs DEFAULT_RECONCILE_GRACE_MS)) (0, objs)"

section \<open>Interleavings\<close>

text \<open>
  The object yields at every remote call, so other calls come between the two halves of a check.
  The second component lists the monitors of the checks in flight; a restart of the object loses them.
\<close>

type_synonym flight = "monitor_object \<times> string list"

inductive mo_step :: "'s check \<Rightarrow> ('s \<Rightarrow> ms) \<Rightarrow> flight \<Rightarrow> flight \<Rightarrow> bool" for check now where
  begin_now: "bindMonitorId m obj = Inr obj1 \<Longrightarrow> \<not> mo_running obj1 \<Longrightarrow>
     mo_step check now (obj, ms) (begin_check obj1, m # ms)"
| begin_alarm: "truthy (mo_monitorId obj) = Some m \<Longrightarrow> \<not> mo_running obj \<Longrightarrow>
     mo_step check now (obj, ms) (begin_check (obj\<lparr>mo_alarm := None\<rparr>), m # ms)"
| lost_alarm: "mo_running obj \<Longrightarrow> mo_step check now (obj, ms) (obj\<lparr>mo_alarm := None\<rparr>, ms)"
| finish: "m \<in> set ms \<Longrightarrow> end_check now (check trig m s) obj w = (r, (obj1, s1)) \<Longrightarrow>
     mo_step check now (obj, ms) (obj1, remove1 m ms)"
| set_alarm: "bindMonitorId m obj = Inr obj1 \<Longrightarrow> mo_step check now (obj, ms) (obj1\<lparr>mo_alarm := next\<rparr>, ms)"
| restart: "mo_step check now (obj, ms) (obj\<lparr>mo_running := False\<rparr>, [])"

inductive_cases mo_stepE: "mo_step check now w w'"

definition flight_inv :: "flight \<Rightarrow> bool" where
  "flight_inv w \<longleftrightarrow>
     (if mo_running (fst w) then \<exists>m. snd w = [m] \<and> (m = '''' \<or> mo_monitorId (fst w) = Some m) else snd w = [])"

lemma bind_running [simp]: "bindMonitorId m obj = Inr obj1 \<Longrightarrow> mo_running obj1 = mo_running obj"
  and bind_bound: "bindMonitorId m obj = Inr obj1 \<Longrightarrow> mo_monitorId obj1 = Some m"
  and bind_other: "bindMonitorId m obj = Inr obj1 \<Longrightarrow> mo_monitorId obj = Some k \<Longrightarrow> k \<noteq> '''' \<Longrightarrow> k = m"
  by (auto simp: bindMonitorId_def truthy_def split: option.splits list.splits if_splits)

lemma applyResult_keeps [simp]:
  "mo_monitorId (applyResult t res obj) = mo_monitorId obj" "mo_running (applyResult t res obj) = mo_running obj"
  by (auto simp: applyResult_def Let_def split: check_run_kind.split option.split)

lemma end_check_keeps:
  "end_check now out obj w = (r, (obj1, s1)) \<Longrightarrow> \<not> mo_running obj1 \<and> mo_monitorId obj1 = mo_monitorId obj"
  by (auto simp: end_check_def split: prod.splits sum.splits)

lemma flight_inv_step: "mo_step check now w w' \<Longrightarrow> flight_inv w \<Longrightarrow> flight_inv w'"
proof (induction rule: mo_step.induct)
  case (begin_now m obj obj1 ms)
  then show ?case by (auto simp: flight_inv_def begin_check_def dest: bind_bound)
next
  case (begin_alarm obj m ms)
  then show ?case by (auto simp: flight_inv_def begin_check_def truthy_def split: option.splits list.splits)
next
  case (finish m ms trig s obj w r obj1 s1)
  from end_check_keeps [OF finish(2)] finish(1,3) show ?case
    by (auto simp: flight_inv_def split: if_splits)
next
  case (set_alarm m obj obj1 ms nxt)
  then show ?case
    by (auto simp: flight_inv_def dest: bind_bound bind_other split: if_splits)
qed (auto simp: flight_inv_def)


section \<open>The alarm after a check\<close>

text \<open>The state of a check with its database; \<open>c\<close> and \<open>re\<close> as in \<^const>\<open>runMonitorCheck\<close>.\<close>

lemma truthy_id: "m \<noteq> '''' \<Longrightarrow> truthy (Some m) = Some m"
  by (cases m) (simp_all add: truthy_def)

lemma bind_same: "mo_monitorId obj = Some m \<Longrightarrow> m \<noteq> '''' \<Longrightarrow> bindMonitorId m obj = Inr obj"
  by (simp add: bindMonitorId_def truthy_id)

lemma fire_runs:
  assumes "mo_monitorId obj = Some m" "m \<noteq> ''''" "\<not> mo_running obj"
  shows "fire_alarm check now (obj, s) =
    end_check now (check Scheduled m s) (begin_check (obj\<lparr>mo_alarm := None\<rparr>)) (obj\<lparr>mo_alarm := None\<rparr>, s)"
  using assms by (simp add: fire_alarm_def alarm_handler_def truthy_id)

text \<open>
  C28. After an alarm whose check was not skipped, the object and the database agree: the alarm is
  set to the next run of the monitor's row when the check completed, it is gone and no run is due when
  robots.txt stopped the monitor, and when the host limiter refused it comes back after the wait while
  the job of the slot is pending. The flag is down again.
\<close>

theorem alarm_follows_check:
  assumes "keeps_schedule (re_process re)" and "mo_monitorId obj = Some m" "m \<noteq> ''''" "\<not> mo_running obj"
    and "runMonitorCheck re c Scheduled m s = (Inr res, s1)" and "kind res \<noteq> Run_skipped"
  shows "case fire_alarm (runMonitorCheck re c) (now_of c) (obj, s) of
    (r, (obj1, s2)) \<Rightarrow> r = Inr () \<and> s2 = s1 \<and> \<not> mo_running obj1 \<and>
      (case kind res of
         Run_completed \<Rightarrow> mo_alarm obj1 \<noteq> None \<and> mo_alarm obj1 = Option.bind (getMonitor (db_of s1) m) mon_nextRunAt
       | Run_policy_stopped \<Rightarrow> mo_alarm obj1 = None \<and> Option.bind (getMonitor (db_of s1) m) mon_nextRunAt = None
       | Run_deferred \<Rightarrow> mo_alarm obj1 = Some (now_of c s1 + orElse (run_retryAfterMs res) 5000) \<and>
           map_option cj_status (job_of (db_of s1) m (slot_of c Scheduled m s)) = Some Job_pending
       | Run_skipped \<Rightarrow> False)"
  using check_settles [OF assms(1,5,6)] assms(5)
  by (auto simp: fire_runs [OF assms(2-4)] end_check_def applyResult_def begin_check_def settled_def Let_def
      split: check_run_kind.splits)

text \<open>
  C29. A monitor whose slot was taken by a job that never ended is stuck: its alarm fires into a
  skipped check and is gone (the comment in the code says it is kept), the database is unchanged, and
  reconciliation arms the alarm for the same slot again, which leads back to the same state.
\<close>

theorem taken_slot_sticks:
  assumes "mo_monitorId obj = Some m" "m \<noteq> ''''" "\<not> mo_running obj"
    and "getMonitor (db_of s) m = Some mon" "mon_nextRunAt mon = Some slot"
    and "job_of (db_of s) m slot = Some j" "cj_status j \<noteq> Job_pending"
  shows "case fire_alarm (runMonitorCheck re c) (now_of c) (obj, s) of
    (r, (obj1, s1)) \<Rightarrow> mo_alarm obj1 = None \<and> db_of s1 = db_of s \<and> \<not> mo_running obj1 \<and> mo_monitorId obj1 = Some m \<and>
      (\<exists>obj2. scheduleMonitor m (mon_nextRunAt mon) (obj1, ()) = (Inr (), (obj2, ())) \<and>
         mo_monitorId obj2 = Some m \<and> mo_alarm obj2 = Some slot \<and> \<not> mo_running obj2)"
proof -
  obtain r s1 where run: "runMonitorCheck re c Scheduled m s = (r, s1)" by fastforce
  have same: "db_of s1 = db_of s"
    using taken_slot_unchanged [OF assms(4-7), of re c] by (simp add: run)
  have "kind res = Run_skipped" if "r = Inr res" for res
    using taken_slot_result [OF assms(4-7), of re c] that by (simp add: run)
  with same show ?thesis
    using assms(1-3,5)
    by (cases r) (auto simp: fire_runs end_check_def begin_check_def run applyResult_def Let_def
        scheduleMonitor_def bind_same)
qed

section \<open>Examples\<close>

definition bound_object :: monitor_object where
  "bound_object = new_monitor_object\<lparr>mo_monitorId := Some ''m''\<rparr>"


theorem alarm_follows_check_witness:
  "case fire_alarm (runMonitorCheck check_env (check_ctx0 private_url)) (now_of (check_ctx0 private_url))
      (bound_object, check_state0 []) of
    (r, (obj1, s1)) \<Rightarrow> mo_alarm obj1 \<noteq> None \<and> mo_alarm obj1 = Option.bind (getMonitor (db_of s1) ''m'') mon_nextRunAt"
proof -
  have keeps: "keeps_schedule (re_process check_env)" by (simp add: keeps_schedule_def check_env_def)
  obtain r s' where run: "runMonitorCheck check_env (check_ctx0 private_url) Scheduled ''m'' (check_state0 []) = (r, s')"
    by fastforce
  with private_run obtain res where "r = Inr res" "kind res = Run_completed"
    by (cases r) simp_all
  with alarm_follows_check [OF keeps _ _ _ run [unfolded this(1)], of bound_object] show ?thesis
    by (auto simp: bound_object_def new_monitor_object_def split: prod.splits) metis
qed

theorem taken_slot_sticks_witness:
  "case fire_alarm (runMonitorCheck check_env (check_ctx0 demo_url)) (now_of (check_ctx0 demo_url))
      (bound_object, check_state0 [demo_job]) of
    (r, (obj1, s1)) \<Rightarrow> mo_alarm obj1 = None \<and> db_of s1 = db_of (check_state0 [demo_job])"
  using taken_slot_sticks [where obj = bound_object and m = "''m''" and s = "check_state0 [demo_job]"
      and mon = "demo_monitor None" and slot = 0 and j = demo_job and re = check_env and c = "check_ctx0 demo_url"]
  by (simp add: bound_object_def new_monitor_object_def check_state0_def getMonitor_def demo_monitor_def job_of_def
      demo_job_def split: prod.splits)

end
