(* ===== verification/Check_Pipeline.thy ===== *)
theory Check_Pipeline
  imports Stage_Frame Monitor_Object "HOL-Library.Sublist"
begin

text \<open>
  The recipes of src/pipeline/contentProcessor.ts and what holds of a whole check with its real
  content processors: it settles its slot, it only appends to the history, and the alarm of the
  monitor follows it.
\<close>

section \<open>Recipes\<close>

datatype recipe_key = Page_extract | Page_content | Sitemap_traverse | Sitemap_direct | Feed

definition resolveRecipeKey :: "source_row \<Rightarrow> recipe_key" where
  "resolveRecipeKey src =
     (case src_type src of
        Page \<Rightarrow> if Option.bind (src_config src) pageMode = Some Extract then Page_extract else Page_content
      | Sitemap \<Rightarrow> if Option.bind (src_config src) sitemapMode = Some Traverse then Sitemap_traverse else Sitemap_direct
      | Sitemap_index \<Rightarrow>
          if Option.bind (src_config src) sitemapMode = Some Traverse then Sitemap_traverse else Sitemap_direct
      | Rss \<Rightarrow> Feed
      | Atom \<Rightarrow> Feed)"

text \<open>The processor and the ids of the stages of a recipe; the labels shown for them are left out.\<close>

fun RECIPES :: "traversal_env \<Rightarrow> recipe_key \<Rightarrow> 'n content_processor" where
  "RECIPES te Page_extract = processPageItems (te_content te)"
| "RECIPES te Page_content = processPageContent (te_content te)"
| "RECIPES te Sitemap_traverse = processSitemapTraversal te MAX_TRAVERSAL_FETCHES_PER_CHECK"
| "RECIPES te Sitemap_direct = processSitemapDirect (te_content te)"
| "RECIPES te Feed = processFeedContent (te_content te)"

fun recipe_stages :: "recipe_key \<Rightarrow> string list" where
  "recipe_stages Page_extract = [''fetch'', ''extract'', ''diff'', ''notify'']"
| "recipe_stages Page_content = [''fetch'', ''content-diff'', ''notify'']"
| "recipe_stages Sitemap_traverse = [''traverse'', ''diff'', ''notify'']"
| "recipe_stages Sitemap_direct = [''fetch'', ''sitemap-diff'', ''notify'']"
| "recipe_stages Feed = [''fetch'', ''extract'', ''diff'', ''notify'']"

definition resolveContentProcessor :: "traversal_env \<Rightarrow> source_row \<Rightarrow> 'n content_processor" where
  "resolveContentProcessor te src = RECIPES te (resolveRecipeKey src)"

definition describePipeline :: "source_row \<Rightarrow> string list" where
  "describePipeline src = recipe_stages (resolveRecipeKey src)"

text \<open>The check as the program runs it.\<close>

definition with_recipes :: "traversal_env \<Rightarrow> 'n run_env \<Rightarrow> 'n run_env" where
  "with_recipes te re = re\<lparr>re_process := (\<lambda>c. resolveContentProcessor te (cc_source c) c)\<rparr>"

section \<open>The schedule\<close>

interpretation schedule: traversal_frame sched
  by unfold_locales
    (auto intro: sched_trans simp: sched_def insertChangeIfNew_def createDeliveryIfNew_def updateChangeTitle_def
      setChangeTagsIfNull_def createSnapshot_def recordAuditEvent_def setTargetLastKnownUpdatedAt_def
      upsertTarget_def setTargetLastChecked_def createCheckAttempt_def Let_def
      split: option.split)

lemma recipe_keeps_schedule: "schedule.K s (snd (RECIPES te k c i s))"
  by (cases k) (simp_all add: schedule.K_page schedule.K_page_items schedule.K_feed schedule.K_sitemap
      schedule.K_traversal)

lemma recipes_keep_schedule: "keeps_schedule (re_process (with_recipes te re))"
  by (simp add: keeps_schedule_def with_recipes_def resolveContentProcessor_def
      recipe_keeps_schedule [unfolded schedule.K_def])

section \<open>The history\<close>

text \<open>
  What a check may not change of a row: everything but the state of the schedule, the times of a
  target, the progress of a job, the title and the tags of a change.
\<close>

definition monitor_core :: "monitor_row \<Rightarrow> monitor_row" where
  "monitor_core r = r\<lparr>mon_status := Active, stopReason := None, robotsEvaluationId := None, mon_nextRunAt := None,
     mon_lastCheckedAt := None, mon_updatedAt := 0\<rparr>"

definition target_core :: "target_row \<Rightarrow> target_row" where
  "target_core r = r\<lparr>tg_lastCheckedAt := None, lastKnownUpdatedAt := None, tg_updatedAt := 0\<rparr>"

definition job_core :: "check_job_row \<Rightarrow> check_job_row" where
  "job_core r = r\<lparr>cj_status := Job_pending, cj_startedAt := None, cj_finishedAt := None\<rparr>"

definition change_core :: "change_row \<Rightarrow> change_row" where
  "change_core r = r\<lparr>ch_title := None, ch_tags := None\<rparr>"

lemmas cores = monitor_core_def target_core_def job_core_def change_core_def

definition keeps_history :: "db \<Rightarrow> db \<Rightarrow> bool" where
  "keeps_history d d1 \<longleftrightarrow>
     sites d1 = sites d \<and> sources d1 = sources d \<and> destinations d1 = destinations d \<and>
     subscriptions d1 = subscriptions d \<and> robots_policies d1 = robots_policies d \<and>
     executors d1 = executors d \<and> fetchers d1 = fetchers d \<and>
     map monitor_core (monitors d1) = map monitor_core (monitors d) \<and>
     prefix (map target_core (targets d)) (map target_core (targets d1)) \<and>
     prefix (map job_core (check_jobs d)) (map job_core (check_jobs d1)) \<and>
     prefix (map change_core (changes d)) (map change_core (changes d1)) \<and>
     prefix (check_attempts d) (check_attempts d1) \<and> prefix (snapshots d) (snapshots d1) \<and>
     prefix (deliveries d) (deliveries d1) \<and> prefix (robots_evaluations d) (robots_evaluations d1) \<and>
     prefix (audit_events d) (audit_events d1)"

lemma history_trans: "keeps_history a b \<Longrightarrow> keeps_history b d \<Longrightarrow> keeps_history a d"
  unfolding keeps_history_def by (auto intro: prefix_order.trans)

interpretation history: check_frame keeps_history
  by unfold_locales
    (auto intro: history_trans simp: keeps_history_def cores map_update_where
      upsertTarget_def setTargetLastChecked_def setTargetLastKnownUpdatedAt_def insertChangeIfNew_def
      createDeliveryIfNew_def updateChangeTitle_def setChangeTagsIfNull_def createSnapshot_def
      createCheckAttempt_def recordAuditEvent_def createCheckJobIfNew_def updateCheckJobStatus_def
      setMonitorNextRun_def setMonitorLastChecked_def policyStopMonitor_def createRobotsEvaluation_def
      with_monitor_def Let_def split: option.split)

lemma recipe_keeps_history: "history.K s (snd (RECIPES te k c i s))"
  by (cases k) (simp_all add: history.K_page history.K_page_items history.K_feed history.K_sitemap
      history.K_traversal)

lemma recipes_keep_history: "history.keeps (re_process (with_recipes te re))"
  by (simp add: history.keeps_def with_recipes_def resolveContentProcessor_def recipe_keeps_history)

section \<open>A check with its processors\<close>

text \<open>
  C30. A check with the real content processors that is not skipped settles the job of its slot before
  it answers. If it completed, the job succeeded or failed and the monitor's next run is the one in the
  answer; if robots.txt stopped it, job and monitor are stopped and no run is due; if the host limiter
  refused, the job of the same slot waits as pending and the monitor still points at it.
\<close>

theorem pipeline_settles_slot:
  assumes "runMonitorCheck (with_recipes te re) c trig m s = (Inr res, s1)" and "kind res \<noteq> Run_skipped"
  shows "settled m (slot_of c trig m s) res (db_of s1)"
  using recipes_keep_schedule assms by (rule check_settles)

text \<open>
  C8. A check writes history and never rewrites it, on every path, exceptions included: sites, sources,
  destinations, subscriptions and executors are untouched; of a monitor, a target, a job and a change
  only the schedule, the times, the progress and the title and tags may differ; attempts, snapshots,
  deliveries, robots evaluations and audit events are only added at the end.
\<close>

theorem check_only_appends:
  "keeps_history (db_of s) (db_of (snd (runMonitorCheck (with_recipes te re) c trig m s)))"
  using history.K_check [OF recipes_keep_history] by (simp add: history.K_def)

lemma private_blocked: "\<not> allowed (checkUrlForSsrf private_url url)"
proof -
  have "blocked (classifyHostname ''10.0.0.1'')" by code_simp
  then show ?thesis by (simp add: checkUrlForSsrf_def private_url_def Let_def deny_class_def deny_def)
qed

lemma private_pipeline_run:
  "runMonitorCheck (with_recipes te check_env) (check_ctx0 private_url) Scheduled ''m'' (check_state0 []) =
   runMonitorCheck check_env (check_ctx0 private_url) Scheduled ''m'' (check_state0 [])"
proof -
  have "run_job (with_recipes te check_env) c s = run_job check_env c s"
    if "newURL (cc_platform c) = private_url" for c s
    using that by (simp add: run_job_def ssrf_result_def private_blocked finishJob_def with_recipes_def Let_def
        cong: prod.case_cong)
  moreover have policies: "re_policies (with_recipes te check_env) = re_policies check_env"
    by (simp add: with_recipes_def)
  moreover have "load_rows (with_recipes te check_env) = load_rows check_env"
    by (simp add: load_rows_def policies fun_eq_iff split: option.split)
  ultimately show ?thesis
    by (simp add: runMonitorCheck_def check_ctx0_def Let_def split: option.split sum.split prod.split)
qed

definition quiet_env :: traversal_env where
  "quiet_env = \<lparr>te_content = demo_env '''', toISOString = (\<lambda>t. '''')\<rparr>"

theorem pipeline_settles_slot_witness:
  "case runMonitorCheck (with_recipes quiet_env check_env) (check_ctx0 private_url) Scheduled ''m'' (check_state0 []) of
     (Inr res, s1) \<Rightarrow> settled ''m'' 0 res (db_of s1) | (Inl e, s1) \<Rightarrow> False"
proof -
  have slot: "slot_of (check_ctx0 private_url) Scheduled ''m'' (check_state0 []) = 0"
    by (simp add: slot_of_def check_state0_def getMonitor_def demo_monitor_def)
  obtain r s1 where run:
    "runMonitorCheck (with_recipes quiet_env check_env) (check_ctx0 private_url) Scheduled ''m'' (check_state0 []) = (r, s1)"
    by fastforce
  with private_run [folded private_pipeline_run [of quiet_env]] obtain res where "r = Inr res" "kind res = Run_completed"
    by (cases r) simp_all
  with pipeline_settles_slot [OF run [unfolded this(1)]] run show ?thesis
    by (simp add: slot)
qed

end
