(* ===== verification/Api_State.thy ===== *)
theory Api_State
  imports Api_Http Check_Pipeline Monitor_Object Crawler
begin

text \<open>
  The state the routes of the management API work on, the calls of the durable object of a monitor
  (src/api/monitorControl.ts), and the table of routes with its dispatch (src/api/index.ts). The laws
  every property of the database has to satisfy to hold across the API are one locale; the routes prove
  that their handlers keep it.
\<close>

section \<open>State and environment\<close>

text \<open>
  \<open>ap_check\<close> holds the database, the object store and the outside; the objects of the monitors and of the
  executors are addressed by their names.
\<close>

record 'n app =
  ap_policies :: policy_tables
  ap_check :: "'n check_state"
  ap_objects :: "string \<Rightarrow> monitor_object"
  ap_crawlers :: "string \<Rightarrow> crawler"

definition app_db :: "'n app \<Rightarrow> db" where
  "app_db a = db_of (ap_check a)"

definition set_app_db :: "db \<Rightarrow> 'n app \<Rightarrow> 'n app" where
  "set_app_db d a = a\<lparr>ap_check := set_db d (ap_check a)\<rparr>"

definition tables :: "'n app \<Rightarrow> policy_tables \<times> db" where
  "tables a = (ap_policies a, app_db a)"

lemma app_access [simp]:
  "app_db (set_app_db d a) = d" "ap_policies (set_app_db d a) = ap_policies a"
  "app_db (a\<lparr>ap_policies := p\<rparr>) = app_db a" "app_db (a\<lparr>ap_objects := ob\<rparr>) = app_db a"
  "app_db (a\<lparr>ap_crawlers := cw\<rparr>) = app_db a" "ap_objects (set_app_db d a) = ap_objects a"
  by (simp_all add: app_db_def set_app_db_def)

lemma tables_access [simp]:
  "tables (set_app_db d a) = (ap_policies a, d)" "tables (a\<lparr>ap_policies := p\<rparr>) = (p, app_db a)"
  "tables (a\<lparr>ap_objects := ob\<rparr>) = tables a" "tables (a\<lparr>ap_crawlers := cw\<rparr>) = tables a"
  by (simp_all add: tables_def)

text \<open>
  The clock, the ids and the URL parser are those of a check; \<open>JSON.parse\<close>, \<open>Number\<close>, the rendering of
  a time and whether the HTML rewriter takes a selector are arguments.
\<close>

record 'n api =
  ai_ctx :: "'n check_ctx"
  ai_run :: "'n run_env"
  ai_traversal :: traversal_env
  ai_parse :: "string \<Rightarrow> json option"
  ai_number :: "string \<Rightarrow> rat option"
  ai_stamp :: "ms \<Rightarrow> string"
  ai_selector :: "string \<Rightarrow> bool"

definition api_now :: "'n api \<Rightarrow> 'n app \<Rightarrow> ms" where
  "api_now v a = now_of (ai_ctx v) (ap_check a)"

definition api_url :: "'n api \<Rightarrow> url_parser" where
  "api_url v = newURL (cc_platform (ai_ctx v))"

lemma api_now_db [simp]: "api_now v (set_app_db d a) = api_now v a"
  by (simp add: api_now_def set_app_db_def)

section \<open>Statements\<close>

text \<open>A statement with the clock and a fresh id, and one without a result.\<close>

definition stores :: "'n api \<Rightarrow> (string \<Rightarrow> ms \<Rightarrow> db \<Rightarrow> db \<times> 'r) \<Rightarrow> ('r, 'n app) step" where
  "stores v f = runs (\<lambda>a. case with_id (ai_ctx v) (\<lambda>u. f u (api_now v a)) (ap_check a) of
     (r, cs) \<Rightarrow> (r, a\<lparr>ap_check := cs\<rparr>))"

definition alters :: "'n api \<Rightarrow> (ms \<Rightarrow> db \<Rightarrow> db \<times> 'r) \<Rightarrow> ('r, 'n app) step" where
  "alters v f = runs (\<lambda>a. case f (api_now v a) (app_db a) of (d, r) \<Rightarrow> (r, set_app_db d a))"

definition audits ::
  "'n api \<Rightarrow> string \<Rightarrow> string \<Rightarrow> string option \<Rightarrow> json option \<Rightarrow> (audit_event_row, 'n app) step" where
  "audits v action subj reason load =
     stores v (\<lambda>u now. recordAuditEvent u now
       \<lparr>iu_id = None, iu_actor = ''admin'', iu_action = action, iu_subject = subj, iu_reason = reason, iu_payload = load\<rparr>)"

lemma wp_alters:
  "wp I (alters v f) Q s =
     Q (snd (f (api_now v s) (app_db s))) (set_app_db (fst (f (api_now v s) (app_db s))) s)"
  by (simp add: alters_def wp_runs split: prod.split)

lemma wp_stores:
  "wp I (stores v f) Q s =
     Q (snd (f (cc_uuid (ai_ctx v) (uuids (ap_check s))) (api_now v s) (app_db s)))
       (s\<lparr>ap_check := (set_db (fst (f (cc_uuid (ai_ctx v) (uuids (ap_check s))) (api_now v s) (app_db s))) (ap_check s))
          \<lparr>uuids := uuids (ap_check s) + 1\<rparr>\<rparr>)"
  by (simp add: stores_def wp_runs with_id_def app_db_def split: prod.split)

lemma stored_tables [simp]:
  "tables (s\<lparr>ap_check := cs\<rparr>) = (ap_policies s, db_of cs)" "app_db (s\<lparr>ap_check := cs\<rparr>) = db_of cs"
  by (simp_all add: tables_def app_db_def)

section \<open>The durable object of a monitor\<close>

text \<open>The check the object runs: the recipes, with the policies of the moment.\<close>

definition api_check :: "'n api \<Rightarrow> ('n app) check" where
  "api_check v trig m a =
     (case runMonitorCheck (with_recipes (ai_traversal v) ((ai_run v)\<lparr>re_policies := ap_policies a\<rparr>)) (ai_ctx v) trig m
             (ap_check a) of
        (r, cs) \<Rightarrow> (r, a\<lparr>ap_check := cs\<rparr>))"

text \<open>A call of the stub of monitor \<open>m\<close>.\<close>

definition stub :: "string \<Rightarrow> ('r, ('n app) world) action \<Rightarrow> ('r, 'n app) step" where
  "stub m f = calls (\<lambda>a. case f (ap_objects a m, a) of
     (r, (obj, a1)) \<Rightarrow> (r, a1\<lparr>ap_objects := (ap_objects a1)(m := obj)\<rparr>))"

record 'n monitor_control =
  mc_schedule :: "string \<Rightarrow> ms option \<Rightarrow> (unit, 'n app) step"
  mc_runNow :: "string \<Rightarrow> (bool \<times> string option, 'n app) step"
  mc_pause :: "string \<Rightarrow> (unit, 'n app) step"
  mc_resume :: "string \<Rightarrow> (unit, 'n app) step"
  mc_getStatus :: "string \<Rightarrow> (monitor_control_status, 'n app) step"

definition createDefaultMonitorControlFactory :: "'n api \<Rightarrow> 'n monitor_control" where
  "createDefaultMonitorControlFactory v =
     \<lparr>mc_schedule = (\<lambda>m t. stub m (scheduleMonitor m t)),
      mc_runNow = (\<lambda>m. stub m (runNowMonitor (api_check v) (api_now v) m)),
      mc_pause = (\<lambda>m. stub m (pauseMonitor (api_now v) (\<lambda>f a. set_app_db (f (app_db a)) a) m)),
      mc_resume = (\<lambda>m. stub m (resumeMonitor (api_now v) app_db (\<lambda>f a. set_app_db (f (app_db a)) a) m)),
      mc_getStatus = (\<lambda>m. stub m (getMonitorStatus app_db m))\<rparr>"

section \<open>Routes\<close>

record 'n route =
  rt_method :: string
  rt_pattern :: "string list"
  rt_handler :: "string list \<Rightarrow> request \<Rightarrow> 'n app handler"

text \<open>The segments a pattern captures; a segment that begins with a colon is a parameter.\<close>

fun match_path :: "string list \<Rightarrow> string list \<Rightarrow> string list option" where
  "match_path [] [] = Some []"
| "match_path (p # ps) (x # xs) =
     (if startsWith p '':'' then map_option (\<lambda>ys. x # ys) (match_path ps xs)
      else if p = x then match_path ps xs else None)"
| "match_path ps xs = None"

fun find_route :: "'n route list \<Rightarrow> string \<Rightarrow> string list \<Rightarrow> (string list \<times> 'n route) option" where
  "find_route [] m path = None"
| "find_route (r # rs) m path =
     (case (if rt_method r = m then match_path (rt_pattern r) path else None) of
        Some ids \<Rightarrow> Some (ids, r)
      | None \<Rightarrow> find_route rs m path)"

lemma find_route_set: "find_route rs m path = Some (ids, r) \<Longrightarrow> r \<in> set rs"
  by (induction rs) (auto split: option.splits)

definition not_found_response :: response where
  "not_found_response = json_response 404 (error_body ''not_found'')"

definition dispatch :: "'n route list \<Rightarrow> request \<Rightarrow> 'n app \<Rightarrow> response \<times> 'n app" where
  "dispatch rs rq a =
     (case find_route rs (rq_method rq) (split_on CHR ''/'' (drop 1 (rq_path rq))) of
        None \<Rightarrow> (not_found_response, a)
      | Some (ids, r) \<Rightarrow> finish_request (rt_handler r ids rq) a)"

definition routes_keep :: "('n app \<Rightarrow> bool) \<Rightarrow> 'n route list \<Rightarrow> bool" where
  "routes_keep I rs \<longleftrightarrow> (\<forall>r \<in> set rs. \<forall>ids rq. keeps_inv I (rt_handler r ids rq))"

lemma dispatch_keeps: "routes_keep I rs \<Longrightarrow> I a \<Longrightarrow> I (snd (dispatch rs rq a))"
  by (auto simp: dispatch_def routes_keep_def dest!: find_route_set intro: finish_keeps split: option.split)

lemma routes_keep_append: "routes_keep I (rs @ qs) \<longleftrightarrow> routes_keep I rs \<and> routes_keep I qs"
  by (auto simp: routes_keep_def)

text \<open>The routes of one resource, named by the segments behind its own.\<close>

definition mounted :: "string \<Rightarrow> (string \<times> string list \<times> (string list \<Rightarrow> request \<Rightarrow> 'n app handler)) list \<Rightarrow> 'n route list" where
  "mounted name rs =
     map (\<lambda>(m, p, h). \<lparr>rt_method = m, rt_pattern = ''api'' # name # p, rt_handler = h\<rparr>) rs"

lemma mounted_keeps: "routes_keep I (mounted name rs) \<longleftrightarrow> (\<forall>(m, p, h) \<in> set rs. \<forall>ids rq. keeps_inv I (h ids rq))"
  by (auto simp: routes_keep_def mounted_def split: prod.splits)

section \<open>Properties of the tables\<close>

text \<open>
  A property of the tables that every statement of the API keeps, when the handler has checked what it
  checks. Each resource adds the laws of its statements and proves its handlers from them.
\<close>

locale table_property =
  fixes I :: "policy_tables \<times> db \<Rightarrow> bool"
  assumes audited: "I (p, d) \<Longrightarrow> I (p, fst (recordAuditEvent u now e d))"
begin

definition J :: "'n app \<Rightarrow> bool" where
  "J a \<longleftrightarrow> I (tables a)"

lemma J_tables: "J a \<longleftrightarrow> I (ap_policies a, app_db a)"
  by (simp add: J_def tables_def)

lemma J_updates [simp]:
  "J (set_app_db d a) \<longleftrightarrow> I (ap_policies a, d)" "J (a\<lparr>ap_policies := p\<rparr>) \<longleftrightarrow> I (p, app_db a)"
  "J (a\<lparr>ap_objects := ob\<rparr>) \<longleftrightarrow> J a" "J (a\<lparr>ap_crawlers := cw\<rparr>) \<longleftrightarrow> J a"
  "J (a\<lparr>ap_check := cs\<rparr>) \<longleftrightarrow> I (ap_policies a, db_of cs)"
  by (simp_all add: J_def)

lemma keeps_reading: "(\<And>s. \<exists>r. h s = (r, s)) \<Longrightarrow> keeps_inv J h"
  by (auto simp: keeps_inv_def wp_def split: prod.split sum.split) (metis prod.inject)+

end

section \<open>An example\<close>

definition demo_api :: "ms api" where
  "demo_api = \<lparr>ai_ctx = check_ctx0 demo_url, ai_run = check_env, ai_traversal = quiet_env, ai_parse = (\<lambda>t. Some JNull),
     ai_number = (\<lambda>t. None), ai_stamp = (\<lambda>t. ''time''), ai_selector = (\<lambda>t. True)\<rparr>"

definition demo_app :: "ms app" where
  "demo_app = \<lparr>ap_policies = re_policies check_env, ap_check = check_state0 [],
     ap_objects = (\<lambda>m. new_monitor_object), ap_crawlers = (\<lambda>i. crawler_start)\<rparr>"

definition json_request :: "string \<Rightarrow> string \<Rightarrow> request" where
  "json_request m path = \<lparr>rq_method = m, rq_path = path, rq_header = (\<lambda>h. Some ''application/json''),
     rq_query = (\<lambda>k. None), rq_chunks = [''null'']\<rparr>"

lemma json_request_body: "readJsonBody (ai_parse demo_api) (json_request m path) = Inr JNull"
  by (simp add: demo_api_def readJsonBody_def json_request_def rq_text_def) code_simp

end
