(* ===== verification/Api_Serialize.thy ===== *)
theory Api_Serialize
  imports Api_Http Check_Pipeline
begin

text \<open>
  Rows as the JSON of the management API (src/api/serialize.ts), the masking of webhook URLs
  (src/api/mask.ts) and their encrypted form (src/db/webhookCrypto.ts). The rendering of a time is an
  argument \<open>stamp\<close>.
\<close>

section \<open>JSON\<close>

definition opt_json :: "('a \<Rightarrow> json) \<Rightarrow> 'a option \<Rightarrow> json" where
  "opt_json f x = (case x of None \<Rightarrow> JNull | Some v \<Rightarrow> f v)"

definition jstr :: "string option \<Rightarrow> json" where "jstr = opt_json JStr"

definition jint :: "int \<Rightarrow> json" where "jint i = JNum (of_int i)"

definition jstrings :: "string list \<Rightarrow> json" where "jstrings ss = JArr (map JStr ss)"

definition jpairs :: "(string \<times> string) list \<Rightarrow> json" where
  "jpairs kvs = JObj (map (\<lambda>(k, v). (k, JStr v)) kvs)"

section \<open>Names of the enumerations\<close>

fun source_type_name :: "source_type \<Rightarrow> string" where
  "source_type_name Page = ''page''"
| "source_type_name Rss = ''rss''"
| "source_type_name Atom = ''atom''"
| "source_type_name Sitemap = ''sitemap''"
| "source_type_name Sitemap_index = ''sitemap-index''"

fun monitor_status_name :: "monitor_status \<Rightarrow> string" where
  "monitor_status_name Active = ''active''"
| "monitor_status_name Paused = ''paused''"
| "monitor_status_name Blocked_by_robots_txt = ''blocked_by_robots_txt''"
| "monitor_status_name Failing = ''failing''"
| "monitor_status_name Archived = ''archived''"

fun job_status_name :: "check_job_status \<Rightarrow> string" where
  "job_status_name Job_pending = ''pending''"
| "job_status_name Job_running = ''running''"
| "job_status_name Job_succeeded = ''succeeded''"
| "job_status_name Job_failed = ''failed''"
| "job_status_name Job_policy_stopped = ''policy_stopped''"

fun job_trigger_name :: "job_trigger \<Rightarrow> string" where
  "job_trigger_name Scheduled = ''scheduled''"
| "job_trigger_name Manual = ''manual''"
| "job_trigger_name Reconciliation = ''reconciliation''"

fun change_kind_name :: "change_kind \<Rightarrow> string" where
  "change_kind_name New = ''new''"
| "change_kind_name Updated = ''updated''"
| "change_kind_name change_kind.Removed = ''removed''"

fun diff_level_name :: "diff_level \<Rightarrow> string" where
  "diff_level_name Http_metadata = ''http_metadata''"
| "diff_level_name Raw_hash = ''raw_hash''"
| "diff_level_name Normalized_hash = ''normalized_hash''"
| "diff_level_name Text_hash = ''text_hash''"
| "diff_level_name Structural = ''structural''"

fun robots_mode_name :: "robots_mode \<Rightarrow> string" where
  "robots_mode_name Enforce = ''enforce''"
| "robots_mode_name Ignore = ''ignore''"

fun verdict_name :: "robots_verdict \<Rightarrow> string" where
  "verdict_name Allowed = ''allowed''"
| "verdict_name Disallowed = ''disallowed''"

section \<open>Sites, sources and monitors\<close>

definition serializeFetcherPolicy :: "fetcher_policy \<Rightarrow> json" where
  "serializeFetcherPolicy p =
     JObj [(''allow_list'', jstrings (allowList p)),
       (''order_list'', JArr (map (\<lambda>e. JObj [(''fetcher_id'', JStr (fetcherId e)),
          (''proceed_on'', opt_json (\<lambda>fs. jstrings (map class_name fs)) (proceedOn e))]) (orderList p)))]"

definition serializeSite :: "(ms \<Rightarrow> string) \<Rightarrow> site_row \<Rightarrow> json" where
  "serializeSite stamp r =
     JObj [(''id'', JStr (st_id r)), (''name'', JStr (st_name r)), (''primary_origin'', jstr (st_primaryOrigin r)),
       (''created_at'', JStr (stamp (st_createdAt r))), (''updated_at'', JStr (stamp (st_updatedAt r)))]"

definition serialize_field :: "extract_field \<Rightarrow> json" where
  "serialize_field f =
     JObj ((''name'', JStr (ef_name f)) #
       (case ef_selector f of None \<Rightarrow> [] | Some s \<Rightarrow> [(''selector'', JStr s)]) @
       (case ef_label f of None \<Rightarrow> [] | Some s \<Rightarrow> [(''label'', JStr s)]))"

definition serialize_extract :: "extract_config \<Rightarrow> json" where
  "serialize_extract x =
     JObj [(''item_selector'', JStr (itemSelector x)), (''link_selector'', jstr (linkSelector x)),
       (''title_selector'', jstr (titleSelector x)),
       (''fields'', opt_json (\<lambda>fs. JArr (map serialize_field fs)) (ex_fields x))]"

definition serialize_rule :: "classify_rule \<Rightarrow> json" where
  "serialize_rule q =
     JObj [(''tag'', JStr (cr_tag q)),
       (''match'', JObj [(''field'', JStr (cr_field q)), (''pattern'', JStr (cr_pattern q)), (''flags'', jstr (cr_flags q))])]"

definition serialize_classify :: "classify_config \<Rightarrow> json" where
  "serialize_classify cl =
     JObj [(''rules'', JArr (map serialize_rule (cl_rules cl))), (''default_tag'', jstr (cl_defaultTag cl)),
       (''labels'', opt_json (\<lambda>l. JObj [(''groups'', opt_json jpairs (lb_groups l)), (''tags'', opt_json jpairs (lb_tags l))])
          (cl_labels cl))]"

definition serialize_config :: "source_config \<Rightarrow> json" where
  "serialize_config x =
     JObj [(''sitemap_mode'', opt_json (\<lambda>m. JStr (if m = Direct then ''direct'' else ''traverse'')) (sitemapMode x)),
       (''lastmod_max_age_days'', opt_json jint (lastmodMaxAgeDays x)), (''max_depth'', opt_json jint (maxDepth x)),
       (''child_include_patterns'', opt_json jstrings (childIncludePatterns x)),
       (''page_mode'', opt_json (\<lambda>m. JStr (if m = Content then ''content'' else ''extract'')) (pageMode x)),
       (''extract'', opt_json serialize_extract (sc_extract x)),
       (''ignore_selectors'', opt_json jstrings (ignoreSelectors x)),
       (''include_selectors'', opt_json jstrings (includeSelectors x)),
       (''strip_query_params'', opt_json jstrings (stripQueryParams x)),
       (''classify'', opt_json serialize_classify (sc_classify x))]"

definition serializeSource :: "(ms \<Rightarrow> string) \<Rightarrow> source_row \<Rightarrow> json" where
  "serializeSource stamp r =
     JObj [(''id'', JStr (src_id r)), (''site_id'', JStr (src_siteId r)),
       (''type'', JStr (source_type_name (src_type r))), (''url'', JStr (src_url r)),
       (''config'', opt_json serialize_config (src_config r)),
       (''pipeline'', JArr (map (\<lambda>i. JObj [(''id'', JStr i)]) (describePipeline r))),
       (''created_at'', JStr (stamp (src_createdAt r))), (''updated_at'', JStr (stamp (src_updatedAt r)))]"

definition serializeRobotsEvaluation :: "(ms \<Rightarrow> string) \<Rightarrow> robots_evaluation_row \<Rightarrow> json" where
  "serializeRobotsEvaluation stamp r =
     JObj [(''id'', JStr (rv_id r)), (''origin'', JStr (rv_origin r)), (''verdict'', JStr (verdict_name (rv_verdict r))),
       (''robots_url'', JStr (rv_robotsUrl r)), (''checked_at'', JStr (stamp (rv_checkedAt r))),
       (''user_agent_group'', JStr (rv_userAgentGroup r)), (''matched_rule'', jstr (rv_matchedRule r)),
       (''unavailable'', JBool (rv_unavailable r)), (''robots_would_block'', JBool (rv_wouldBlock r)),
       (''robots_hash'', jstr (rv_hash r)), (''created_at'', JStr (stamp (rv_createdAt r)))]"

definition serializeMonitor :: "(ms \<Rightarrow> string) \<Rightarrow> monitor_row \<Rightarrow> robots_evaluation_row option \<Rightarrow> json" where
  "serializeMonitor stamp r ev =
     JObj [(''id'', JStr (mon_id r)), (''site_id'', JStr (mon_siteId r)), (''source_id'', JStr (mon_sourceId r)),
       (''status'', JStr (monitor_status_name (mon_status r))), (''stop_reason'', jstr (stopReason r)),
       (''robots_evaluation_id'', jstr (robotsEvaluationId r)),
       (''robots_evaluation'', opt_json (serializeRobotsEvaluation stamp) ev),
       (''interval_seconds'', jint (intervalSeconds r)),
       (''next_run_at'', opt_json (\<lambda>t. JStr (stamp t)) (mon_nextRunAt r)),
       (''last_checked_at'', opt_json (\<lambda>t. JStr (stamp t)) (mon_lastCheckedAt r)),
       (''created_at'', JStr (stamp (mon_createdAt r))), (''updated_at'', JStr (stamp (mon_updatedAt r)))]"

section \<open>Jobs, attempts, snapshots and changes\<close>

definition serializeCheckJob :: "(ms \<Rightarrow> string) \<Rightarrow> check_job_row \<Rightarrow> json" where
  "serializeCheckJob stamp r =
     JObj [(''id'', JStr (cj_id r)), (''monitor_id'', JStr (cj_monitorId r)),
       (''scheduled_for'', JStr (stamp (scheduledFor r))), (''status'', JStr (job_status_name (cj_status r))),
       (''trigger'', JStr (job_trigger_name (trigger r))),
       (''started_at'', opt_json (\<lambda>t. JStr (stamp t)) (cj_startedAt r)),
       (''finished_at'', opt_json (\<lambda>t. JStr (stamp t)) (cj_finishedAt r)),
       (''created_at'', JStr (stamp (cj_createdAt r)))]"

definition serializeCheckAttempt :: "(ms \<Rightarrow> string) \<Rightarrow> check_attempt_row \<Rightarrow> json" where
  "serializeCheckAttempt stamp r =
     JObj [(''id'', JStr (at_id r)), (''check_job_id'', JStr (at_checkJobId r)), (''target_id'', JStr (at_targetId r)),
       (''fetcher_id'', JStr (at_fetcherId r)), (''attempt_index'', jint (int (attemptIndex r))),
       (''outcome'', JStr (if at_outcome r = Attempt_success then ''success'' else ''failure'')),
       (''failure_class'', opt_json (\<lambda>f. JStr (class_name f)) (at_failureClass r)),
       (''status_code'', opt_json jint (statusCode r)), (''duration_ms'', opt_json jint (at_durationMs r)),
       (''snapshot_id'', jstr (at_snapshotId r)), (''error_message'', jstr (errorMessage r)),
       (''executor_job_id'', jstr (executorJobId r)), (''started_at'', JStr (stamp (at_startedAt r))),
       (''finished_at'', opt_json (\<lambda>t. JStr (stamp t)) (at_finishedAt r)), (''created_at'', JStr (stamp (at_createdAt r)))]"

definition serializeSnapshot :: "(ms \<Rightarrow> string) \<Rightarrow> snapshot_row \<Rightarrow> json" where
  "serializeSnapshot stamp r =
     JObj [(''id'', JStr (sn_id r)), (''monitor_id'', JStr (sn_monitorId r)), (''target_id'', JStr (sn_targetId r)),
       (''check_attempt_id'', jstr (checkAttemptId r)), (''fetched_at'', JStr (stamp (sn_fetchedAt r))),
       (''http_status'', opt_json jint (httpStatus r)), (''content_type'', jstr (sn_contentType r)),
       (''etag'', jstr (sn_etag r)), (''last_modified'', jstr (sn_lastModified r)), (''body_hash'', jstr (bodyHash r)),
       (''normalized_hash'', jstr (sn_normalizedHash r)), (''text_hash'', jstr (sn_textHash r)),
       (''normalization_version'', opt_json jint (sn_normalizationVersion r)),
       (''has_body'', JBool (r2Key r \<noteq> None)), (''has_normalized_body'', JBool (normalizedR2Key r \<noteq> None)),
       (''created_at'', JStr (stamp (sn_createdAt r)))]"

definition serializeChange :: "(ms \<Rightarrow> string) \<Rightarrow> change_row \<Rightarrow> json" where
  "serializeChange stamp r =
     JObj [(''id'', JStr (ch_id r)), (''monitor_id'', JStr (ch_monitorId r)), (''target_id'', jstr (ch_targetId r)),
       (''target_url'', JStr (ch_targetUrl r)), (''kind'', JStr (change_kind_name (ch_kind r))),
       (''diff_level'', opt_json (\<lambda>l. JStr (diff_level_name l)) (diffLevel r)), (''dedupe_key'', JStr (dedupeKey r)),
       (''previous_snapshot_id'', jstr (previousSnapshotId r)), (''snapshot_id'', jstr (ch_snapshotId r)),
       (''has_diff'', JBool (diffR2Key r \<noteq> None)), (''diff_preview'', jstr (diffPreview r)),
       (''title'', jstr (ch_title r)), (''tags'', opt_json jstrings (ch_tags r)),
       (''detected_at'', JStr (stamp (detectedAt r))), (''created_at'', JStr (stamp (ch_createdAt r)))]"

section \<open>Webhook URLs\<close>

definition url_host :: "web_url \<Rightarrow> string" where
  "url_host u = (if port u = '''' then hostname u else hostname u @ '':'' @ port u)"

definition maskWebhookUrl :: "url_parser \<Rightarrow> string \<Rightarrow> string" where
  "maskWebhookUrl newUrl url =
     (let host = (case newUrl url None of None \<Rightarrow> ''invalid-url'' | Some u \<Rightarrow> url_host u)
      in host @ ''/***'' @ drop (length url - 4) url)"

definition ENC_PREFIX :: string where "ENC_PREFIX = ''enc:v1:''"

definition isEncryptedWebhookUrl :: "string \<Rightarrow> bool" where
  "isEncryptedWebhookUrl stored \<longleftrightarrow> startsWith stored ENC_PREFIX"

text \<open>
  \<open>btoa\<close> and \<open>atob\<close>, the text encoder and decoder, the import of a key, AES-GCM and a fresh
  initialisation vector; \<^const>\<open>None\<close> stands for an exception.
\<close>

record 'k crypto =
  cr_btoa :: "bytes \<Rightarrow> string"
  cr_atob :: "string \<Rightarrow> bytes option"
  cr_encode :: "string \<Rightarrow> bytes"
  cr_decode :: "bytes \<Rightarrow> string"
  cr_key :: "bytes \<Rightarrow> 'k"
  cr_encrypt :: "'k \<Rightarrow> bytes \<Rightarrow> bytes \<Rightarrow> bytes"
  cr_decrypt :: "'k \<Rightarrow> bytes \<Rightarrow> bytes \<Rightarrow> bytes option"

definition importWebhookEncKey :: "'k crypto \<Rightarrow> string \<Rightarrow> 'k option" where
  "importWebhookEncKey cx keyB64 =
     (case cr_atob cx keyB64 of None \<Rightarrow> None | Some raw \<Rightarrow> if length raw \<noteq> 32 then None else Some (cr_key cx raw))"

definition encryptWebhookUrl :: "'k crypto \<Rightarrow> bytes \<Rightarrow> string \<Rightarrow> string \<Rightarrow> string \<Rightarrow> string option" where
  "encryptWebhookUrl cx iv plainUrl masked keyB64 =
     (case importWebhookEncKey cx keyB64 of
        None \<Rightarrow> None
      | Some key \<Rightarrow>
          Some (ENC_PREFIX @ cr_btoa cx (cr_encode cx masked) @ '':'' @ cr_btoa cx iv @ '':'' @
                cr_btoa cx (cr_encrypt cx key iv (cr_encode cx plainUrl))))"

definition decryptWebhookUrl :: "'k crypto \<Rightarrow> string \<Rightarrow> string \<Rightarrow> string option" where
  "decryptWebhookUrl cx stored keyB64 =
     (if \<not> isEncryptedWebhookUrl stored then None
      else (case split_on CHR '':'' (drop (length ENC_PREFIX) stored) of
              [m, ivB64, ctB64] \<Rightarrow>
                (if ivB64 = '''' \<or> ctB64 = '''' then None
                 else (case (importWebhookEncKey cx keyB64, cr_atob cx ivB64, cr_atob cx ctB64) of
                         (Some key, Some iv, Some ct) \<Rightarrow> map_option (cr_decode cx) (cr_decrypt cx key iv ct)
                       | _ \<Rightarrow> None))
            | _ \<Rightarrow> None))"

definition extractMaskedWebhookUrl :: "'k crypto \<Rightarrow> string \<Rightarrow> string option" where
  "extractMaskedWebhookUrl cx stored =
     (if \<not> isEncryptedWebhookUrl stored then None
      else (case hd (split_on CHR '':'' (drop (length ENC_PREFIX) stored)) of
              [] \<Rightarrow> None
            | maskedB64 \<Rightarrow> map_option (cr_decode cx) (cr_atob cx maskedB64)))"

definition webhook_masked :: "'k crypto \<Rightarrow> url_parser \<Rightarrow> destination_row \<Rightarrow> string option option" where
  "webhook_masked cx newUrl r =
     (if webhookUrl r = '''' then Some None
      else if isEncryptedWebhookUrl (webhookUrl r) then map_option Some (extractMaskedWebhookUrl cx (webhookUrl r))
      else Some (Some (maskWebhookUrl newUrl (webhookUrl r))))"

text \<open>\<^const>\<open>None\<close> when the stored URL is malformed, which throws.\<close>

definition serializeDestination :: "'k crypto \<Rightarrow> url_parser \<Rightarrow> (ms \<Rightarrow> string) \<Rightarrow> destination_row \<Rightarrow> json option" where
  "serializeDestination cx newUrl stamp r =
     map_option (\<lambda>masked.
       JObj [(''id'', JStr (ds_id r)), (''name'', JStr (ds_name r)), (''webhook_url_masked'', jstr masked),
         (''enabled'', JBool (enabled r)), (''archived_at'', opt_json (\<lambda>t. JStr (stamp t)) (archivedAt r)),
         (''thread_id'', jstr (threadId r)), (''created_at'', JStr (stamp (ds_createdAt r))),
         (''updated_at'', JStr (stamp (ds_updatedAt r)))]) (webhook_masked cx newUrl r)"

section \<open>The rest\<close>

definition serializeSubscription :: "(ms \<Rightarrow> string) \<Rightarrow> subscription_row \<Rightarrow> json" where
  "serializeSubscription stamp r =
     JObj [(''id'', JStr (su_id r)), (''destination_id'', JStr (su_destinationId r)), (''site_id'', jstr (su_siteId r)),
       (''monitor_id'', jstr (su_monitorId r)), (''tag'', jstr (su_tag r)),
       (''kind'', opt_json (\<lambda>k. JStr (change_kind_name k)) (su_changeKind r)),
       (''created_at'', JStr (stamp (su_createdAt r))), (''updated_at'', JStr (stamp (su_updatedAt r)))]"

definition serializeRobotsPolicy :: "(ms \<Rightarrow> string) \<Rightarrow> robots_policy_row \<Rightarrow> json" where
  "serializeRobotsPolicy stamp r =
     JObj [(''id'', JStr (rp_id r)), (''site_id'', JStr (rp_siteId r)),
       (''canonical_origin'', JStr (rp_canonicalOrigin r)), (''mode'', JStr (robots_mode_name (rp_mode r))),
       (''reason'', jstr (rp_reason r)), (''updated_by'', jstr (rp_updatedBy r)),
       (''warning'', JBool (rp_mode r = Ignore)), (''created_at'', JStr (stamp (rp_createdAt r))),
       (''updated_at'', JStr (stamp (rp_updatedAt r)))]"

definition serializeAuditEvent :: "(ms \<Rightarrow> string) \<Rightarrow> audit_event_row \<Rightarrow> json" where
  "serializeAuditEvent stamp r =
     JObj [(''id'', JStr (au_id r)), (''actor'', JStr (actor r)), (''action'', JStr (au_action r)),
       (''subject'', JStr (subject r)), (''reason'', jstr (au_reason r)), (''payload'', opt_json (\<lambda>v. v) (au_payload r)),
       (''created_at'', JStr (stamp (au_createdAt r)))]"

section \<open>A stored webhook URL\<close>

text \<open>The documented behaviour of the codecs and of AES-GCM with its 16 byte tag.\<close>

definition codec_laws :: "'k crypto \<Rightarrow> bool" where
  "codec_laws cx \<longleftrightarrow>
     (\<forall>b. cr_atob cx (cr_btoa cx b) = Some b) \<and> (\<forall>b. CHR '':'' \<notin> set (cr_btoa cx b)) \<and>
     (\<forall>b. b \<noteq> [] \<longrightarrow> cr_btoa cx b \<noteq> '''') \<and> (\<forall>t. cr_decode cx (cr_encode cx t) = t) \<and>
     (\<forall>t. t \<noteq> '''' \<longrightarrow> cr_encode cx t \<noteq> []) \<and>
     (\<forall>k iv p. cr_decrypt cx k iv (cr_encrypt cx k iv p) = Some p \<and> cr_encrypt cx k iv p \<noteq> [])"

lemma starts_append [simp]: "startsWith (p @ t) p"
  by (simp add: startsWith_def)

lemma split_three_parts:
  assumes "c \<notin> set x" "c \<notin> set y" "c \<notin> set z"
  shows "split_on c (x @ [c] @ y @ [c] @ z) = [x, y, z]"
  using assms by (simp add: split_on_append split_on_none)

lemma mask_nonempty: "maskWebhookUrl newUrl url \<noteq> ''''"
  by (simp add: maskWebhookUrl_def Let_def)


text \<open>A concrete codec: characters as bytes, the colon and the backslash escaped.\<close>

fun escape_bytes :: "bytes \<Rightarrow> string" where
  "escape_bytes [] = ''''"
| "escape_bytes (b # bs) =
     (if b = 58 then CHR 0x5C # CHR ''0'' # escape_bytes bs
      else if b = 92 then CHR 0x5C # CHR ''1'' # escape_bytes bs
      else char_of (unat b) # escape_bytes bs)"

fun unescape_bytes :: "string \<Rightarrow> bytes" where
  "unescape_bytes [] = []"
| "unescape_bytes (c # cs) =
     (if c = CHR 0x5C then
        (case cs of [] \<Rightarrow> [] | d # ds \<Rightarrow> (if d = CHR ''0'' then 58 else 92) # unescape_bytes ds)
      else word_of_nat (of_char c) # unescape_bytes cs)"

lemma byte_less: "unat (b :: 8 word) < 256"
  using unsigned_less [of b, where ?'a = nat] by simp

lemma byte_char: "word_of_nat (of_char (char_of (unat b) :: char)) = (b :: 8 word)"
  using byte_less [of b] by simp

lemma char_byte: "char_of (unat (word_of_nat (of_char c) :: 8 word)) = (c :: char)"
  by (simp add: unsigned_of_nat take_bit_eq_mod)

lemma byte_of_char: "char_of (unat (b :: 8 word)) = (c :: char) \<longleftrightarrow> b = word_of_nat (of_char c)"
  using byte_char [of b] char_byte [of c] by auto

lemma escape_no_colon: "CHR '':'' \<notin> set (escape_bytes bs)"
  by (induction bs) (auto simp: byte_of_char dest!: sym [of "CHR '':''"])

lemma unescape_escape: "unescape_bytes (escape_bytes bs) = bs"
  by (induction bs) (simp_all add: byte_of_char byte_char del: char_of_mod_256 of_char_of)

definition demo_crypto :: "unit crypto" where
  "demo_crypto = \<lparr>cr_btoa = escape_bytes, cr_atob = (\<lambda>s. Some (unescape_bytes s)),
     cr_encode = map (\<lambda>c. word_of_nat (of_char c)), cr_decode = map (\<lambda>b. char_of (unat b)), cr_key = (\<lambda>b. ()),
     cr_encrypt = (\<lambda>k iv p. 0 # p), cr_decrypt = (\<lambda>k iv c. Some (tl c))\<rparr>"

lemma demo_codec: "codec_laws demo_crypto"
proof -
  have "escape_bytes b \<noteq> ''''" if "b \<noteq> []" for b
    using that by (cases b) auto
  then show ?thesis
    by (simp add: codec_laws_def demo_crypto_def unescape_escape escape_no_colon char_byte comp_def)
qed

definition demo_key :: string where "demo_key = replicate 32 CHR ''A''"

lemma demo_key_ok: "importWebhookEncKey demo_crypto demo_key = Some ()"
  by (simp add: importWebhookEncKey_def demo_crypto_def demo_key_def numeral_eq_Suc)


end
