(* ===== verification/Api_Sources.thy ===== *)
theory Api_Sources
  imports Api_State Api_Serialize
begin

text \<open>
  The routes of sources (src/api/routes/sources.ts): the bounds of a configuration, its validation for
  the type of the source, the SSRF checks of a new URL, and the five handlers.
\<close>

section \<open>The request\<close>

record extract_input =
  xi_item_selector :: string
  xi_link_selector :: "string option"
  xi_title_selector :: "string option"
  xi_fields :: "extract_field list option"

record classify_input =
  ci_rules :: "classify_rule list"
  ci_default_tag :: "string option"
  ci_labels :: "classify_labels option"

record source_config_input =
  si_sitemap_mode :: "sitemap_mode option"
  si_lastmod_max_age_days :: "int option"
  si_max_depth :: "int option"
  si_child_include_patterns :: "string list option"
  si_page_mode :: "page_mode option"
  si_extract :: "extract_input option"
  si_ignore_selectors :: "string list option"
  si_include_selectors :: "string list option"
  si_strip_query_params :: "string list option"
  si_classify :: "classify_input option"

record create_source_body =
  cb_site_id :: string
  cb_type :: source_type
  cb_url :: string
  cb_config :: "source_config_input option"

section \<open>The bounds the schemas declare\<close>

definition tag_char :: "char \<Rightarrow> bool" where
  "tag_char ch \<longleftrightarrow> is_digit ch \<or> (97 \<le> code ch \<and> code ch \<le> 122)"

definition TAG_PATTERN :: "string \<Rightarrow> bool" where
  "TAG_PATTERN t \<longleftrightarrow>
     (case t of [] \<Rightarrow> False
      | ch # rest \<Rightarrow> tag_char ch \<and> length rest \<le> 63 \<and>
          list_all (\<lambda>x. tag_char x \<or> x = CHR '':'' \<or> x = CHR ''_'' \<or> x = CHR ''-'') rest)"

definition sized :: "nat \<Rightarrow> nat \<Rightarrow> 'a list \<Rightarrow> bool" where
  "sized lo hi xs \<longleftrightarrow> lo \<le> length xs \<and> length xs \<le> hi"

definition nonempty :: "string \<Rightarrow> bool" where "nonempty t \<longleftrightarrow> t \<noteq> ''''"

definition optional :: "('a \<Rightarrow> bool) \<Rightarrow> 'a option \<Rightarrow> bool" where
  "optional P x = (case x of None \<Rightarrow> True | Some y \<Rightarrow> P y)"

definition extractFieldSchema :: "extract_field \<Rightarrow> bool" where
  "extractFieldSchema f \<longleftrightarrow>
     sized 1 50 (ef_name f) \<and> optional nonempty (ef_selector f) \<and> optional nonempty (ef_label f)"

definition extractConfigSchema :: "extract_input \<Rightarrow> bool" where
  "extractConfigSchema x \<longleftrightarrow>
     nonempty (xi_item_selector x) \<and> optional nonempty (xi_link_selector x) \<and> optional nonempty (xi_title_selector x) \<and>
     optional (\<lambda>fs. length fs \<le> 12 \<and> list_all extractFieldSchema fs) (xi_fields x)"

definition classifyRuleSchema :: "classify_rule \<Rightarrow> bool" where
  "classifyRuleSchema q \<longleftrightarrow>
     TAG_PATTERN (cr_tag q) \<and> sized 1 50 (cr_field q) \<and> sized 1 200 (cr_pattern q) \<and> optional (\<lambda>f. f = ''i'') (cr_flags q)"

definition classifyConfigSchema :: "classify_input \<Rightarrow> bool" where
  "classifyConfigSchema cl \<longleftrightarrow>
     sized 1 20 (ci_rules cl) \<and> list_all classifyRuleSchema (ci_rules cl) \<and> optional TAG_PATTERN (ci_default_tag cl)"

definition sourceConfigShape :: "source_config_input \<Rightarrow> bool" where
  "sourceConfigShape x \<longleftrightarrow>
     optional (\<lambda>n. 1 \<le> n \<and> n \<le> 30) (si_lastmod_max_age_days x) \<and>
     optional (\<lambda>n. 1 \<le> n \<and> n \<le> 5) (si_max_depth x) \<and>
     optional (\<lambda>ps. sized 1 10 ps \<and> list_all (sized 1 200) ps) (si_child_include_patterns x) \<and>
     optional extractConfigSchema (si_extract x) \<and>
     optional (list_all nonempty) (si_ignore_selectors x) \<and> optional (list_all nonempty) (si_include_selectors x) \<and>
     optional (list_all nonempty) (si_strip_query_params x) \<and> optional classifyConfigSchema (si_classify x)"

definition createSourceSchema :: "create_source_body \<Rightarrow> bool" where
  "createSourceSchema b \<longleftrightarrow> nonempty (cb_site_id b) \<and> nonempty (cb_url b) \<and> optional sourceConfigShape (cb_config b)"

section \<open>Validation for the type of the source\<close>

definition SITEMAP_ONLY_CONFIG_KEYS :: "string list" where
  "SITEMAP_ONLY_CONFIG_KEYS = [''sitemap_mode'', ''lastmod_max_age_days'', ''max_depth'', ''child_include_patterns'']"

definition PAGE_ONLY_CONFIG_KEYS :: "string list" where
  "PAGE_ONLY_CONFIG_KEYS = [''page_mode'', ''extract'', ''ignore_selectors'', ''include_selectors'', ''strip_query_params'']"

text \<open>\<open>Object.keys\<close> of the parsed configuration.\<close>

definition config_keys :: "source_config_input \<Rightarrow> string list" where
  "config_keys x =
     map fst (filter snd
       [(''sitemap_mode'', si_sitemap_mode x \<noteq> None), (''lastmod_max_age_days'', si_lastmod_max_age_days x \<noteq> None),
        (''max_depth'', si_max_depth x \<noteq> None), (''child_include_patterns'', si_child_include_patterns x \<noteq> None),
        (''page_mode'', si_page_mode x \<noteq> None), (''extract'', si_extract x \<noteq> None),
        (''ignore_selectors'', si_ignore_selectors x \<noteq> None), (''include_selectors'', si_include_selectors x \<noteq> None),
        (''strip_query_params'', si_strip_query_params x \<noteq> None), (''classify'', si_classify x \<noteq> None)])"

definition findConfigNotApplicableKeys :: "source_config_input \<Rightarrow> string list \<Rightarrow> string list" where
  "findConfigNotApplicableKeys x allowedKeys = filter (\<lambda>k. k \<notin> set allowedKeys) (config_keys x)"

text \<open>The first of the checks that fails.\<close>

fun first_error :: "(bool \<times> string) list \<Rightarrow> raised option" where
  "first_error [] = None"
| "first_error ((bad, errorCode) # es) = (if bad then Some (badRequest errorCode) else first_error es)"

definition type_checks :: "source_type \<Rightarrow> source_config_input \<Rightarrow> (bool \<times> string) list" where
  "type_checks ty x =
     (case ty of
        Page \<Rightarrow>
          [(findConfigNotApplicableKeys x (PAGE_ONLY_CONFIG_KEYS @ [''classify'']) \<noteq> [], ''config_not_applicable''),
           (si_classify x \<noteq> None \<and> si_page_mode x \<noteq> Some Extract, ''config_not_applicable'')]
      | Rss \<Rightarrow> [(findConfigNotApplicableKeys x [''classify''] \<noteq> [], ''config_not_applicable'')]
      | Atom \<Rightarrow> [(findConfigNotApplicableKeys x [''classify''] \<noteq> [], ''config_not_applicable'')]
      | _ \<Rightarrow>
          [(findConfigNotApplicableKeys x (SITEMAP_ONLY_CONFIG_KEYS @ [''classify'']) \<noteq> [], ''config_not_applicable''),
           (si_classify x \<noteq> None \<and> si_sitemap_mode x \<noteq> Some Traverse, ''config_not_applicable'')])"

definition field_checks :: "(string \<Rightarrow> bool) \<Rightarrow> extract_field \<Rightarrow> (bool \<times> string) list" where
  "field_checks isValidRewriterSelector f =
     [((ef_selector f \<noteq> None) = (ef_label f \<noteq> None), ''invalid_field''),
      (\<not> optional isValidRewriterSelector (ef_selector f), ''invalid_selector'')]"

definition extract_checks :: "(string \<Rightarrow> bool) \<Rightarrow> extract_input \<Rightarrow> (bool \<times> string) list" where
  "extract_checks isValidRewriterSelector x =
     [(\<not> isValidRewriterSelector (xi_item_selector x), ''invalid_selector''),
      (\<not> optional isValidRewriterSelector (xi_link_selector x), ''invalid_selector''),
      (\<not> optional isValidRewriterSelector (xi_title_selector x), ''invalid_selector'')] @
     concat (map (field_checks isValidRewriterSelector) (orElse (xi_fields x) []))"

definition label_group :: "string \<Rightarrow> bool" where
  "label_group k \<longleftrightarrow> sized 1 64 k \<and> list_all (\<lambda>x. tag_char x \<or> x = CHR ''_'' \<or> x = CHR ''-'') k"

definition label_checks :: "classify_labels \<Rightarrow> (bool \<times> string) list" where
  "label_checks l =
     (case lb_groups l of None \<Rightarrow> []
      | Some gs \<Rightarrow> (length gs > 20, ''invalid_classify'') #
          concat (map (\<lambda>(k, h). [(\<not> label_group k, ''invalid_classify''), (\<not> sized 1 20 h, ''invalid_classify'')]) gs)) @
     (case lb_tags l of None \<Rightarrow> []
      | Some ts \<Rightarrow> (length ts > 50, ''invalid_classify'') #
          concat (map (\<lambda>(k, h). [(\<not> TAG_PATTERN k, ''invalid_classify''), (\<not> sized 1 40 h, ''invalid_classify'')]) ts))"

definition classify_checks :: "(string \<Rightarrow> string \<Rightarrow> bool) \<Rightarrow> classify_input \<Rightarrow> (bool \<times> string) list" where
  "classify_checks compiles cl =
     map (\<lambda>q. (\<not> compiles (cr_pattern q) (orElse (cr_flags q) ''''), ''invalid_classify'')) (ci_rules cl) @
     (case ci_labels cl of None \<Rightarrow> [] | Some l \<Rightarrow> label_checks l)"

definition validateSourceConfig ::
  "(string \<Rightarrow> bool) \<Rightarrow> (string \<Rightarrow> string \<Rightarrow> bool) \<Rightarrow> source_type \<Rightarrow> source_config_input option \<Rightarrow> raised option" where
  "validateSourceConfig isValidRewriterSelector compiles ty cfg =
     (case cfg of
        None \<Rightarrow> None
      | Some x \<Rightarrow>
          first_error
            (type_checks ty x @
             [(ty = Page \<and> si_page_mode x = Some Extract \<and>
               Option.bind (map_option xi_item_selector (si_extract x)) (\<lambda>t. truthy (Some t)) = None, ''invalid_selector'')] @
             (case si_extract x of None \<Rightarrow> [] | Some e \<Rightarrow> extract_checks isValidRewriterSelector e) @
             (case si_classify x of None \<Rightarrow> [] | Some cl \<Rightarrow> classify_checks compiles cl)))"

section \<open>The stored configuration\<close>

definition to_extract :: "extract_input \<Rightarrow> extract_config" where
  "to_extract x = \<lparr>itemSelector = xi_item_selector x, linkSelector = xi_link_selector x,
     titleSelector = xi_title_selector x, ex_fields = xi_fields x\<rparr>"

definition to_classify :: "classify_input \<Rightarrow> classify_config" where
  "to_classify cl = \<lparr>cl_rules = ci_rules cl, cl_defaultTag = ci_default_tag cl, cl_labels = ci_labels cl\<rparr>"

definition toSourceConfig :: "source_config_input option \<Rightarrow> source_config option" where
  "toSourceConfig = map_option (\<lambda>x.
     \<lparr>sitemapMode = si_sitemap_mode x, lastmodMaxAgeDays = si_lastmod_max_age_days x, maxDepth = si_max_depth x,
      childIncludePatterns = si_child_include_patterns x, ignoreSelectors = si_ignore_selectors x,
      includeSelectors = si_include_selectors x, stripQueryParams = si_strip_query_params x,
      pageMode = si_page_mode x, sc_extract = map_option to_extract (si_extract x),
      sc_classify = map_option to_classify (si_classify x)\<rparr>)"

text \<open>The value the database keeps, whose absent keys are absent.\<close>

definition json_key :: "string \<Rightarrow> ('a \<Rightarrow> json) \<Rightarrow> 'a option \<Rightarrow> (string \<times> json) list" where
  "json_key k f x = (case x of None \<Rightarrow> [] | Some y \<Rightarrow> [(k, f y)])"

definition extract_json :: "extract_config \<Rightarrow> json" where
  "extract_json x =
     JObj ([(''itemSelector'', JStr (itemSelector x))] @ json_key ''linkSelector'' JStr (linkSelector x) @
       json_key ''titleSelector'' JStr (titleSelector x) @
       json_key ''fields'' (\<lambda>fs. JArr (map serialize_field fs)) (ex_fields x))"

definition rule_json :: "classify_rule \<Rightarrow> json" where
  "rule_json q =
     JObj [(''tag'', JStr (cr_tag q)),
       (''match'', JObj ([(''field'', JStr (cr_field q)), (''pattern'', JStr (cr_pattern q))] @
          json_key ''flags'' JStr (cr_flags q)))]"

definition classify_json :: "classify_config \<Rightarrow> json" where
  "classify_json cl =
     JObj ([(''rules'', JArr (map rule_json (cl_rules cl)))] @ json_key ''defaultTag'' JStr (cl_defaultTag cl) @
       json_key ''labels'' (\<lambda>l. JObj (json_key ''groups'' jpairs (lb_groups l) @ json_key ''tags'' jpairs (lb_tags l)))
         (cl_labels cl))"

definition config_json :: "source_config \<Rightarrow> json" where
  "config_json x =
     JObj (json_key ''sitemapMode'' (\<lambda>m. JStr (if m = Direct then ''direct'' else ''traverse'')) (sitemapMode x) @
       json_key ''lastmodMaxAgeDays'' jint (lastmodMaxAgeDays x) @ json_key ''maxDepth'' jint (maxDepth x) @
       json_key ''childIncludePatterns'' jstrings (childIncludePatterns x) @
       json_key ''pageMode'' (\<lambda>m. JStr (if m = Content then ''content'' else ''extract'')) (pageMode x) @
       json_key ''extract'' extract_json (sc_extract x) @ json_key ''ignoreSelectors'' jstrings (ignoreSelectors x) @
       json_key ''includeSelectors'' jstrings (includeSelectors x) @
       json_key ''stripQueryParams'' jstrings (stripQueryParams x) @ json_key ''classify'' classify_json (sc_classify x))"

section \<open>Handlers\<close>

text \<open>The schemas of the two bodies, as far as types and unknown keys go.\<close>

record source_shapes =
  sh_createSource :: "json \<Rightarrow> create_source_body option"
  sh_updateSource :: "json \<Rightarrow> source_config_input option"

definition api_compiles :: "'n api \<Rightarrow> string \<Rightarrow> string \<Rightarrow> bool" where
  "api_compiles v p f \<longleftrightarrow> cc_regex (ai_ctx v) p f \<noteq> None"

definition validated :: "'n api \<Rightarrow> source_type \<Rightarrow> source_config_input option \<Rightarrow> raised + unit" where
  "validated v ty cfg =
     (case validateSourceConfig (ai_selector v) (api_compiles v) ty cfg of None \<Rightarrow> Inr () | Some e \<Rightarrow> Inl e)"

definition api_resolve :: "'n api \<Rightarrow> 'n app \<Rightarrow> string \<Rightarrow> string list option" where
  "api_resolve v a = cc_resolve (ai_ctx v) (net_of (ap_check a))"

definition post_source :: "'n api \<Rightarrow> source_shapes \<Rightarrow> request \<Rightarrow> 'n app handler" where
  "post_source v sh rq =
     chain (checked (read_body (ai_parse v) (sh_createSource sh) createSourceSchema rq)) (\<lambda>body.
     chain (require (\<lambda>a. getSite (app_db a) (cb_site_id body)) (notFound ''site_not_found'')) (\<lambda>site.
     chain (reject_if (\<lambda>a. \<not> allowed (checkUrlForSsrf (api_url v) (cb_url body))) (badRequest ''ssrf_blocked'')) (\<lambda>_.
     chain (reject_if (\<lambda>a. \<not> allowed (resolveAndCheck (api_url v) (api_resolve v a) (cb_url body)))
       (badRequest ''ssrf_blocked'')) (\<lambda>_.
     chain (checked (validated v (cb_type body) (cb_config body))) (\<lambda>_.
     chain (stores v (\<lambda>u now. createSource u now None (cb_site_id body) (cb_type body) (cb_url body)
       (toSourceConfig (cb_config body)))) (\<lambda>created.
     gives (json_response 201 (serializeSource (ai_stamp v) created))))))))"

definition patch_source :: "'n api \<Rightarrow> source_shapes \<Rightarrow> string \<Rightarrow> request \<Rightarrow> 'n app handler" where
  "patch_source v sh i rq =
     chain (require (\<lambda>a. getSource (app_db a) i) (notFound ''source_not_found'')) (\<lambda>source.
     chain (checked (read_body (ai_parse v) (sh_updateSource sh) sourceConfigShape rq)) (\<lambda>body.
     chain (checked (validated v (src_type source) (Some body))) (\<lambda>_.
     chain (alters v (\<lambda>now. updateSourceConfig now i (toSourceConfig (Some body)))) (\<lambda>result.
     chain (require (\<lambda>a. result) (notFound ''source_not_found'')) (\<lambda>updated.
     chain (audits v ''source.update_config'' i None
       (Some (JObj [(''before'', opt_json config_json (src_config source)),
                    (''after'', opt_json config_json (toSourceConfig (Some body)))]))) (\<lambda>_.
     gives (json_response 200 (serializeSource (ai_stamp v) updated))))))))"

definition get_source :: "'n api \<Rightarrow> string \<Rightarrow> 'n app handler" where
  "get_source v i =
     chain (require (\<lambda>a. getSource (app_db a) i) (notFound ''source_not_found'')) (\<lambda>source.
     gives (json_response 200 (serializeSource (ai_stamp v) source)))"

definition listing :: "json list \<Rightarrow> nat \<Rightarrow> response" where
  "listing items n = json_response 200 (JObj [(''items'', JArr items), (''total'', jint (int n))])"

definition list_sources :: "'n api \<Rightarrow> request \<Rightarrow> 'n app handler" where
  "list_sources v rq =
     chain (require (\<lambda>a. truthy (rq_query rq ''site_id'')) (badRequest ''site_id_required'')) (\<lambda>siteId.
     chain (require (\<lambda>a. getSite (app_db a) siteId) (notFound ''site_not_found'')) (\<lambda>site.
     chain (checked (parsePagination (ai_number v) rq)) (\<lambda>pg.
     chain (reads (\<lambda>a. listSourcesBySite (app_db a) siteId (window_of pg))) (\<lambda>found.
     chain (reads (\<lambda>a. countSourcesBySite (app_db a) siteId)) (\<lambda>n.
     gives (listing (map (serializeSource (ai_stamp v)) found) n))))))"

definition deleted_response :: response where
  "deleted_response = json_response 200 (JObj [(''deleted'', JBool True)])"

definition delete_source :: "'n api \<Rightarrow> string \<Rightarrow> 'n app handler" where
  "delete_source v i =
     chain (require (\<lambda>a. getSource (app_db a) i) (notFound ''source_not_found'')) (\<lambda>source.
     chain (reject_if (\<lambda>a. countMonitorsBySource (app_db a) i > 0) (conflict ''source_has_monitors'')) (\<lambda>_.
     chain (alters v (\<lambda>now. deleteSource i)) (\<lambda>_.
     chain (audits v ''source.delete'' i None (Some (JObj [(''siteId'', JStr (src_siteId source))]))) (\<lambda>_.
     gives deleted_response))))"

definition sourcesRoutes :: "'n api \<Rightarrow> source_shapes \<Rightarrow> 'n route list" where
  "sourcesRoutes v sh = mounted ''sources''
     [(''POST'', [], \<lambda>ids rq. post_source v sh rq),
      (''PATCH'', ['':id''], \<lambda>ids rq. patch_source v sh (hd ids) rq),
      (''GET'', ['':id''], \<lambda>ids rq. get_source v (hd ids)),
      (''GET'', [], \<lambda>ids rq. list_sources v rq),
      (''DELETE'', ['':id''], \<lambda>ids rq. delete_source v (hd ids))]"

section \<open>What a stored configuration is\<close>

text \<open>A configuration the pipeline can use for a source of type \<open>ty\<close>.\<close>

definition config_suits :: "'n api \<Rightarrow> source_type \<Rightarrow> source_config \<Rightarrow> bool" where
  "config_suits v ty x \<longleftrightarrow>
     (ty \<in> {Page, Rss, Atom} \<longrightarrow>
        sitemapMode x = None \<and> lastmodMaxAgeDays x = None \<and> maxDepth x = None \<and> childIncludePatterns x = None) \<and>
     (ty \<noteq> Page \<longrightarrow>
        pageMode x = None \<and> sc_extract x = None \<and> ignoreSelectors x = None \<and> includeSelectors x = None \<and>
        stripQueryParams x = None) \<and>
     (ty = Page \<and> pageMode x = Some Extract \<longrightarrow> sc_extract x \<noteq> None) \<and>
     (sc_classify x \<noteq> None \<longrightarrow> (ty = Page \<longrightarrow> pageMode x = Some Extract) \<and>
        (ty \<in> {Sitemap, Sitemap_index} \<longrightarrow> sitemapMode x = Some Traverse)) \<and>
     optional (\<lambda>n. 1 \<le> n \<and> n \<le> 5) (maxDepth x) \<and> optional (\<lambda>n. 1 \<le> n \<and> n \<le> 30) (lastmodMaxAgeDays x) \<and>
     optional (\<lambda>e. ai_selector v (itemSelector e) \<and> optional (ai_selector v) (linkSelector e) \<and>
        optional (ai_selector v) (titleSelector e) \<and>
        (\<forall>f \<in> set (orElse (ex_fields e) []).
           (ef_selector f = None) \<noteq> (ef_label f = None) \<and> optional (ai_selector v) (ef_selector f))) (sc_extract x) \<and>
     optional (\<lambda>cl. sized 1 20 (cl_rules cl) \<and>
        (\<forall>q \<in> set (cl_rules cl). api_compiles v (cr_pattern q) (orElse (cr_flags q) ''''))) (sc_classify x)"

definition source_valid :: "'n api \<Rightarrow> source_row \<Rightarrow> bool" where
  "source_valid v r \<longleftrightarrow>
     allowed (checkUrlForSsrf (api_url v) (src_url r)) \<and> optional (config_suits v (src_type r)) (src_config r)"

lemma first_error_None: "first_error es = None \<longleftrightarrow> (\<forall>e \<in> set es. \<not> fst e)"
  by (induction es rule: first_error.induct) auto

lemma optional_simps [simp]: "optional P None" "optional P (Some x) = P x"
  by (simp_all add: optional_def)

lemma all_marked: "(\<forall>k \<in> set (map fst (filter snd xs)). P k) \<longleftrightarrow> list_all (\<lambda>e. snd e \<longrightarrow> P (fst e)) xs"
  by (induction xs) auto

lemma not_applicable_none:
  "findConfigNotApplicableKeys x ks = [] \<longleftrightarrow>
    (si_sitemap_mode x \<noteq> None \<longrightarrow> ''sitemap_mode'' \<in> set ks) \<and>
    (si_lastmod_max_age_days x \<noteq> None \<longrightarrow> ''lastmod_max_age_days'' \<in> set ks) \<and>
    (si_max_depth x \<noteq> None \<longrightarrow> ''max_depth'' \<in> set ks) \<and>
    (si_child_include_patterns x \<noteq> None \<longrightarrow> ''child_include_patterns'' \<in> set ks) \<and>
    (si_page_mode x \<noteq> None \<longrightarrow> ''page_mode'' \<in> set ks) \<and> (si_extract x \<noteq> None \<longrightarrow> ''extract'' \<in> set ks) \<and>
    (si_ignore_selectors x \<noteq> None \<longrightarrow> ''ignore_selectors'' \<in> set ks) \<and>
    (si_include_selectors x \<noteq> None \<longrightarrow> ''include_selectors'' \<in> set ks) \<and>
    (si_strip_query_params x \<noteq> None \<longrightarrow> ''strip_query_params'' \<in> set ks) \<and>
    (si_classify x \<noteq> None \<longrightarrow> ''classify'' \<in> set ks)"
  unfolding findConfigNotApplicableKeys_def filter_empty_conv config_keys_def not_not all_marked
  by (simp only: list.pred_inject fst_conv snd_conv simp_thms)

lemma type_checks_suit:
  "\<forall>e \<in> set (type_checks ty x). \<not> fst e \<Longrightarrow>
    (ty \<in> {Page, Rss, Atom} \<longrightarrow>
       si_sitemap_mode x = None \<and> si_lastmod_max_age_days x = None \<and> si_max_depth x = None \<and>
       si_child_include_patterns x = None) \<and>
    (ty \<noteq> Page \<longrightarrow>
       si_page_mode x = None \<and> si_extract x = None \<and> si_ignore_selectors x = None \<and> si_include_selectors x = None \<and>
       si_strip_query_params x = None) \<and>
    (si_classify x \<noteq> None \<longrightarrow> (ty = Page \<longrightarrow> si_page_mode x = Some Extract) \<and>
       (ty \<in> {Sitemap, Sitemap_index} \<longrightarrow> si_sitemap_mode x = Some Traverse))"
  by (cases ty)
    (auto simp: type_checks_def not_applicable_none PAGE_ONLY_CONFIG_KEYS_def SITEMAP_ONLY_CONFIG_KEYS_def)

lemma validated_suits:
  assumes "sourceConfigShape x" "validated v ty (Some x) = Inr ()"
  shows "\<exists>y. toSourceConfig (Some x) = Some y \<and> config_suits v ty y"
proof -
  have checks: "\<forall>e \<in> set (type_checks ty x @
      [(ty = Page \<and> si_page_mode x = Some Extract \<and>
        Option.bind (map_option xi_item_selector (si_extract x)) (\<lambda>t. truthy (Some t)) = None, ''invalid_selector'')] @
      (case si_extract x of None \<Rightarrow> [] | Some e \<Rightarrow> extract_checks (ai_selector v) e) @
      (case si_classify x of None \<Rightarrow> [] | Some cl \<Rightarrow> classify_checks (api_compiles v) cl)). \<not> fst e"
    using assms(2) by (simp add: validated_def validateSourceConfig_def first_error_None split: option.splits)
  then have types: "\<forall>e \<in> set (type_checks ty x). \<not> fst e"
    and selectors: "si_extract x = Some e \<Longrightarrow> \<forall>k \<in> set (extract_checks (ai_selector v) e). \<not> fst k"
    and rules: "si_classify x = Some cl \<Longrightarrow> \<forall>k \<in> set (classify_checks (api_compiles v) cl). \<not> fst k" for e cl
    by (auto split: option.splits)
  have item: "si_extract x \<noteq> None" if "ty = Page" "si_page_mode x = Some Extract"
    using checks that by (cases "si_extract x") simp_all
  have ex: "optional (\<lambda>e. ai_selector v (itemSelector e) \<and> optional (ai_selector v) (linkSelector e) \<and>
      optional (ai_selector v) (titleSelector e) \<and>
      (\<forall>f \<in> set (orElse (ex_fields e) []).
         (ef_selector f = None) \<noteq> (ef_label f = None) \<and> optional (ai_selector v) (ef_selector f)))
      (map_option to_extract (si_extract x))"
    using selectors by (cases "si_extract x") (auto simp: extract_checks_def field_checks_def to_extract_def)
  have classify: "optional (\<lambda>cl. sized 1 20 (cl_rules cl) \<and>
      (\<forall>q \<in> set (cl_rules cl). api_compiles v (cr_pattern q) (orElse (cr_flags q) '''')))
      (map_option to_classify (si_classify x))"
    using rules assms(1)
    by (cases "si_classify x")
      (simp_all add: classify_checks_def to_classify_def sourceConfigShape_def classifyConfigSchema_def ball_Un)
  show ?thesis
    using type_checks_suit [OF types] item ex classify assms(1)
    by (simp add: toSourceConfig_def config_suits_def sourceConfigShape_def)
qed

section \<open>The laws of the statements\<close>

locale source_property = table_property I for I +
  fixes v :: "'n api"
  assumes source_new: "I (p, d) \<Longrightarrow> getSite d site \<noteq> None \<Longrightarrow> allowed (checkUrlForSsrf (api_url v) url) \<Longrightarrow>
      optional (config_suits v ty) cfg \<Longrightarrow> I (p, fst (createSource u now None site ty url cfg d))"
    and source_config: "I (p, d) \<Longrightarrow> getSource d i = Some r \<Longrightarrow> optional (config_suits v (src_type r)) cfg \<Longrightarrow>
      I (p, fst (updateSourceConfig now i cfg d))"
    and source_gone: "I (p, d) \<Longrightarrow> countMonitorsBySource d i = 0 \<Longrightarrow> I (p, fst (deleteSource i d))"
begin

lemma keeps_post_source: "keeps_inv J (post_source v sh rq)"
proof -
  have suits: "optional (config_suits v ty) (toSourceConfig cfg)"
    if "optional sourceConfigShape cfg" "validated v ty cfg = Inr w" for ty cfg w
    using that validated_suits by (cases cfg) (fastforce simp: toSourceConfig_def)+
  show ?thesis
    unfolding keeps_inv_def post_source_def
    by (auto simp: wp_steps wp_stores J_tables createSourceSchema_def intro!: source_new suits
        dest: read_body_ok split: sum.split option.split)
qed

lemma keeps_patch_source: "keeps_inv J (patch_source v sh i rq)"
proof -
  have suits: "optional (config_suits v ty) (toSourceConfig (Some x))"
    if "sourceConfigShape x" "validated v ty (Some x) = Inr w" for ty x w
    using that validated_suits [of x v ty] by auto
  show ?thesis
    unfolding keeps_inv_def patch_source_def audits_def
    by (auto simp: wp_steps wp_stores wp_alters J_tables intro!: audited source_config suits
        dest: read_body_ok split: sum.split option.split)
qed

lemma keeps_delete_source: "keeps_inv J (delete_source v i)"
  unfolding keeps_inv_def delete_source_def audits_def
  by (auto simp: wp_steps wp_stores wp_alters J_tables intro!: audited source_gone split: option.split)

lemma keeps_source_reads: "keeps_inv J (get_source v i)" "keeps_inv J (list_sources v rq)"
  unfolding keeps_inv_def get_source_def list_sources_def
  by (auto simp: wp_steps split: sum.split option.split)

lemma keeps_sources: "routes_keep J (sourcesRoutes v sh)"
  by (simp add: sourcesRoutes_def mounted_keeps keeps_post_source keeps_patch_source keeps_source_reads keeps_delete_source)

end

end
