(* ===== verification/Api_Sites.thy ===== *)
theory Api_Sites
  imports Api_Sources
begin

text \<open>
  The routes of sites, their fetcher policies and their robots overrides (src/api/routes/sites.ts) and
  the listing of overrides (src/api/rawQueries.ts).
\<close>

section \<open>Requests\<close>

record create_site_body =
  sb_name :: string
  sb_primary_origin :: "string option"
  sb_canonical_origins :: "string list option"

record robots_override_body =
  ob_canonical_origin :: string
  ob_mode :: robots_mode
  ob_reason :: "string option"
  ob_confirm :: "bool option"

text \<open>
  Types, enumerations and that an origin is a URL are the package's part. The name of a renamed site is
  trimmed before its length is checked.
\<close>

record site_shapes =
  sh_createSite :: "json \<Rightarrow> create_site_body option"
  sh_updateSite :: "json \<Rightarrow> string option"
  sh_policy :: "json \<Rightarrow> fetcher_policy option"
  sh_override :: "json \<Rightarrow> robots_override_body option"

definition createSiteSchema :: "create_site_body \<Rightarrow> bool" where
  "createSiteSchema b \<longleftrightarrow> nonempty (sb_name b)"

definition updateSiteSchema :: "string \<Rightarrow> bool" where
  "updateSiteSchema name \<longleftrightarrow> sized 1 200 (js_trim name)"

definition fetcherPolicySchema :: "fetcher_policy \<Rightarrow> bool" where
  "fetcherPolicySchema p \<longleftrightarrow> list_all nonempty (allowList p) \<and> list_all (\<lambda>e. nonempty (fetcherId e)) (orderList p)"

section \<open>Sites\<close>

definition post_site :: "'n api \<Rightarrow> site_shapes \<Rightarrow> request \<Rightarrow> 'n app handler" where
  "post_site v sh rq =
     chain (checked (read_body (ai_parse v) (sh_createSite sh) createSiteSchema rq)) (\<lambda>body.
     chain (reject_if (\<lambda>a. truthy (sb_primary_origin body) = None \<and> length (orElse (sb_canonical_origins body) []) > 1)
       (badRequest ''multiple_canonical_origins_unsupported'')) (\<lambda>_.
     chain (stores v (\<lambda>u now. createSite u now None (sb_name body)
       (case sb_primary_origin body of
          Some og \<Rightarrow> Some og
        | None \<Rightarrow> (case orElse (sb_canonical_origins body) [] of [] \<Rightarrow> None | og # _ \<Rightarrow> Some og)))) (\<lambda>site.
     gives (json_response 201 (serializeSite (ai_stamp v) site)))))"

definition list_sites :: "'n api \<Rightarrow> request \<Rightarrow> 'n app handler" where
  "list_sites v rq =
     chain (checked (parsePagination (ai_number v) rq)) (\<lambda>pg.
     chain (reads (\<lambda>a. listSites (app_db a) (window_of pg))) (\<lambda>found.
     chain (reads (\<lambda>a. countSites (app_db a))) (\<lambda>n.
     gives (listing (map (serializeSite (ai_stamp v)) found) n))))"

definition require_site :: "string \<Rightarrow> (site_row, 'n app) step" where
  "require_site i = require (\<lambda>a. getSite (app_db a) i) (notFound ''site_not_found'')"

definition get_site :: "'n api \<Rightarrow> string \<Rightarrow> 'n app handler" where
  "get_site v i = chain (require_site i) (\<lambda>site. gives (json_response 200 (serializeSite (ai_stamp v) site)))"

definition patch_site :: "'n api \<Rightarrow> site_shapes \<Rightarrow> string \<Rightarrow> request \<Rightarrow> 'n app handler" where
  "patch_site v sh i rq =
     chain (checked (read_body (ai_parse v) (sh_updateSite sh) updateSiteSchema rq)) (\<lambda>body.
     chain (require_site i) (\<lambda>before.
       (let name = js_trim body in
        if name = st_name before then gives (json_response 200 (serializeSite (ai_stamp v) before))
        else
          chain (alters v (\<lambda>now. updateSiteName now i name)) (\<lambda>result.
          chain (require (\<lambda>a. result) (notFound ''site_not_found'')) (\<lambda>updated.
          chain (audits v ''site.rename'' i None
            (Some (JObj [(''from'', JStr (st_name before)), (''to'', JStr name)]))) (\<lambda>_.
          gives (json_response 200 (serializeSite (ai_stamp v) updated))))))))"

definition delete_site :: "'n api \<Rightarrow> string \<Rightarrow> 'n app handler" where
  "delete_site v i =
     chain (require_site i) (\<lambda>site.
     chain (reject_if (\<lambda>a. countSourcesBySite (app_db a) i > 0) (conflict ''site_has_sources'')) (\<lambda>_.
     chain (runs (\<lambda>a. case deleteSiteCascade i (tables a) of
       ((p, d), gone) \<Rightarrow> (gone, set_app_db d (a\<lparr>ap_policies := p\<rparr>)))) (\<lambda>_.
     chain (audits v ''site.delete'' i None None) (\<lambda>_.
     gives deleted_response))))"

section \<open>Fetcher policies\<close>

text \<open>The policy and its entries take fresh ids.\<close>

definition puts_policy :: "'n api \<Rightarrow> string \<Rightarrow> fetcher_policy \<Rightarrow> (unit, 'n app) step" where
  "puts_policy v i p a =
     (let ids = cc_uuid (ai_ctx v); n = uuids (ap_check a)
      in case putFetcherPolicy (ids n) (\<lambda>k. ids (n + 1 + k)) (api_now v a) i p (ap_policies a) of
           Inl e \<Rightarrow> (Inl (Unexpected (error ''putFetcherPolicy'')), a)
         | Inr t \<Rightarrow> (Inr (), a\<lparr>ap_policies := t,
             ap_check := (ap_check a)\<lparr>uuids := n + 1 + length (orderList p)\<rparr>\<rparr>))"

definition put_policy :: "'n api \<Rightarrow> site_shapes \<Rightarrow> string \<Rightarrow> request \<Rightarrow> 'n app handler" where
  "put_policy v sh i rq =
     chain (require_site i) (\<lambda>site.
     chain (checked (read_body (ai_parse v) (sh_policy sh) fetcherPolicySchema rq)) (\<lambda>policy.
     chain (reject_if (\<lambda>a. validateFetcherPolicy policy \<noteq> []) (badRequest ''invalid_fetcher_policy'')) (\<lambda>_.
     chain (reject_if (\<lambda>a. \<not> list_all (\<lambda>f. f \<in> set (map fe_id (listFetchers (app_db a)))) (allowList policy))
       (badRequest ''unknown_fetcher'')) (\<lambda>_.
     chain (puts_policy v i policy) (\<lambda>_.
     gives (json_response 200 (serializeFetcherPolicy policy)))))))"

definition get_policy :: "'n api \<Rightarrow> string \<Rightarrow> 'n app handler" where
  "get_policy v i =
     chain (require_site i) (\<lambda>site.
     chain (require (\<lambda>a. getFetcherPolicy (ap_policies a) i) (notFound ''fetcher_policy_not_found'')) (\<lambda>policy.
     gives (json_response 200 (serializeFetcherPolicy policy))))"

section \<open>Robots overrides\<close>

definition robots_mode_json :: "robots_mode \<Rightarrow> json" where
  "robots_mode_json m = JStr (robots_mode_name m)"

text \<open>The upsert and the audit event of it.\<close>

definition puts_override ::
  "'n api \<Rightarrow> upsert_robots_policy_input \<Rightarrow> string \<Rightarrow> (string \<times> json) list \<Rightarrow> 'n app handler" where
  "puts_override v inp action extra =
     chain (stores v (\<lambda>u now. upsertRobotsPolicy (api_url v) u now inp)) (\<lambda>result.
     chain (checked (case result of
         Inl e \<Rightarrow> Inl (Unexpected (error ''upsertRobotsPolicy: row not found after upsert''))
       | Inr policy \<Rightarrow> Inr policy)) (\<lambda>policy.
     chain (audits v action (''site:'' @ ip_siteId inp @ '':'' @ rp_canonicalOrigin policy) (upsert_robots_policy_input.ip_reason inp)
       (Some (JObj ([(''siteId'', JStr (ip_siteId inp)), (''canonicalOrigin'', JStr (rp_canonicalOrigin policy)),
          (''mode'', robots_mode_json (ip_mode inp))] @ extra)))) (\<lambda>_.
     gives (json_response 200 (serializeRobotsPolicy (ai_stamp v) policy)))))"

definition put_override :: "'n api \<Rightarrow> site_shapes \<Rightarrow> string \<Rightarrow> request \<Rightarrow> 'n app handler" where
  "put_override v sh i rq =
     chain (require_site i) (\<lambda>site.
     chain (checked (read_body (ai_parse v) (sh_override sh) (\<lambda>b. True) rq)) (\<lambda>body.
     chain (reject_if (\<lambda>a. ob_mode body = Ignore \<and> js_trim (orElse (ob_reason body) '''') = '''')
       (badRequest ''reason_required'')) (\<lambda>_.
     chain (reject_if (\<lambda>a. ob_mode body = Ignore \<and> ob_confirm body \<noteq> Some True)
       (badRequest ''confirmation_required'')) (\<lambda>_.
     puts_override v \<lparr>ip_siteId = i, ip_canonicalOrigin = ob_canonical_origin body, ip_mode = ob_mode body,
         upsert_robots_policy_input.ip_reason = ob_reason body, ip_updatedBy = Some ''admin''\<rparr>
       (if ob_mode body = Ignore then ''robots_override.enable'' else ''robots_override.enforce'') []))))"

definition listRobotsPoliciesBySite :: "db \<Rightarrow> string \<Rightarrow> robots_policy_row list" where
  "listRobotsPoliciesBySite d i = order_desc rp_updatedAt (filter (\<lambda>r. rp_siteId r = i) (robots_policies d))"

definition get_overrides :: "'n api \<Rightarrow> string \<Rightarrow> 'n app handler" where
  "get_overrides v i =
     chain (require_site i) (\<lambda>site.
     chain (reads (\<lambda>a. listRobotsPoliciesBySite (app_db a) i)) (\<lambda>policies.
     gives (json_response 200 (JObj
       [(''items'', JArr (map (serializeRobotsPolicy (ai_stamp v)) policies)),
        (''has_active_override'', JBool (list_ex (\<lambda>p. rp_mode p = Ignore) policies))]))))"

definition delete_override :: "'n api \<Rightarrow> string \<Rightarrow> request \<Rightarrow> 'n app handler" where
  "delete_override v i rq =
     chain (require_site i) (\<lambda>site.
     chain (require (\<lambda>a. truthy (rq_query rq ''canonical_origin'')) (badRequest ''canonical_origin_required'')) (\<lambda>og.
     chain (require (\<lambda>a. getRobotsPolicy (api_url v) (app_db a) i og) (notFound ''robots_override_not_found'')) (\<lambda>existing.
     puts_override v \<lparr>ip_siteId = i, ip_canonicalOrigin = og, ip_mode = Enforce, upsert_robots_policy_input.ip_reason = None,
         ip_updatedBy = Some ''admin''\<rparr>
       ''robots_override.enforce'' [(''revertedFrom'', robots_mode_json (rp_mode existing))])))"

definition sitesRoutes :: "'n api \<Rightarrow> site_shapes \<Rightarrow> 'n route list" where
  "sitesRoutes v sh = mounted ''sites''
     [(''POST'', [], \<lambda>ids rq. post_site v sh rq),
      (''GET'', [], \<lambda>ids rq. list_sites v rq),
      (''GET'', ['':id''], \<lambda>ids rq. get_site v (hd ids)),
      (''PATCH'', ['':id''], \<lambda>ids rq. patch_site v sh (hd ids) rq),
      (''DELETE'', ['':id''], \<lambda>ids rq. delete_site v (hd ids)),
      (''PUT'', ['':id'', ''fetcher-policy''], \<lambda>ids rq. put_policy v sh (hd ids) rq),
      (''GET'', ['':id'', ''fetcher-policy''], \<lambda>ids rq. get_policy v (hd ids)),
      (''PUT'', ['':id'', ''robots-overrides''], \<lambda>ids rq. put_override v sh (hd ids) rq),
      (''GET'', ['':id'', ''robots-overrides''], \<lambda>ids rq. get_overrides v (hd ids)),
      (''DELETE'', ['':id'', ''robots-overrides''], \<lambda>ids rq. delete_override v (hd ids) rq)]"

section \<open>The laws of the statements\<close>

locale site_property = table_property I for I +
  fixes v :: "'n api"
  assumes site_new: "I (p, d) \<Longrightarrow> I (p, fst (createSite u now None name og d))"
    and site_named: "I (p, d) \<Longrightarrow> I (p, fst (updateSiteName now i name d))"
    and site_gone: "I w \<Longrightarrow> countSourcesBySite (snd w) i = 0 \<Longrightarrow> I (fst (deleteSiteCascade i w))"
    and policy_put: "I (p, d) \<Longrightarrow> getSite d i \<noteq> None \<Longrightarrow> set (allowList fp) \<subseteq> fe_id ` set (fetchers d) \<Longrightarrow>
      policy_valid fp \<Longrightarrow> putFetcherPolicy u ids now i fp p = Inr p1 \<Longrightarrow> I (p1, d)"
    and robots_put: "I (p, d) \<Longrightarrow> getSite d (ip_siteId inp) \<noteq> None \<Longrightarrow>
      I (p, fst (upsertRobotsPolicy (api_url v) u now inp d))"
begin

lemma keeps_post_site: "keeps_inv J (post_site v sh rq)"
  unfolding keeps_inv_def post_site_def
  by (auto simp: wp_steps wp_stores J_tables intro!: site_new split: sum.split)

lemma keeps_patch_site: "keeps_inv J (patch_site v sh i rq)"
  unfolding keeps_inv_def patch_site_def audits_def require_site_def Let_def
  by (auto simp: wp_steps wp_stores wp_alters J_tables intro!: site_named audited split: sum.split option.split)

lemma keeps_delete_site: "keeps_inv J (delete_site v i)"
  unfolding keeps_inv_def delete_site_def audits_def require_site_def
  by (auto simp: wp_steps wp_stores wp_runs J_tables tables_def intro!: audited split: option.split prod.split)
    (metis fst_conv site_gone snd_conv)

lemma keeps_put_policy: "keeps_inv J (put_policy v sh i rq)"
proof -
  have put: "wp J (puts_policy v i p) (\<lambda>_ b. I (ap_policies b, app_db b)) s"
    if "I (ap_policies s, app_db s)" "getSite (app_db s) i \<noteq> None" "validateFetcherPolicy p = []"
      "set (allowList p) \<subseteq> fe_id ` set (fetchers (app_db s))" for p s
    using policy_put [OF that(1,2,4)] that(1,3)
    by (auto simp: wp_def [of J "puts_policy v i p"] puts_policy_def policy_valid_def Let_def J_tables app_db_def
        split: sum.split)
  have fetchers_of: "set (allowList p) \<subseteq> fe_id ` set (fetchers d)"
    if "list_all (\<lambda>f. f \<in> set (map fe_id (listFetchers d))) (allowList p)" for p d
    using that by (auto simp: list_all_iff listFetchers_def)
  show ?thesis
    unfolding keeps_inv_def put_policy_def require_site_def
    by (auto simp: wp_steps J_tables intro!: put fetchers_of split: sum.split option.split)
qed

lemma keeps_puts_override:
  "I (ap_policies s, app_db s) \<Longrightarrow> getSite (app_db s) (ip_siteId inp) \<noteq> None \<Longrightarrow>
   wp J (puts_override v inp action extra) (\<lambda>_. J) s"
  unfolding puts_override_def audits_def
  by (auto simp: wp_steps wp_stores J_tables intro!: robots_put audited split: sum.split)

lemma keeps_overrides: "keeps_inv J (put_override v sh i rq)" "keeps_inv J (delete_override v i rq)"
  unfolding keeps_inv_def put_override_def delete_override_def require_site_def
  by (auto simp: wp_steps J_tables intro!: keeps_puts_override split: sum.split option.split)

lemma keeps_site_reads:
  "keeps_inv J (list_sites v rq)" "keeps_inv J (get_site v i)" "keeps_inv J (get_policy v i)" "keeps_inv J (get_overrides v i)"
  unfolding keeps_inv_def list_sites_def get_site_def get_policy_def get_overrides_def require_site_def
  by (auto simp: wp_steps split: sum.split option.split)

lemma keeps_sites: "routes_keep J (sitesRoutes v sh)"
  by (simp add: sitesRoutes_def mounted_keeps keeps_post_site keeps_patch_site keeps_delete_site keeps_put_policy
      keeps_overrides keeps_site_reads)

end

end
