(* ===== verification/Api_Monitors.thy ===== *)
theory Api_Monitors
  imports Api_Sources
begin

text \<open>
  The routes of monitors (src/api/routes/monitors.ts), over the calls of the monitor's durable object.
\<close>

section \<open>Requests\<close>

text \<open>A time in a body is the text of the client; here it is the time it stands for.\<close>

record create_monitor_body =
  mb_source_id :: string
  mb_interval_seconds :: int
  mb_next_run_at :: "ms option"

record monitor_shapes =
  sh_createMonitor :: "json \<Rightarrow> create_monitor_body option"
  sh_updateMonitor :: "json \<Rightarrow> int option"

definition MIN_INTERVAL_SECONDS :: int where "MIN_INTERVAL_SECONDS = 60"

definition MAX_INTERVAL_SECONDS :: int where "MAX_INTERVAL_SECONDS = 604800"

definition createMonitorSchema :: "create_monitor_body \<Rightarrow> bool" where
  "createMonitorSchema b \<longleftrightarrow> nonempty (mb_source_id b) \<and> mb_interval_seconds b > 0"

definition updateMonitorSchema :: "int \<Rightarrow> bool" where
  "updateMonitorSchema n \<longleftrightarrow> MIN_INTERVAL_SECONDS \<le> n \<and> n \<le> MAX_INTERVAL_SECONDS"

section \<open>Handlers\<close>

definition require_monitor :: "string \<Rightarrow> (monitor_row, 'n app) step" where
  "require_monitor m = require (\<lambda>a. getMonitor (app_db a) m) (notFound ''monitor_not_found'')"

definition post_monitor :: "'n api \<Rightarrow> monitor_shapes \<Rightarrow> request \<Rightarrow> 'n app handler" where
  "post_monitor v sh rq =
     chain (checked (read_body (ai_parse v) (sh_createMonitor sh) createMonitorSchema rq)) (\<lambda>body.
     chain (require (\<lambda>a. getSource (app_db a) (mb_source_id body)) (notFound ''source_not_found'')) (\<lambda>source.
     chain (stores v (\<lambda>u now. createMonitor u now None (src_siteId source) (src_id source) None
       (mb_interval_seconds body) (mb_next_run_at body))) (\<lambda>created.
     gives (json_response 201 (serializeMonitor (ai_stamp v) created None)))))"

definition list_monitors :: "'n api \<Rightarrow> request \<Rightarrow> 'n app handler" where
  "list_monitors v rq =
     chain (require (\<lambda>a. truthy (rq_query rq ''site_id'')) (badRequest ''site_id_required'')) (\<lambda>siteId.
     chain (checked (parsePagination (ai_number v) rq)) (\<lambda>pg.
     chain (reads (\<lambda>a. listMonitorsBySite (app_db a) siteId)) (\<lambda>found.
     gives (listing (map (\<lambda>r. serializeMonitor (ai_stamp v) r None) (paginate found pg)) (length found)))))"

definition getRobotsEvaluation :: "db \<Rightarrow> string \<Rightarrow> robots_evaluation_row option" where
  "getRobotsEvaluation d i = find (\<lambda>r. rv_id r = i) (robots_evaluations d)"

definition loadMonitorWithRobots :: "db \<Rightarrow> string \<Rightarrow> (monitor_row \<times> robots_evaluation_row option) option" where
  "loadMonitorWithRobots d m =
     map_option (\<lambda>r. (r, Option.bind (truthy (robotsEvaluationId r)) (getRobotsEvaluation d))) (getMonitor d m)"

definition get_monitor :: "'n api \<Rightarrow> string \<Rightarrow> 'n app handler" where
  "get_monitor v m =
     chain (require (\<lambda>a. loadMonitorWithRobots (app_db a) m) (notFound ''monitor_not_found'')) (\<lambda>(r, ev).
     gives (json_response 200 (serializeMonitor (ai_stamp v) r ev)))"

text \<open>The row that was just written; a row that is gone makes the rendering throw.\<close>

definition answer_monitor :: "'n api \<Rightarrow> string \<Rightarrow> 'n app handler" where
  "answer_monitor v m =
     chain (require (\<lambda>a. getMonitor (app_db a) m) (Unexpected (ErrorObject ''TypeError'' ''''))) (\<lambda>r.
     gives (json_response 200 (serializeMonitor (ai_stamp v) r None)))"

definition reschedule ::
  "'n api \<Rightarrow> 'n monitor_control \<Rightarrow> string \<Rightarrow> monitor_row \<Rightarrow> int \<Rightarrow> (ms option, 'n app) step" where
  "reschedule v ctl m mon newInterval a =
     (case (mon_status mon, mon_lastCheckedAt mon) of
        (Active, Some lastChecked) \<Rightarrow>
          (let candidate = max (api_now v a) (lastChecked + newInterval * 1000)
           in if (case mon_nextRunAt mon of None \<Rightarrow> True | Some t \<Rightarrow> candidate < t)
              then chain (alters v (\<lambda>now d. (setMonitorNextRun now m (Some candidate) d, ()))) (\<lambda>_.
                   chain (mc_schedule ctl m (Some candidate)) (\<lambda>_.
                   gives (Some candidate))) a
              else (Inr None, a))
      | _ \<Rightarrow> (Inr None, a))"

definition patch_monitor :: "'n api \<Rightarrow> 'n monitor_control \<Rightarrow> monitor_shapes \<Rightarrow> string \<Rightarrow> request \<Rightarrow> 'n app handler" where
  "patch_monitor v ctl sh m rq =
     chain (require_monitor m) (\<lambda>mon.
     chain (checked (read_body (ai_parse v) (sh_updateMonitor sh) updateMonitorSchema rq)) (\<lambda>newInterval.
     chain (alters v (\<lambda>now d. (updateMonitorInterval now m newInterval d, ()))) (\<lambda>_.
     chain (reschedule v ctl m mon newInterval) (\<lambda>rescheduledTo.
     chain (audits v ''monitor.update'' m None
       (Some (JObj [(''from'', jint (intervalSeconds mon)), (''to'', jint newInterval),
          (''rescheduledTo'', opt_json (\<lambda>t. JStr (ai_stamp v t)) rescheduledTo)]))) (\<lambda>_.
     answer_monitor v m)))))"

definition get_jobs :: "'n api \<Rightarrow> string \<Rightarrow> request \<Rightarrow> 'n app handler" where
  "get_jobs v m rq =
     chain (require_monitor m) (\<lambda>mon.
     chain (checked (parsePagination (ai_number v) rq)) (\<lambda>pg.
     chain (reads (\<lambda>a. listCheckJobsByMonitor (app_db a) m)) (\<lambda>found.
     gives (listing (map (serializeCheckJob (ai_stamp v)) (paginate found pg)) (length found)))))"

definition run_monitor :: "'n monitor_control \<Rightarrow> string \<Rightarrow> 'n app handler" where
  "run_monitor ctl m =
     chain (require_monitor m) (\<lambda>mon.
     chain (mc_runNow ctl m) (\<lambda>(started, reason).
     chain (reject_if (\<lambda>a. \<not> started) (conflict ''run_not_started'')) (\<lambda>_.
     gives (json_response 200 (JObj [(''started'', JBool True)])))))"

definition pause_monitor :: "'n api \<Rightarrow> 'n monitor_control \<Rightarrow> string \<Rightarrow> 'n app handler" where
  "pause_monitor v ctl m =
     chain (require_monitor m) (\<lambda>mon.
     chain (mc_pause ctl m) (\<lambda>_.
     chain (alters v (\<lambda>now d. (updateMonitorStatus now m Paused d, ()))) (\<lambda>_.
     answer_monitor v m)))"

definition resume_monitor :: "'n api \<Rightarrow> 'n monitor_control \<Rightarrow> string \<Rightarrow> 'n app handler" where
  "resume_monitor v ctl m =
     chain (require_monitor m) (\<lambda>mon.
     chain (mc_resume ctl m) (\<lambda>_.
     chain (alters v (\<lambda>now d. (updateMonitorStatus now m Active d, ()))) (\<lambda>_.
     answer_monitor v m)))"

definition no_content :: response where
  "no_content = \<lparr>res_status = 204, res_headers = [], res_body = Empty\<rparr>"

definition delete_monitor :: "'n api \<Rightarrow> 'n monitor_control \<Rightarrow> string \<Rightarrow> 'n app handler" where
  "delete_monitor v ctl m =
     chain (require_monitor m) (\<lambda>mon.
     chain (mc_schedule ctl m None) (\<lambda>_.
     chain (alters v (\<lambda>now. deleteMonitorCascade m)) (\<lambda>_.
     chain (audits v ''monitor.delete'' m None
       (Some (JObj [(''siteId'', JStr (mon_siteId mon)), (''sourceId'', JStr (mon_sourceId mon))]))) (\<lambda>_.
     gives no_content))))"

definition last_result_json :: "(ms \<Rightarrow> string) \<Rightarrow> last_result \<Rightarrow> json" where
  "last_result_json stamp r = JObj [(''status'', JStr (job_status_name (lr_status r))), (''at'', JStr (stamp (lr_at r)))]"

definition get_status :: "'n api \<Rightarrow> 'n monitor_control \<Rightarrow> string \<Rightarrow> 'n app handler" where
  "get_status v ctl m =
     chain (require_monitor m) (\<lambda>mon.
     chain (mc_getStatus ctl m) (\<lambda>st.
     gives (json_response 200 (JObj
       [(''monitor_id'', JStr (st_monitorId st)), (''next_run_at'', opt_json (\<lambda>t. JStr (ai_stamp v t)) (st_nextRunAt st)),
        (''running'', JBool (st_running st)), (''paused'', JBool (st_paused st)),
        (''last_result'', opt_json (last_result_json (ai_stamp v)) (st_lastResult st))]))))"

definition monitorsRoutes :: "'n api \<Rightarrow> 'n monitor_control \<Rightarrow> monitor_shapes \<Rightarrow> 'n route list" where
  "monitorsRoutes v ctl sh = mounted ''monitors''
     [(''POST'', [], \<lambda>ids rq. post_monitor v sh rq),
      (''GET'', [], \<lambda>ids rq. list_monitors v rq),
      (''GET'', ['':id''], \<lambda>ids rq. get_monitor v (hd ids)),
      (''PATCH'', ['':id''], \<lambda>ids rq. patch_monitor v ctl sh (hd ids) rq),
      (''GET'', ['':id'', ''jobs''], \<lambda>ids rq. get_jobs v (hd ids) rq),
      (''POST'', ['':id'', ''run''], \<lambda>ids rq. run_monitor ctl (hd ids)),
      (''POST'', ['':id'', ''pause''], \<lambda>ids rq. pause_monitor v ctl (hd ids)),
      (''POST'', ['':id'', ''resume''], \<lambda>ids rq. resume_monitor v ctl (hd ids)),
      (''DELETE'', ['':id''], \<lambda>ids rq. delete_monitor v ctl (hd ids)),
      (''GET'', ['':id'', ''status''], \<lambda>ids rq. get_status v ctl (hd ids))]"

section \<open>The laws of the statements\<close>

locale monitor_property = table_property I for I +
  assumes monitor_new: "I (p, d) \<Longrightarrow> getSource d i = Some r \<Longrightarrow>
      I (p, fst (createMonitor u now None (src_siteId r) (src_id r) None iv nx d))"
    and monitor_interval: "I (p, d) \<Longrightarrow> I (p, updateMonitorInterval now m iv d)"
    and monitor_next: "I (p, d) \<Longrightarrow> I (p, setMonitorNextRun now m t d)"
    and monitor_status: "I (p, d) \<Longrightarrow> I (p, updateMonitorStatus now m st d)"
    and monitor_gone: "I (p, d) \<Longrightarrow> I (p, fst (deleteMonitorCascade m d))"
    and monitor_checked: "I (p, d) \<Longrightarrow> keeps_history d d1 \<Longrightarrow> I (p, d1)"
begin

text \<open>What a call of the durable object keeps.\<close>

lemma keeps_stub:
  assumes "\<And>a obj r obj1 a1. J a \<Longrightarrow> f (obj, a) = (r, (obj1, a1)) \<Longrightarrow> J a1"
  shows "keeps_inv J (stub m f)"
  unfolding keeps_inv_def stub_def wp_calls
  by (auto split: prod.splits sum.splits dest: assms)

lemma check_kept: "J a \<Longrightarrow> J (snd (api_check v trig m a))"
proof -
  assume a: "J a"
  obtain r cs where run: "runMonitorCheck (with_recipes (ai_traversal v) ((ai_run v)\<lparr>re_policies := ap_policies a\<rparr>))
      (ai_ctx v) trig m (ap_check a) = (r, cs)" by fastforce
  have "history.K (ap_check a) cs"
    using history.K_check [OF recipes_keep_history, of "ap_check a"] run by (metis snd_conv)
  then have "keeps_history (app_db a) (app_db (snd (api_check v trig m a)))"
    by (simp add: api_check_def run history.K_def app_db_def)
  moreover have "ap_policies (snd (api_check v trig m a)) = ap_policies a"
    by (simp add: api_check_def split: prod.split)
  ultimately show ?thesis
    using a monitor_checked by (simp add: J_tables)
qed

lemma keeps_control:
  "keeps_inv J (mc_schedule (createDefaultMonitorControlFactory v) m t)"
  "keeps_inv J (mc_runNow (createDefaultMonitorControlFactory v) m)"
  "keeps_inv J (mc_pause (createDefaultMonitorControlFactory v) m)"
  "keeps_inv J (mc_resume (createDefaultMonitorControlFactory v) m)"
  "keeps_inv J (mc_getStatus (createDefaultMonitorControlFactory v) m)"
proof -
  show "keeps_inv J (mc_runNow (createDefaultMonitorControlFactory v) m)"
    unfolding createDefaultMonitorControlFactory_def monitor_control.simps
  proof (rule keeps_stub)
    fix a obj r obj1 a1
    assume a: "J a" and run: "runNowMonitor (api_check v) (api_now v) m (obj, a) = (r, (obj1, a1))"
    from check_kept [OF a, of v Manual m] run a show "J a1"
      by (auto simp: runNowMonitor_def andThen_def end_check_def split: sum.splits if_splits prod.splits)
  qed
qed (auto simp: createDefaultMonitorControlFactory_def scheduleMonitor_def pauseMonitor_def resumeMonitor_def
    getMonitorStatus_def Let_def J_tables monitor_next monitor_status intro!: keeps_stub split: sum.splits if_splits)

lemma keeps_post_monitor: "keeps_inv J (post_monitor v sh rq)"
  unfolding keeps_inv_def post_monitor_def
  by (auto simp: wp_steps wp_stores J_tables intro!: monitor_new split: sum.split option.split)

lemma keeps_answer: "keeps_inv J (answer_monitor v m)"
  unfolding keeps_inv_def answer_monitor_def by (auto simp: wp_steps split: option.split)

lemma keeps_reschedule: "keeps_inv J (reschedule v (createDefaultMonitorControlFactory w) m mon iv)"
proof -
  have moved: "wp J (chain (alters v (\<lambda>now d. (setMonitorNextRun now m (Some t) d, ())))
      (\<lambda>_. chain (mc_schedule (createDefaultMonitorControlFactory w) m (Some t)) (\<lambda>_. gives (Some t)))) (\<lambda>a. J) s"
    if "J s" for s t
    using that
    by (auto simp: wp_chain wp_gives wp_alters J_tables monitor_next intro!: wp_keeps [OF keeps_control(1)])
  have "J (snd (reschedule v (createDefaultMonitorControlFactory w) m mon iv s))" if "J s" for s
    using that moved [OF that, unfolded wp_same]
    by (auto simp: reschedule_def Let_def split: monitor_status.split option.split)
  then show ?thesis by (simp add: keeps_inv_iff)
qed

lemma keeps_patch_monitor: "keeps_inv J (patch_monitor v (createDefaultMonitorControlFactory w) sh m rq)"
  unfolding keeps_inv_def patch_monitor_def require_monitor_def audits_def
  by (auto simp: wp_chain wp_require wp_checked wp_alters wp_stores J_tables monitor_interval audited
      intro!: wp_keeps [OF keeps_reschedule] wp_keeps [OF keeps_answer] split: sum.split option.split)

lemma keeps_switches:
  "keeps_inv J (run_monitor (createDefaultMonitorControlFactory w) m)"
  "keeps_inv J (pause_monitor v (createDefaultMonitorControlFactory w) m)"
  "keeps_inv J (resume_monitor v (createDefaultMonitorControlFactory w) m)"
  "keeps_inv J (delete_monitor v (createDefaultMonitorControlFactory w) m)"
  "keeps_inv J (get_status v (createDefaultMonitorControlFactory w) m)"
  unfolding keeps_inv_def run_monitor_def pause_monitor_def resume_monitor_def delete_monitor_def get_status_def
    require_monitor_def audits_def
  by (auto simp: wp_steps wp_alters wp_stores J_tables monitor_status monitor_gone audited
      intro!: wp_keeps [OF keeps_control(1)] wp_keeps [OF keeps_control(2)] wp_keeps [OF keeps_control(3)]
        wp_keeps [OF keeps_control(4)] wp_keeps [OF keeps_control(5)] wp_keeps [OF keeps_answer]
      split: option.split prod.split)

lemma keeps_monitor_reads: "keeps_inv J (list_monitors v rq)" "keeps_inv J (get_monitor v m)" "keeps_inv J (get_jobs v m rq)"
  unfolding keeps_inv_def list_monitors_def get_monitor_def get_jobs_def require_monitor_def
  by (auto simp: wp_steps split: sum.split option.split)

lemma keeps_monitors: "routes_keep J (monitorsRoutes v (createDefaultMonitorControlFactory v) sh)"
  by (simp add: monitorsRoutes_def mounted_keeps keeps_post_monitor keeps_patch_monitor keeps_switches keeps_monitor_reads)

end

section \<open>The change of an interval\<close>

text \<open>The run an active monitor that was checked before is due at with interval \<open>iv\<close>.\<close>

definition due_after :: "ms \<Rightarrow> int \<Rightarrow> monitor_row \<Rightarrow> ms option" where
  "due_after now iv mon =
     (case (mon_status mon, mon_lastCheckedAt mon) of
        (Active, Some t) \<Rightarrow>
          Some (case mon_nextRunAt mon of
                  None \<Rightarrow> max now (t + iv * 1000) | Some nx \<Rightarrow> min nx (max now (t + iv * 1000)))
      | _ \<Rightarrow> mon_nextRunAt mon)"

lemma find_updated:
  "find (\<lambda>r. mon_id r = m) ms = Some r \<Longrightarrow> (\<And>r. mon_id (f r) = mon_id r) \<Longrightarrow>
   find (\<lambda>r. mon_id r = m) (update_where (\<lambda>r. mon_id r = m) f ms) = Some (f r)"
  by (auto simp: find_update_where dest: find_SomeD)

lemma getMonitor_with:
  "getMonitor d m = Some r \<Longrightarrow> (\<And>r. mon_id (f r) = mon_id r) \<Longrightarrow> getMonitor (with_monitor m f d) m = Some (f r)"
  by (simp add: getMonitor_def with_monitor_def find_updated)

lemma getMonitor_audit [simp]: "getMonitor (fst (recordAuditEvent u now e d)) m = getMonitor d m"
  by (simp add: recordAuditEvent_def getMonitor_def Let_def)

lemma api_now_objects [simp]:
  "api_now v (a\<lparr>ap_objects := ob\<rparr>) = api_now v a"
  by (simp add: api_now_def)

lemma set_app_db_more [simp]:
  "set_app_db d (set_app_db e a) = set_app_db d a"
  "ap_check (set_app_db d a) = set_db d (ap_check a)"
  by (simp_all add: set_app_db_def set_db_def)

lemma reschedule_moves:
  assumes "bindMonitorId m (ap_objects a m) = Inr obj" and "getMonitor (app_db a) m = Some row1"
    and "mon_nextRunAt row1 = mon_nextRunAt mon"
  shows "\<exists>t a1 row. reschedule v (createDefaultMonitorControlFactory v) m mon iv a = (Inr t, a1) \<and>
    getMonitor (app_db a1) m = Some row \<and> mon_nextRunAt row = due_after (api_now v a) iv mon \<and>
    intervalSeconds row = intervalSeconds row1 \<and>
    (mo_alarm (ap_objects a1 m) = mon_nextRunAt row \<or>
     mo_alarm (ap_objects a1 m) = mo_alarm (ap_objects a m) \<and> mon_nextRunAt row = mon_nextRunAt mon)"
  using assms
  by (auto simp: reschedule_def due_after_def Let_def chain_def alters_def runs_def gives_def stub_def calls_def
      createDefaultMonitorControlFactory_def scheduleMonitor_def setMonitorNextRun_def getMonitor_with min_def max_def
      split: monitor_status.split option.split)

lemma audits_run:
  "audits v action subj reason load a =
     (let x = recordAuditEvent (cc_uuid (ai_ctx v) (uuids (ap_check a))) (api_now v a)
        \<lparr>iu_id = None, iu_actor = ''admin'', iu_action = action, iu_subject = subj, iu_reason = reason, iu_payload = load\<rparr>
        (app_db a)
      in (Inr (snd x), a\<lparr>ap_check := (set_db (fst x) (ap_check a))\<lparr>uuids := uuids (ap_check a) + 1\<rparr>\<rparr>))"
  by (simp add: audits_def stores_def runs_def with_id_def app_db_def Let_def split_beta)

lemma audits_answer:
  assumes "getMonitor (app_db a) m = Some mr"
  shows "\<exists>r a1. audits v action subj reason load a = (Inr r, a1) \<and> getMonitor (app_db a1) m = Some mr \<and>
     ap_objects a1 = ap_objects a"
  using assms by (simp add: audits_run Let_def)

lemma answer_found:
  "getMonitor (app_db a) m = Some mr \<Longrightarrow>
   answer_monitor v m a = (Inr (json_response 200 (serializeMonitor (ai_stamp v) mr None)), a)"
  by (simp add: answer_monitor_def chain_def require_def gives_def)

text \<open>
  C34. Changing the interval of a monitor can only bring its next run forward: an active monitor that was
  checked before is due at the earlier of its old time and one new interval after the last check, but
  not before now; any other monitor keeps its time. The interval is between a minute and a week, and the
  alarm of the monitor's object follows when the time moves.
\<close>

theorem patch_brings_forward:
  assumes "getMonitor (app_db a) m = Some mon" and "bindMonitorId m (ap_objects a m) = Inr obj"
    and "read_body (ai_parse v) (sh_updateMonitor sh) updateMonitorSchema rq = Inr iv"
  shows "60 \<le> iv \<and> iv \<le> 604800 \<and>
    (case patch_monitor v (createDefaultMonitorControlFactory v) sh m rq a of
       (r, a1) \<Rightarrow> (\<exists>res row. r = Inr res \<and> res_status res = 200 \<and> getMonitor (app_db a1) m = Some row \<and>
         intervalSeconds row = iv \<and> mon_nextRunAt row = due_after (api_now v a) iv mon \<and>
         (mo_alarm (ap_objects a1 m) = mon_nextRunAt row \<or>
          mo_alarm (ap_objects a1 m) = mo_alarm (ap_objects a m) \<and> mon_nextRunAt row = mon_nextRunAt mon)))"
proof -
  let ?a = "set_app_db (updateMonitorInterval (api_now v a) m iv (app_db a)) a"
  have row: "getMonitor (app_db ?a) m = Some (mon\<lparr>intervalSeconds := iv, mon_updatedAt := api_now v a\<rparr>)"
    using assms(1) by (simp add: updateMonitorInterval_def getMonitor_with)
  have bound: "bindMonitorId m (ap_objects ?a m) = Inr obj" using assms(2) by simp
  have same: "mon_nextRunAt (mon\<lparr>intervalSeconds := iv, mon_updatedAt := api_now v a\<rparr>) = mon_nextRunAt mon" by simp
  from reschedule_moves [OF bound row same, of v iv]
  obtain t a1 row where moved: "reschedule v (createDefaultMonitorControlFactory v) m mon iv ?a = (Inr t, a1)"
      "getMonitor (app_db a1) m = Some row" "mon_nextRunAt row = due_after (api_now v ?a) iv mon"
      "intervalSeconds row = intervalSeconds (mon\<lparr>intervalSeconds := iv, mon_updatedAt := api_now v a\<rparr>)"
      "mo_alarm (ap_objects a1 m) = mon_nextRunAt row \<or>
       mo_alarm (ap_objects a1 m) = mo_alarm (ap_objects ?a m) \<and> mon_nextRunAt row = mon_nextRunAt mon"
    by blast
  have "60 \<le> iv \<and> iv \<le> 604800"
    using read_body_ok [OF assms(3)]
    by (simp add: updateMonitorSchema_def MIN_INTERVAL_SECONDS_def MAX_INTERVAL_SECONDS_def)
  moreover obtain r a2 where final: "audits v ''monitor.update'' m None
      (Some (JObj [(''from'', jint (intervalSeconds mon)), (''to'', jint iv),
         (''rescheduledTo'', opt_json (\<lambda>t. JStr (ai_stamp v t)) t)])) a1 = (Inr r, a2)"
      "getMonitor (app_db a2) m = Some row" "ap_objects a2 = ap_objects a1"
    using audits_answer [OF moved(2)] by metis
  moreover have "patch_monitor v (createDefaultMonitorControlFactory v) sh m rq a =
      (Inr (json_response 200 (serializeMonitor (ai_stamp v) row None)), a2)"
    using assms(1,3) moved(1) final(1) answer_found [OF final(2)]
    by (simp add: patch_monitor_def require_monitor_def chain_def require_def checked_def alters_def runs_def)
  ultimately show ?thesis
    using moved(3-5) by (simp add: json_response_def)
qed

definition slow_app :: "ms app" where
  "slow_app = set_app_db ((app_db demo_app)\<lparr>monitors := [(demo_monitor (Some 0))\<lparr>mon_nextRunAt := Some 900000\<rparr>]\<rparr>) demo_app"

definition minute_shapes :: monitor_shapes where
  "minute_shapes = \<lparr>sh_createMonitor = (\<lambda>j. None), sh_updateMonitor = (\<lambda>j. Some 60)\<rparr>"

theorem patch_brings_forward_witness:
  "case patch_monitor demo_api (createDefaultMonitorControlFactory demo_api) minute_shapes ''m''
      (json_request ''PATCH'' ''/api/monitors/m'') slow_app of
    (r, a1) \<Rightarrow> \<exists>row. getMonitor (app_db a1) ''m'' = Some row \<and> mon_nextRunAt row = Some 60000"
proof -
  have "read_body (ai_parse demo_api) (sh_updateMonitor minute_shapes) updateMonitorSchema
      (json_request ''PATCH'' ''/api/monitors/m'') = Inr 60"
    by (simp add: read_body_def json_request_body parseWith_def minute_shapes_def updateMonitorSchema_def
        MIN_INTERVAL_SECONDS_def MAX_INTERVAL_SECONDS_def)
  moreover have "getMonitor (app_db slow_app) ''m'' = Some ((demo_monitor (Some 0))\<lparr>mon_nextRunAt := Some 900000\<rparr>)"
    by (simp add: slow_app_def getMonitor_def demo_monitor_def)
  moreover have "bindMonitorId ''m'' (ap_objects slow_app ''m'') = Inr (new_monitor_object\<lparr>mo_monitorId := Some ''m''\<rparr>)"
    by (simp add: slow_app_def demo_app_def bindMonitorId_def new_monitor_object_def truthy_def)
  moreover have "due_after (api_now demo_api slow_app) 60 ((demo_monitor (Some 0))\<lparr>mon_nextRunAt := Some 900000\<rparr>) = Some 60000"
    by code_simp
  ultimately show ?thesis
    using patch_brings_forward [of slow_app "''m''" "(demo_monitor (Some 0))\<lparr>mon_nextRunAt := Some 900000\<rparr>"
        "new_monitor_object\<lparr>mo_monitorId := Some ''m''\<rparr>" demo_api minute_shapes
        "json_request ''PATCH'' ''/api/monitors/m''" 60]
    by (cases "patch_monitor demo_api (createDefaultMonitorControlFactory demo_api) minute_shapes ''m''
        (json_request ''PATCH'' ''/api/monitors/m'') slow_app") (simp, blast)
qed

end
