(* ===== verification/Notify_Store.thy ===== *)
theory Notify_Store
  imports Db_Store
begin

text \<open>
  The delivery store of src/db/notifyStore.ts: the claim of a delivery, the rows it joins, and
  the lines of tags for the message; and the contract \<open>NotifyStore\<close> of src/shared/contracts.ts
  as a locale, interpreted on the D1 store. Decryption of a stored webhook URL is Web Crypto and
  an argument, \<^const>\<open>None\<close> when it throws. The default heading, a Japanese word, is an argument.
\<close>

section \<open>Data\<close>

record tag_line =
  heading :: string
  tl_values :: "string list"

record change_summary =
  cs_changeId :: string
  cs_kind :: change_kind
  cs_sourceType :: source_type
  cs_siteName :: string
  cs_monitorId :: string
  cs_targetUrl :: string
  cs_title :: "string option"
  cs_detectedAt :: ms
  cs_diffPreview :: "string option"
  cs_tags :: "string list option"
  tagLines :: "tag_line list"

record pending_delivery =
  pd_deliveryId :: string
  pd_change :: change_summary
  pd_webhookUrl :: string
  pd_attemptCount :: nat
  pd_threadId :: "string option"

section \<open>Tag lines\<close>

definition ownLabel :: "(string \<times> string) list option \<Rightarrow> string \<Rightarrow> string option" where
  "ownLabel m key = (case m of None \<Rightarrow> None | Some al \<Rightarrow> map_of al key)"

definition group_key :: "string \<Rightarrow> string" where
  "group_key tag = (case indexOf CHR '':'' tag of None \<Rightarrow> '''' | Some sep \<Rightarrow> take sep tag)"

text \<open>The Map \<open>valuesByGroup\<close> with the order of its keys is an association list.\<close>

definition add_tag ::
  "(string \<times> string) list option \<Rightarrow> (string \<times> string list) list \<Rightarrow> string \<Rightarrow> (string \<times> string list) list" where
  "add_tag tagLabels acc tag =
     (let k = group_key tag
      in AList.update k (orElse (map_of acc k) [] @ [orElse (ownLabel tagLabels tag) tag]) acc)"

definition resolveTagLines ::
  "string \<Rightarrow> string list option \<Rightarrow> classify_labels option \<Rightarrow> tag_line list" where
  "resolveTagLines defaultHeading tags labels =
     (case tags of
        None \<Rightarrow> []
      | Some ts \<Rightarrow>
          map (\<lambda>(k, vs). \<lparr>heading = orElse (ownLabel (Option.bind labels lb_groups) k) defaultHeading,
                          tl_values = vs\<rparr>)
            (foldl (add_tag (Option.bind labels lb_tags)) [] ts))"

section \<open>The claim\<close>

definition CLAIM_STALE_MS :: ms where
  "CLAIM_STALE_MS = 5 * 60 * 1000"

definition claimable :: "ms \<Rightarrow> string \<Rightarrow> delivery_rec \<Rightarrow> bool" where
  "claimable staleBefore i r \<longleftrightarrow> dl_id r = i \<and>
     (dl_status r \<in> {Pending, Failed} \<or>
      dl_status r = Sending \<and> (case claimedAt r of None \<Rightarrow> False | Some c \<Rightarrow> c < staleBefore))"

text \<open>
  The join of the delivery with its destination, change, monitor, source and site, each on a
  primary key.
\<close>

definition pending_join ::
  "db \<Rightarrow> string \<Rightarrow> (delivery_rec \<times> destination_row \<times> change_row \<times> source_row \<times> site_row) option" where
  "pending_join d i =
     Option.bind (getDelivery d i) (\<lambda>del.
     Option.bind (getDestination d (dl_destinationId del)) (\<lambda>dest.
     Option.bind (getChange d (dl_changeId del)) (\<lambda>c.
     Option.bind (getMonitor d (ch_monitorId c)) (\<lambda>m.
     Option.bind (getSource d (mon_sourceId m)) (\<lambda>src.
     Option.bind (getSite d (mon_siteId m)) (\<lambda>s.
       Some (del, dest, c, src, s)))))))"

definition summary_of ::
  "string \<Rightarrow> change_row \<Rightarrow> source_row \<Rightarrow> site_row \<Rightarrow> change_summary" where
  "summary_of defaultHeading c src s =
     \<lparr>cs_changeId = ch_id c, cs_kind = ch_kind c, cs_sourceType = src_type src,
      cs_siteName = st_name s, cs_monitorId = ch_monitorId c, cs_targetUrl = ch_targetUrl c,
      cs_title = ch_title c, cs_detectedAt = detectedAt c, cs_diffPreview = diffPreview c,
      cs_tags = ch_tags c,
      tagLines = resolveTagLines defaultHeading (ch_tags c)
        (Option.bind (Option.bind (src_config src) sc_classify) cl_labels)\<rparr>"

text \<open>Whether the statement on the row with this primary key changed it.\<close>

definition written_by :: "('r \<Rightarrow> bool) \<Rightarrow> 'r option \<Rightarrow> bool" where
  "written_by P r = (case r of None \<Rightarrow> False | Some x \<Rightarrow> P x)"

definition getPendingDelivery ::
  "string \<Rightarrow> (string \<Rightarrow> string \<Rightarrow> string option) \<Rightarrow> string option \<Rightarrow> ms \<Rightarrow> string \<Rightarrow> db \<Rightarrow>
   db \<times> (js_error + pending_delivery option)" where
  "getPendingDelivery defaultHeading decrypt webhookEncKey now i d =
     (case webhookEncKey of
        None \<Rightarrow> (d, Inl (JsError ''WEBHOOK_ENC_KEY is not configured; cannot decrypt webhook_url for delivery''))
      | Some key \<Rightarrow>
          (let P = claimable (now - CLAIM_STALE_MS) i;
               d1 = with_delivery P (\<lambda>r. r\<lparr>dl_status := Sending, claimedAt := Some now, dl_updatedAt := now\<rparr>) d
           in if \<not> written_by P (getDelivery d i) then (d, Inr None)
              else (case pending_join d1 i of
                      None \<Rightarrow> (d1, Inr None)
                    | Some (del, dest, c, src, s) \<Rightarrow>
                        if archivedAt dest \<noteq> None
                        then (markDeliveryFailed now i ''destination archived'' True d1, Inr None)
                        else (case decrypt key (webhookUrl dest) of
                                None \<Rightarrow> (d1, Inl (JsError ''decryptWebhookUrl''))
                              | Some url \<Rightarrow>
                                  (d1, Inr (Some
                                     \<lparr>pd_deliveryId = dl_id del, pd_change = summary_of defaultHeading c src s,
                                      pd_webhookUrl = url, pd_attemptCount = attemptCount del,
                                      pd_threadId = threadId dest\<rparr>))))))"

section \<open>The contract\<close>

text \<open>
  What a consumer relies on: a delivery that is handed out was not delivered or given up, is
  marked as being sent, and comes with its number of failed attempts; a delivered or dead one
  stays as it is; failures are counted; and an operation on one delivery leaves the others alone.
\<close>

definition terminal :: "delivery_status option \<Rightarrow> bool" where
  "terminal st \<longleftrightarrow> st = Some Delivered \<or> st = Some Dead"

locale notify_store =
  fixes claim :: "ms \<Rightarrow> string \<Rightarrow> 's \<Rightarrow> 's \<times> (js_error + pending_delivery option)"
    and delivered :: "ms \<Rightarrow> string \<Rightarrow> 's \<Rightarrow> 's"
    and failed :: "ms \<Rightarrow> string \<Rightarrow> string \<Rightarrow> bool \<Rightarrow> 's \<Rightarrow> 's"
    and status :: "'s \<Rightarrow> string \<Rightarrow> delivery_status option"
    and attempts :: "'s \<Rightarrow> string \<Rightarrow> nat"
  assumes claim_some:
      "claim t i s = (s', Inr (Some p)) \<Longrightarrow>
         \<not> terminal (status s i) \<and> status s' i = Some Sending \<and> attempts s' i = attempts s i \<and>
         pd_attemptCount p = attempts s i"
    and claim_attempts: "attempts s i \<le> attempts (fst (claim t i s)) i"
    and claim_terminal: "terminal (status s i) \<Longrightarrow>
         status (fst (claim t i s)) i = status s i \<and> attempts (fst (claim t i s)) i = attempts s i"
    and delivered_status: "status s i \<noteq> None \<Longrightarrow> status (delivered t i s) i = Some Delivered"
    and failed_status: "status s i \<noteq> None \<Longrightarrow>
         status (failed t i e dead s) i = Some (if dead then Dead else Failed) \<and>
         attempts (failed t i e dead s) i = attempts s i + 1"
    and frame: "j \<noteq> i \<Longrightarrow> status (fst (claim t i s)) j = status s j \<and>
         attempts (fst (claim t i s)) j = attempts s j \<and>
         status (delivered t i s) j = status s j \<and> attempts (delivered t i s) j = attempts s j \<and>
         status (failed t i e dead s) j = status s j \<and> attempts (failed t i e dead s) j = attempts s j"

section \<open>The D1 store meets the contract\<close>

definition delivery_status_of :: "db \<Rightarrow> string \<Rightarrow> delivery_status option" where
  "delivery_status_of d i = map_option dl_status (getDelivery d i)"

definition delivery_attempts_of :: "db \<Rightarrow> string \<Rightarrow> nat" where
  "delivery_attempts_of d i = (case getDelivery d i of None \<Rightarrow> 0 | Some r \<Rightarrow> attemptCount r)"

lemma getDelivery_with:
  assumes "\<And>r. dl_id (f r) = dl_id r"
  shows "getDelivery (with_delivery P f d) i = map_option (\<lambda>r. if P r then f r else r) (getDelivery d i)"
  using assms unfolding getDelivery_def with_delivery_def by (simp add: find_update_where)

lemma getDelivery_id: "getDelivery d i = Some r \<Longrightarrow> dl_id r = i"
  unfolding getDelivery_def by (auto dest: find_SomeD)

lemma getDelivery_claimed:
  "getDelivery (with_delivery (claimable t i) (\<lambda>r. r\<lparr>dl_status := Sending, claimedAt := Some now, dl_updatedAt := now\<rparr>) d) j =
   map_option (\<lambda>r. if claimable t i r then r\<lparr>dl_status := Sending, claimedAt := Some now, dl_updatedAt := now\<rparr> else r)
     (getDelivery d j)"
  by (rule getDelivery_with) simp

lemma getDelivery_failed:
  "getDelivery (markDeliveryFailed now i e dead d) j =
   map_option (\<lambda>r. if dl_id r = i then r\<lparr>dl_status := (if dead then Dead else Failed), lastError := Some e,
       attemptCount := attemptCount r + 1, dl_updatedAt := now\<rparr> else r) (getDelivery d j)"
  unfolding markDeliveryFailed_def by (rule getDelivery_with) simp

lemma getDelivery_delivered:
  "getDelivery (markDeliveryDelivered now i d) j =
   map_option (\<lambda>r. if dl_id r = i then r\<lparr>dl_status := Delivered, deliveredAt := Some now, dl_updatedAt := now\<rparr> else r)
     (getDelivery d j)"
  unfolding markDeliveryDelivered_def by (rule getDelivery_with) simp

lemmas getDelivery_ops = getDelivery_claimed getDelivery_failed getDelivery_delivered
lemmas delivery_obs = delivery_status_of_def delivery_attempts_of_def

text \<open>The claim either leaves the database, marks the row, or marks it dead.\<close>

lemma claim_cases:
  assumes "getPendingDelivery h dec key now i d = (d', r)"
  obtains "d' = d" "\<not> (\<exists>p. r = Inr (Some p))"
  | "d' = with_delivery (claimable (now - CLAIM_STALE_MS) i)
        (\<lambda>r. r\<lparr>dl_status := Sending, claimedAt := Some now, dl_updatedAt := now\<rparr>) d"
    "\<And>p. r = Inr (Some p) \<Longrightarrow> (\<exists>del. getDelivery d' i = Some del \<and> pd_attemptCount p = attemptCount del) \<and>
       written_by (claimable (now - CLAIM_STALE_MS) i) (getDelivery d i)"
  | "d' = markDeliveryFailed now i ''destination archived'' True
        (with_delivery (claimable (now - CLAIM_STALE_MS) i)
          (\<lambda>r. r\<lparr>dl_status := Sending, claimedAt := Some now, dl_updatedAt := now\<rparr>) d)"
    "\<not> (\<exists>p. r = Inr (Some p))" "written_by (claimable (now - CLAIM_STALE_MS) i) (getDelivery d i)"
  using assms
  by (cases key) (auto simp: getPendingDelivery_def Let_def pending_join_def bind_eq_Some_conv
      split: if_splits option.splits)

lemma claim_attempts_kept:
  assumes "getPendingDelivery h dec key now i d = (d', r)"
  shows "delivery_attempts_of d i \<le> delivery_attempts_of d' i"
  using assms
  by (cases rule: claim_cases) (auto simp: delivery_obs getDelivery_ops split: option.splits)

lemma claim_kept_terminal:
  assumes "getPendingDelivery h dec key now i d = (d', r)" "terminal (delivery_status_of d i)"
  shows "d' = d"
proof -
  have "\<not> written_by (claimable (now - CLAIM_STALE_MS) i) (getDelivery d i)"
    using assms(2) by (auto simp: terminal_def delivery_obs written_by_def claimable_def)
  with assms(1) show ?thesis
    by (auto simp: getPendingDelivery_def Let_def split: option.splits)
qed

lemma claim_handed_out:
  assumes "getPendingDelivery h dec key now i d = (d', Inr (Some p))"
  shows "\<not> terminal (delivery_status_of d i) \<and> delivery_status_of d' i = Some Sending \<and>
    delivery_attempts_of d' i = delivery_attempts_of d i \<and> pd_attemptCount p = delivery_attempts_of d i"
  using assms
proof (cases rule: claim_cases)
  case 2
  from 2(2) [OF refl] obtain del where
    del: "getDelivery d' i = Some del" "pd_attemptCount p = attemptCount del"
    and w: "written_by (claimable (now - CLAIM_STALE_MS) i) (getDelivery d i)" by blast
  from w obtain r where r: "getDelivery d i = Some r" "claimable (now - CLAIM_STALE_MS) i r"
    by (auto simp: written_by_def split: option.splits)
  with del show ?thesis unfolding 2(1)
    by (auto simp: getDelivery_ops delivery_obs terminal_def claimable_def)
qed auto

lemma claim_frame:
  assumes "getPendingDelivery h dec key now i d = (d', r)" "j \<noteq> i"
  shows "delivery_status_of d' j = delivery_status_of d j \<and> delivery_attempts_of d' j = delivery_attempts_of d j"
  using assms
  by (cases rule: claim_cases)
    (auto simp: delivery_obs getDelivery_ops claimable_def dest: getDelivery_id split: option.splits)

interpretation d1: notify_store
  "getPendingDelivery h dec key" markDeliveryDelivered markDeliveryFailed
  delivery_status_of delivery_attempts_of
  for h dec key
proof unfold_locales
  fix t i s s' p assume "getPendingDelivery h dec key t i s = (s', Inr (Some p))"
  then show "\<not> terminal (delivery_status_of s i) \<and> delivery_status_of s' i = Some Sending \<and>
      delivery_attempts_of s' i = delivery_attempts_of s i \<and> pd_attemptCount p = delivery_attempts_of s i"
    by (rule claim_handed_out)
next
  fix s i t show "delivery_attempts_of s i \<le> delivery_attempts_of (fst (getPendingDelivery h dec key t i s)) i"
    using claim_attempts_kept [of h dec key t i s] by (metis prod.collapse)
next
  fix s i t assume "terminal (delivery_status_of s i)"
  then have "fst (getPendingDelivery h dec key t i s) = s"
    using claim_kept_terminal [of h dec key t i s] by (metis prod.collapse)
  then show "delivery_status_of (fst (getPendingDelivery h dec key t i s)) i = delivery_status_of s i \<and>
      delivery_attempts_of (fst (getPendingDelivery h dec key t i s)) i = delivery_attempts_of s i" by simp
next
  fix s i t assume "delivery_status_of s i \<noteq> None"
  then show "delivery_status_of (markDeliveryDelivered t i s) i = Some Delivered"
    by (cases "getDelivery s i") (auto simp: delivery_obs getDelivery_ops dest: getDelivery_id)
next
  fix s i t e dead assume "delivery_status_of s i \<noteq> None"
  then show "delivery_status_of (markDeliveryFailed t i e dead s) i = Some (if dead then Dead else Failed) \<and>
      delivery_attempts_of (markDeliveryFailed t i e dead s) i = delivery_attempts_of s i + 1"
    by (cases "getDelivery s i") (auto simp: delivery_obs getDelivery_ops dest: getDelivery_id)
next
  fix j i :: string and t s e dead assume ji: "j \<noteq> i"
  have *: "getDelivery (markDeliveryDelivered t i s) j = getDelivery s j"
    "getDelivery (markDeliveryFailed t i e dead s) j = getDelivery s j"
    using ji by (cases "getDelivery s j"; auto simp: getDelivery_ops dest: getDelivery_id)+
  show "delivery_status_of (fst (getPendingDelivery h dec key t i s)) j = delivery_status_of s j \<and>
      delivery_attempts_of (fst (getPendingDelivery h dec key t i s)) j = delivery_attempts_of s j \<and>
      delivery_status_of (markDeliveryDelivered t i s) j = delivery_status_of s j \<and>
      delivery_attempts_of (markDeliveryDelivered t i s) j = delivery_attempts_of s j \<and>
      delivery_status_of (markDeliveryFailed t i e dead s) j = delivery_status_of s j \<and>
      delivery_attempts_of (markDeliveryFailed t i e dead s) j = delivery_attempts_of s j"
    using claim_frame [of h dec key t i s _ _ j] ji * by (auto simp: delivery_obs) (metis prod.collapse)+
qed

end
