(* ===== verification/Notify.thy ===== *)
theory Notify
  imports Complex_Main Notify_Store Net_Guard
begin

text \<open>
  The consumer of the notification queue: src/notify/batch.ts and the sending half of
  src/notify/discord.ts. The URL parser, \<open>searchParams.set\<close> on a parsed URL and the HTTP POST are
  arguments; a POST is made with the final URL and the change the payload is built from.
  \<open>processOne\<close> receives its store as arguments, as in the source; the facts about it are proved
  from the contract \<^term>\<open>notify_store\<close> and used for the D1 store.
\<close>

section \<open>Sending to Discord\<close>

datatype send_result = Send_ok | Send_failed "int option" "rat option" string

text \<open>
  A response: its status, \<open>Number(header)\<close> of a Retry-After header (\<open>Some None\<close> when it is not a
  finite number) and the finite number \<open>retry_after\<close> of a JSON body.
\<close>

record discord_response =
  dr_status :: int
  dr_header :: "rat option option"
  dr_json :: "rat option"

definition SSRF_BLOCKED_STATUS :: int where
  "SSRF_BLOCKED_STATUS = 400"

definition DISCORD_WEBHOOK_HOSTS :: "string list" where
  "DISCORD_WEBHOOK_HOSTS = [''discord.com'', ''discordapp.com'']"

definition isDiscordWebhookHost :: "string \<Rightarrow> bool" where
  "isDiscordWebhookHost name =
     (let host = toLowerCase name
      in list_ex (\<lambda>base. host = base \<or> endsWith host (''.'' @ base)) DISCORD_WEBHOOK_HOSTS)"

definition extractRetryAfterSeconds :: "discord_response \<Rightarrow> rat option" where
  "extractRetryAfterSeconds res =
     (let from_json = (case dr_json res of Some v \<Rightarrow> if v \<ge> 0 then Some v else None | None \<Rightarrow> None)
      in case dr_header res of
           Some (Some h) \<Rightarrow> if h \<ge> 0 then Some h else from_json
         | _ \<Rightarrow> from_json)"

definition sendToDiscord ::
  "url_parser \<Rightarrow> (string \<Rightarrow> web_url \<Rightarrow> web_url) \<Rightarrow> (string \<Rightarrow> change_summary \<Rightarrow> discord_response option) \<Rightarrow>
   string \<Rightarrow> change_summary \<Rightarrow> string option \<Rightarrow> send_result" where
  "sendToDiscord newURL setThread post webhook payload thread =
     (case newURL webhook None of
        None \<Rightarrow> Send_failed (Some SSRF_BLOCKED_STATUS) None
                  ''discord webhook delivery failed: invalid webhook url''
      | Some parsed \<Rightarrow>
          (let target = (case thread of None \<Rightarrow> parsed
                         | Some t \<Rightarrow> if t = '''' then parsed else setThread t parsed);
               finalUrl = href target
           in if \<not> allowed (checkUrlForSsrf newURL finalUrl)
              then Send_failed (Some SSRF_BLOCKED_STATUS) None
                     ''discord webhook delivery failed: webhook url blocked by url safety policy''
              else if \<not> isDiscordWebhookHost (hostname target)
              then Send_failed (Some SSRF_BLOCKED_STATUS) None
                     ''discord webhook delivery failed: webhook url host is not an allowed discord domain''
              else (case post finalUrl payload of
                      None \<Rightarrow> Send_failed None None ''discord webhook delivery failed: network error''
                    | Some res \<Rightarrow>
                        if dr_status res = 200 \<or> dr_status res = 204 then Send_ok
                        else if dr_status res = 429
                        then Send_failed (Some 429) (extractRetryAfterSeconds res)
                               ''discord webhook delivery rate limited (429)''
                        else Send_failed (Some (dr_status res)) None
                               (''discord webhook delivery failed: unexpected status '' @ show_int (dr_status res)))))"

section \<open>The queue consumer\<close>

definition DEFAULT_MAX_ATTEMPTS_NOTIFY :: nat where
  "DEFAULT_MAX_ATTEMPTS_NOTIFY = 5"

definition isPermanentFailure :: "int option \<Rightarrow> bool" where
  "isPermanentFailure st =
     (case st of None \<Rightarrow> False | Some s \<Rightarrow> if s = 429 then False else s \<ge> 400 \<and> s < 500)"

datatype message_action = Ack | Retry "rat option"

text \<open>
  The result of one message: the store, what is told to the queue, and whether a send was tried
  and succeeded. An exception of the claim leaves the function.
\<close>

definition processOne ::
  "(string \<Rightarrow> 's \<Rightarrow> 's \<times> (js_error + pending_delivery option)) \<Rightarrow> (string \<Rightarrow> 's \<Rightarrow> 's) \<Rightarrow>
   (string \<Rightarrow> string \<Rightarrow> bool \<Rightarrow> 's \<Rightarrow> 's) \<Rightarrow> (pending_delivery \<Rightarrow> send_result) \<Rightarrow> nat option \<Rightarrow> string \<Rightarrow> 's \<Rightarrow>
   's \<times> (js_error + message_action) \<times> bool option" where
  "processOne getPending markDelivered markFailed send maxOpt i s =
     (let maxAttempts = orElse maxOpt DEFAULT_MAX_ATTEMPTS_NOTIFY
      in case getPending i s of
           (s1, Inl e) \<Rightarrow> (s1, Inl e, None)
         | (s1, Inr None) \<Rightarrow> (s1, Inr Ack, None)
         | (s1, Inr (Some pending)) \<Rightarrow>
             if pd_attemptCount pending \<ge> maxAttempts
             then (markFailed i (''max attempts ('' @ show_nat maxAttempts @ '') exceeded'') True s1, Inr Ack, None)
             else (case send pending of
                     Send_ok \<Rightarrow> (markDelivered i s1, Inr Ack, Some True)
                   | Send_failed st retryAfter msg \<Rightarrow>
                       if st = Some 429 then (markFailed i msg False s1, Inr (Retry retryAfter), Some False)
                       else if isPermanentFailure st then (markFailed i msg True s1, Inr Ack, Some False)
                       else (markFailed i msg False s1, Inr (Retry None), Some False)))"

text \<open>The body of the loop of \<open>processNotifyBatch\<close>: an exception asks for a redelivery.\<close>

definition process_message ::
  "(string \<Rightarrow> 's \<Rightarrow> 's \<times> (js_error + pending_delivery option)) \<Rightarrow> (string \<Rightarrow> 's \<Rightarrow> 's) \<Rightarrow>
   (string \<Rightarrow> string \<Rightarrow> bool \<Rightarrow> 's \<Rightarrow> 's) \<Rightarrow> (pending_delivery \<Rightarrow> send_result) \<Rightarrow> nat option \<Rightarrow> string \<Rightarrow> 's \<Rightarrow>
   's \<times> message_action \<times> bool option" where
  "process_message getPending markDelivered markFailed send maxOpt i s =
     (case processOne getPending markDelivered markFailed send maxOpt i s of
        (s', Inl _, sent) \<Rightarrow> (s', Retry None, sent)
      | (s', Inr act, sent) \<Rightarrow> (s', act, sent))"

text \<open>
  A message as it arrives: the clock, the delivery it names and what the network does with a
  send. The queue may deliver the messages of a delivery any number of times, in any batches.
\<close>

type_synonym arrival = "ms \<times> string \<times> (pending_delivery \<Rightarrow> send_result)"

fun processNotifyBatch ::
  "(ms \<Rightarrow> string \<Rightarrow> 's \<Rightarrow> 's \<times> (js_error + pending_delivery option)) \<Rightarrow> (ms \<Rightarrow> string \<Rightarrow> 's \<Rightarrow> 's) \<Rightarrow>
   (ms \<Rightarrow> string \<Rightarrow> string \<Rightarrow> bool \<Rightarrow> 's \<Rightarrow> 's) \<Rightarrow> nat option \<Rightarrow> arrival list \<Rightarrow> 's \<Rightarrow>
   's \<times> (string \<times> message_action \<times> bool option) list" where
  "processNotifyBatch claim markDelivered markFailed maxOpt [] s = (s, [])"
| "processNotifyBatch claim markDelivered markFailed maxOpt ((now, i, send) # ms) s =
     (case process_message (claim now) (markDelivered now) (markFailed now) send maxOpt i s of
        (s1, act, sent) \<Rightarrow>
          (case processNotifyBatch claim markDelivered markFailed maxOpt ms s1 of
             (s2, outs) \<Rightarrow> (s2, (i, act, sent) # outs)))"

definition sends :: "string \<Rightarrow> (string \<times> message_action \<times> bool option) list \<Rightarrow> nat" where
  "sends i outs = length (filter (\<lambda>(j, act, sent). j = i \<and> sent \<noteq> None) outs)"

definition successes :: "string \<Rightarrow> (string \<times> message_action \<times> bool option) list \<Rightarrow> nat" where
  "successes i outs = length (filter (\<lambda>(j, act, sent). j = i \<and> sent = Some True) outs)"

section \<open>What follows from the contract\<close>

context notify_store
begin

lemma message_frame:
  assumes "process_message (claim t) (delivered t) (failed t) send m i s = (s', act, sent)" "j \<noteq> i"
  shows "status s' j = status s j \<and> attempts s' j = attempts s j"
proof -
  obtain s1 r where c: "claim t i s = (s1, r)" by fastforce
  have f1: "status s1 j = status s j \<and> attempts s1 j = attempts s j"
    using frame [OF assms(2), of t s] c by simp
  show ?thesis
    using assms(1) f1 frame [OF assms(2), of t s1]
    by (auto simp: process_message_def processOne_def c Let_def
        split: sum.splits option.splits send_result.splits if_splits)
qed

lemma message_terminal:
  assumes "process_message (claim t) (delivered t) (failed t) send m i s = (s', act, sent)"
    and "terminal (status s j)"
  shows "status s' j = status s j \<and> attempts s' j = attempts s j \<and> (j = i \<longrightarrow> sent = None)"
proof (cases "j = i")
  case True
  obtain s1 r where c: "claim t i s = (s1, r)" by fastforce
  have "(\<exists>e. r = Inl e) \<or> r = Inr None" using claim_some [of t i s s1] c assms(2) True by (cases r; cases "projr r") auto
  moreover have "status s1 i = status s i \<and> attempts s1 i = attempts s i"
    using claim_terminal [of s i t] c assms(2) True by simp
  ultimately show ?thesis
    using assms(1) True
    by (auto simp: process_message_def processOne_def c Let_def split: sum.splits option.splits)
qed (use message_frame [OF assms(1)] in blast)

text \<open>What one message does to its own delivery.\<close>

lemma message_own:
  assumes "process_message (claim t) (delivered t) (failed t) send m i s = (s', act, sent)"
  shows "case sent of
      None \<Rightarrow> attempts s i \<le> attempts s' i
    | Some ok \<Rightarrow> attempts s i < orElse m DEFAULT_MAX_ATTEMPTS_NOTIFY \<and> \<not> terminal (status s i) \<and>
        (if ok then status s' i = Some Delivered else attempts s' i = attempts s i + 1)"
proof -
  obtain s1 r where c: "claim t i s = (s1, r)" by fastforce
  have le: "attempts s i \<le> attempts s1 i" using claim_attempts [of s i t] c by simp
  show ?thesis
  proof (cases r)
    case (Inr x)
    show ?thesis
    proof (cases x)
      case None
      with Inr show ?thesis using assms le by (auto simp: process_message_def processOne_def c Let_def)
    next
      case (Some p)
      from claim_some [of t i s s1 p] c Inr Some have
        p: "\<not> terminal (status s i)" "status s1 i = Some Sending" "attempts s1 i = attempts s i"
          "pd_attemptCount p = attempts s i" by auto
      from p(2) have ex: "status s1 i \<noteq> None" by simp
      show ?thesis
        using assms p delivered_status [OF ex] failed_status [OF ex]
        by (auto simp: process_message_def processOne_def c Inr Some Let_def not_le
            split: send_result.splits if_splits)
    qed
  qed (use assms le in \<open>auto simp: process_message_def processOne_def c\<close>)
qed

lemma batch_terminal:
  assumes "processNotifyBatch claim delivered failed m ms s = (s', outs)" "terminal (status s i)"
  shows "status s' i = status s i \<and> sends i outs = 0 \<and> successes i outs = 0"
  using assms
proof (induction ms arbitrary: s outs)
  case (Cons a ms)
  obtain t j send where a: "a = (t, j, send)" by (cases a)
  obtain s1 act sent where m1: "process_message (claim t) (delivered t) (failed t) send m j s = (s1, act, sent)"
    by (metis prod.collapse)
  obtain s2 outs2 where m2: "processNotifyBatch claim delivered failed m ms s1 = (s2, outs2)" by fastforce
  with Cons.prems(1) a m1 have out: "s' = s2" "outs = (j, act, sent) # outs2" by auto
  from message_terminal [OF m1 Cons.prems(2)]
  have t1: "status s1 i = status s i" "i = j \<longrightarrow> sent = None" by auto
  from t1(1) Cons.prems(2) have "terminal (status s1 i)" by simp
  with Cons.IH [of s1 outs2] m2 out(1) have "status s' i = status s1 i \<and> sends i outs2 = 0 \<and> successes i outs2 = 0"
    by simp
  with t1 show ?case by (auto simp: out(2) sends_def successes_def)
qed (auto simp: sends_def successes_def)

lemma batch_bounded:
  assumes "processNotifyBatch claim delivered failed m ms s = (s', outs)"
  shows "sends i outs \<le> orElse m DEFAULT_MAX_ATTEMPTS_NOTIFY - attempts s i \<and> successes i outs \<le> 1 \<and>
    (successes i outs = 1 \<longrightarrow> status s' i = Some Delivered)"
  using assms
proof (induction ms arbitrary: s outs)
  case (Cons a ms)
  obtain t j send where a: "a = (t, j, send)" by (cases a)
  obtain s1 act sent where m1: "process_message (claim t) (delivered t) (failed t) send m j s = (s1, act, sent)"
    by (metis prod.collapse)
  obtain s2 outs2 where m2: "processNotifyBatch claim delivered failed m ms s1 = (s2, outs2)" by fastforce
  with Cons.prems a m1 have out: "s' = s2" "outs = (j, act, sent) # outs2" by auto
  from m2 out(1) have m2': "processNotifyBatch claim delivered failed m ms s1 = (s', outs2)" by simp
  note IH = Cons.IH [OF m2']
  show ?case
  proof (cases "j = i \<and> sent = Some True")
    case True
    from message_own [OF m1] True have "status s1 i = Some Delivered"
      "attempts s i < orElse m DEFAULT_MAX_ATTEMPTS_NOTIFY" by auto
    with batch_terminal [OF m2', of i] True show ?thesis
      by (auto simp: out sends_def successes_def terminal_def)
  next
    case False
    show ?thesis
    proof (cases "j = i")
      case True
      with message_own [OF m1] False IH show ?thesis
        by (auto simp: out sends_def successes_def split: option.splits)
    next
      case False
      with message_frame [OF m1, of i] IH show ?thesis
        by (auto simp: out sends_def successes_def)
    qed
  qed
qed (auto simp: sends_def successes_def)

end

section \<open>Properties of the notification path\<close>


text \<open>
  A webhook is only ever posted to a URL that passes the URL check and whose host is a
  Discord domain: replacing the network by one that refuses every other URL changes nothing.
\<close>

theorem post_only_to_discord:
  "sendToDiscord newURL setThread post webhook payload thread =
   sendToDiscord newURL setThread
     (\<lambda>url p. if allowed (checkUrlForSsrf newURL url) \<and>
                (\<exists>target :: web_url. href target = url \<and> isDiscordWebhookHost (hostname target))
             then post url p else None) webhook payload thread"
proof (cases "newURL webhook None")
  case (Some parsed)
  define target where "target = (case thread of None \<Rightarrow> parsed
      | Some t \<Rightarrow> if t = '''' then parsed else setThread t parsed)"
  show ?thesis
  proof (cases "allowed (checkUrlForSsrf newURL (href target)) \<and> isDiscordWebhookHost (hostname target)")
    case True
    then have "\<exists>t :: web_url. href t = href target \<and> isDiscordWebhookHost (hostname t)" by blast
    with True show ?thesis
      by (simp add: sendToDiscord_def Some Let_def flip: target_def)
  next
    case False
    then show ?thesis
      by (auto simp add: sendToDiscord_def Some Let_def simp flip: target_def)
  qed
qed (simp add: sendToDiscord_def)

lemma claim_decrypt_throws:
  assumes "getDelivery d i = Some r" "dl_status r = Pending"
    and "pending_join (with_delivery (claimable (now - CLAIM_STALE_MS) i)
          (\<lambda>r. r\<lparr>dl_status := Sending, claimedAt := Some now, dl_updatedAt := now\<rparr>) d) i =
        Some (del, dest, c, src, s)"
    and "archivedAt dest = None" "decrypt key (webhookUrl dest) = None"
  shows "getPendingDelivery h decrypt (Some key) now i d =
    (with_delivery (claimable (now - CLAIM_STALE_MS) i)
      (\<lambda>r. r\<lparr>dl_status := Sending, claimedAt := Some now, dl_updatedAt := now\<rparr>) d,
     Inl (JsError ''decryptWebhookUrl''))"
  using assms getDelivery_id [OF assms(1)]
  by (simp add: getPendingDelivery_def Let_def written_by_def claimable_def)

text \<open>
  C20. An exception after the claim loses the delivery: when decryption throws, the message is
  handed back for a retry, but a retry within the five minutes of the claim finds the row being
  sent by somebody, acknowledges the message, and leaves the row in that state with no message.
\<close>

theorem exception_after_claim_loses_message:
  assumes "getDelivery d i = Some r" "dl_status r = Pending"
    and "pending_join (with_delivery (claimable (t1 - CLAIM_STALE_MS) i)
          (\<lambda>r. r\<lparr>dl_status := Sending, claimedAt := Some t1, dl_updatedAt := t1\<rparr>) d) i =
        Some (del, dest, c, src, s)"
    and "archivedAt dest = None" "decrypt key (webhookUrl dest) = None"
    and "t2 \<le> t1 + CLAIM_STALE_MS"
  shows "case processNotifyBatch (getPendingDelivery h decrypt (Some key)) markDeliveryDelivered
        markDeliveryFailed m [(t1, i, send), (t2, i, send')] d of
      (d', outs) \<Rightarrow> outs = [(i, Retry None, None), (i, Ack, None)] \<and>
        delivery_status_of d' i = Some Sending \<and> delivery_attempts_of d' i = delivery_attempts_of d i"
proof -
  let ?d1 = "with_delivery (claimable (t1 - CLAIM_STALE_MS) i)
      (\<lambda>r. r\<lparr>dl_status := Sending, claimedAt := Some t1, dl_updatedAt := t1\<rparr>) d"
  have c1: "claimable (t1 - CLAIM_STALE_MS) i r"
    using assms(2) getDelivery_id [OF assms(1)] by (simp add: claimable_def)
  then have row: "getDelivery ?d1 i = Some (r\<lparr>dl_status := Sending, claimedAt := Some t1, dl_updatedAt := t1\<rparr>)"
    using assms(1) by (simp add: getDelivery_claimed)
  then have "\<not> written_by (claimable (t2 - CLAIM_STALE_MS) i) (getDelivery ?d1 i)"
    using assms(6) by (simp add: written_by_def claimable_def)
  then have "getPendingDelivery h decrypt (Some key) t2 i ?d1 = (?d1, Inr None)"
    by (simp add: getPendingDelivery_def Let_def)
  with claim_decrypt_throws [where decrypt = decrypt and key = key, OF assms(1-5)] row assms(1) show ?thesis
    by (simp add: process_message_def processOne_def Let_def delivery_obs)
qed

definition stuck_db :: db where
  "stuck_db = \<lparr>
     sites = [\<lparr>st_id = ''s'', st_name = ''site'', st_primaryOrigin = None, st_createdAt = 0, st_updatedAt = 0\<rparr>],
     sources = [\<lparr>src_id = ''r'', src_siteId = ''s'', src_type = Page, src_url = ''u'', src_config = None,
       src_createdAt = 0, src_updatedAt = 0\<rparr>],
     monitors = [\<lparr>mon_id = ''m'', mon_siteId = ''s'', mon_sourceId = ''r'', mon_status = Active,
       stopReason = None, robotsEvaluationId = None, intervalSeconds = 60, mon_nextRunAt = None,
       mon_lastCheckedAt = None, mon_createdAt = 0, mon_updatedAt = 0\<rparr>],
     targets = [], check_jobs = [], check_attempts = [], snapshots = [],
     changes = [\<lparr>ch_id = ''c'', ch_monitorId = ''m'', ch_targetId = None, ch_targetUrl = ''u'',
       ch_kind = New, diffLevel = None, dedupeKey = ''k'', previousSnapshotId = None,
       ch_snapshotId = None, diffR2Key = None, diffPreview = None, ch_title = None,
       ch_tags = None, detectedAt = 0, ch_createdAt = 0\<rparr>],
     destinations = [\<lparr>ds_id = ''x'', ds_name = ''n'', webhookUrl = ''garbled'', enabled = True,
       archivedAt = None, threadId = None, ds_createdAt = 0, ds_updatedAt = 0\<rparr>],
     subscriptions = [],
     deliveries = [\<lparr>dl_id = ''d'', dl_changeId = ''c'', dl_destinationId = ''x'', dl_status = Pending,
       attemptCount = 0, lastError = None, deliveredAt = None, dl_createdAt = 0, dl_updatedAt = 0,
       claimedAt = None\<rparr>],
     robots_policies = [], robots_evaluations = [],
     executors = [], fetchers = [], audit_events = []\<rparr>"

theorem exception_after_claim_loses_message_witness:
  "\<exists>d'. processNotifyBatch (getPendingDelivery '''' (\<lambda>k w. None) (Some ''key'')) markDeliveryDelivered
      markDeliveryFailed None [(0, ''d'', \<lambda>p. Send_ok), (10000, ''d'', \<lambda>p. Send_ok)] stuck_db =
    (d', [(''d'', Retry None, None), (''d'', Ack, None)]) \<and> delivery_status_of d' ''d'' = Some Sending"
proof -
  have r: "getDelivery stuck_db ''d'' = Some (hd (deliveries stuck_db))" "dl_status (hd (deliveries stuck_db)) = Pending"
    by (simp_all add: stuck_db_def getDelivery_def)
  have j: "pending_join (with_delivery (claimable (0 - CLAIM_STALE_MS) ''d'')
      (\<lambda>r. r\<lparr>dl_status := Sending, claimedAt := Some 0, dl_updatedAt := 0\<rparr>) stuck_db) ''d'' =
    Some ((hd (deliveries stuck_db))\<lparr>dl_status := Sending, claimedAt := Some 0, dl_updatedAt := 0\<rparr>,
      hd (destinations stuck_db), hd (changes stuck_db), hd (sources stuck_db), hd (sites stuck_db))"
    by (simp add: stuck_db_def pending_join_def with_delivery_def update_where_def claimable_def
        getDelivery_def getDestination_def getChange_def getMonitor_def getSource_def getSite_def)
  have a: "archivedAt (hd (destinations stuck_db)) = None" by (simp add: stuck_db_def)
  show ?thesis
    using exception_after_claim_loses_message [OF r j a, where decrypt = "\<lambda>k w. None" and key = "''key''" and ?t2.0 = 10000 and h = "''''" and m = None
        and send = "\<lambda>p. Send_ok" and send' = "\<lambda>p. Send_ok"]
    by (auto simp: CLAIM_STALE_MS_def simp del: processNotifyBatch.simps split: prod.splits)
qed


end
