(* ===== verification/Api_Destinations.thy ===== *)
theory Api_Destinations
  imports Api_Sources Notify
begin

text \<open>
  The routes of destinations and subscriptions (src/api/routes/destinations.ts,
  src/api/routes/subscriptions.ts) with the statements the API adds to the store (src/api/rawQueries.ts).
\<close>

section \<open>Statements of the API\<close>

definition isForeignKeyConstraintError :: "thrown \<Rightarrow> bool" where
  "isForeignKeyConstraintError e \<longleftrightarrow>
     str_includes (toLowerCase (thrown_message e)) ''foreign key constraint failed'' \<or>
     str_includes (toLowerCase (thrown_message e)) ''sqlite_constraint''"

text \<open>
  The batch is one transaction: while a delivery refers to the destination, the database refuses it and
  changes nothing.
\<close>

definition deleteDestinationById :: "string \<Rightarrow> db \<Rightarrow> (thrown + bool) \<times> db" where
  "deleteDestinationById i d =
     (if list_ex (\<lambda>r. ds_id r = i) (destinations d) \<and> list_ex (\<lambda>r. dl_destinationId r = i) (deliveries d)
      then (Inl (error ''D1_ERROR: FOREIGN KEY constraint failed''), d)
      else (Inr (list_ex (\<lambda>r. ds_id r = i) (destinations d)),
            d\<lparr>subscriptions := filter (\<lambda>r. su_destinationId r \<noteq> i) (subscriptions d),
              destinations := filter (\<lambda>r. ds_id r \<noteq> i) (destinations d)\<rparr>))"

definition getSubscriptionById :: "db \<Rightarrow> string \<Rightarrow> subscription_row option" where
  "getSubscriptionById d i = find (\<lambda>r. su_id r = i) (subscriptions d)"

definition deleteSubscriptionById :: "string \<Rightarrow> db \<Rightarrow> db \<times> bool" where
  "deleteSubscriptionById i d =
     (d\<lparr>subscriptions := filter (\<lambda>r. su_id r \<noteq> i) (subscriptions d)\<rparr>, list_ex (\<lambda>r. su_id r = i) (subscriptions d))"

section \<open>Destinations\<close>

record create_destination_body =
  nb_name :: string
  nb_webhook_url :: string
  nb_thread_id :: "string option"

text \<open>The key of the environment, the codecs and the initialisation vector of the next encryption.\<close>

record 'k webhook_env =
  we_crypto :: "'k crypto"
  we_key :: "string option"
  we_iv :: "nat \<Rightarrow> bytes"

record destination_shapes =
  sh_createDestination :: "json \<Rightarrow> create_destination_body option"
  sh_updateDestination :: "json \<Rightarrow> string option option"

definition THREAD_ID_PATTERN :: "string \<Rightarrow> bool" where
  "THREAD_ID_PATTERN t \<longleftrightarrow> sized 17 20 t \<and> list_all is_digit t"

definition createDestinationSchema :: "create_destination_body \<Rightarrow> bool" where
  "createDestinationSchema b \<longleftrightarrow>
     nonempty (nb_name b) \<and> nonempty (nb_webhook_url b) \<and> optional THREAD_ID_PATTERN (nb_thread_id b)"

definition updateDestinationSchema :: "string option \<Rightarrow> bool" where
  "updateDestinationSchema t \<longleftrightarrow> optional THREAD_ID_PATTERN t"

definition assertValidWebhookUrl :: "url_parser \<Rightarrow> string \<Rightarrow> raised + unit" where
  "assertValidWebhookUrl newUrl url =
     (case newUrl url None of
        None \<Rightarrow> Inl (badRequest ''invalid_webhook_url'')
      | Some parsed \<Rightarrow>
          if protocol parsed \<noteq> ''http:'' \<and> protocol parsed \<noteq> ''https:'' then Inl (badRequest ''invalid_webhook_url'')
          else if \<not> allowed (checkUrlForSsrf newUrl url) then Inl (badRequest ''invalid_webhook_url'')
          else if \<not> isDiscordWebhookHost (hostname parsed) then Inl (badRequest ''invalid_webhook_url'')
          else Inr ())"

text \<open>A stored URL that cannot be read makes the rendering throw.\<close>

definition answer_destination :: "'n api \<Rightarrow> 'k webhook_env \<Rightarrow> nat \<Rightarrow> destination_row \<Rightarrow> 'n app handler" where
  "answer_destination v wh st r =
     chain (require (\<lambda>a. serializeDestination (we_crypto wh) (api_url v) (ai_stamp v) r)
       (Unexpected (error ''malformed encrypted webhook_url''))) (\<lambda>j.
     gives (json_response st j))"

definition post_destination :: "'n api \<Rightarrow> 'k webhook_env \<Rightarrow> destination_shapes \<Rightarrow> request \<Rightarrow> 'n app handler" where
  "post_destination v wh sh rq =
     chain (checked (read_body (ai_parse v) (sh_createDestination sh) createDestinationSchema rq)) (\<lambda>body.
     chain (checked (assertValidWebhookUrl (api_url v) (nb_webhook_url body))) (\<lambda>_.
     chain (require (\<lambda>a. truthy (we_key wh)) (serviceUnavailable ''webhook_encryption_unavailable'')) (\<lambda>encKey.
     chain (require (\<lambda>a. encryptWebhookUrl (we_crypto wh) (we_iv wh (uuids (ap_check a))) (nb_webhook_url body)
       (maskWebhookUrl (api_url v) (nb_webhook_url body)) encKey) (Unexpected (error ''WEBHOOK_ENC_KEY''))) (\<lambda>encrypted.
     chain (stores v (\<lambda>u now. createDestination u now None (nb_name body) encrypted None (nb_thread_id body))) (\<lambda>created.
     answer_destination v wh 201 created)))))"

definition require_destination :: "string \<Rightarrow> (destination_row, 'n app) step" where
  "require_destination i = require (\<lambda>a. getDestination (app_db a) i) (notFound ''destination_not_found'')"

definition thread_json :: "string option \<Rightarrow> json" where
  "thread_json t = JObj [(''threadId'', jstr t)]"

definition patch_destination ::
  "'n api \<Rightarrow> 'k webhook_env \<Rightarrow> destination_shapes \<Rightarrow> string \<Rightarrow> request \<Rightarrow> 'n app handler" where
  "patch_destination v wh sh i rq =
     chain (require_destination i) (\<lambda>dest.
     chain (reject_if (\<lambda>a. archivedAt dest \<noteq> None) (badRequest ''destination_archived'')) (\<lambda>_.
     chain (checked (read_body (ai_parse v) (sh_updateDestination sh) updateDestinationSchema rq)) (\<lambda>thread.
     chain (alters v (\<lambda>now. updateDestinationThreadId now i thread)) (\<lambda>result.
     chain (require (\<lambda>a. result) (notFound ''destination_not_found'')) (\<lambda>updated.
     chain (audits v ''destination.update'' i None
       (Some (JObj [(''before'', thread_json (threadId dest)), (''after'', thread_json (threadId updated))]))) (\<lambda>_.
     answer_destination v wh 200 updated))))))"

text \<open>The page is rendered row by row; the first row that cannot be read makes the listing throw.\<close>

definition list_destinations :: "'n api \<Rightarrow> 'k webhook_env \<Rightarrow> request \<Rightarrow> 'n app handler" where
  "list_destinations v wh rq =
     chain (checked (parsePagination (ai_number v) rq)) (\<lambda>pg.
     chain (reads (\<lambda>a. listDestinations (app_db a))) (\<lambda>found.
     chain (require (\<lambda>a. those (map (serializeDestination (we_crypto wh) (api_url v) (ai_stamp v)) (paginate found pg)))
       (Unexpected (error ''malformed encrypted webhook_url''))) (\<lambda>items.
     gives (listing items (length found)))))"

definition get_destination :: "'n api \<Rightarrow> 'k webhook_env \<Rightarrow> string \<Rightarrow> 'n app handler" where
  "get_destination v wh i = chain (require_destination i) (answer_destination v wh 200)"

definition removes_destination :: "string \<Rightarrow> (bool, 'n app) step" where
  "removes_destination i a =
     (case deleteDestinationById i (app_db a) of
        (Inl e, d) \<Rightarrow>
          (Inl (if isForeignKeyConstraintError e then conflict ''destination_has_delivery_history'' else Unexpected e),
           set_app_db d a)
      | (Inr gone, d) \<Rightarrow> (Inr gone, set_app_db d a))"

definition delete_destination :: "string \<Rightarrow> 'n app handler" where
  "delete_destination i =
     chain (require_destination i) (\<lambda>dest. chain (removes_destination i) (\<lambda>_. gives deleted_response))"

definition archive_destination :: "'n api \<Rightarrow> 'k webhook_env \<Rightarrow> string \<Rightarrow> 'n app handler" where
  "archive_destination v wh i =
     chain (require_destination i) (\<lambda>dest.
     chain (alters v (\<lambda>now. archiveDestination now i)) (\<lambda>result.
     chain (require (\<lambda>a. result) (notFound ''destination_not_found'')) (\<lambda>archived.
       (if archivedAt dest = None
        then chain (audits v ''destination.archive'' i None (Some (JObj [(''destinationId'', JStr i)])))
               (\<lambda>_. answer_destination v wh 200 archived)
        else answer_destination v wh 200 archived))))"

definition destinationsRoutes :: "'n api \<Rightarrow> 'k webhook_env \<Rightarrow> destination_shapes \<Rightarrow> 'n route list" where
  "destinationsRoutes v wh sh = mounted ''destinations''
     [(''POST'', [], \<lambda>ids rq. post_destination v wh sh rq),
      (''PATCH'', ['':id''], \<lambda>ids rq. patch_destination v wh sh (hd ids) rq),
      (''GET'', [], \<lambda>ids rq. list_destinations v wh rq),
      (''GET'', ['':id''], \<lambda>ids rq. get_destination v wh (hd ids)),
      (''DELETE'', ['':id''], \<lambda>ids rq. delete_destination (hd ids)),
      (''POST'', ['':id'', ''archive''], \<lambda>ids rq. archive_destination v wh (hd ids))]"

section \<open>Subscriptions\<close>

record create_subscription_body =
  ub_destination_id :: string
  ub_site_id :: "string option"
  ub_monitor_id :: "string option"
  ub_tag :: "string option"
  ub_kind :: "change_kind option"
  ub_kinds :: "change_kind list option"

definition createSubscriptionSchema :: "create_subscription_body \<Rightarrow> bool" where
  "createSubscriptionSchema b \<longleftrightarrow>
     nonempty (ub_destination_id b) \<and> optional nonempty (ub_site_id b) \<and> optional nonempty (ub_monitor_id b) \<and>
     optional TAG_PATTERN (ub_tag b)"

definition wanted_kind :: "create_subscription_body \<Rightarrow> change_kind option" where
  "wanted_kind b =
     (case ub_kind b of
        Some k \<Rightarrow> Some k
      | None \<Rightarrow> (case orElse (ub_kinds b) [] of [] \<Rightarrow> None | k # _ \<Rightarrow> Some k))"

text \<open>A row a body names must exist.\<close>

definition named_exists :: "('n app \<Rightarrow> string \<Rightarrow> 'r option) \<Rightarrow> string option \<Rightarrow> raised \<Rightarrow> (unit, 'n app) step" where
  "named_exists look x e =
     reject_if (\<lambda>a. case truthy x of None \<Rightarrow> False | Some i \<Rightarrow> look a i = None) e"

definition post_subscription :: "'n api \<Rightarrow> (json \<Rightarrow> create_subscription_body option) \<Rightarrow> request \<Rightarrow> 'n app handler" where
  "post_subscription v sh rq =
     chain (checked (read_body (ai_parse v) sh createSubscriptionSchema rq)) (\<lambda>body.
     chain (require_destination (ub_destination_id body)) (\<lambda>dest.
     chain (reject_if (\<lambda>a. archivedAt dest \<noteq> None) (badRequest ''destination_archived'')) (\<lambda>_.
     chain (named_exists (\<lambda>a. getSite (app_db a)) (ub_site_id body) (notFound ''site_not_found'')) (\<lambda>_.
     chain (named_exists (\<lambda>a. getMonitor (app_db a)) (ub_monitor_id body) (notFound ''monitor_not_found'')) (\<lambda>_.
     chain (stores v (\<lambda>u now. createSubscription u now None (ub_destination_id body) (ub_site_id body)
       (ub_monitor_id body) (ub_tag body)
       (wanted_kind body))) (\<lambda>created.
     gives (json_response 201 (serializeSubscription (ai_stamp v) created))))))))"

definition list_subscriptions :: "'n api \<Rightarrow> request \<Rightarrow> 'n app handler" where
  "list_subscriptions v rq =
     chain (require (\<lambda>a. truthy (rq_query rq ''destination_id'')) (badRequest ''destination_id_required'')) (\<lambda>i.
     chain (checked (parsePagination (ai_number v) rq)) (\<lambda>pg.
     chain (reads (\<lambda>a. listSubscriptionsByDestination (app_db a) i)) (\<lambda>found.
     gives (listing (map (serializeSubscription (ai_stamp v)) (paginate found pg)) (length found)))))"

definition delete_subscription :: "'n api \<Rightarrow> string \<Rightarrow> 'n app handler" where
  "delete_subscription v i =
     chain (require (\<lambda>a. getSubscriptionById (app_db a) i) (notFound ''subscription_not_found'')) (\<lambda>existing.
     chain (alters v (\<lambda>now. deleteSubscriptionById i)) (\<lambda>_.
     gives deleted_response))"

definition subscriptionsRoutes :: "'n api \<Rightarrow> (json \<Rightarrow> create_subscription_body option) \<Rightarrow> 'n route list" where
  "subscriptionsRoutes v sh = mounted ''subscriptions''
     [(''POST'', [], \<lambda>ids rq. post_subscription v sh rq),
      (''GET'', [], \<lambda>ids rq. list_subscriptions v rq),
      (''DELETE'', ['':id''], \<lambda>ids rq. delete_subscription v (hd ids))]"

lemma wp_named:
  "optional nonempty x \<Longrightarrow>
   wp I (named_exists look x e) Q s = (if optional (\<lambda>j. look s j \<noteq> None) x then Q () s else I s)"
  by (cases x; cases "the x") (auto simp: named_exists_def wp_reject_if truthy_def nonempty_def)

section \<open>The laws of the statements\<close>

locale destination_property = table_property I for I +
  assumes destination_new: "I (p, d) \<Longrightarrow> isEncryptedWebhookUrl url \<Longrightarrow>
      I (p, fst (createDestination u now None name url None thread d))"
    and destination_thread: "I (p, d) \<Longrightarrow> I (p, fst (updateDestinationThreadId now i thread d))"
    and destination_archived: "I (p, d) \<Longrightarrow> I (p, fst (archiveDestination now i d))"
    and destination_gone: "I (p, d) \<Longrightarrow> I (p, snd (deleteDestinationById i d))"
    and subscription_new: "I (p, d) \<Longrightarrow> getDestination d dest = Some r \<Longrightarrow> archivedAt r = None \<Longrightarrow>
      optional (\<lambda>j. getSite d j \<noteq> None) si \<Longrightarrow> optional (\<lambda>j. getMonitor d j \<noteq> None) mi \<Longrightarrow>
      I (p, fst (createSubscription u now None dest si mi tag k d))"
    and subscription_gone: "I (p, d) \<Longrightarrow> I (p, fst (deleteSubscriptionById i d))"
begin

lemma keeps_answer_destination: "keeps_inv J (answer_destination v wh st r)"
  unfolding keeps_inv_def answer_destination_def by (auto simp: wp_steps split: option.split)

lemma keeps_post_destination: "keeps_inv J (post_destination v wh sh rq)"
proof -
  have sealed: "encryptWebhookUrl cx iv url masked key = Some enc \<Longrightarrow> isEncryptedWebhookUrl enc"
    for cx :: "'k crypto" and iv url masked key enc
    by (auto simp: encryptWebhookUrl_def isEncryptedWebhookUrl_def split: option.splits)
  show ?thesis
    unfolding keeps_inv_def post_destination_def
    by (auto simp: wp_steps wp_stores J_tables intro!: wp_keeps [OF keeps_answer_destination] destination_new
        dest: sealed split: sum.split option.split)
qed

lemma keeps_patch_destination: "keeps_inv J (patch_destination v wh sh i rq)"
  unfolding keeps_inv_def patch_destination_def require_destination_def audits_def
  by (auto simp: wp_steps wp_stores wp_alters J_tables intro!: wp_keeps [OF keeps_answer_destination] destination_thread
      audited split: sum.split option.split)

lemma keeps_delete_destination: "keeps_inv J (delete_destination i :: 'n app handler)"
proof -
  have "J (snd (removes_destination i a))" if "J a" for a :: "'n app"
    using destination_gone [of "ap_policies a" "app_db a" i] that
    by (auto simp: removes_destination_def J_tables split: prod.split sum.split)
  then have "keeps_inv J (removes_destination i :: (bool, 'n app) step)" by (simp add: keeps_inv_iff)
  then have "J s \<Longrightarrow> wp J (removes_destination i) (\<lambda>_. J) s" for s :: "'n app"
    by (rule wp_keeps)
  then show ?thesis
    unfolding keeps_inv_def delete_destination_def require_destination_def
    by (auto simp: wp_steps split: option.split)
qed

lemma keeps_archive_destination: "keeps_inv J (archive_destination v wh i)"
  unfolding keeps_inv_def archive_destination_def require_destination_def audits_def
  by (auto simp: wp_steps wp_stores wp_alters J_tables intro!: wp_keeps [OF keeps_answer_destination] destination_archived
      audited split: option.split)

lemma keeps_post_subscription: "keeps_inv J (post_subscription v sh rq)"
  unfolding keeps_inv_def post_subscription_def require_destination_def
  by (auto simp: wp_steps wp_named wp_stores J_tables createSubscriptionSchema_def
      intro!: subscription_new dest!: read_body_ok split: sum.split option.split)

lemma keeps_destination_reads:
  "keeps_inv J (list_destinations v wh rq)" "keeps_inv J (get_destination v wh i)" "keeps_inv J (list_subscriptions v rq)"
  unfolding keeps_inv_def list_destinations_def get_destination_def list_subscriptions_def require_destination_def
  by (auto simp: wp_steps intro!: wp_keeps [OF keeps_answer_destination] split: sum.split option.split)

lemma keeps_delete_subscription: "keeps_inv J (delete_subscription v i)"
  unfolding keeps_inv_def delete_subscription_def
  by (auto simp: wp_steps wp_alters J_tables intro!: subscription_gone split: option.split)

lemma keeps_destinations: "routes_keep J (destinationsRoutes v wh sh)"
  by (simp add: destinationsRoutes_def mounted_keeps keeps_post_destination keeps_patch_destination
      keeps_delete_destination keeps_archive_destination keeps_destination_reads)

lemma keeps_subscriptions: "routes_keep J (subscriptionsRoutes v sh2)"
  by (simp add: subscriptionsRoutes_def mounted_keeps keeps_post_subscription keeps_delete_subscription
      keeps_destination_reads)

end

end
