(* ===== verification/Api_Reads.thy ===== *)
theory Api_Reads
  imports Api_Sources
begin

text \<open>
  The routes that only read: jobs, changes, snapshots, fetchers, executors and audit events
  (src/api/routes).
\<close>

section \<open>Jobs, changes and audit events\<close>

definition get_attempts :: "'n api \<Rightarrow> string \<Rightarrow> request \<Rightarrow> 'n app handler" where
  "get_attempts v i rq =
     chain (require (\<lambda>a. getCheckJob (app_db a) i) (notFound ''check_job_not_found'')) (\<lambda>job.
     chain (checked (parsePagination (ai_number v) rq)) (\<lambda>pg.
     chain (reads (\<lambda>a. listCheckAttempts (app_db a) i (window_of pg))) (\<lambda>found.
     chain (reads (\<lambda>a. countCheckAttempts (app_db a) i)) (\<lambda>n.
     gives (listing (map (serializeCheckAttempt (ai_stamp v)) found) n)))))"

definition list_changes :: "'n api \<Rightarrow> request \<Rightarrow> 'n app handler" where
  "list_changes v rq =
     chain (require (\<lambda>a. truthy (rq_query rq ''monitor_id'')) (badRequest ''monitor_id_required'')) (\<lambda>m.
     chain (checked (parsePagination (ai_number v) rq)) (\<lambda>pg.
     chain (reads (\<lambda>a. listChangesByMonitor (app_db a) m (window_of pg))) (\<lambda>found.
     chain (reads (\<lambda>a. countChangesByMonitor (app_db a) m)) (\<lambda>n.
     gives (listing (map (serializeChange (ai_stamp v)) found) n)))))"

definition require_change :: "string \<Rightarrow> (change_row, 'n app) step" where
  "require_change i = require (\<lambda>a. getChange (app_db a) i) (notFound ''change_not_found'')"

definition get_change :: "'n api \<Rightarrow> string \<Rightarrow> 'n app handler" where
  "get_change v i = chain (require_change i) (\<lambda>ch. gives (json_response 200 (serializeChange (ai_stamp v) ch)))"

definition object_text :: "'n app \<Rightarrow> string \<Rightarrow> r2_value option" where
  "object_text a key = map_of (bucket (ap_check a)) key"

definition value_text :: "r2_value \<Rightarrow> string" where
  "value_text x = (case x of R2_text t \<Rightarrow> t | R2_bytes bs \<Rightarrow> map (\<lambda>b. char_of (unat b)) bs)"

definition plain_response :: "http_headers \<Rightarrow> r2_value \<Rightarrow> response" where
  "plain_response hs x =
     \<lparr>res_status = 200, res_headers = (''content-type'', ''text/plain; charset=utf-8'') # hs, res_body = Plain (value_text x)\<rparr>"

definition get_diff :: "string \<Rightarrow> 'n app handler" where
  "get_diff i =
     chain (require_change i) (\<lambda>ch.
     chain (require (\<lambda>a. truthy (diffR2Key ch)) (notFound ''diff_not_available'')) (\<lambda>key.
     chain (require (\<lambda>a. object_text a key) (notFound ''diff_not_available'')) (\<lambda>x.
     gives (plain_response [] x))))"

definition list_audit_events :: "'n api \<Rightarrow> request \<Rightarrow> 'n app handler" where
  "list_audit_events v rq =
     chain (checked (parsePagination (ai_number v) rq)) (\<lambda>pg.
     chain (reads (\<lambda>a. listRecentAuditEvents (app_db a) (pg_offset pg + pg_limit pg))) (\<lambda>found.
     chain (reads (\<lambda>a. countAuditEvents (app_db a))) (\<lambda>n.
     gives (listing (map (serializeAuditEvent (ai_stamp v)) (paginate found pg)) n))))"

section \<open>Snapshots\<close>

definition require_snapshot :: "string \<Rightarrow> (snapshot_row, 'n app) step" where
  "require_snapshot i = require (\<lambda>a. getSnapshot (app_db a) i) (notFound ''snapshot_not_found'')"

definition get_snapshot :: "'n api \<Rightarrow> string \<Rightarrow> 'n app handler" where
  "get_snapshot v i = chain (require_snapshot i) (\<lambda>sn. gives (json_response 200 (serializeSnapshot (ai_stamp v) sn)))"

definition get_body :: "string \<Rightarrow> 'n app handler" where
  "get_body i =
     chain (require_snapshot i) (\<lambda>sn.
     chain (require (\<lambda>a. truthy (r2Key sn)) (notFound ''body_not_available'')) (\<lambda>key.
     chain (require (\<lambda>a. object_text a key) (notFound ''body_not_available'')) (\<lambda>x.
     gives (plain_response [(''x-content-type-options'', ''nosniff'')] x))))"

section \<open>Fetchers and executors\<close>

definition fetch_mode_name :: "fetch_mode_kind \<Rightarrow> string" where
  "fetch_mode_name m = (case m of Mode_http \<Rightarrow> ''http'' | Mode_browser \<Rightarrow> ''browser'')"

definition fetcher_json :: "fetcher_row \<Rightarrow> json" where
  "fetcher_json f =
     JObj [(''id'', JStr (fe_id f)), (''executor_id'', JStr (fe_executorId f)),
       (''fetch_mode'', JStr (fetch_mode_name (fe_fetchMode f))), (''region'', jstr (fe_region f))]"

definition list_fetchers :: "'n app handler" where
  "list_fetchers =
     chain (reads (\<lambda>a. listFetchers (app_db a))) (\<lambda>fs. gives (listing (map fetcher_json fs) (length fs)))"

definition runner_live :: "ms \<Rightarrow> runner_row \<Rightarrow> bool" where
  "runner_live now r \<longleftrightarrow> \<not> offline r \<and> last_seen r \<ge> now - RUNNER_ALIVE_WINDOW_MS"

definition runner_json :: "(ms \<Rightarrow> string) \<Rightarrow> ms \<Rightarrow> runner_row \<Rightarrow> json" where
  "runner_json stamp now r =
     JObj [(''runner_id'', JStr (rn_id r)), (''version'', JStr (version r)), (''concurrency'', jint (concurrency r)),
       (''inflight'', jint (inflight r)), (''fetch_modes'', jstrings (fetch_modes r)),
       (''last_seen_at'', JStr (stamp (last_seen r))), (''online'', JBool (runner_live now r))]"

definition executor_json :: "(ms \<Rightarrow> string) \<Rightarrow> ms \<Rightarrow> crawler \<Rightarrow> executor_row \<Rightarrow> json" where
  "executor_json stamp now c r =
     JObj ([(''id'', JStr (xr_id r)), (''kind'', JStr (xr_kind r)), (''name'', JStr (xr_name r)),
        (''status'', JStr (xr_status r)), (''capabilities'', opt_json id (capabilities r)),
        (''created_at'', JStr (stamp (xr_createdAt r))), (''updated_at'', JStr (stamp (xr_updatedAt r)))] @
       (if xr_kind r \<noteq> ''home_runner'' then []
        else let st = crawlerStatus now c in
          [(''online'', JBool (cs_online st)),
           (''last_heartbeat_at'', opt_json (\<lambda>t. JStr (stamp t)) (cs_lastHeartbeat st)),
           (''runners'', JArr (map (runner_json stamp now) (sort_key rn_id (runners c)))),
           (''queued'', jint (int (cs_queued st))),
           (''last_1h'', JObj [(''completed'', jint (int (cs_completed st))), (''expired'', jint (int (cs_expired st))),
              (''rejected'', jint (int (cs_rejected st)))])]))"

definition list_executors :: "'n api \<Rightarrow> 'n app handler" where
  "list_executors v =
     chain (reads (\<lambda>a. map (\<lambda>r. executor_json (ai_stamp v) (api_now v a) (ap_crawlers a (xr_id r)) r)
       (listExecutors (app_db a)))) (\<lambda>items.
     gives (listing items (length items)))"

definition get_executor :: "'n api \<Rightarrow> string \<Rightarrow> 'n app handler" where
  "get_executor v i =
     chain (require (\<lambda>a. getExecutor (app_db a) i) (notFound ''executor_not_found'')) (\<lambda>r.
     chain (reads (\<lambda>a. executor_json (ai_stamp v) (api_now v a) (ap_crawlers a (xr_id r)) r)) (\<lambda>j.
     gives (json_response 200 j)))"

section \<open>The routes\<close>

definition readRoutes :: "'n api \<Rightarrow> 'n route list" where
  "readRoutes v =
     mounted ''jobs'' [(''GET'', ['':id'', ''attempts''], \<lambda>ids rq. get_attempts v (hd ids) rq)] @
     mounted ''changes''
       [(''GET'', [], \<lambda>ids rq. list_changes v rq), (''GET'', ['':id''], \<lambda>ids rq. get_change v (hd ids)),
        (''GET'', ['':id'', ''diff''], \<lambda>ids rq. get_diff (hd ids))] @
     mounted ''snapshots''
       [(''GET'', ['':id''], \<lambda>ids rq. get_snapshot v (hd ids)), (''GET'', ['':id'', ''body''], \<lambda>ids rq. get_body (hd ids))] @
     mounted ''executors'' [(''GET'', [], \<lambda>ids rq. list_executors v), (''GET'', ['':id''], \<lambda>ids rq. get_executor v (hd ids))] @
     mounted ''fetchers'' [(''GET'', [], \<lambda>ids rq. list_fetchers)] @
     mounted ''audit-events'' [(''GET'', [], \<lambda>ids rq. list_audit_events v rq)]"

text \<open>None of them changes anything.\<close>

lemma reads_keep: "routes_keep I (readRoutes v)"
  by (simp add: readRoutes_def routes_keep_append mounted_keeps get_attempts_def list_changes_def get_change_def
      require_change_def get_diff_def get_snapshot_def require_snapshot_def get_body_def list_executors_def
      get_executor_def list_fetchers_def list_audit_events_def keeps_inv_def wp_steps split: option.split sum.split)

end
