(* ===== verification/Api_Auth.thy ===== *)
theory Api_Auth
  imports Api_Http
begin

text \<open>
  The authentication of the management API (src/api/auth.ts): the token of Cloudflare Access is
  checked against the keys of the team, which are cached, and the caller is derived from its claims;
  the callers that are runners (src/api/runnerAuth.ts) are confined to their routes.
\<close>

section \<open>The outside\<close>

definition CLOCK_SKEW_SECONDS :: rat where "CLOCK_SKEW_SECONDS = 60"

definition JWKS_TTL_MS :: ms where "JWKS_TTL_MS = 10 * 60 * 1000"

definition JWKS_MIN_REFETCH_MS :: ms where "JWKS_MIN_REFETCH_MS = 30 * 1000"

text \<open>
  The answer of the certificate endpoint (\<^const>\<open>None\<close>: the request throws) with its parsed body, the
  import of a key (\<^const>\<open>None\<close>: it throws), the check of a signature, \<open>JSON.parse\<close>, the text decoder and
  \<open>atob\<close>. Keys have the type \<open>'k\<close>; the outside state gives the time.
\<close>

record ('k, 'n) auth_env =
  au_certs :: "string \<Rightarrow> 'n \<Rightarrow> (nat \<times> json option) option \<times> 'n"
  au_import :: "string \<Rightarrow> string \<Rightarrow> 'k option"
  au_verify :: "'k \<Rightarrow> bytes \<Rightarrow> string \<Rightarrow> bool"
  au_parse :: "string \<Rightarrow> json option"
  au_decode :: "bytes \<Rightarrow> string"
  au_atob :: "string \<Rightarrow> bytes option"
  au_now :: "'n \<Rightarrow> ms"

record auth_config =
  ACCESS_TEAM_DOMAIN :: "string option"
  ACCESS_AUD :: "string option"
  ACCESS_CALLERS :: "string option"
  RUNNER_EXECUTORS :: "string option"

record auth_error =
  ax_status :: nat
  ax_code :: string

definition unauthorized :: auth_error where "unauthorized = \<lparr>ax_status = 401, ax_code = ''unauthorized''\<rparr>"

section \<open>JSON objects\<close>

fun json_field :: "json \<Rightarrow> string \<Rightarrow> json option" where
  "json_field (JObj kvs) k = map_option snd (find (\<lambda>e. fst e = k) (rev kvs))"
| "json_field _ k = None"

fun str_of :: "json option \<Rightarrow> string option" where
  "str_of (Some (JStr s)) = Some s"
| "str_of _ = None"

fun num_of :: "json option \<Rightarrow> rat option" where
  "num_of (Some (JNum r)) = Some r"
| "num_of _ = None"

text \<open>
  The table of a JSON text from names to non-empty strings; a text that is missing, empty or no JSON
  object is the empty table.
\<close>

definition string_table :: "(string \<Rightarrow> json option) \<Rightarrow> string option \<Rightarrow> (string \<times> string) list" where
  "string_table parse raw =
     (case parse (orElse (truthy raw) ''{}'') of
        Some (JObj kvs) \<Rightarrow>
          List.map_filter (\<lambda>(k, v). case v of JStr s \<Rightarrow> if s \<noteq> '''' then Some (k, s) else None | _ \<Rightarrow> None) kvs
      | _ \<Rightarrow> [])"

definition table_get :: "(string \<times> string) list \<Rightarrow> string \<Rightarrow> string option" where
  "table_get t k = map_option snd (find (\<lambda>e. fst e = k) (rev t))"

section \<open>Runners\<close>

definition TOKEN_PREFIX :: string where "TOKEN_PREFIX = ''token:''"

definition parseRunnerExecutors :: "(string \<Rightarrow> json option) \<Rightarrow> string option \<Rightarrow> (string \<times> string) list" where
  "parseRunnerExecutors parse raw = string_table parse raw"

definition runnerExecutorFor :: "(string \<Rightarrow> json option) \<Rightarrow> string \<Rightarrow> string option \<Rightarrow> string option" where
  "runnerExecutorFor parse caller raw =
     (if \<not> startsWith caller TOKEN_PREFIX then None
      else table_get (parseRunnerExecutors parse raw) (drop (length TOKEN_PREFIX) caller))"

definition isRunnerCaller :: "(string \<Rightarrow> json option) \<Rightarrow> string \<Rightarrow> string option \<Rightarrow> bool" where
  "isRunnerCaller parse caller raw \<longleftrightarrow> runnerExecutorFor parse caller raw \<noteq> None"

section \<open>Reading a token\<close>

definition is_alnum :: "char \<Rightarrow> bool" where
  "is_alnum ch \<longleftrightarrow> is_digit ch \<or> (65 \<le> code ch \<and> code ch \<le> 90) \<or> (97 \<le> code ch \<and> code ch \<le> 122)"

text \<open>The expression \<open>TEAM_DOMAIN_RE\<close>, which ignores the case.\<close>

definition domain_label :: "string \<Rightarrow> bool" where
  "domain_label l \<longleftrightarrow> l \<noteq> '''' \<and> is_alnum (hd l) \<and> is_alnum (last l) \<and> list_all (\<lambda>ch. is_alnum ch \<or> ch = CHR ''-'') l"

definition TEAM_DOMAIN_RE :: "string \<Rightarrow> bool" where
  "TEAM_DOMAIN_RE t \<longleftrightarrow> 2 \<le> length (split_on CHR ''.'' t) \<and> list_all domain_label (split_on CHR ''.'' t)"

definition base64url_char :: "char \<Rightarrow> bool" where
  "base64url_char ch \<longleftrightarrow> is_alnum ch \<or> ch = CHR ''_'' \<or> ch = CHR ''-''"

definition base64UrlToBytes :: "('k, 'n) auth_env \<Rightarrow> string \<Rightarrow> auth_error + bytes" where
  "base64UrlToBytes env t =
     (if \<not> list_all base64url_char t then Inl unauthorized
      else (let b64 = map (\<lambda>ch. if ch = CHR ''-'' then CHR ''+'' else if ch = CHR ''_'' then CHR ''/'' else ch) t
            in case au_atob env (b64 @ replicate ((4 - length b64 mod 4) mod 4) CHR ''='') of
                 None \<Rightarrow> Inl unauthorized
               | Some bs \<Rightarrow> Inr bs))"

definition parseJsonPart :: "('k, 'n) auth_env \<Rightarrow> string \<Rightarrow> auth_error + json" where
  "parseJsonPart env part =
     (case base64UrlToBytes env part of
        Inl e \<Rightarrow> Inl e
      | Inr bs \<Rightarrow>
          (case au_parse env (au_decode env bs) of
             Some (JObj kvs) \<Rightarrow> Inr (JObj kvs)
           | _ \<Rightarrow> Inl unauthorized))"

section \<open>The keys\<close>

text \<open>The key of one entry, if it is an RSA signature key the platform accepts.\<close>

definition usable_key :: "('k, 'n) auth_env \<Rightarrow> json \<Rightarrow> (string \<times> 'k) option" where
  "usable_key env jwk =
     (case (str_of (json_field jwk ''kty''), str_of (json_field jwk ''kid''), str_of (json_field jwk ''n''), str_of (json_field jwk ''e'')) of
        (Some kty, Some kid, Some n, Some e) \<Rightarrow>
          if kty \<noteq> ''RSA'' then None
          else if json_field jwk ''use'' \<noteq> None \<and> str_of (json_field jwk ''use'') \<noteq> Some ''sig'' then None
          else map_option (\<lambda>k. (kid, k)) (au_import env n e)
      | _ \<Rightarrow> None)"

definition importJwks :: "('k, 'n) auth_env \<Rightarrow> json \<Rightarrow> (string \<times> 'k) list option" where
  "importJwks env body =
     (case json_field body ''keys'' of
        Some (JArr ks) \<Rightarrow>
          (let keys = List.map_filter (usable_key env) ks in if keys = [] then None else Some keys)
      | _ \<Rightarrow> None)"

record 'k key_cache =
  kc_keys :: "(string \<times> 'k) list"
  kc_fetchedAt :: ms
  kc_teamDomain :: string

definition key_for :: "(string \<times> 'k) list \<Rightarrow> string \<Rightarrow> 'k option" where
  "key_for ks kid = map_option snd (find (\<lambda>e. fst e = kid) (rev ks))"

text \<open>The variables of the middleware; \<open>inflight\<close>, which merges concurrent refreshes, is left out.\<close>

record ('k, 'n) auth_state =
  cache :: "'k key_cache option"
  lastRefetchAt :: ms
  au_net :: 'n

definition new_auth :: "'n \<Rightarrow> ('k, 'n) auth_state" where
  "new_auth n = \<lparr>cache = None, lastRefetchAt = 0, au_net = n\<rparr>"

definition certs_url :: "string \<Rightarrow> string" where
  "certs_url team = ''https://'' @ team @ ''/cdn-cgi/access/certs''"

text \<open>\<^const>\<open>None\<close> when it throws.\<close>

definition refresh ::
  "('k, 'n) auth_env \<Rightarrow> string \<Rightarrow> ('k, 'n) auth_state \<Rightarrow> 'k key_cache option \<times> ('k, 'n) auth_state" where
  "refresh env team s =
     (let s1 = s\<lparr>lastRefetchAt := au_now env (au_net s)\<rparr>
      in case au_certs env (certs_url team) (au_net s) of
           (res, n) \<Rightarrow>
             (let s2 = s1\<lparr>au_net := n\<rparr>
              in case res of
                   None \<Rightarrow> (None, s2)
                 | Some (st, body) \<Rightarrow>
                     if st \<noteq> 200 then (None, s2)
                     else (case Option.bind body (importJwks env) of
                             None \<Rightarrow> (None, s2)
                           | Some keys \<Rightarrow>
                               (let kc = \<lparr>kc_keys = keys, kc_fetchedAt = au_now env n, kc_teamDomain = team\<rparr>
                                in (Some kc, s2\<lparr>cache := Some kc\<rparr>)))))"

definition auth_unavailable :: auth_error where
  "auth_unavailable = \<lparr>ax_status = 503, ax_code = ''auth_unavailable''\<rparr>"

definition current_cache :: "string \<Rightarrow> ('k, 'n) auth_state \<Rightarrow> 'k key_cache option" where
  "current_cache team s = (case cache s of None \<Rightarrow> None | Some kc \<Rightarrow> if kc_teamDomain kc = team then Some kc else None)"

definition findKey ::
  "('k, 'n) auth_env \<Rightarrow> string \<Rightarrow> string \<Rightarrow> ('k, 'n) auth_state \<Rightarrow> (auth_error + 'k) \<times> ('k, 'n) auth_state" where
  "findKey env team kid s =
     (case (case current_cache team s of
              None \<Rightarrow> refresh env team s
            | Some kc \<Rightarrow>
                if au_now env (au_net s) - kc_fetchedAt kc > JWKS_TTL_MS then refresh env team s else (Some kc, s)) of
        (None, s1) \<Rightarrow> (Inl auth_unavailable, s1)
      | (Some kc, s1) \<Rightarrow>
          (case key_for (kc_keys kc) kid of
             Some k \<Rightarrow> (Inr k, s1)
           | None \<Rightarrow>
               if au_now env (au_net s1) - lastRefetchAt s1 \<ge> JWKS_MIN_REFETCH_MS
               then (case refresh env team s1 of
                       (None, s2) \<Rightarrow> (Inl auth_unavailable, s2)
                     | (Some kc2, s2) \<Rightarrow>
                         (case key_for (kc_keys kc2) kid of None \<Rightarrow> (Inl unauthorized, s2) | Some k \<Rightarrow> (Inr k, s2)))
               else (Inl unauthorized, s1)))"

section \<open>The verification\<close>

definition audiences :: "json \<Rightarrow> json list" where
  "audiences claims = (case json_field claims ''aud'' of Some (JArr vs) \<Rightarrow> vs | Some v \<Rightarrow> [v] | None \<Rightarrow> [])"

definition check_claims :: "string \<Rightarrow> string \<Rightarrow> ms \<Rightarrow> json \<Rightarrow> auth_error + json" where
  "check_claims team aud now claims =
     (if str_of (json_field claims ''iss'') \<noteq> Some (''https://'' @ team) then Inl unauthorized
      else if JStr aud \<notin> set (audiences claims) then Inl unauthorized
      else (let nowSec = of_int now / 1000
            in case num_of (json_field claims ''exp'') of
                 None \<Rightarrow> Inl unauthorized
               | Some e \<Rightarrow>
                   if e + CLOCK_SKEW_SECONDS < nowSec then Inl unauthorized
                   else (case json_field claims ''nbf'' of
                           None \<Rightarrow> Inr claims
                         | Some v \<Rightarrow>
                             (case num_of (Some v) of
                                None \<Rightarrow> Inl unauthorized
                              | Some b \<Rightarrow> if b - CLOCK_SKEW_SECONDS > nowSec then Inl unauthorized else Inr claims))))"

definition verify ::
  "('k, 'n) auth_env \<Rightarrow> string \<Rightarrow> string \<Rightarrow> string \<Rightarrow> ('k, 'n) auth_state \<Rightarrow>
   (auth_error + json) \<times> ('k, 'n) auth_state" where
  "verify env token team aud s =
     (case split_on CHR ''.'' token of
        [h, p, sg] \<Rightarrow>
          (case parseJsonPart env h of
             Inl e \<Rightarrow> (Inl e, s)
           | Inr header \<Rightarrow>
               if str_of (json_field header ''alg'') \<noteq> Some ''RS256'' then (Inl unauthorized, s)
               else (case truthy (str_of (json_field header ''kid'')) of
                       None \<Rightarrow> (Inl unauthorized, s)
                     | Some kid \<Rightarrow>
                         (case findKey env team kid s of
                            (Inl e, s1) \<Rightarrow> (Inl e, s1)
                          | (Inr k, s1) \<Rightarrow>
                              (case base64UrlToBytes env sg of
                                 Inl e \<Rightarrow> (Inl e, s1)
                               | Inr sgb \<Rightarrow>
                                   if \<not> au_verify env k sgb (h @ ''.'' @ p) then (Inl unauthorized, s1)
                                   else (case parseJsonPart env p of
                                           Inl e \<Rightarrow> (Inl e, s1)
                                         | Inr claims \<Rightarrow> (check_claims team aud (au_now env (au_net s1)) claims, s1))))))
      | _ \<Rightarrow> (Inl unauthorized, s))"

section \<open>The caller and the middleware\<close>

definition parseCallers :: "(string \<Rightarrow> json option) \<Rightarrow> string option \<Rightarrow> (string \<times> string) list" where
  "parseCallers parse raw = string_table parse raw"

definition resolveCaller :: "(string \<Rightarrow> json option) \<Rightarrow> json \<Rightarrow> string option \<Rightarrow> auth_error + string" where
  "resolveCaller parse claims rawCallers =
     (case truthy (str_of (json_field claims ''email'')) of
        Some mail \<Rightarrow> Inr (''user:'' @ mail)
      | None \<Rightarrow>
          (case truthy (str_of (json_field claims ''common_name'')) of
             None \<Rightarrow> Inl unauthorized
           | Some cn \<Rightarrow>
               (case truthy (table_get (parseCallers parse rawCallers) cn) of
                  Some name \<Rightarrow> Inr (TOKEN_PREFIX @ name)
                | None \<Rightarrow> Inl \<lparr>ax_status = 403, ax_code = ''forbidden''\<rparr>)))"

definition auth_response :: "auth_error \<Rightarrow> response" where
  "auth_response e = json_response (ax_status e) (error_body (ax_code e))"

definition configured :: "auth_config \<Rightarrow> (string \<times> string) option" where
  "configured cfg =
     (case (truthy (ACCESS_TEAM_DOMAIN cfg), truthy (ACCESS_AUD cfg)) of
        (Some team, Some aud) \<Rightarrow> if TEAM_DOMAIN_RE team then Some (team, aud) else None
      | _ \<Rightarrow> None)"

text \<open>The middleware: the response of a refused request, or the caller the handlers see.\<close>

definition createAccessAuth ::
  "('k, 'n) auth_env \<Rightarrow> auth_config \<Rightarrow> request \<Rightarrow> ('k, 'n) auth_state \<Rightarrow> (response + string) \<times> ('k, 'n) auth_state" where
  "createAccessAuth env cfg rq s =
     (case configured cfg of
        None \<Rightarrow> (Inl (json_response 503 (error_body ''auth_not_configured'')), s)
      | Some (team, aud) \<Rightarrow>
          (case truthy (rq_header rq ''cf-access-jwt-assertion'') of
             None \<Rightarrow> (Inl (json_response 401 (error_body ''unauthorized'')), s)
           | Some token \<Rightarrow>
               (case verify env token team aud s of
                  (Inl e, s1) \<Rightarrow> (Inl (auth_response e), s1)
                | (Inr claims, s1) \<Rightarrow>
                    (case resolveCaller (au_parse env) claims (ACCESS_CALLERS cfg) of
                       Inl e \<Rightarrow> (Inl (auth_response e), s1)
                     | Inr caller \<Rightarrow>
                         if isRunnerCaller (au_parse env) caller (RUNNER_EXECUTORS cfg) \<and>
                            \<not> startsWith (rq_path rq) ''/api/runner/''
                         then (Inl (json_response 403 (error_body ''forbidden'')), s1)
                         else (Inr caller, s1)))))"

section \<open>Where the keys come from\<close>

text \<open>A key that the certificate endpoint of the team served.\<close>

definition served_key :: "('k, 'n) auth_env \<Rightarrow> string \<Rightarrow> (string \<times> 'k) list \<Rightarrow> bool" where
  "served_key env team ks \<longleftrightarrow>
     (\<exists>n body. fst (au_certs env (certs_url team) n) = Some (200, Some body) \<and> importJwks env body = Some ks)"

definition trusted :: "('k, 'n) auth_env \<Rightarrow> ('k, 'n) auth_state \<Rightarrow> bool" where
  "trusted env s \<longleftrightarrow> (\<forall>kc. cache s = Some kc \<longrightarrow> served_key env (kc_teamDomain kc) (kc_keys kc))"

lemma refresh_served:
  assumes "refresh env team s = (r, s1)"
  shows "trusted env s \<Longrightarrow> trusted env s1"
    and "r = Some kc \<Longrightarrow> served_key env team (kc_keys kc)"
proof -
  obtain res n where f: "au_certs env (certs_url team) (au_net s) = (res, n)" by fastforce
  have served: "served_key env team ks" if "res = Some (200, Some body)" "importJwks env body = Some ks" for body ks
    using that f by (metis fst_conv served_key_def)
  from assms f show "trusted env s \<Longrightarrow> trusted env s1" and "r = Some kc \<Longrightarrow> served_key env team (kc_keys kc)"
    using served
    by (auto simp: refresh_def trusted_def Let_def bind_eq_Some_conv
        split: option.splits prod.splits if_splits)
qed

lemma key_for_set: "key_for ks kid = Some k \<Longrightarrow> (kid, k) \<in> set ks"
  by (auto simp: key_for_def dest!: find_SomeD)

lemma findKey_served:
  assumes f: "findKey env team kid s = (r, s1)" and t: "trusted env s"
  shows "trusted env s1" and "r = Inr k \<Longrightarrow> \<exists>ks. served_key env team ks \<and> (kid, k) \<in> set ks"
proof -
  have known: "served_key env team (kc_keys kc)" if "current_cache team s = Some kc" for kc
    using that t by (auto simp: current_cache_def trusted_def split: option.splits if_splits)
  from f t known show "trusted env s1"
    by (auto simp: findKey_def split: option.splits prod.splits if_splits dest: refresh_served(1))
  from f known show "r = Inr k \<Longrightarrow> \<exists>ks. served_key env team ks \<and> (kid, k) \<in> set ks"
    by (auto simp: findKey_def split: option.splits prod.splits if_splits
        dest: refresh_served(2) dest!: key_for_set)
qed

section \<open>What an accepted token is\<close>

definition genuine :: "('k, 'n) auth_env \<Rightarrow> string \<Rightarrow> string \<Rightarrow> ms \<Rightarrow> string \<Rightarrow> json \<Rightarrow> bool" where
  "genuine env team aud now token claims \<longleftrightarrow>
     (\<exists>h p sg header kid k ks sgb e.
        token = h @ ''.'' @ p @ ''.'' @ sg \<and> parseJsonPart env h = Inr header \<and>
        str_of (json_field header ''alg'') = Some ''RS256'' \<and> str_of (json_field header ''kid'') = Some kid \<and>
        served_key env team ks \<and> (kid, k) \<in> set ks \<and>
        base64UrlToBytes env sg = Inr sgb \<and> au_verify env k sgb (h @ ''.'' @ p) \<and> parseJsonPart env p = Inr claims \<and>
        str_of (json_field claims ''iss'') = Some (''https://'' @ team) \<and> JStr aud \<in> set (audiences claims) \<and>
        num_of (json_field claims ''exp'') = Some e \<and> of_int now / 1000 \<le> e + 60 \<and>
        (\<forall>v. json_field claims ''nbf'' = Some v \<longrightarrow> (\<exists>b. v = JNum b \<and> b - 60 \<le> of_int now / 1000)))"

lemma num_of_Some: "num_of x = Some r \<longleftrightarrow> x = Some (JNum r)"
  by (cases x rule: num_of.cases) auto

lemma check_claims_ok:
  assumes "check_claims team aud now claims = Inr c"
  shows "c = claims" "str_of (json_field claims ''iss'') = Some (''https://'' @ team)" "JStr aud \<in> set (audiences claims)"
    "\<exists>e. num_of (json_field claims ''exp'') = Some e \<and> of_int now / 1000 \<le> e + 60"
    "json_field claims ''nbf'' = Some v \<Longrightarrow> \<exists>b. v = JNum b \<and> b - 60 \<le> of_int now / 1000"
  using assms
  by (auto simp: check_claims_def CLOCK_SKEW_SECONDS_def Let_def num_of_Some split: if_splits option.splits)

lemma truthy_Some: "truthy x = Some t \<longleftrightarrow> x = Some t \<and> t \<noteq> ''''"
  by (auto simp: truthy_def split: option.splits list.splits)

lemma split_three: "split_on c t = [x, y, z] \<Longrightarrow> t = x @ [c] @ y @ [c] @ z"
  using join_split_on [of c t] by simp

lemma verify_genuine:
  assumes v: "verify env token team aud s = (r, s1)" and t: "trusted env s"
  shows "trusted env s1" and "r = Inr claims \<Longrightarrow> genuine env team aud (au_now env (au_net s1)) token claims"
proof -
  show "trusted env s1"
    using v t by (auto simp: verify_def split: list.splits sum.splits option.splits if_splits prod.splits
        dest: findKey_served(1))
  assume r: "r = Inr claims"
  with v obtain h p sg header kid k sgb where parts: "split_on CHR ''.'' token = [h, p, sg]"
    and header: "parseJsonPart env h = Inr header" "str_of (json_field header ''alg'') = Some ''RS256''"
      "str_of (json_field header ''kid'') = Some kid"
    and key: "findKey env team kid s = (Inr k, s1)"
    and sig: "base64UrlToBytes env sg = Inr sgb" "au_verify env k sgb (h @ ''.'' @ p)"
    and pay: "\<exists>cl. parseJsonPart env p = Inr cl \<and> check_claims team aud (au_now env (au_net s1)) cl = Inr claims"
    by (auto simp: verify_def truthy_Some split: list.splits sum.splits option.splits if_splits prod.splits)
  from pay check_claims_ok(1) have claims: "parseJsonPart env p = Inr claims"
    "check_claims team aud (au_now env (au_net s1)) claims = Inr claims" by (metis, metis)
  from findKey_served(2) [OF key t refl] obtain ks where ks: "served_key env team ks" "(kid, k) \<in> set ks" by blast
  from check_claims_ok(4) [OF claims(2)] obtain e where
    "num_of (json_field claims ''exp'') = Some e" "of_int (au_now env (au_net s1)) / 1000 \<le> e + 60" by blast
  with split_three [OF parts] header ks sig claims(1) check_claims_ok(2,3,5) [OF claims(2)]
  show "genuine env team aud (au_now env (au_net s1)) token claims"
    unfolding genuine_def by (intro exI [of _ h] exI [of _ p] exI [of _ sg] exI [of _ header] exI [of _ kid]
        exI [of _ k] exI [of _ ks] exI [of _ sgb] exI [of _ e]) auto
qed

text \<open>The requests of an isolate, with whatever happens outside between them.\<close>

fun auth_after ::
  "('k, 'n) auth_env \<Rightarrow> auth_config \<Rightarrow> (request \<times> ('n \<Rightarrow> 'n)) list \<Rightarrow> ('k, 'n) auth_state \<Rightarrow> ('k, 'n) auth_state" where
  "auth_after env cfg [] s = s"
| "auth_after env cfg ((rq, later) # rqs) s =
     (let s1 = snd (createAccessAuth env cfg rq s) in auth_after env cfg rqs (s1\<lparr>au_net := later (au_net s1)\<rparr>))"

lemma auth_trusted: "trusted env s \<Longrightarrow> trusted env (snd (createAccessAuth env cfg rq s))"
  by (auto simp: createAccessAuth_def split: option.splits sum.splits prod.splits dest: verify_genuine(1))

lemma after_trusted: "trusted env s \<Longrightarrow> trusted env (auth_after env cfg rqs s)"
proof (induction env cfg rqs s rule: auth_after.induct)
  case (2 env cfg rq later rqs s)
  have "trusted env (s1\<lparr>au_net := n\<rparr>) = trusted env s1" for s1 n
    by (simp add: trusted_def)
  with 2 auth_trusted [of env s cfg rq] show ?case by (simp add: Let_def)
qed simp

text \<open>
  C5. A request reaches the handlers only with a genuine token: whatever requests came before, the token
  is signed with a key the certificate endpoint of the configured team served under its key id, the
  algorithm is RS256, issuer and audience are the configured ones, and it is neither expired nor early by
  more than a minute. The caller comes from its claims, and the caller of a runner is confined to the
  runner routes.
\<close>

theorem api_reached_only_with_token:
  assumes "createAccessAuth env cfg rq (auth_after env cfg rqs (new_auth n)) = (Inr caller, s1)"
  shows "\<exists>team aud token claims. configured cfg = Some (team, aud) \<and>
    rq_header rq ''cf-access-jwt-assertion'' = Some token \<and>
    genuine env team aud (au_now env (au_net s1)) token claims \<and>
    resolveCaller (au_parse env) claims (ACCESS_CALLERS cfg) = Inr caller \<and>
    (isRunnerCaller (au_parse env) caller (RUNNER_EXECUTORS cfg) \<longrightarrow> startsWith (rq_path rq) ''/api/runner/'')"
proof -
  let ?s = "auth_after env cfg rqs (new_auth n)"
  have t: "trusted env ?s" by (rule after_trusted) (simp add: trusted_def new_auth_def)
  from assms obtain team aud token claims where a: "configured cfg = Some (team, aud)"
    "rq_header rq ''cf-access-jwt-assertion'' = Some token" "verify env token team aud ?s = (Inr claims, s1)"
    "resolveCaller (au_parse env) claims (ACCESS_CALLERS cfg) = Inr caller"
    "isRunnerCaller (au_parse env) caller (RUNNER_EXECUTORS cfg) \<longrightarrow> startsWith (rq_path rq) ''/api/runner/''"
    by (auto simp: createAccessAuth_def truthy_Some split: option.splits sum.splits prod.splits if_splits)
  with verify_genuine(2) [OF a(3) t refl] show ?thesis by blast
qed

text \<open>
  Made-up key ids do not reach the certificate endpoint: while the cached keys are of the team and at
  most ten minutes old and the last refresh is less than thirty seconds ago, no request, whatever its
  token, causes another one.
\<close>

theorem unknown_keys_do_not_refetch:
  assumes "configured cfg = Some (team, aud)" and "current_cache team s = Some kc"
    and "au_now env (au_net s) - kc_fetchedAt kc \<le> 600000" and "au_now env (au_net s) - lastRefetchAt s < 30000"
  shows "snd (createAccessAuth env cfg rq s) = s"
proof -
  have "snd (findKey env team kid s) = s" for kid
    using assms(2-4) by (auto simp: findKey_def JWKS_TTL_MS_def JWKS_MIN_REFETCH_MS_def split: option.split)
  then have key: "findKey env team kid s = (r, s1) \<Longrightarrow> s1 = s" for kid r s1 by (metis snd_conv)
  have "verify env token team aud s = (r, s1) \<Longrightarrow> s1 = s" for token r s1
    by (auto simp: verify_def split: list.splits sum.splits option.splits if_splits prod.splits dest: key)
  then show ?thesis
    using assms(1) by (auto simp: createAccessAuth_def split: option.split prod.split sum.split)
qed

section \<open>An example\<close>

definition demo_claims :: json where
  "demo_claims = JObj [(''iss'', JStr ''https://t.example''), (''aud'', JArr [JStr ''app'']), (''exp'', JNum 100),
     (''email'', JStr ''a'')]"

definition demo_auth :: "(nat, ms) auth_env" where
  "demo_auth = \<lparr>au_certs = (\<lambda>url n. (Some (200, Some (JObj [(''keys'', JArr [JObj [(''kty'', JStr ''RSA''),
       (''kid'', JStr ''k''), (''n'', JStr ''n''), (''e'', JStr ''e'')]])])), n)),
     au_import = (\<lambda>n e. Some 7), au_verify = (\<lambda>k sg t. k = 7 \<and> t = ''head.body''),
     au_parse = (\<lambda>t. if t = ''head'' then Some (JObj [(''alg'', JStr ''RS256''), (''kid'', JStr ''k'')])
       else if t = ''body'' then Some demo_claims else Some (JObj [])),
     au_decode = map (\<lambda>b. char_of (unat b)), au_atob = (\<lambda>t. Some (map (\<lambda>ch. of_nat (code ch)) t)), au_now = id\<rparr>"

definition demo_auth_config :: auth_config where
  "demo_auth_config = \<lparr>ACCESS_TEAM_DOMAIN = Some ''t.example'', ACCESS_AUD = Some ''app'', ACCESS_CALLERS = None,
     RUNNER_EXECUTORS = None\<rparr>"

definition demo_request :: "string \<Rightarrow> request" where
  "demo_request t = \<lparr>rq_method = ''GET'', rq_path = ''/api/sites'', rq_header = (\<lambda>h. Some t), rq_query = (\<lambda>k. None),
     rq_chunks = []\<rparr>"

lemma demo_accepted:
  "fst (createAccessAuth demo_auth demo_auth_config (demo_request ''head.body.sign'')
     (auth_after demo_auth demo_auth_config [(demo_request ''x'', \<lambda>n. n)] (new_auth 50000))) = Inr ''user:a''"
  by code_simp

theorem api_reached_only_with_token_witness:
  "\<exists>team aud token claims. configured demo_auth_config = Some (team, aud) \<and>
    rq_header (demo_request ''head.body.sign'') ''cf-access-jwt-assertion'' = Some token \<and>
    (\<exists>now. genuine demo_auth team aud now token claims)"
proof -
  obtain s1 where "createAccessAuth demo_auth demo_auth_config (demo_request ''head.body.sign'')
     (auth_after demo_auth demo_auth_config [(demo_request ''x'', \<lambda>n. n)] (new_auth 50000)) = (Inr ''user:a'', s1)"
    using demo_accepted by (metis prod.collapse)
  from api_reached_only_with_token [OF this] show ?thesis by blast
qed

definition cached_auth :: "(nat, ms) auth_state" where
  "cached_auth = \<lparr>cache = Some \<lparr>kc_keys = [(''k'', 7)], kc_fetchedAt = 50000, kc_teamDomain = ''t.example''\<rparr>,
     lastRefetchAt = 50000, au_net = 60000\<rparr>"

theorem unknown_keys_do_not_refetch_witness:
  "snd (createAccessAuth demo_auth demo_auth_config (demo_request ''head.body.sign'') cached_auth) = cached_auth"
proof (rule unknown_keys_do_not_refetch)
  show "configured demo_auth_config = Some (''t.example'', ''app'')" by code_simp
  show "current_cache ''t.example'' cached_auth = Some \<lparr>kc_keys = [(''k'', 7)], kc_fetchedAt = 50000, kc_teamDomain = ''t.example''\<rparr>"
    by (simp add: current_cache_def cached_auth_def)
qed (simp_all add: cached_auth_def demo_auth_def)

end
