(* ===== verification/Api_Runner.thy ===== *)
theory Api_Runner
  imports Api_Sources Api_Auth
begin

text \<open>
  The pull protocol of the home runners (src/api/routes/runner.ts, src/runner/protocol.ts): the size of
  a body, the schemas, and the three routes over the object of the caller's executor.
\<close>

section \<open>The protocol\<close>

definition RUNNER_PROTOCOL_VERSION :: string where "RUNNER_PROTOCOL_VERSION = ''1''"

definition RUNNER_PROTOCOL_HEADER :: string where "RUNNER_PROTOCOL_HEADER = ''utsuroi-runner-protocol''"

definition MAX_LEASE_WAIT_MS :: ms where "MAX_LEASE_WAIT_MS = 20000"

definition MAX_LEASE_JOBS :: nat where "MAX_LEASE_JOBS = 16"

definition RESULT_ENVELOPE_ALLOWANCE :: nat where "RESULT_ENVELOPE_ALLOWANCE = 64 * 1024"

definition RUNNER_ERROR_CLASSES :: "failure_class list" where
  "RUNNER_ERROR_CLASSES = [Ssrf_blocked, Timeout, Network_error, Too_large]"

definition maxResultRequestBytes :: "nat \<Rightarrow> nat" where
  "maxResultRequestBytes n = maxBase64Length n + RESULT_ENVELOPE_ALLOWANCE"

definition id_schema :: "string \<Rightarrow> bool" where "id_schema t \<longleftrightarrow> sized 1 128 t"

definition fetchModes_schema :: "string list \<Rightarrow> bool" where
  "fetchModes_schema ms \<longleftrightarrow> length ms \<le> 8 \<and> list_all (sized 1 32) ms"

record heartbeat_request =
  hb_executorId :: string
  hb_runnerId :: string
  hb_version :: string
  hb_fetchModes :: "string list"
  hb_concurrency :: int
  hb_inflight :: "string list"

definition heartbeatRequestSchema :: "heartbeat_request \<Rightarrow> bool" where
  "heartbeatRequestSchema b \<longleftrightarrow>
     id_schema (hb_executorId b) \<and> id_schema (hb_runnerId b) \<and> length (hb_version b) \<le> 64 \<and>
     fetchModes_schema (hb_fetchModes b) \<and> 1 \<le> hb_concurrency b \<and> hb_concurrency b \<le> 64 \<and>
     length (hb_inflight b) \<le> 64 \<and> list_all id_schema (hb_inflight b)"

record lease_request =
  lq_executorId :: string
  lq_runnerId :: string
  lq_max :: nat
  lq_waitMs :: ms
  lq_fetchModes :: "string list"

definition leaseRequestSchema :: "lease_request \<Rightarrow> bool" where
  "leaseRequestSchema b \<longleftrightarrow>
     id_schema (lq_executorId b) \<and> id_schema (lq_runnerId b) \<and> 1 \<le> lq_max b \<and> lq_max b \<le> MAX_LEASE_JOBS \<and>
     0 \<le> lq_waitMs b \<and> lq_waitMs b \<le> MAX_LEASE_WAIT_MS \<and> fetchModes_schema (lq_fetchModes b)"

definition base64_char :: "char \<Rightarrow> bool" where
  "base64_char ch \<longleftrightarrow> is_alnum ch \<or> ch = CHR ''+'' \<or> ch = CHR ''/''"

definition base64_schema :: "string \<Rightarrow> bool" where
  "base64_schema t \<longleftrightarrow>
     (let padding = dropWhile base64_char t in length padding \<le> 2 \<and> list_all (\<lambda>ch. ch = CHR ''='') padding)"

definition runnerResultSchema :: "runner_result \<Rightarrow> bool" where
  "runnerResultSchema r \<longleftrightarrow>
     (case r of
        RunnerResponse x \<Rightarrow>
          100 \<le> rs_status x \<and> rs_status x \<le> 599 \<and> sized 1 8192 (rs_url x) \<and>
          optional (\<lambda>t. length t \<le> 1024) (rs_contentType x) \<and> length (rs_headers x) \<le> 200 \<and>
          list_all (\<lambda>(k, h). length k \<le> 256 \<and> length h \<le> 8192) (rs_headers x) \<and> base64_schema (rs_body x) \<and>
          0 \<le> rs_durationMs x
      | RunnerError f msg \<Rightarrow> f \<in> set RUNNER_ERROR_CLASSES \<and> length msg \<le> 1024)"

record result_request =
  rr_leaseToken :: string
  rr_result :: runner_result

definition resultRequestSchema :: "result_request \<Rightarrow> bool" where
  "resultRequestSchema b \<longleftrightarrow> sized 1 128 (rr_leaseToken b) \<and> runnerResultSchema (rr_result b)"

section \<open>The body\<close>

definition SMALL_BODY_LIMIT :: nat where "SMALL_BODY_LIMIT = 16 * 1024"

text \<open>The loop over the chunks, which stops at the first one that passes the limit.\<close>

fun read_limited_chunks :: "nat \<Rightarrow> string \<Rightarrow> string list \<Rightarrow> raised + string" where
  "read_limited_chunks limit merged [] = Inr merged"
| "read_limited_chunks limit merged (x # xs) =
     (if length merged + length x > limit then Inl (payloadTooLarge ''payload_too_large'')
      else read_limited_chunks limit (merged @ x) xs)"

definition declared_length :: "(string \<Rightarrow> rat option) \<Rightarrow> request \<Rightarrow> rat option" where
  "declared_length toNumber rq = Option.bind (rq_header rq ''content-length'') toNumber"

definition readLimitedJson ::
  "(string \<Rightarrow> json option) \<Rightarrow> (string \<Rightarrow> rat option) \<Rightarrow> nat \<Rightarrow> request \<Rightarrow> raised + json" where
  "readLimitedJson parse toNumber limit rq =
     (if (case declared_length toNumber rq of None \<Rightarrow> False | Some n \<Rightarrow> n > of_nat limit)
      then Inl (payloadTooLarge ''payload_too_large'')
      else if \<not> str_includes (toLowerCase (orElse (rq_header rq ''content-type'') '''')) ''application/json''
      then Inl (badRequest ''invalid_content_type'')
      else if rq_chunks rq = [] then Inl (badRequest ''invalid_json'')
      else (case read_limited_chunks limit '''' (rq_chunks rq) of
              Inl e \<Rightarrow> Inl e
            | Inr t \<Rightarrow> (case parse t of None \<Rightarrow> Inl (badRequest ''invalid_json'') | Some j \<Rightarrow> Inr j)))"

definition parseBody ::
  "'n api \<Rightarrow> (json \<Rightarrow> 'b option) \<Rightarrow> ('b \<Rightarrow> bool) \<Rightarrow> nat \<Rightarrow> request \<Rightarrow> raised + 'b" where
  "parseBody v shape ok limit rq =
     (case readLimitedJson (ai_parse v) (ai_number v) limit rq of
        Inl e \<Rightarrow> Inl e
      | Inr j \<Rightarrow> parseWith shape ok j)"

section \<open>The object of an executor\<close>

definition isMaintenance :: "db \<Rightarrow> string \<Rightarrow> bool" where
  "isMaintenance d e \<longleftrightarrow> map_option xr_status (getExecutor d e) = Some ''maintenance''"

text \<open>
  The hash and the tokens of the object, and what happens to it during each wait of a lease, until the
  wait is over.
\<close>

record runner_env =
  ru_sha256 :: "string \<Rightarrow> string"
  ru_token :: "nat \<Rightarrow> string"
  ru_waits :: "ms \<Rightarrow> (crawler \<Rightarrow> crawler) list"

definition claim ::
  "runner_env \<Rightarrow> ms \<Rightarrow> string \<Rightarrow> nat \<Rightarrow> string list \<Rightarrow> crawler \<Rightarrow> crawler \<times> (job_row \<times> string) list" where
  "claim ru now rid n modes c =
     (case claim_jobs now rid n modes (ru_token ru) c of (c1, js) \<Rightarrow> (store_hashes (ru_sha256 ru) now js c1, js))"

fun lease_rounds ::
  "(crawler \<Rightarrow> crawler \<times> (job_row \<times> string) list) \<Rightarrow> (crawler \<Rightarrow> crawler) list \<Rightarrow> crawler \<Rightarrow>
   crawler \<times> (job_row \<times> string) list" where
  "lease_rounds f [] c = f c"
| "lease_rounds f (w # ws) c =
     (case f c of (c1, js) \<Rightarrow> if js \<noteq> [] then (c1, js) else lease_rounds f ws (w c1))"

definition lease ::
  "runner_env \<Rightarrow> bool \<Rightarrow> ms \<Rightarrow> runner_info \<Rightarrow> nat \<Rightarrow> ms \<Rightarrow> crawler \<Rightarrow> crawler \<times> (job_row \<times> string) list" where
  "lease ru maintenance now info n waitMs c =
     (let c1 = touchRunner info now c
      in if maintenance then (c1, [])
         else lease_rounds (claim ru now (ri_runnerId info) n (ri_fetchModes info))
                (ru_waits ru (min (max waitMs 0) MAX_LEASE_WAIT_MS)) c1)"

definition leased_json :: "(ms \<Rightarrow> string) \<Rightarrow> ms \<Rightarrow> job_row \<times> string \<Rightarrow> json" where
  "leased_json stamp now jt =
     (case jt of (j, token) \<Rightarrow>
        JObj [(''jobId'', JStr (job_id j)), (''leaseToken'', JStr token),
          (''leaseExpiresAt'', JStr (stamp (now + result_wait_ms j))), (''fetchMode'', JStr (fetch_mode j)),
          (''request'', JObj [(''url'', JStr (rq_url (payload j))), (''maxBytes'', jint (int (rq_maxBytes (payload j)))),
             (''headers'', jpairs (rq_headers (payload j)))])])"

text \<open>A call of the object of executor \<open>e\<close>.\<close>

definition crawler_call :: "string \<Rightarrow> (crawler \<Rightarrow> crawler \<times> 'r) \<Rightarrow> ('r, 'n app) step" where
  "crawler_call e f = runs (\<lambda>a. case f (ap_crawlers a e) of
     (c, r) \<Rightarrow> (r, a\<lparr>ap_crawlers := (ap_crawlers a)(e := c)\<rparr>))"

section \<open>Routes\<close>

record runner_shapes =
  sh_heartbeat :: "json \<Rightarrow> heartbeat_request option"
  sh_lease :: "json \<Rightarrow> lease_request option"
  sh_result :: "json \<Rightarrow> result_request option"

text \<open>The middleware: the executor of a registered runner that speaks the protocol.\<close>

definition runner_gate :: "'n api \<Rightarrow> auth_config \<Rightarrow> string \<Rightarrow> request \<Rightarrow> raised + string" where
  "runner_gate v cfg caller rq =
     (case truthy (runnerExecutorFor (ai_parse v) caller (RUNNER_EXECUTORS cfg)) of
        None \<Rightarrow> Inl (forbidden ''forbidden'')
      | Some e \<Rightarrow>
          if rq_header rq RUNNER_PROTOCOL_HEADER \<noteq> Some RUNNER_PROTOCOL_VERSION
          then Inl (badRequest ''unsupported_protocol'') else Inr e)"

definition assertExecutor :: "string \<Rightarrow> string \<Rightarrow> (unit, 'n app) step" where
  "assertExecutor e requested = reject_if (\<lambda>a. requested \<noteq> e) (forbidden ''executor_mismatch'')"

definition post_heartbeat :: "'n api \<Rightarrow> runner_shapes \<Rightarrow> string \<Rightarrow> request \<Rightarrow> 'n app handler" where
  "post_heartbeat v sh e rq =
     chain (checked (parseBody v (sh_heartbeat sh) heartbeatRequestSchema SMALL_BODY_LIMIT rq)) (\<lambda>body.
     chain (assertExecutor e (hb_executorId body)) (\<lambda>_.
     chain (reads (\<lambda>a. (api_now v a, isMaintenance (app_db a) e))) (\<lambda>(now, maintenance).
     chain (crawler_call e (\<lambda>c. (scheduleAlarm now (touchRunner
       \<lparr>ri_runnerId = hb_runnerId body, ri_version = Some (hb_version body), ri_fetchModes = hb_fetchModes body,
        ri_concurrency = Some (hb_concurrency body), ri_inflight = Some (int (length (hb_inflight body)))\<rparr> now c), ()))) (\<lambda>_.
     gives (json_response 200 (JObj [(''serverTime'', JStr (ai_stamp v now)), (''maintenance'', JBool maintenance)]))))))"

definition post_lease :: "'n api \<Rightarrow> runner_env \<Rightarrow> runner_shapes \<Rightarrow> string \<Rightarrow> request \<Rightarrow> 'n app handler" where
  "post_lease v ru sh e rq =
     chain (checked (parseBody v (sh_lease sh) leaseRequestSchema SMALL_BODY_LIMIT rq)) (\<lambda>body.
     chain (assertExecutor e (lq_executorId body)) (\<lambda>_.
     chain (reads (\<lambda>a. (api_now v a, isMaintenance (app_db a) e))) (\<lambda>(now, maintenance).
     chain (crawler_call e (lease ru maintenance now
       \<lparr>ri_runnerId = lq_runnerId body, ri_version = None, ri_fetchModes = lq_fetchModes body,
        ri_concurrency = None, ri_inflight = None\<rparr> (lq_max body) (lq_waitMs body))) (\<lambda>js.
     gives (json_response 200 (JObj [(''jobs'', JArr (map (leased_json (ai_stamp v) now) js))]))))))"

definition result_answer :: "complete_outcome \<Rightarrow> raised + response" where
  "result_answer out =
     (case out of
        Accepted \<Rightarrow> Inr (json_response 200 (JObj [(''accepted'', JBool True)]))
      | Duplicate \<Rightarrow> Inr (json_response 200 (JObj [(''accepted'', JBool True), (''duplicate'', JBool True)]))
      | Lease_mismatch \<Rightarrow> Inl (conflict ''lease_mismatch'')
      | Lease_expired \<Rightarrow> Inl (conflict ''lease_expired'')
      | Payload_too_large \<Rightarrow> Inl (payloadTooLarge ''payload_too_large'')
      | Job_not_found \<Rightarrow> Inl (notFound ''not_found''))"

definition post_result ::
  "'n api \<Rightarrow> runner_env \<Rightarrow> runner_shapes \<Rightarrow> string \<Rightarrow> string \<Rightarrow> request \<Rightarrow> 'n app handler" where
  "post_result v ru sh e i rq =
     chain (checked (parseBody v (sh_result sh) resultRequestSchema
       (maxResultRequestBytes (maxBytes DEFAULT_FETCH_LIMITS)) rq)) (\<lambda>body.
     chain (reads (api_now v)) (\<lambda>now.
     chain (crawler_call e (complete (ru_sha256 ru) now i (rr_leaseToken body) (rr_result body))) (\<lambda>out.
     checked (result_answer out))))"

text \<open>Each route runs behind the middleware.\<close>

definition behind_gate ::
  "'n api \<Rightarrow> auth_config \<Rightarrow> string \<Rightarrow> (string \<Rightarrow> string list \<Rightarrow> request \<Rightarrow> 'n app handler) \<Rightarrow>
   string list \<Rightarrow> request \<Rightarrow> 'n app handler" where
  "behind_gate v cfg caller h ids rq = chain (checked (runner_gate v cfg caller rq)) (\<lambda>e. h e ids rq)"

definition runnerRoutes ::
  "'n api \<Rightarrow> runner_env \<Rightarrow> auth_config \<Rightarrow> runner_shapes \<Rightarrow> string \<Rightarrow> 'n route list" where
  "runnerRoutes v ru cfg sh caller = mounted ''runner''
     [(''POST'', [''heartbeat''], behind_gate v cfg caller (\<lambda>e ids rq. post_heartbeat v sh e rq)),
      (''POST'', [''lease''], behind_gate v cfg caller (\<lambda>e ids rq. post_lease v ru sh e rq)),
      (''POST'', [''jobs'', '':jobId'', ''result''],
        behind_gate v cfg caller (\<lambda>e ids rq. post_result v ru sh e (hd ids) rq))]"

section \<open>A runner reaches its own executor only\<close>

lemma read_chunks_length: "read_limited_chunks limit merged xs = Inr t \<Longrightarrow> length t \<le> max limit (length merged)"
  by (induction limit merged xs rule: read_limited_chunks.induct) (auto split: if_splits)

text \<open>What a call of the object of executor \<open>e\<close> changes.\<close>

definition only_crawler :: "string \<Rightarrow> 'n app \<Rightarrow> 'n app \<Rightarrow> bool" where
  "only_crawler e a b \<longleftrightarrow> (\<exists>c. b = a\<lparr>ap_crawlers := (ap_crawlers a)(e := c)\<rparr>)"

lemma only_crawler_refl [simp]: "only_crawler e a a"
  unfolding only_crawler_def by (rule exI [of _ "ap_crawlers a e"]) simp

lemma wp_crawler_call:
  "wp I (crawler_call e f) Q s =
     Q (snd (f (ap_crawlers s e))) (s\<lparr>ap_crawlers := (ap_crawlers s)(e := fst (f (ap_crawlers s e)))\<rparr>)"
  by (simp add: crawler_call_def wp_runs split: prod.split)

lemma wp_assertExecutor: "wp I (assertExecutor e r) Q s = (if r \<noteq> e then I s else Q () s)"
  by (simp add: assertExecutor_def wp_reject_if)

lemma only_crawler_call:
  "only_crawler e a b \<Longrightarrow> only_crawler e a (b\<lparr>ap_crawlers := (ap_crawlers b)(e := c)\<rparr>)"
  by (auto simp: only_crawler_def)

lemma handlers_confined:
  "keeps_inv (only_crawler e a) (post_heartbeat v sh e rq)"
  "keeps_inv (only_crawler e a) (post_lease v ru sh e rq)"
  "keeps_inv (only_crawler e a) (post_result v ru sh e i rq)"
  unfolding keeps_inv_def post_heartbeat_def post_lease_def post_result_def
  by (auto simp: wp_steps wp_crawler_call wp_assertExecutor only_crawler_call split: sum.split)

lemma gate_executor: "runner_gate v cfg caller rq = Inr e \<Longrightarrow> runnerExecutorFor (ai_parse v) caller (RUNNER_EXECUTORS cfg) = Some e"
  by (auto simp: runner_gate_def truthy_def split: option.splits list.splits if_splits)

lemma behind_gate_keeps:
  assumes "\<And>e. runnerExecutorFor (ai_parse v) caller (RUNNER_EXECUTORS cfg) = Some e \<Longrightarrow> keeps_inv I (h e ids rq)"
  shows "keeps_inv I (behind_gate v cfg caller h ids rq)"
  using assms unfolding keeps_inv_def behind_gate_def
  by (auto simp: wp_steps split: sum.split dest: gate_executor)

text \<open>
  C36. A caller that is registered for an executor changes, by whatever request to the runner routes, the
  object of that executor only: no table, no object store and no object of another executor. A caller
  that is registered for none changes nothing.
\<close>

theorem runner_confined:
  "case runnerExecutorFor (ai_parse v) caller (RUNNER_EXECUTORS cfg) of
     None \<Rightarrow> snd (dispatch (runnerRoutes v ru cfg sh caller) rq a) = a
   | Some e \<Rightarrow> only_crawler e a (snd (dispatch (runnerRoutes v ru cfg sh caller) rq a))"
proof (cases "runnerExecutorFor (ai_parse v) caller (RUNNER_EXECUTORS cfg)")
  case None
  have "routes_keep (\<lambda>b. b = a) (runnerRoutes v ru cfg sh caller)"
    by (auto simp: runnerRoutes_def mounted_keeps None intro!: behind_gate_keeps)
  from dispatch_keeps [OF this refl] show ?thesis by (simp add: None)
next
  case (Some e)
  have "routes_keep (only_crawler e a) (runnerRoutes v ru cfg sh caller)"
    by (auto simp: runnerRoutes_def mounted_keeps Some intro!: behind_gate_keeps handlers_confined)
  from dispatch_keeps [OF this only_crawler_refl] show ?thesis by (simp add: Some)
qed

section \<open>The routes take steps of the object\<close>

definition is_run :: "(string \<Rightarrow> string) \<Rightarrow> crawler \<Rightarrow> bool" where
  "is_run sha c \<longleftrightarrow> (\<exists>used. crawler_run sha (c, used))"

lemma run_stepped: "is_run sha c \<Longrightarrow> (\<And>used. crawler_step sha (c, used) (c1, used)) \<Longrightarrow> is_run sha c1"
  by (auto simp: is_run_def intro: run_step)

lemma issued_claims:
  "issued (foldl (\<lambda>acc c. claim_one now rid c acc) s claimed) = issued s @ map (\<lambda>(r, t). (job_id r, t)) claimed"
  by (induction claimed arbitrary: s) (auto simp: claim_one_def)

lemma claim_is_run: "is_run (ru_sha256 ru) c \<Longrightarrow> is_run (ru_sha256 ru) (fst (claim ru now rid n modes c))"
proof -
  assume run: "is_run (ru_sha256 ru) c"
  obtain c1 js where cl: "claim_jobs now rid n modes (ru_token ru) c = (c1, js)" by fastforce
  have "is_run (ru_sha256 ru) c1" using run by (rule run_stepped) (rule step_claim [OF cl])
  moreover have "set (map (\<lambda>(r, t). (job_id r, t)) js) \<subseteq> set (issued c1)"
    using cl by (auto simp: claim_jobs_def Let_def issued_claims split: if_splits)
  ultimately have "is_run (ru_sha256 ru) (store_hashes (ru_sha256 ru) now js c1)"
    by (blast intro: run_stepped step_hashes)
  then show ?thesis by (simp add: claim_def cl)
qed

lemma rounds_are_runs:
  assumes "\<And>c. is_run sha c \<Longrightarrow> is_run sha (fst (f c))" "\<And>w c. w \<in> set ws \<Longrightarrow> is_run sha c \<Longrightarrow> is_run sha (w c)"
    and "is_run sha c"
  shows "is_run sha (fst (lease_rounds f ws c))"
  using assms
proof (induction f ws c rule: lease_rounds.induct)
  case (2 f w ws c)
  obtain c1 js where f: "f c = (c1, js)" by fastforce
  with 2(2) [OF 2(4)] have "is_run sha c1" by simp
  with 2(1) [OF f [symmetric]] 2(2,3) f show ?case by (cases "js = []") auto
qed simp

lemma touched_is_run: "is_run sha c \<Longrightarrow> is_run sha (touchRunner info now c)"
  by (erule run_stepped) (rule step_touch)

definition runs_of :: "(string \<Rightarrow> string) \<Rightarrow> 'n app \<Rightarrow> bool" where
  "runs_of sha a \<longleftrightarrow> (\<forall>e. is_run sha (ap_crawlers a e))"

lemma runs_of_call: "runs_of sha a \<Longrightarrow> is_run sha c \<Longrightarrow> runs_of sha (a\<lparr>ap_crawlers := (ap_crawlers a)(e := c)\<rparr>)"
  by (simp add: runs_of_def)

text \<open>
  C37. The runner routes refine the state machine of the executor objects: if every object is in a state
  of a run and what happens to an object while a lease waits keeps it in one, then so is every object
  after any request. What is proved of all runs, such as that a job is answered once, holds across the API.
\<close>

theorem runner_routes_take_steps:
  assumes "runs_of (ru_sha256 ru) a"
    and "\<And>t w c. w \<in> set (ru_waits ru t) \<Longrightarrow> is_run (ru_sha256 ru) c \<Longrightarrow> is_run (ru_sha256 ru) (w c)"
  shows "runs_of (ru_sha256 ru) (snd (dispatch (runnerRoutes v ru cfg sh caller) rq a))"
proof -
  let ?I = "runs_of (ru_sha256 ru)"
  have beat: "is_run (ru_sha256 ru) c \<Longrightarrow> is_run (ru_sha256 ru) (scheduleAlarm now (touchRunner info now c))" for now info c
    by (erule run_stepped) (rule step_heartbeat)
  have done_one: "is_run (ru_sha256 ru) c \<Longrightarrow> is_run (ru_sha256 ru) (fst (complete (ru_sha256 ru) now i tok res c))"
    for now i tok res c
    by (erule run_stepped) (rule step_complete [OF surjective_pairing])
  have rounds: "is_run (ru_sha256 ru) (fst (lease_rounds (claim ru now rid n modes) (ru_waits ru t) c))"
    if "is_run (ru_sha256 ru) c" for now rid n modes t c
    by (rule rounds_are_runs) (auto intro: claim_is_run assms(2) that)
  have leased: "is_run (ru_sha256 ru) c \<Longrightarrow> is_run (ru_sha256 ru) (fst (lease ru mt now info n t c))" for mt now info n t c
    by (simp add: lease_def Let_def touched_is_run rounds)
  have "keeps_inv ?I (post_heartbeat v sh e rq)" "keeps_inv ?I (post_lease v ru sh e rq)"
    "keeps_inv ?I (post_result v ru sh e i rq)" for e i rq
    unfolding keeps_inv_def post_heartbeat_def post_lease_def post_result_def
    by (auto simp: wp_steps wp_crawler_call wp_assertExecutor intro!: runs_of_call beat leased done_one split: sum.split)
      (auto simp: runs_of_def)
  then have "routes_keep ?I (runnerRoutes v ru cfg sh caller)"
    by (auto simp: runnerRoutes_def mounted_keeps intro!: behind_gate_keeps)
  from dispatch_keeps [OF this assms(1)] show ?thesis .
qed

definition quiet_runner :: runner_env where
  "quiet_runner = \<lparr>ru_sha256 = (\<lambda>t. t), ru_token = (\<lambda>n. ''token''), ru_waits = (\<lambda>t. [touchRunner
     \<lparr>ri_runnerId = ''r'', ri_version = None, ri_fetchModes = [], ri_concurrency = None, ri_inflight = None\<rparr> 0])\<rparr>"

definition lease_shapes :: runner_shapes where
  "lease_shapes = \<lparr>sh_heartbeat = (\<lambda>j. None), sh_lease = (\<lambda>j. Some \<lparr>lq_executorId = ''e'', lq_runnerId = ''r'', lq_max = 1,
     lq_waitMs = 0, lq_fetchModes = [''http'']\<rparr>), sh_result = (\<lambda>j. None)\<rparr>"

theorem runner_routes_take_steps_witness:
  "runs_of (\<lambda>t. t) (snd (dispatch (runnerRoutes demo_api quiet_runner demo_auth_config lease_shapes ''token:t'')
     (json_request ''POST'' ''/api/runner/lease'') demo_app))"
proof -
  have "runs_of (ru_sha256 quiet_runner) demo_app"
    by (auto simp: runs_of_def demo_app_def is_run_def intro: run_start)
  moreover have "is_run (ru_sha256 quiet_runner) (w c)"
    if "w \<in> set (ru_waits quiet_runner t)" "is_run (ru_sha256 quiet_runner) c" for t w c
    using that touched_is_run by (auto simp: quiet_runner_def)
  ultimately have "runs_of (ru_sha256 quiet_runner)
      (snd (dispatch (runnerRoutes demo_api quiet_runner demo_auth_config lease_shapes ''token:t'')
        (json_request ''POST'' ''/api/runner/lease'') demo_app))"
    by (rule runner_routes_take_steps)
  then show ?thesis by (simp add: quiet_runner_def)
qed

end
