(* ===== verification/Api_DryRun.thy ===== *)
theory Api_DryRun
  imports Api_Sources
begin

text \<open>
  The dry run of a URL (src/api/routes/dryRun.ts): the checks, robots.txt without the cache, one fetch,
  and the title. Nothing is written.
\<close>

record dry_run_body =
  dr_url :: string
  dr_fetcher_id :: "string option"

text \<open>That \<open>url\<close> is a URL is the package's part.\<close>

definition dryRunSchema :: "dry_run_body \<Rightarrow> bool" where
  "dryRunSchema b \<longleftrightarrow> optional nonempty (dr_fetcher_id b)"

text \<open>The outside moves, the rest of the state stays.\<close>

definition outside_call :: "('n \<Rightarrow> (thrown + 'r) \<times> 'n) \<Rightarrow> ('r, 'n app) step" where
  "outside_call f = calls (\<lambda>a. case f (net_of (ap_check a)) of
     (r, n) \<Rightarrow> (r, a\<lparr>ap_check := set_net n (ap_check a)\<rparr>))"

definition dry_limits :: "string \<Rightarrow> submit_limits option" where
  "dry_limits fid =
     (if is_pull fid
      then Some \<lparr>aliveWindowMs = None, leaseWaitMs = Some LEASE_WAIT_MS, resultWaitMs = Some RESULT_WAIT_MS\<rparr> else None)"

definition dry_fetch :: "'n api \<Rightarrow> dry_run_body \<Rightarrow> 'n \<Rightarrow> (thrown + fetch_outcome) \<times> 'n" where
  "dry_fetch v body n =
     (let c = ai_ctx v; guard = checkUrlForSsrf (api_url v)
      in case dr_fetcher_id body of
           Some fid \<Rightarrow>
             (case rt_run (cc_runtime c) fid
                     \<lparr>inv_url = dr_url body, inv_userAgent = cc_userAgent c, inv_etag = None, inv_lastModified = None,
                      inv_headers = None, inv_env = cc_env c, inv_urlGuard = guard,
                      inv_submitLimits = dry_limits fid\<rparr> n of
                ((out, job), n1) \<Rightarrow> (Inr out, n1))
         | None \<Rightarrow>
             httpFetch (cc_platform c) (Some guard) (cc_net c) (plain_request (dr_url body) (cc_userAgent c))
               (cc_now c n) (cc_now c) n)"

text \<open>The title, or why there is none; the reasons are without their numbers.\<close>

definition dry_title :: "'n api \<Rightarrow> fetch_outcome \<Rightarrow> thrown + (string + string)" where
  "dry_title v out =
     (case out of
        FetchFailure f \<Rightarrow> Inr (Inr (''fetch failed ('' @ class_name (failureClass f) @ ''): '' @ fail_message f))
      | FetchSuccess r \<Rightarrow>
          (case ok_body r of
             None \<Rightarrow> Inr (Inr ''non-200 or empty body'')
           | Some body \<Rightarrow>
               if ok_status r \<noteq> 200 then Inr (Inr ''non-200 or empty body'')
               else if \<not> isHtmlContentType (ok_contentType r) then Inr (Inr ''non-html content-type'')
               else (case cc_htmlTitle (ai_ctx v) body (ok_contentType r) of
                       Inl e \<Rightarrow> Inl e
                     | Inr None \<Rightarrow> Inr (Inr ''no title found'')
                     | Inr (Some t) \<Rightarrow> Inr (Inl t))))"

definition dry_robots_json :: "(ms \<Rightarrow> string) \<Rightarrow> robots_decision \<Rightarrow> json" where
  "dry_robots_json stamp x =
     JObj [(''robots_url'', JStr (robotsUrl x)), (''reachable'', JBool (\<not> unavailable x)),
       (''verdict'', JStr (verdict_name (verdict x))), (''user_agent_group'', JStr (userAgentGroup x)),
       (''matched_rule'', jstr (matchedRule x)), (''checked_at'', JStr (stamp (fetchedAt x)))]"

definition dry_fetch_json :: "string option \<Rightarrow> fetch_outcome \<Rightarrow> json" where
  "dry_fetch_json fid out =
     (case out of
        FetchSuccess r \<Rightarrow>
          JObj [(''ok'', JBool True), (''fetcher_id'', jstr fid), (''status'', jint (ok_status r)),
            (''final_url'', JStr (finalUrl r)), (''content_type'', jstr (ok_contentType r)),
            (''duration_ms'', jint (ok_durationMs r)), (''failure_class'', JNull), (''error_message'', JNull)]
      | FetchFailure f \<Rightarrow>
          JObj [(''ok'', JBool False), (''fetcher_id'', jstr fid), (''status'', opt_json jint (fail_status f)),
            (''final_url'', JNull), (''content_type'', JNull), (''duration_ms'', JNull),
            (''failure_class'', JStr (class_name (failureClass f))), (''error_message'', JStr (fail_message f))])"

definition dry_answer :: "'n api \<Rightarrow> dry_run_body \<Rightarrow> string \<Rightarrow> robots_decision \<Rightarrow> fetch_outcome \<Rightarrow> string + string \<Rightarrow> response" where
  "dry_answer v body og x out title =
     json_response 200 (JObj [(''url'', JStr (dr_url body)), (''origin'', JStr og),
       (''robots'', dry_robots_json (ai_stamp v) x), (''fetch'', dry_fetch_json (dr_fetcher_id body) out),
       (''title'', case title of Inl t \<Rightarrow> JStr t | Inr w \<Rightarrow> JNull),
       (''title_skip_reason'', case title of Inl t \<Rightarrow> JNull | Inr w \<Rightarrow> JStr w)])"

text \<open>\<open>checkRobots\<close> without a cache keeps nothing.\<close>

definition dry_robots :: "'n api \<Rightarrow> string \<Rightarrow> string \<Rightarrow> 'n app \<Rightarrow> raised + robots_decision" where
  "dry_robots v og url a =
     (case snd (checkRobots (api_url v) (decodeText (cc_platform (ai_ctx v)))
                  (cc_robotsFetch (ai_ctx v) (net_of (ap_check a))) (None :: unit robots_cache_ops option) None
                  (Some (cc_userAgent (ai_ctx v))) (api_now v a) og url ()) of
        Inl e \<Rightarrow> Inl (Unexpected (ErrorObject ''TypeError'' ''Invalid URL''))
      | Inr x \<Rightarrow> Inr x)"

definition post_dry_run :: "'n api \<Rightarrow> (json \<Rightarrow> dry_run_body option) \<Rightarrow> request \<Rightarrow> 'n app handler" where
  "post_dry_run v sh rq =
     chain (checked (read_body (ai_parse v) sh dryRunSchema rq)) (\<lambda>body.
     chain (require (\<lambda>a. api_url v (dr_url body) None) (badRequest ''invalid_url'')) (\<lambda>parsed.
     chain (reject_if (\<lambda>a. protocol parsed \<noteq> ''http:'' \<and> protocol parsed \<noteq> ''https:'')
       (badRequest ''unsupported_scheme'')) (\<lambda>_.
     chain (reject_if (\<lambda>a. case truthy (dr_fetcher_id body) of None \<Rightarrow> False
         | Some fid \<Rightarrow> fid \<notin> set (map fe_id (listFetchers (app_db a)))) (badRequest ''unknown_fetcher'')) (\<lambda>_.
     chain (reject_if (\<lambda>a. \<not> allowed (checkUrlForSsrf (api_url v) (dr_url body))) (badRequest ''ssrf_blocked'')) (\<lambda>_.
     chain (reject_if (\<lambda>a. \<not> allowed (resolveAndCheck (api_url v) (api_resolve v a) (dr_url body)))
       (badRequest ''ssrf_blocked'')) (\<lambda>_.
     chain (reads (dry_robots v (origin parsed) (dr_url body))) (\<lambda>found.
     chain (checked found) (\<lambda>decision.
     chain (outside_call (dry_fetch v body)) (\<lambda>out.
     chain (checked (case dry_title v out of Inl e \<Rightarrow> Inl (Unexpected e) | Inr t \<Rightarrow> Inr t)) (\<lambda>title.
     gives (dry_answer v body (origin parsed) decision out title)))))))))))"

definition dryRunRoutes :: "'n api \<Rightarrow> (json \<Rightarrow> dry_run_body option) \<Rightarrow> 'n route list" where
  "dryRunRoutes v sh = mounted ''dry-run'' [(''POST'', [], \<lambda>ids rq. post_dry_run v sh rq)]"

text \<open>A dry run keeps all of the state but the outside.\<close>

definition same_but_outside :: "'n app \<Rightarrow> 'n app \<Rightarrow> bool" where
  "same_but_outside a b \<longleftrightarrow> (\<exists>n. b = a\<lparr>ap_check := set_net n (ap_check a)\<rparr>)"

lemma same_but_outside_refl [simp]: "same_but_outside a a"
  unfolding same_but_outside_def by (rule exI [of _ "net_of (ap_check a)"]) (simp add: set_net_def net_of_def)

lemma set_net_twice: "set_net n (set_net k s) = set_net n s"
  by (simp add: set_net_def)

lemma wp_outside_call:
  "wp I (outside_call f) Q s =
     (case f (net_of (ap_check s)) of
        (Inl e, n) \<Rightarrow> I (s\<lparr>ap_check := set_net n (ap_check s)\<rparr>)
      | (Inr r, n) \<Rightarrow> Q r (s\<lparr>ap_check := set_net n (ap_check s)\<rparr>))"
  by (auto simp: outside_call_def wp_calls split: prod.split sum.split)

lemma dry_run_keeps: "keeps_inv (same_but_outside a) (post_dry_run v sh rq)"
proof -
  have moved: "same_but_outside a b \<Longrightarrow> same_but_outside a (b\<lparr>ap_check := set_net n (ap_check b)\<rparr>)" for b n
    by (auto simp: same_but_outside_def set_net_twice)
  show ?thesis
    unfolding keeps_inv_def post_dry_run_def
    by (auto simp: wp_chain wp_checked wp_require wp_reject_if wp_reads wp_gives wp_outside_call moved
        split: sum.split option.split prod.split)
qed

end
