(* ===== verification/Api_App.thy ===== *)
theory Api_App
  imports Api_Sites Api_Monitors Api_Destinations Api_Reads Api_Runner Api_DryRun
begin

text \<open>
  The management API as a whole (src/api/index.ts): the authentication in front of the table of all
  routes, and what every request keeps of the database.
\<close>

section \<open>The application\<close>

record 'k app_shapes =
  as_sites :: site_shapes
  as_sources :: source_shapes
  as_monitors :: monitor_shapes
  as_destinations :: destination_shapes
  as_subscription :: "json \<Rightarrow> create_subscription_body option"
  as_runner :: runner_shapes
  as_dryRun :: "json \<Rightarrow> dry_run_body option"
  as_webhook :: "'k webhook_env"
  as_objects :: runner_env

definition api_routes :: "'n api \<Rightarrow> 'k app_shapes \<Rightarrow> auth_config \<Rightarrow> string \<Rightarrow> 'n route list" where
  "api_routes v sh cfg caller =
     sitesRoutes v (as_sites sh) @ sourcesRoutes v (as_sources sh) @
     monitorsRoutes v (createDefaultMonitorControlFactory v) (as_monitors sh) @ readRoutes v @
     runnerRoutes v (as_objects sh) cfg (as_runner sh) caller @
     destinationsRoutes v (as_webhook sh) (as_destinations sh) @ subscriptionsRoutes v (as_subscription sh) @
     dryRunRoutes v (as_dryRun sh)"

definition createApp ::
  "'n api \<Rightarrow> 'k app_shapes \<Rightarrow> ('j, 'm) auth_env \<Rightarrow> auth_config \<Rightarrow> request \<Rightarrow> ('j, 'm) auth_state \<times> 'n app \<Rightarrow>
   response \<times> (('j, 'm) auth_state \<times> 'n app)" where
  "createApp v sh env cfg rq w =
     (case w of (au, a) \<Rightarrow>
       if \<not> startsWith (rq_path rq) ''/api/'' \<and> rq_path rq \<noteq> ''/api'' then (not_found_response, (au, a))
       else (case createAccessAuth env cfg rq au of
               (Inl res, au1) \<Rightarrow> (res, (au1, a))
             | (Inr caller, au1) \<Rightarrow>
                 (case dispatch (api_routes v sh cfg caller) rq a of (res, a1) \<Rightarrow> (res, (au1, a1)))))"

section \<open>Every route keeps a property\<close>

locale api_property = site_property I v + source_property I v + monitor_property I + destination_property I for I v
begin

lemma keeps_confined:
  assumes "\<And>a. keeps_inv (R a) h" "\<And>a. R a a" "\<And>a b. R a b \<Longrightarrow> J a \<Longrightarrow> J b"
  shows "keeps_inv J h"
  using assms(2,3) assms(1) [unfolded keeps_inv_iff] unfolding keeps_inv_iff by blast

lemma keeps_runner: "routes_keep J (runnerRoutes v ru cfg sh caller)"
proof -
  have own: "only_crawler e a b \<Longrightarrow> J a \<Longrightarrow> J b" for e a and b :: "'a app"
    by (auto simp: only_crawler_def)
  have "keeps_inv J (post_heartbeat v sh e rq)" "keeps_inv J (post_lease v ru sh e rq)"
    "keeps_inv J (post_result v ru sh e i rq)" for e i rq
    by (rule keeps_confined [where R = "only_crawler e"], rule handlers_confined, simp, erule (1) own)+
  then show ?thesis
    by (auto simp: runnerRoutes_def mounted_keeps intro!: behind_gate_keeps)
qed

lemma keeps_dry_run: "routes_keep J (dryRunRoutes v sh)"
proof -
  have own: "same_but_outside a b \<Longrightarrow> J a \<Longrightarrow> J b" for a and b :: "'a app"
    by (auto simp: same_but_outside_def J_tables app_db_def)
  have "keeps_inv J (post_dry_run v sh rq)" for rq
    by (rule keeps_confined [where R = same_but_outside], rule dry_run_keeps, simp, erule (1) own)
  then show ?thesis by (simp add: dryRunRoutes_def mounted_keeps)
qed

lemma keeps_routes: "routes_keep J (api_routes v sh cfg caller)"
  by (simp add: api_routes_def routes_keep_append keeps_sites keeps_sources keeps_monitors reads_keep keeps_runner
      keeps_destinations keeps_subscriptions keeps_dry_run)

lemma keeps_request: "I (tables a) \<Longrightarrow> createApp v sh env cfg rq (au, a) = (res, (au1, a1)) \<Longrightarrow> I (tables a1)"
  using dispatch_keeps [OF keeps_routes, of a sh cfg _ rq]
  by (auto simp: createApp_def J_def split: if_splits prod.splits sum.splits) (metis snd_conv)+

end

section \<open>References\<close>

text \<open>
  The references between the tables the API manages: whatever a row names exists, and a monitor is on the
  site of its source.
\<close>

definition api_refs :: "policy_tables \<times> db \<Rightarrow> bool" where
  "api_refs w \<longleftrightarrow> (case w of (p, d) \<Rightarrow>
     (\<forall>r \<in> set (sources d). getSite d (src_siteId r) \<noteq> None) \<and>
     (\<forall>r \<in> set (monitors d). \<exists>s. getSource d (mon_sourceId r) = Some s \<and> src_siteId s = mon_siteId r) \<and>
     (\<forall>r \<in> set (fetcher_policies p). getSite d (pol_site_id r) \<noteq> None) \<and>
     (\<forall>e \<in> set (fetcher_policy_entries p).
        pe_policy_id e \<in> pol_id ` set (fetcher_policies p) \<and> pe_fetcher_id e \<in> fe_id ` set (fetchers d)) \<and>
     (\<forall>r \<in> set (robots_policies d). getSite d (rp_siteId r) \<noteq> None) \<and>
     (\<forall>r \<in> set (subscriptions d). getDestination d (su_destinationId r) \<noteq> None \<and>
        optional (\<lambda>i. getSite d i \<noteq> None) (su_siteId r) \<and> optional (\<lambda>i. getMonitor d i \<noteq> None) (su_monitorId r)))"

lemma find_filter_other: "(\<And>x. P x \<Longrightarrow> Q x) \<Longrightarrow> find P (filter Q xs) = find P xs"
  by (induction xs) auto

lemma find_mono_append: "find P xs \<noteq> None \<Longrightarrow> find P (xs @ ys) \<noteq> None"
  by (auto simp: find_append_case)

lemma found_append: "find P xs = Some x \<Longrightarrow> find P (xs @ ys) = Some x"
  by (simp add: find_append_case)

lemma optional_mono: "optional P x \<Longrightarrow> (\<And>y. x = Some y \<Longrightarrow> P y \<Longrightarrow> Q y) \<Longrightarrow> optional Q x"
  by (cases x) auto

lemmas lookups = getSite_def getSource_def getMonitor_def getDestination_def

lemma update_exists: "(\<And>r. P (f r) = P r) \<Longrightarrow> find P (update_where Q f xs) \<noteq> None \<longleftrightarrow> find P xs \<noteq> None"
  by (simp add: find_update_where)

lemma refs_monitor_update:
  assumes "api_refs (p, d)" "\<And>r. mon_id (f r) = mon_id r" "\<And>r. mon_sourceId (f r) = mon_sourceId r"
    "\<And>r. mon_siteId (f r) = mon_siteId r"
  shows "api_refs (p, with_monitor m f d)"
  using assms
  by (auto simp: api_refs_def with_monitor_def lookups update_where_set find_update_where elim!: optional_mono)

lemma refs_history:
  assumes "api_refs (p, d)" "keeps_history d d1"
  shows "api_refs (p, d1)"
proof -
  have core: "mon_id (monitor_core r) = mon_id r" "mon_sourceId (monitor_core r) = mon_sourceId r"
    "mon_siteId (monitor_core r) = mon_siteId r" for r
    by (simp_all add: monitor_core_def)
  have same: "map monitor_core (monitors d1) = map monitor_core (monitors d)"
    and tables: "sites d1 = sites d" "sources d1 = sources d" "destinations d1 = destinations d"
    "subscriptions d1 = subscriptions d" "robots_policies d1 = robots_policies d" "fetchers d1 = fetchers d"
    using assms(2) by (simp_all add: keeps_history_def)
  have "\<exists>r0 \<in> set (monitors d). mon_id r = mon_id r0 \<and> mon_sourceId r = mon_sourceId r0 \<and> mon_siteId r = mon_siteId r0"
    if "r \<in> set (monitors d1)" for r
  proof -
    from that have "monitor_core r \<in> set (map monitor_core (monitors d))" by (simp flip: same)
    then show ?thesis using core by (auto, metis)
  qed
  moreover have "getMonitor d1 i \<noteq> None \<longleftrightarrow> getMonitor d i \<noteq> None" for i
  proof -
    have "mon_id ` set (monitors d1) = mon_id ` set (monitors d)"
      using arg_cong [OF same, of "\<lambda>rs. mon_id ` set rs"] by (simp add: image_image core)
    then show ?thesis by (auto simp: getMonitor_def find_None_iff)  (metis imageE imageI)+
  qed
  ultimately show ?thesis
    using assms(1) by (auto simp: api_refs_def tables getSite_def getSource_def getDestination_def elim!: optional_mono)
      (metis)
qed

lemma refs_sites:
  assumes "api_refs (p, d)"
  shows "api_refs (p, fst (createSite u now None name og d))" "api_refs (p, fst (updateSiteName now i name d))"
  using assms
  by (auto simp: api_refs_def createSite_def updateSiteName_def Let_def lookups find_append_case find_update_where
      elim!: optional_mono split: option.split)

lemma refs_site_gone:
  assumes "api_refs w" "countSourcesBySite (snd w) i = 0"
  shows "api_refs (fst (deleteSiteCascade i w))"
proof -
  obtain p d where w: "w = (p, d)" by fastforce
  have other: "getSite (d\<lparr>robots_policies := rs, subscriptions := ss, sites := filter (\<lambda>r. st_id r \<noteq> i) (sites d)\<rparr>) j = getSite d j"
    if "j \<noteq> i" for j rs ss
    using that by (simp add: getSite_def find_filter_other)
  have none: "src_siteId r \<noteq> i" if "r \<in> set (sources d)" for r
    using assms(2) that by (auto simp: w countSourcesBySite_def filter_empty_conv)
  show ?thesis
    using assms(1) none
    by (auto simp: w api_refs_def deleteSiteCascade_def deleteSiteStatements_def other list_ex_iff getSource_def
        getMonitor_def getDestination_def optional_def split: option.splits)
qed

lemma refs_policy_put:
  assumes "api_refs (p, d)" "getSite d i \<noteq> None" "set (allowList fp) \<subseteq> fe_id ` set (fetchers d)" "policy_valid fp"
    "putFetcherPolicy u ids now i fp p = Inr p1"
  shows "api_refs (p1, d)"
proof -
  have known: "fetcherId e \<in> fe_id ` set (fetchers d)" if "e \<in> set (orderList fp)" for e
  proof -
    have "set (map fetcherId (orderList fp)) = set (allowList fp)"
      using assms(4) unfolding policy_valid_iff by (metis set_mset_mset)
    then show ?thesis using that assms(3) by auto
  qed
  have entries: "pe_policy_id e = k \<and> pe_fetcher_id e \<in> fe_id ` set (fetchers d)"
    if "e \<in> set (entry_rows k ids (orderList fp))" for e k
    using that by (auto simp: entry_rows_def in_set_enumerate_eq intro!: known nth_mem)
  have shape: "pol_site_id ` set (fetcher_policies p1) \<subseteq> insert i (pol_site_id ` set (fetcher_policies p)) \<and>
      pol_id ` set (fetcher_policies p) \<subseteq> pol_id ` set (fetcher_policies p1) \<and>
      (\<forall>e \<in> set (fetcher_policy_entries p1). e \<in> set (fetcher_policy_entries p) \<or>
         pe_policy_id e \<in> pol_id ` set (fetcher_policies p1) \<and> pe_fetcher_id e \<in> fe_id ` set (fetchers d))"
  proof (cases "find_policy p i")
    case (Some pr)
    then have pr: "pr \<in> set (fetcher_policies p)" by (auto simp: find_policy_def dest: find_SomeD)
    have p1: "p1 = \<lparr>fetcher_policies = map (\<lambda>r. if pol_id r = pol_id pr then r\<lparr>pol_updated_at := now\<rparr> else r) (fetcher_policies p),
        fetcher_policy_entries = filter (\<lambda>r. pe_policy_id r \<noteq> pol_id pr) (fetcher_policy_entries p) @
          entry_rows (pol_id pr) ids (orderList fp)\<rparr>"
      using assms(5) by (simp add: putFetcherPolicy_def Some split: option.splits)
    have "map pol_id (fetcher_policies p1) = map pol_id (fetcher_policies p)"
      "map pol_site_id (fetcher_policies p1) = map pol_site_id (fetcher_policies p)"
      by (simp_all add: p1)
    then have "pol_id ` set (fetcher_policies p1) = pol_id ` set (fetcher_policies p)"
      "pol_site_id ` set (fetcher_policies p1) = pol_site_id ` set (fetcher_policies p)"
      by (metis set_map)+
    with pr show ?thesis by (auto simp: p1 dest: entries)
  next
    case None
    with assms(5) show ?thesis
      by (auto simp: putFetcherPolicy_def dest: entries split: option.splits)
  qed
  have "getSite d (pol_site_id r) \<noteq> None" if "r \<in> set (fetcher_policies p1)" for r
  proof -
    from that shape have "pol_site_id r \<in> insert i (pol_site_id ` set (fetcher_policies p))" by blast
    with assms(1,2) show ?thesis by (auto simp: api_refs_def)
  qed
  moreover have "pe_policy_id e \<in> pol_id ` set (fetcher_policies p1) \<and> pe_fetcher_id e \<in> fe_id ` set (fetchers d)"
    if "e \<in> set (fetcher_policy_entries p1)" for e
  proof (cases "e \<in> set (fetcher_policy_entries p)")
    case True
    with assms(1) have "pe_policy_id e \<in> pol_id ` set (fetcher_policies p)" "pe_fetcher_id e \<in> fe_id ` set (fetchers d)"
      by (simp_all add: api_refs_def)
    with shape show ?thesis by blast
  next
    case False
    with that shape show ?thesis by blast
  qed
  ultimately show ?thesis using assms(1) by (simp add: api_refs_def)
qed

lemma refs_robots_put:
  assumes "api_refs (p, d)" "getSite d (ip_siteId inp) \<noteq> None"
  shows "api_refs (p, fst (upsertRobotsPolicy nu u now inp d))"
  using assms
  by (auto simp: api_refs_def upsertRobotsPolicy_def Let_def lookups update_where_set)

lemma refs_sources:
  assumes "api_refs (p, d)"
  shows "getSite d site \<noteq> None \<Longrightarrow> api_refs (p, fst (createSource u now None site ty url cfg d))"
    and "api_refs (p, fst (updateSourceConfig now i cfg d))"
    and "countMonitorsBySource d i = 0 \<Longrightarrow> api_refs (p, fst (deleteSource i d))"
proof -
  show "getSite d site \<noteq> None \<Longrightarrow> api_refs (p, fst (createSource u now None site ty url cfg d))"
    using assms by (auto simp: api_refs_def createSource_def Let_def lookups find_append_case elim!: optional_mono)
  have moved: "(\<exists>s. getSource (fst (updateSourceConfig now i cfg d)) k = Some s \<and> src_siteId s = x) \<longleftrightarrow>
      (\<exists>s. getSource d k = Some s \<and> src_siteId s = x)" for k x
    by (cases "getSource d k") (auto simp: updateSourceConfig_def getSource_def Let_def find_update_where)
  have tables: "sites (fst (updateSourceConfig now i cfg d)) = sites d"
    "monitors (fst (updateSourceConfig now i cfg d)) = monitors d"
    "subscriptions (fst (updateSourceConfig now i cfg d)) = subscriptions d"
    "robots_policies (fst (updateSourceConfig now i cfg d)) = robots_policies d"
    "fetchers (fst (updateSourceConfig now i cfg d)) = fetchers d"
    "destinations (fst (updateSourceConfig now i cfg d)) = destinations d"
    by (simp_all add: updateSourceConfig_def Let_def)
  have site: "\<exists>r0 \<in> set (sources d). src_siteId r = src_siteId r0" if "r \<in> set (sources (fst (updateSourceConfig now i cfg d)))" for r
    using that by (auto simp: updateSourceConfig_def Let_def update_where_set split: if_splits)
  show "api_refs (p, fst (updateSourceConfig now i cfg d))"
    using assms unfolding api_refs_def
    by (auto simp only: prod.case moved tables getSite_def getMonitor_def getDestination_def dest!: site)
  assume none: "countMonitorsBySource d i = 0"
  have "find (\<lambda>s. src_id s = mon_sourceId r) (filter (\<lambda>s. src_id s \<noteq> i) (sources d)) =
      find (\<lambda>s. src_id s = mon_sourceId r) (sources d)" if "r \<in> set (monitors d)" for r
    using none that by (auto simp: countMonitorsBySource_def filter_empty_conv intro!: find_filter_other)
  then show "api_refs (p, fst (deleteSource i d))"
    using assms by (auto simp: api_refs_def deleteSource_def lookups elim!: optional_mono)
qed

lemma refs_monitors:
  assumes "api_refs (p, d)"
  shows "getSource d i = Some r \<Longrightarrow> api_refs (p, fst (createMonitor u now None (src_siteId r) (src_id r) None iv nx d))"
    and "api_refs (p, updateMonitorInterval now m iv d)" "api_refs (p, setMonitorNextRun now m t d)"
    and "api_refs (p, updateMonitorStatus now m st d)" "api_refs (p, fst (deleteMonitorCascade m d))"
proof -
  show "api_refs (p, fst (createMonitor u now None (src_siteId r) (src_id r) None iv nx d))" if "getSource d i = Some r"
  proof -
    from that have "src_id r = i" by (auto simp: getSource_def dest: find_SomeD)
    with that assms show ?thesis
      by (auto simp: api_refs_def createMonitor_def Let_def lookups find_append_case elim!: optional_mono)
  qed
  show "api_refs (p, updateMonitorInterval now m iv d)" "api_refs (p, setMonitorNextRun now m t d)"
    "api_refs (p, updateMonitorStatus now m st d)"
    by (simp_all add: refs_monitor_update [OF assms] updateMonitorInterval_def setMonitorNextRun_def updateMonitorStatus_def)
  have other: "optional (\<lambda>i. \<exists>y. find (\<lambda>r. mon_id r = i) (filter (\<lambda>r. mon_id r \<noteq> m) rs) = Some y) x"
    if "x \<noteq> Some m" "optional (\<lambda>i. \<exists>y. find (\<lambda>r. mon_id r = i) rs = Some y) x" for x rs
    using that by (cases x) (auto simp: find_filter_other)
  show "api_refs (p, fst (deleteMonitorCascade m d))"
    using assms
    by (auto simp: api_refs_def deleteMonitorCascade_def deleteMonitorStatements_def lookups intro: other)
qed

lemma refs_audit: "api_refs (p, d) \<Longrightarrow> api_refs (p, fst (recordAuditEvent u now e d))"
  by (simp add: api_refs_def recordAuditEvent_def Let_def lookups)

lemma refs_destinations:
  assumes "api_refs (p, d)"
  shows "api_refs (p, fst (createDestination u now None name url None thread d))"
    and "api_refs (p, fst (updateDestinationThreadId now i thread d))"
    and "api_refs (p, fst (archiveDestination now i d))" and "api_refs (p, snd (deleteDestinationById i d))"
    and "getDestination d dest = Some r \<Longrightarrow> optional (\<lambda>j. getSite d j \<noteq> None) si \<Longrightarrow>
      optional (\<lambda>j. getMonitor d j \<noteq> None) mi \<Longrightarrow> api_refs (p, fst (createSubscription u now None dest si mi tag k d))"
    and "api_refs (p, fst (deleteSubscriptionById i d))"
proof -
  have kept: "find (\<lambda>r. ds_id r = k) (filter (\<lambda>r. ds_id r \<noteq> i) rs) = find (\<lambda>r. ds_id r = k) rs" if "k \<noteq> i" for k rs
    using that by (simp add: find_filter_other)
  show "api_refs (p, snd (deleteDestinationById i d))"
    using assms by (auto simp: api_refs_def deleteDestinationById_def lookups kept)
  show "api_refs (p, fst (createDestination u now None name url None thread d))"
    "api_refs (p, fst (updateDestinationThreadId now i thread d))" "api_refs (p, fst (archiveDestination now i d))"
    "api_refs (p, fst (deleteSubscriptionById i d))"
    using assms
    by (auto simp: api_refs_def createDestination_def updateDestinationThreadId_def archiveDestination_def
        deleteSubscriptionById_def Let_def lookups find_append_case find_update_where split: option.split)
  show "getDestination d dest = Some r \<Longrightarrow> optional (\<lambda>j. getSite d j \<noteq> None) si \<Longrightarrow>
      optional (\<lambda>j. getMonitor d j \<noteq> None) mi \<Longrightarrow> api_refs (p, fst (createSubscription u now None dest si mi tag k d))"
    using assms by (auto simp: api_refs_def createSubscription_def Let_def lookups)
qed

interpretation refs: api_property api_refs v for v
proof unfold_locales
  show "api_refs (p1, d)"
    if "api_refs (p, d)" "getSite d i \<noteq> None" "set (allowList fp) \<subseteq> fe_id ` set (fetchers d)" "policy_valid fp"
      "putFetcherPolicy u ids now i fp p = Inr p1" for p d i fp u ids now p1
    using that by (rule refs_policy_put)
  show "api_refs (p, d1)" if "api_refs (p, d)" "keeps_history d d1" for p d d1
    using that by (rule refs_history)
qed (rule refs_audit refs_sites refs_site_gone refs_robots_put refs_sources refs_monitors refs_destinations; assumption)+

section \<open>Stored sources\<close>

text \<open>Every source a lookup finds is valid.\<close>

definition sources_valid :: "'n api \<Rightarrow> policy_tables \<times> db \<Rightarrow> bool" where
  "sources_valid v w \<longleftrightarrow> (\<forall>i r. getSource (snd w) i = Some r \<longrightarrow> source_valid v r)"

lemma valid_same: "sources_valid v (p, d) \<Longrightarrow> sources d1 = sources d \<Longrightarrow> sources_valid v (p1, d1)"
  by (simp add: sources_valid_def getSource_def)

lemma valid_sources:
  assumes "sources_valid v (p, d)"
  shows "allowed (checkUrlForSsrf (api_url v) url) \<Longrightarrow> optional (config_suits v ty) cfg \<Longrightarrow>
      sources_valid v (p, fst (createSource u now None site ty url cfg d))"
    and "getSource d i = Some r \<Longrightarrow> optional (config_suits v (src_type r)) cfg \<Longrightarrow>
      sources_valid v (p, fst (updateSourceConfig now i cfg d))"
    and "sources_valid v (p, fst (deleteSource i d))"
proof -
  show "sources_valid v (p, fst (createSource u now None site ty url cfg d))"
    if "allowed (checkUrlForSsrf (api_url v) url)" "optional (config_suits v ty) cfg"
    using assms that
    by (auto simp: sources_valid_def createSource_def source_valid_def getSource_def find_append_case Let_def
        split: option.splits if_splits)
  show "sources_valid v (p, fst (updateSourceConfig now i cfg d))"
    if "getSource d i = Some r" "optional (config_suits v (src_type r)) cfg"
  proof -
    have same: "z = r" if "find (\<lambda>r. src_id r = k) (sources d) = Some z" "src_id z = i" for z k
    proof -
      from that have "k = i" by (auto dest: find_SomeD)
      with that \<open>getSource d i = Some r\<close> show ?thesis by (simp add: getSource_def)
    qed
    show ?thesis
      using assms that
      by (auto simp: sources_valid_def updateSourceConfig_def source_valid_def getSource_def find_update_where Let_def
          split: if_splits dest: same)
  qed
  have "find (\<lambda>r. src_id r = k) (filter (\<lambda>r. src_id r \<noteq> i) rs) = (if k = i then None else find (\<lambda>r. src_id r = k) rs)"
    for k and rs :: "source_row list"
    by (induction rs) auto
  then show "sources_valid v (p, fst (deleteSource i d))"
    using assms by (simp add: sources_valid_def deleteSource_def getSource_def)
qed

lemma same_sources:
  "sources (fst (recordAuditEvent u now e d)) = sources d" "sources (fst (createSite u now None name og d)) = sources d"
  "sources (fst (updateSiteName now i name d)) = sources d" "sources (snd (fst (deleteSiteCascade i (p, d)))) = sources d"
  "sources (fst (upsertRobotsPolicy nu u now inp d)) = sources d"
  "sources (fst (createMonitor u now None si so None iv nx d)) = sources d"
  "sources (updateMonitorInterval now m iv d) = sources d" "sources (setMonitorNextRun now m t d) = sources d"
  "sources (updateMonitorStatus now m st d) = sources d" "sources (fst (deleteMonitorCascade m d)) = sources d"
  "sources (fst (createDestination u now None name url None thread d)) = sources d"
  "sources (fst (updateDestinationThreadId now i thread d)) = sources d"
  "sources (fst (archiveDestination now i d)) = sources d" "sources (snd (deleteDestinationById i d)) = sources d"
  "sources (fst (createSubscription u now None dest si2 mi tag k d)) = sources d"
  "sources (fst (deleteSubscriptionById i d)) = sources d"
  by (simp_all add: recordAuditEvent_def createSite_def updateSiteName_def upsertRobotsPolicy_def createMonitor_def
      updateMonitorInterval_def setMonitorNextRun_def updateMonitorStatus_def with_monitor_def deleteMonitorCascade_def
      deleteMonitorStatements_def createDestination_def updateDestinationThreadId_def archiveDestination_def
      deleteDestinationById_def createSubscription_def deleteSubscriptionById_def deleteSiteCascade_def
      deleteSiteStatements_def Let_def)

lemma valid_site_gone: "sources_valid v w \<Longrightarrow> sources_valid v (fst (deleteSiteCascade i w))"
proof -
  obtain p d p1 d1 where w: "w = (p, d)" "fst (deleteSiteCascade i (p, d)) = (p1, d1)" by fastforce
  assume "sources_valid v w"
  moreover have "sources d1 = sources d" using same_sources(4) [of i p d] by (simp add: w)
  ultimately show ?thesis using valid_same w by metis
qed

interpretation valid: api_property "sources_valid v" v for v
proof unfold_locales
  show "sources_valid v (p1, d)" if "sources_valid v (p, d)" for p d p1
    using that by (rule valid_same) simp
  show "sources_valid v (p, d1)" if "sources_valid v (p, d)" "keeps_history d d1" for p d d1
    using that by (auto intro: valid_same simp: keeps_history_def)
  show "sources_valid v (fst (deleteSiteCascade i w))" if "sources_valid v w" for w i
    using that by (rule valid_site_gone)
qed (rule valid_sources; assumption | erule valid_same, rule same_sources)+


section \<open>Stored webhooks\<close>

text \<open>
  No webhook is stored readable: a destination in use holds it encrypted, an archived one holds none, and
  nothing subscribes to an archived destination.
\<close>

definition secrets_ok :: "policy_tables \<times> db \<Rightarrow> bool" where
  "secrets_ok w \<longleftrightarrow>
     (\<forall>r \<in> set (destinations (snd w)).
        if archivedAt r = None then isEncryptedWebhookUrl (webhookUrl r) else webhookUrl r = '''') \<and>
     (\<forall>r \<in> set (subscriptions (snd w)). \<exists>ds. getDestination (snd w) (su_destinationId r) = Some ds \<and> archivedAt ds = None)"

lemma secrets_less:
  assumes "secrets_ok (p, d)" "destinations d1 = destinations d" "set (subscriptions d1) \<subseteq> set (subscriptions d)"
  shows "secrets_ok (p1, d1)"
  using assms by (auto simp: secrets_ok_def getDestination_def)

lemma secrets_rows:
  "secrets_ok (p, d) \<Longrightarrow> r \<in> set (destinations d) \<Longrightarrow>
     if archivedAt r = None then isEncryptedWebhookUrl (webhookUrl r) else webhookUrl r = ''''"
  "secrets_ok (p, d) \<Longrightarrow> s \<in> set (subscriptions d) \<Longrightarrow>
     \<exists>ds. find (\<lambda>r. ds_id r = su_destinationId s) (destinations d) = Some ds \<and> archivedAt ds = None"
  by (auto simp: secrets_ok_def getDestination_def)

lemma secretsI:
  assumes "\<And>r. r \<in> set (destinations d) \<Longrightarrow>
      if archivedAt r = None then isEncryptedWebhookUrl (webhookUrl r) else webhookUrl r = ''''"
    and "\<And>s. s \<in> set (subscriptions d) \<Longrightarrow>
      \<exists>ds. find (\<lambda>r. ds_id r = su_destinationId s) (destinations d) = Some ds \<and> archivedAt ds = None"
  shows "secrets_ok (p, d)"
  using assms by (simp add: secrets_ok_def getDestination_def)

lemma secrets_destinations:
  assumes "secrets_ok (p, d)"
  shows "isEncryptedWebhookUrl url \<Longrightarrow> secrets_ok (p, fst (createDestination u now None name url None thread d))"
    and "secrets_ok (p, fst (updateDestinationThreadId now i thread d))"
    and "secrets_ok (p, fst (archiveDestination now i d))" and "secrets_ok (p, snd (deleteDestinationById i d))"
    and "getDestination d dest = Some r \<Longrightarrow> archivedAt r = None \<Longrightarrow>
      secrets_ok (p, fst (createSubscription u now None dest si mi tag k d))"
proof -
  note rows = secrets_rows [OF assms]
  show "secrets_ok (p, fst (createDestination u now None name url None thread d))" if "isEncryptedWebhookUrl url"
  proof (rule secretsI)
    fix s assume "s \<in> set (subscriptions (fst (createDestination u now None name url None thread d)))"
    then have "s \<in> set (subscriptions d)" by (simp add: createDestination_def Let_def)
    from rows(2) [OF this]
    show "\<exists>ds. find (\<lambda>r. ds_id r = su_destinationId s) (destinations (fst (createDestination u now None name url None thread d))) =
        Some ds \<and> archivedAt ds = None"
      by (auto simp: createDestination_def Let_def find_append_case)
  next
    fix r assume "r \<in> set (destinations (fst (createDestination u now None name url None thread d)))"
    then show "if archivedAt r = None then isEncryptedWebhookUrl (webhookUrl r) else webhookUrl r = ''''"
      using that rows(1) [of r] by (auto simp: createDestination_def Let_def)
  qed
  show "secrets_ok (p, fst (updateDestinationThreadId now i thread d))"
  proof (rule secretsI)
    fix s assume "s \<in> set (subscriptions (fst (updateDestinationThreadId now i thread d)))"
    then have "s \<in> set (subscriptions d)" by (simp add: updateDestinationThreadId_def Let_def)
    from rows(2) [OF this]
    show "\<exists>ds. find (\<lambda>r. ds_id r = su_destinationId s) (destinations (fst (updateDestinationThreadId now i thread d))) =
        Some ds \<and> archivedAt ds = None"
      by (auto simp: updateDestinationThreadId_def Let_def find_update_where simp del: map_option_eq_Some)
  next
    fix r assume "r \<in> set (destinations (fst (updateDestinationThreadId now i thread d)))"
    then obtain r0 where "r0 \<in> set (destinations d)" "archivedAt r = archivedAt r0" "webhookUrl r = webhookUrl r0"
      by (auto simp: updateDestinationThreadId_def Let_def update_where_set split: if_splits)
    then show "if archivedAt r = None then isEncryptedWebhookUrl (webhookUrl r) else webhookUrl r = ''''"
      using rows(1) [of r0] by simp
  qed
  show "secrets_ok (p, fst (archiveDestination now i d))"
  proof (rule secretsI)
    fix s assume "s \<in> set (subscriptions (fst (archiveDestination now i d)))"
    then have "s \<in> set (subscriptions d)" "su_destinationId s \<noteq> i" by (simp_all add: archiveDestination_def Let_def)
    moreover from rows(2) [OF this(1)] obtain ds
      where ds: "find (\<lambda>r. ds_id r = su_destinationId s) (destinations d) = Some ds" "archivedAt ds = None" by blast
    moreover from ds(1) have "ds_id ds = su_destinationId s" by (auto dest: find_SomeD)
    ultimately show "\<exists>ds. find (\<lambda>r. ds_id r = su_destinationId s) (destinations (fst (archiveDestination now i d))) =
        Some ds \<and> archivedAt ds = None"
      by (simp add: archiveDestination_def Let_def find_update_where)
  next
    fix r assume "r \<in> set (destinations (fst (archiveDestination now i d)))"
    then obtain r0 where "r0 \<in> set (destinations d)" "r = r0 \<or> archivedAt r = Some now \<and> webhookUrl r = ''''"
      by (auto simp: archiveDestination_def Let_def update_where_set split: if_splits)
    then show "if archivedAt r = None then isEncryptedWebhookUrl (webhookUrl r) else webhookUrl r = ''''"
      using rows(1) [of r0] by auto
  qed
  have kept: "find (\<lambda>r. ds_id r = k) (filter (\<lambda>r. ds_id r \<noteq> i) rs) = find (\<lambda>r. ds_id r = k) rs" if "k \<noteq> i" for k rs
    using that by (simp add: find_filter_other)
  show "secrets_ok (p, snd (deleteDestinationById i d))"
    using rows by (intro secretsI) (simp_all add: deleteDestinationById_def kept split: if_splits)
  show "getDestination d dest = Some r \<Longrightarrow> archivedAt r = None \<Longrightarrow>
      secrets_ok (p, fst (createSubscription u now None dest si mi tag k d))"
    using rows by (intro secretsI) (auto simp: createSubscription_def getDestination_def Let_def)
qed

lemma same_destinations:
  "destinations (fst (recordAuditEvent u now e d)) = destinations d" "destinations (fst (createSite u now None name og d)) = destinations d"
  "destinations (fst (updateSiteName now i name d)) = destinations d"
  "destinations (fst (upsertRobotsPolicy nu u now inp d)) = destinations d"
  "destinations (fst (createSource u now None site ty url cfg d)) = destinations d"
  "destinations (fst (updateSourceConfig now i cfg d)) = destinations d" "destinations (fst (deleteSource i d)) = destinations d"
  "destinations (fst (createMonitor u now None si so None iv nx d)) = destinations d"
  "destinations (updateMonitorInterval now m iv d) = destinations d" "destinations (setMonitorNextRun now m t d) = destinations d"
  "destinations (updateMonitorStatus now m st d) = destinations d" "destinations (fst (deleteMonitorCascade m d)) = destinations d"
  "destinations (fst (deleteSubscriptionById i d)) = destinations d"
  by (simp_all add: recordAuditEvent_def createSite_def updateSiteName_def upsertRobotsPolicy_def createSource_def
      updateSourceConfig_def deleteSource_def createMonitor_def updateMonitorInterval_def setMonitorNextRun_def
      updateMonitorStatus_def with_monitor_def deleteMonitorCascade_def deleteMonitorStatements_def
      deleteSubscriptionById_def Let_def)

lemma fewer_subscriptions:
  "set (subscriptions (fst (recordAuditEvent u now e d))) \<subseteq> set (subscriptions d)"
  "set (subscriptions (fst (createSite u now None name og d))) \<subseteq> set (subscriptions d)"
  "set (subscriptions (fst (updateSiteName now i name d))) \<subseteq> set (subscriptions d)"
  "set (subscriptions (fst (upsertRobotsPolicy nu u now inp d))) \<subseteq> set (subscriptions d)"
  "set (subscriptions (fst (createSource u now None site ty url cfg d))) \<subseteq> set (subscriptions d)"
  "set (subscriptions (fst (updateSourceConfig now i cfg d))) \<subseteq> set (subscriptions d)"
  "set (subscriptions (fst (deleteSource i d))) \<subseteq> set (subscriptions d)"
  "set (subscriptions (fst (createMonitor u now None si so None iv nx d))) \<subseteq> set (subscriptions d)"
  "set (subscriptions (updateMonitorInterval now m iv d)) \<subseteq> set (subscriptions d)"
  "set (subscriptions (setMonitorNextRun now m t d)) \<subseteq> set (subscriptions d)"
  "set (subscriptions (updateMonitorStatus now m st d)) \<subseteq> set (subscriptions d)"
  "set (subscriptions (fst (deleteMonitorCascade m d))) \<subseteq> set (subscriptions d)"
  "set (subscriptions (fst (deleteSubscriptionById i d))) \<subseteq> set (subscriptions d)"
  by (auto simp: recordAuditEvent_def createSite_def updateSiteName_def upsertRobotsPolicy_def createSource_def
      updateSourceConfig_def deleteSource_def createMonitor_def updateMonitorInterval_def setMonitorNextRun_def
      updateMonitorStatus_def with_monitor_def deleteMonitorCascade_def deleteMonitorStatements_def
      deleteSubscriptionById_def Let_def)

lemma secrets_site_gone: "secrets_ok w \<Longrightarrow> secrets_ok (fst (deleteSiteCascade i w))"
  by (auto simp: secrets_ok_def deleteSiteCascade_def deleteSiteStatements_def getDestination_def Let_def split: prod.splits)

interpretation sealed: api_property secrets_ok v for v
proof unfold_locales
  show "secrets_ok (p1, d)" if "secrets_ok (p, d)" for p d p1
    using that by (simp add: secrets_ok_def)
  show "secrets_ok (p, d1)" if "secrets_ok (p, d)" "keeps_history d d1" for p d d1
    using that by (auto intro: secrets_less simp: keeps_history_def)
qed (rule secrets_destinations secrets_site_gone; assumption | erule secrets_less, rule same_destinations, rule fewer_subscriptions)+

end
