(* ===== verification/Crawler_Inv.thy ===== *)
theory Crawler_Inv
  imports Crawler "HOL-Library.Multiset"
begin

text \<open>The invariant of the job broker, its preservation by every step, and what it means.\<close>

section \<open>The invariant\<close>

definition job_ok :: "job_row \<Rightarrow> bool" where
  "job_ok j = (case state j of
      Queued \<Rightarrow> token_hash j = None \<and> runner_id j = None \<and> lease_deadline j = None \<and> terminal_at j = None
    | Leased \<Rightarrow> runner_id j \<noteq> None \<and> lease_deadline j \<noteq> None \<and> terminal_at j = None
    | Completed \<Rightarrow> terminal_at j \<noteq> None \<and> runner_id j \<noteq> None \<and> token_hash j \<noteq> None
    | Expired \<Rightarrow> terminal_at j \<noteq> None)"

text \<open>A waiting submitter has a live job with the timer that ends its wait.\<close>

definition waiting_ok :: "crawler \<Rightarrow> string \<Rightarrow> bool" where
  "waiting_ok s i \<longleftrightarrow> (\<exists>j \<in> set (jobs s). job_id j = i \<and>
     (state j = Queued \<and> i \<in> set (queueTimers s) \<or> state j = Leased \<and> i \<in> set (resultTimers s)))"

definition per_job :: "(string \<Rightarrow> string) \<Rightarrow> (string \<times> string) list \<Rightarrow> job_row \<Rightarrow> bool" where
  "per_job sha iss j \<longleftrightarrow> job_ok j \<and> (state j = Queued \<longrightarrow> job_id j \<notin> fst ` set iss) \<and>
     (\<forall>h. token_hash j = Some h \<longrightarrow> (\<exists>t. (job_id j, t) \<in> set iss \<and> h = sha t))"

definition job_inv :: "(string \<Rightarrow> string) \<Rightarrow> crawler \<Rightarrow> bool" where
  "job_inv sha s \<longleftrightarrow> distinct (map job_id (jobs s)) \<and> (\<forall>j \<in> set (jobs s). per_job sha (issued s) j)"

definition history_inv :: "crawler \<Rightarrow> bool" where
  "history_inv s \<longleftrightarrow> distinct (map fst (issued s)) \<and> distinct (map fst (resolved s)) \<and>
     fst ` set (resolved s) \<inter> set (waiters s) = {} \<and>
     (\<forall>i r. (i, Result r) \<in> set (resolved s) \<longrightarrow> i \<in> fst ` set (issued s))"

definition used_inv :: "string set \<Rightarrow> crawler \<Rightarrow> bool" where
  "used_inv used s \<longleftrightarrow> job_id ` set (jobs s) \<union> fst ` set (issued s) \<union> fst ` set (resolved s) \<union>
     set (waiters s) \<subseteq> used"

definition crawler_inv :: "(string \<Rightarrow> string) \<Rightarrow> crawler \<times> string set \<Rightarrow> bool" where
  "crawler_inv sha x = (case x of (s, used) \<Rightarrow>
     job_inv sha s \<and> history_inv s \<and> used_inv used s \<and> (\<forall>i \<in> set (waiters s). waiting_ok s i))"

lemmas inv_defs = crawler_inv_def job_inv_def history_inv_def used_inv_def waiting_ok_def

lemma invD:
  assumes "crawler_inv sha (s, used)"
  shows "distinct (map job_id (jobs s))" "j \<in> set (jobs s) \<Longrightarrow> per_job sha (issued s) j"
    "history_inv s" "used_inv used s" "w \<in> set (waiters s) \<Longrightarrow> waiting_ok s w"
  using assms by (auto simp: crawler_inv_def job_inv_def)

lemma invI:
  assumes "distinct (map job_id (jobs s))" "\<And>j. j \<in> set (jobs s) \<Longrightarrow> per_job sha (issued s) j"
    "history_inv s" "used_inv used s" "\<And>w. w \<in> set (waiters s) \<Longrightarrow> waiting_ok s w"
  shows "crawler_inv sha (s, used)"
  using assms by (auto simp: crawler_inv_def job_inv_def)

lemma waiting_okE:
  assumes "waiting_ok s w"
  obtains j where "j \<in> set (jobs s)" "job_id j = w"
    "state j = Queued \<and> w \<in> set (queueTimers s) \<or> state j = Leased \<and> w \<in> set (resultTimers s)"
  using assms by (auto simp: waiting_ok_def)

lemma waiting_okI:
  "j \<in> set (jobs s) \<Longrightarrow> job_id j = w \<Longrightarrow>
   state j = Queued \<and> w \<in> set (queueTimers s) \<or> state j = Leased \<and> w \<in> set (resultTimers s) \<Longrightarrow>
   waiting_ok s w"
  by (auto simp: waiting_ok_def)

lemma per_job_more:
  "per_job sha iss j \<Longrightarrow> set iss \<subseteq> set iss' \<Longrightarrow> (state j = Queued \<longrightarrow> job_id j \<notin> fst ` set iss') \<Longrightarrow>
   per_job sha iss' j"
  unfolding per_job_def by blast

text \<open>The invariant looks at the jobs, the promises, the timers and the history.\<close>

definition core ::
  "crawler \<Rightarrow> job_row list \<times> string list \<times> string list \<times> string list \<times>
     (string \<times> string) list \<times> (string \<times> submit_outcome) list" where
  "core s = (jobs s, waiters s, queueTimers s, resultTimers s, issued s, resolved s)"

lemma crawler_inv_core: "core s = core s' \<Longrightarrow> crawler_inv sha (s, used) = crawler_inv sha (s', used)"
  by (simp add: core_def inv_defs)

lemma core_simps [simp]:
  "core (recordEvent k t s) = core s" "core (checkTransition t s) = core s"
  "core (scheduleAlarm t s) = core s" "core (mark_offline t rid s) = core s"
  "core (touchRunner info t s) = core s"
  "core (s\<lparr>runners := rs\<rparr>) = core s" "core (s\<lparr>events := es\<rparr>) = core s"
  by (simp_all add: core_def recordEvent_def checkTransition_def scheduleAlarm_def mark_offline_def
      touchRunner_def Let_def split: option.split)

lemma find_job_core: "core s = core s' \<Longrightarrow> find_job s i = find_job s' i"
  by (simp add: core_def find_job_def)

lemma find_jobD: "find_job s i = Some j \<Longrightarrow> j \<in> set (jobs s) \<and> job_id j = i"
  unfolding find_job_def by (auto dest: find_SomeD)

lemma job_unique:
  "distinct (map job_id (jobs s)) \<Longrightarrow> j \<in> set (jobs s) \<Longrightarrow> j' \<in> set (jobs s) \<Longrightarrow> job_id j = job_id j' \<Longrightarrow> j = j'"
  by (auto simp: distinct_map inj_on_def)

section \<open>A job ends\<close>

text \<open>What expiry and an accepted completion have in common.\<close>

definition finish :: "string \<Rightarrow> job_state \<Rightarrow> ms \<Rightarrow> submit_outcome \<Rightarrow> crawler \<Rightarrow> crawler" where
  "finish i st now out s =
     resolveWaiter i out (clearTimers i (set_job i (\<lambda>j. j\<lparr>state := st, terminal_at := Some now\<rparr>) s))"

lemma resolveWaiter_core:
  "core s = core s' \<Longrightarrow> core (resolveWaiter i out s) = core (resolveWaiter i out s')"
  by (simp add: core_def resolveWaiter_def)

lemma core_expireJob:
  "core (expireJob now stage i s) =
     (case find_job s i of
        None \<Rightarrow> core s
      | Some row \<Rightarrow> if state row \<noteq> from_state stage then core s
          else core (finish i Expired now
            (Unavailable (if stage = Stage_lease then Lease_timeout else Result_timeout)) s))"
  by (auto simp: expireJob_def finish_def Let_def intro!: resolveWaiter_core split: option.split)

lemma core_complete:
  assumes "complete sha now i tok result s = (s', out)"
  shows "(out = Accepted \<and> core s' = core (finish i Completed now (Result result) s) \<and>
      (\<exists>row. find_job s i = Some row \<and> state row = Leased \<and> token_hash row = Some (sha tok))) \<or>
    (out \<noteq> Accepted \<and> core s' = core s)"
  using assms
  by (auto simp: complete_def finish_def Let_def intro!: resolveWaiter_core split: option.splits if_splits)

lemma finish_fields:
  "jobs (finish i st now out s) = update_where (\<lambda>j. job_id j = i) (\<lambda>j. j\<lparr>state := st, terminal_at := Some now\<rparr>) (jobs s)"
  "waiters (finish i st now out s) = removeAll i (waiters s)"
  "queueTimers (finish i st now out s) = removeAll i (queueTimers s)"
  "resultTimers (finish i st now out s) = removeAll i (resultTimers s)"
  "issued (finish i st now out s) = issued s"
  "resolved (finish i st now out s) = resolved s @ (if i \<in> set (waiters s) then [(i, out)] else [])"
  by (simp_all add: finish_def resolveWaiter_def clearTimers_def set_job_def)

lemma update_job_set:
  assumes "distinct (map job_id (jobs s))" "row \<in> set (jobs s)" "P row"
    and "\<And>r. P r \<Longrightarrow> job_id r = job_id row"
  shows "set (update_where P f (jobs s)) = insert (f row) {j \<in> set (jobs s). job_id j \<noteq> job_id row}"
proof -
  have u: "r = row" if "r \<in> set (jobs s)" "job_id r = job_id row" for r
    using job_unique [OF assms(1)] assms(2) that by blast
  show ?thesis
  proof (intro set_eqI iffI)
    fix x assume "x \<in> set (update_where P f (jobs s))"
    then obtain r where r: "r \<in> set (jobs s)" "x = (if P r then f r else r)" by (auto simp: update_where_set)
    show "x \<in> insert (f row) {j \<in> set (jobs s). job_id j \<noteq> job_id row}"
    proof (cases "job_id r = job_id row")
      case True
      with u [OF r(1)] r(2) assms(3) show ?thesis by simp
    next
      case False
      with assms(4) [of r] r show ?thesis by (cases "P r") auto
    qed
  next
    fix x assume x: "x \<in> insert (f row) {j \<in> set (jobs s). job_id j \<noteq> job_id row}"
    show "x \<in> set (update_where P f (jobs s))"
    proof (cases "x = f row")
      case True
      with assms(2,3) show ?thesis unfolding update_where_set by (intro bexI [of _ row]) simp_all
    next
      case False
      with x have "x \<in> set (jobs s)" "\<not> P x" using assms(4) by auto
      then show ?thesis unfolding update_where_set by (intro bexI [of _ x]) simp_all
    qed
  qed
qed

lemma per_job_end:
  assumes "per_job sha iss row" "st = Expired \<or> st = Completed \<and> state row = Leased \<and> token_hash row \<noteq> None"
  shows "per_job sha iss (row\<lparr>state := st, terminal_at := Some now\<rparr>)"
  using assms by (auto simp: per_job_def job_ok_def)

lemma finish_inv:
  assumes inv: "crawler_inv sha (s, used)" and row: "find_job s i = Some row"
    and st: "st = Expired \<or> st = Completed \<and> state row = Leased \<and> token_hash row \<noteq> None"
    and out: "\<And>r. out = Result r \<Longrightarrow> i \<in> fst ` set (issued s)"
  shows "crawler_inv sha (finish i st now out s, used)"
proof -
  let ?s = "finish i st now out s" and ?f = "\<lambda>j. j\<lparr>state := st, terminal_at := Some now\<rparr>"
  note inv = invD [OF inv]
  from find_jobD [OF row] have r: "row \<in> set (jobs s)" "job_id row = i" by auto
  have jobs: "set (jobs ?s) = insert (?f row) {j \<in> set (jobs s). job_id j \<noteq> i}"
    unfolding finish_fields using update_job_set [OF inv(1) r(1), of "\<lambda>j. job_id j = i" ?f] r(2) by simp
  have ids: "map job_id (jobs ?s) = map job_id (jobs s)"
    unfolding finish_fields by (rule map_update_where) simp
  show ?thesis
  proof (rule invI)
    show "distinct (map job_id (jobs ?s))" using ids inv(1) by simp
    show "per_job sha (issued ?s) j" if "j \<in> set (jobs ?s)" for j
      using that per_job_end [OF inv(2) [OF r(1)] st] inv(2) by (auto simp: jobs finish_fields(5))
    show "history_inv ?s" using inv(3) out by (auto simp: history_inv_def finish_fields split: if_splits)
    have "job_id ` set (jobs ?s) = job_id ` set (jobs s)" using ids by (metis list.set_map)
    with inv(4) show "used_inv used ?s" by (auto simp: used_inv_def finish_fields split: if_splits)
    fix w assume "w \<in> set (waiters ?s)"
    then have w: "w \<in> set (waiters s)" "w \<noteq> i" by (auto simp: finish_fields)
    from inv(5) [OF w(1)] show "waiting_ok ?s w"
      by (rule waiting_okE, intro waiting_okI) (use w(2) in \<open>auto simp: jobs finish_fields(3,4)\<close>)
  qed
qed

lemma expireJob_inv:
  assumes "crawler_inv sha (s, used)"
  shows "crawler_inv sha (expireJob now stage i s, used)"
proof (cases "find_job s i")
  case (Some row)
  show ?thesis
  proof (cases "state row = from_state stage")
    case True
    let ?s = "finish i Expired now
        (Unavailable (if stage = Stage_lease then Lease_timeout else Result_timeout)) s"
    have "crawler_inv sha (?s, used)" by (rule finish_inv [OF assms Some]) auto
    moreover have "core (expireJob now stage i s) = core ?s" by (simp add: core_expireJob Some True)
    ultimately show ?thesis using crawler_inv_core by blast
  next
    case False
    then have "core (expireJob now stage i s) = core s" by (simp add: core_expireJob Some)
    with assms show ?thesis using crawler_inv_core by blast
  qed
qed (use assms in \<open>simp add: expireJob_def\<close>)

lemma fold_expire_inv:
  "crawler_inv sha (s, used) \<Longrightarrow> crawler_inv sha (foldl (\<lambda>acc i. expireJob now stage i acc) s is, used)"
  by (induction "is" arbitrary: s) (auto intro: expireJob_inv)

section \<open>The other steps\<close>

lemma submit_inv:
  assumes inv: "crawler_inv sha (s, used)" and new: "i \<notin> used"
    and sub: "submit maint now i mode rq limits s = (s', r)"
  shows "crawler_inv sha (s', insert i used)"
proof (cases "s' = s")
  case True
  with inv show ?thesis by (auto simp: inv_defs)
next
  case False
  define j where "j = \<lparr>job_id = i, fetch_mode = mode, payload = rq, state = Queued, token_hash = None,
      runner_id = None, created_at = now, queue_deadline = now + orElse (leaseWaitMs limits) LEASE_WAIT_MS,
      result_wait_ms = orElse (resultWaitMs limits) RESULT_WAIT_MS, lease_deadline = None, terminal_at = None\<rparr>"
  have j: "job_id j = i" "job_ok j" "state j = Queued" "token_hash j = None"
    by (simp_all add: j_def job_ok_def)
  from False sub have "s' = scheduleAlarm now
      (s\<lparr>jobs := jobs s @ [j], waiters := i # waiters s, queueTimers := i # queueTimers s\<rparr>)"
    by (auto simp: submit_def Let_def j_def split: if_splits)
  then have s': "core s' = core (s\<lparr>jobs := jobs s @ [j], waiters := i # waiters s, queueTimers := i # queueTimers s\<rparr>)"
    by simp
  let ?s = "s\<lparr>jobs := jobs s @ [j], waiters := i # waiters s, queueTimers := i # queueTimers s\<rparr>"
  note inv = invD [OF inv]
  have fresh: "i \<notin> job_id ` set (jobs s)" "i \<notin> fst ` set (issued s)" "i \<notin> fst ` set (resolved s)"
    using inv(4) new by (auto simp: used_inv_def)
  have "crawler_inv sha (?s, insert i used)"
  proof (rule invI)
    show "distinct (map job_id (jobs ?s))" using inv(1) fresh(1) j(1) by auto
    show "per_job sha (issued ?s) k" if "k \<in> set (jobs ?s)" for k
      using that inv(2) j fresh(2) by (auto simp: per_job_def)
    show "history_inv ?s" using inv(3) fresh(3) by (auto simp: history_inv_def)
    show "used_inv (insert i used) ?s" using inv(4) j(1) by (auto simp: used_inv_def)
    show "waiting_ok ?s w" if "w \<in> set (waiters ?s)" for w
    proof (cases "w = i")
      case True
      then show ?thesis by (intro waiting_okI [of j]) (auto simp: j)
    next
      case False
      with that have "w \<in> set (waiters s)" by simp
      from inv(5) [OF this] show ?thesis by (rule waiting_okE, intro waiting_okI) auto
    qed
  qed
  with crawler_inv_core [OF s'] show ?thesis by simp
qed

text \<open>Claiming a queued job that has a waiter and was not issued before.\<close>

definition leased_row :: "ms \<Rightarrow> string \<Rightarrow> job_row \<Rightarrow> job_row" where
  "leased_row now rid row =
     row\<lparr>state := Leased, runner_id := Some rid, lease_deadline := Some (now + result_wait_ms row)\<rparr>"

lemma leased_row_simps [simp]:
  "job_id (leased_row now rid row) = job_id row" "state (leased_row now rid row) = Leased"
  by (simp_all add: leased_row_def)

lemma claim_one_jobs:
  assumes "distinct (map job_id (jobs s))" "row \<in> set (jobs s)" "state row = Queued"
  shows "set (jobs (claim_one now rid (row, tok) s)) =
    insert (leased_row now rid row) {j \<in> set (jobs s). job_id j \<noteq> job_id row}"
  unfolding claim_one_def leased_row_def
  using update_job_set [OF assms(1,2), of "\<lambda>j. job_id j = job_id row \<and> state j = Queued"] assms(3) by simp

lemma claim_one_inv:
  assumes inv: "crawler_inv sha (s, used)" and row: "row \<in> set (jobs s)" "state row = Queued"
  shows "crawler_inv sha (claim_one now rid (row, tok) s, used)"
proof -
  let ?s = "claim_one now rid (row, tok) s"
  note inv = invD [OF inv]
  note jobs = claim_one_jobs [OF inv(1) row]
  have ids: "map job_id (jobs ?s) = map job_id (jobs s)"
    unfolding claim_one_def by (simp add: map_update_where)
  have fields: "waiters ?s = waiters s" "resolved ?s = resolved s"
    "issued ?s = issued s @ [(job_id row, tok)]" "queueTimers ?s = removeAll (job_id row) (queueTimers s)"
    "resultTimers ?s = job_id row # resultTimers s" by (simp_all add: claim_one_def)
  from inv(2) [OF row(1)] row(2) have r: "job_ok row" "job_id row \<notin> fst ` set (issued s)"
    by (auto simp: per_job_def)
  have lr: "per_job sha iss (leased_row now rid row)" for iss
    using r(1) row(2) by (auto simp: per_job_def job_ok_def leased_row_def)
  show ?thesis
  proof (rule invI)
    show "distinct (map job_id (jobs ?s))" using ids inv(1) by simp
  next
    fix j assume "j \<in> set (jobs ?s)"
    then consider "j = leased_row now rid row" | "j \<in> set (jobs s)" "job_id j \<noteq> job_id row"
      unfolding jobs by blast
    then show "per_job sha (issued ?s) j"
    proof cases
      case 2
      from inv(2) [OF 2(1)] show ?thesis
        by (rule per_job_more) (use inv(2) [OF 2(1)] 2(2) in \<open>auto simp: fields per_job_def\<close>)
    qed (simp add: lr)
  next
    show "history_inv ?s" using inv(3) r(2) by (auto simp: history_inv_def fields)
  next
    have "job_id ` set (jobs ?s) = job_id ` set (jobs s)" using ids by (metis list.set_map)
    with inv(4) row show "used_inv used ?s" by (auto simp: used_inv_def fields)
  next
    fix w assume "w \<in> set (waiters ?s)"
    then have w: "w \<in> set (waiters s)" by (simp add: fields)
    show "waiting_ok ?s w"
    proof (cases "w = job_id row")
      case True
      then show ?thesis by (intro waiting_okI [of "leased_row now rid row"]) (auto simp: fields jobs)
    next
      case False
      from inv(5) [OF w] show ?thesis
        by (rule waiting_okE, intro waiting_okI) (use False in \<open>auto simp: fields jobs\<close>)
    qed
  qed
qed

lemma claim_fold_inv:
  assumes "crawler_inv sha (s, used)" "distinct (map (job_id \<circ> fst) cs)"
    and "\<forall>(row, t) \<in> set cs. row \<in> set (jobs s) \<and> state row = Queued"
  shows "crawler_inv sha (foldl (\<lambda>acc c. claim_one now rid c acc) s cs, used)"
  using assms
proof (induction cs arbitrary: s)
  case (Cons c cs)
  obtain row t where c: "c = (row, t)" by (cases c)
  from Cons.prems(3) c have row: "row \<in> set (jobs s)" "state row = Queued" by auto
  from Cons.prems(1) have d: "distinct (map job_id (jobs s))" by (simp add: inv_defs)
  have "row' \<in> set (jobs (claim_one now rid c s)) \<and> state row' = Queued" if "(row', t') \<in> set cs" for row' t'
  proof -
    have "row' \<in> set (jobs s)" "state row' = Queued" using Cons.prems(3) that by auto
    moreover have "job_id row' \<noteq> job_id row" using Cons.prems(2) that by (force simp: c)
    ultimately show ?thesis by (simp add: c claim_one_jobs [OF d row])
  qed
  then have "\<forall>(row', t') \<in> set cs. row' \<in> set (jobs (claim_one now rid c s)) \<and> state row' = Queued" by auto
  with Cons.IH [OF claim_one_inv [OF Cons.prems(1) row]] Cons.prems(2) show ?case by (simp add: c)
qed simp

lemma claim_candidates_props:
  assumes "distinct (map job_id (jobs s))"
  shows "distinct (map job_id (claim_candidates n modes s))"
    and "row \<in> set (claim_candidates n modes s) \<Longrightarrow>
      row \<in> set (jobs s) \<and> state row = Queued \<and> fetch_mode row \<in> set modes \<and> job_id row \<in> set (waiters s)"
proof -
  let ?q = "filter (\<lambda>j. state j = Queued \<and> fetch_mode j \<in> set modes) (jobs s)"
  have "distinct (map job_id ?q)" using assms by (rule distinct_map_filter)
  then have "distinct (map job_id (sort_key created_at ?q))"
    by (simp add: distinct_map)
  then show "distinct (map job_id (claim_candidates n modes s))"
    unfolding claim_candidates_def take_map [symmetric] by (intro distinct_take distinct_map_filter)
  show "row \<in> set (claim_candidates n modes s) \<Longrightarrow>
      row \<in> set (jobs s) \<and> state row = Queued \<and> fetch_mode row \<in> set modes \<and> job_id row \<in> set (waiters s)"
    unfolding claim_candidates_def by (auto dest!: in_set_takeD)
qed

lemma claim_jobs_inv:
  assumes inv: "crawler_inv sha (s, used)"
    and cl: "claim_jobs now rid n modes newToken s = (s', claimed)"
  shows "crawler_inv sha (s', used)"
proof -
  from inv have d: "distinct (map job_id (jobs s))" by (simp add: inv_defs)
  let ?cs = "claim_candidates n modes s" and ?toks = "map newToken [0..<length (claim_candidates n modes s)]"
  note p = claim_candidates_props [where n = n and modes = modes, OF d]
  have "map (job_id \<circ> fst) (zip ?cs ?toks) = map job_id ?cs"
    by (metis (no_types, lifting) diff_zero length_map length_upt map_fst_zip map_map)
  with p(1) have "distinct (map (job_id \<circ> fst) (zip ?cs ?toks))" by simp
  moreover have "\<forall>(row, t) \<in> set (zip ?cs ?toks). row \<in> set (jobs s) \<and> state row = Queued"
    using p(2) by (auto dest: set_zip_leftD)
  ultimately show ?thesis
    using claim_fold_inv [OF inv, of "zip ?cs ?toks" now rid] inv cl
    by (auto simp: claim_jobs_def Let_def split: if_splits)
qed

lemma set_hash_inv:
  assumes inv: "crawler_inv sha (s, used)" and t: "(i, t) \<in> set (issued s)"
  shows "crawler_inv sha (set_job i (\<lambda>j. j\<lparr>token_hash := Some (sha t)\<rparr>) s, used)"
proof (cases "find_job s i")
  case None
  then have "i \<noteq> job_id j" if "j \<in> set (jobs s)" for j
    using that by (auto simp: find_job_def find_None_iff)
  then have "update_where (\<lambda>j. job_id j = i) (\<lambda>j. j\<lparr>token_hash := Some (sha t)\<rparr>) (jobs s) = jobs s"
    unfolding update_where_def by (intro map_idI) auto
  with inv show ?thesis by (simp add: set_job_def)
next
  case (Some row)
  let ?f = "\<lambda>j. j\<lparr>token_hash := Some (sha t)\<rparr>"
  let ?s = "set_job i ?f s"
  note inv = invD [OF inv]
  from find_jobD [OF Some] have r: "row \<in> set (jobs s)" "job_id row = i" by auto
  have jobs: "set (jobs ?s) = insert (?f row) {j \<in> set (jobs s). job_id j \<noteq> i}"
    unfolding set_job_def using update_job_set [OF inv(1) r(1), of "\<lambda>j. job_id j = i" ?f] r(2) by simp
  have ids: "map job_id (jobs ?s) = map job_id (jobs s)" by (simp add: set_job_def map_update_where)
  have rest: "waiters ?s = waiters s" "queueTimers ?s = queueTimers s" "resultTimers ?s = resultTimers s"
    "issued ?s = issued s" "resolved ?s = resolved s" by (simp_all add: set_job_def)
  have hashed: "per_job sha (issued s) (?f row)"
  proof -
    from inv(2) [OF r(1)] have p: "job_ok row" "state row = Queued \<longrightarrow> i \<notin> fst ` set (issued s)"
      using r(2) by (auto simp: per_job_def)
    moreover have "i \<in> fst ` set (issued s)" using t by force
    ultimately have "state row \<noteq> Queued" "job_ok (?f row)" by (auto simp: job_ok_def split: job_state.splits)
    then show ?thesis using t r(2) by (auto simp: per_job_def)
  qed
  show ?thesis
  proof (rule invI)
    show "distinct (map job_id (jobs ?s))" using ids inv(1) by simp
    show "per_job sha (issued ?s) j" if "j \<in> set (jobs ?s)" for j
      using that hashed inv(2) by (auto simp: jobs rest)
    show "history_inv ?s" using inv(3) by (simp add: history_inv_def rest)
    have "job_id ` set (jobs ?s) = job_id ` set (jobs s)" using ids by (metis list.set_map)
    with inv(4) show "used_inv used ?s" by (simp add: used_inv_def rest)
    fix w assume "w \<in> set (waiters ?s)"
    then have "waiting_ok s w" using inv(5) by (simp add: rest)
    then obtain j where j: "j \<in> set (jobs s)" "job_id j = w"
      "state j = Queued \<and> w \<in> set (queueTimers s) \<or> state j = Leased \<and> w \<in> set (resultTimers s)"
      by (rule waiting_okE)
    show "waiting_ok ?s w"
    proof (cases "w = i")
      case True
      with j r have "j = row" using job_unique [OF inv(1)] by blast
      with j True show ?thesis by (intro waiting_okI [of "?f row"]) (auto simp: jobs rest)
    next
      case False
      with j show ?thesis by (intro waiting_okI [of j]) (auto simp: jobs rest)
    qed
  qed
qed

lemma store_hashes_inv:
  assumes "crawler_inv sha (s, used)"
    and "set (map (\<lambda>(row, token). (job_id row, token)) claimed) \<subseteq> set (issued s)"
  shows "crawler_inv sha (store_hashes sha now claimed s, used)"
proof -
  let ?fold = "foldl (\<lambda>acc (row, token). set_job (job_id row) (\<lambda>j. j\<lparr>token_hash := Some (sha token)\<rparr>) acc) s claimed"
  from assms have "crawler_inv sha (?fold, used)"
  proof (induction claimed arbitrary: s)
    case (Cons c cs)
    obtain row t where c: "c = (row, t)" by (cases c)
    let ?s = "set_job (job_id row) (\<lambda>j. j\<lparr>token_hash := Some (sha t)\<rparr>) s"
    have "crawler_inv sha (?s, used)" using Cons.prems by (intro set_hash_inv) (auto simp: c)
    moreover have "issued ?s = issued s" by (simp add: set_job_def)
    ultimately show ?case using Cons.IH [of ?s] Cons.prems by (simp add: c)
  qed simp
  moreover have "core (store_hashes sha now claimed s) = core ?fold" by (simp add: store_hashes_def Let_def)
  ultimately show ?thesis using crawler_inv_core by blast
qed

lemma complete_inv:
  assumes inv: "crawler_inv sha (s, used)" and c: "complete sha now i tok result s = (s', out)"
  shows "crawler_inv sha (s', used)"
  using core_complete [OF c]
proof (elim disjE conjE exE)
  fix row assume row: "find_job s i = Some row" "state row = Leased" "token_hash row = Some (sha tok)"
    and core: "core s' = core (finish i Completed now (Result result) s)"
  from invD(2) [OF inv, of row] find_jobD [OF row(1)] row(3) have "i \<in> fst ` set (issued s)"
    by (force simp: per_job_def)
  then have "crawler_inv sha (finish i Completed now (Result result) s, used)"
    using finish_inv [OF inv row(1)] row by auto
  with crawler_inv_core [OF core] show ?thesis by simp
qed (use inv crawler_inv_core in blast)

lemma delete_terminal_inv:
  assumes inv: "crawler_inv sha (s, used)"
    and P: "\<And>j. j \<in> set (jobs s) \<Longrightarrow> \<not> P j \<Longrightarrow> terminal_at j \<noteq> None"
  shows "crawler_inv sha (s\<lparr>jobs := filter P (jobs s)\<rparr>, used)"
proof -
  let ?s = "s\<lparr>jobs := filter P (jobs s)\<rparr>"
  note inv = invD [OF inv]
  show ?thesis
  proof (rule invI)
    show "distinct (map job_id (jobs ?s))" using inv(1) by (simp add: distinct_map_filter)
    show "per_job sha (issued ?s) j" if "j \<in> set (jobs ?s)" for j using that inv(2) by simp
    show "history_inv ?s" using inv(3) by (simp add: history_inv_def)
    show "used_inv used ?s" using inv(4) by (auto simp: used_inv_def)
    fix w assume "w \<in> set (waiters ?s)"
    then have "waiting_ok s w" using inv(5) by simp
    then obtain j where j: "j \<in> set (jobs s)" "job_id j = w"
      "state j = Queued \<and> w \<in> set (queueTimers s) \<or> state j = Leased \<and> w \<in> set (resultTimers s)"
      by (rule waiting_okE)
    from inv(2) [OF j(1)] j(3) have "terminal_at j = None" by (auto simp: per_job_def job_ok_def)
    with P j(1) have "P j" by blast
    with j show "waiting_ok ?s w" by (intro waiting_okI [of j]) auto
  qed
qed

lemma alarm_inv:
  assumes "crawler_inv sha (s, used)"
  shows "crawler_inv sha (alarm now s, used)"
proof -
  define s1 where "s1 = foldl (\<lambda>acc i. expireJob now Stage_lease i acc) s
      (map job_id (filter (\<lambda>j. state j = Queued \<and> queue_deadline j \<le> now) (jobs s)))"
  define s2 where "s2 = foldl (\<lambda>acc i. expireJob now Stage_result i acc) s1
      (map job_id (filter (\<lambda>j. state j = Leased \<and>
         (case lease_deadline j of None \<Rightarrow> False | Some t \<Rightarrow> t \<le> now)) (jobs s1)))"
  let ?P = "\<lambda>j. \<not> (case terminal_at j of None \<Rightarrow> False | Some t \<Rightarrow> t \<le> now - TERMINAL_RETENTION_MS)"
  have "crawler_inv sha (s2, used)"
    unfolding s2_def by (intro fold_expire_inv) (simp add: s1_def fold_expire_inv assms)
  then have "crawler_inv sha (s2\<lparr>jobs := filter ?P (jobs s2)\<rparr>, used)"
    by (rule delete_terminal_inv) (auto split: option.splits if_splits)
  moreover have "core (alarm now s) = core (s2\<lparr>jobs := filter ?P (jobs s2)\<rparr>)"
    by (simp add: alarm_def Let_def flip: s1_def s2_def)
  ultimately show ?thesis using crawler_inv_core by blast
qed

lemma reset_inv: "crawler_inv sha (s, used) \<Longrightarrow> crawler_inv sha (reset s, used)"
  by (auto simp: inv_defs reset_def)

lemma step_inv: "crawler_step sha x y \<Longrightarrow> crawler_inv sha x \<Longrightarrow> crawler_inv sha y"
proof (induction rule: crawler_step.induct)
  case (step_touch s used info now)
  then show ?case using crawler_inv_core [of "touchRunner info now s" s] by simp
next
  case (step_heartbeat s used now info)
  then show ?case using crawler_inv_core [of "scheduleAlarm now (touchRunner info now s)" s] by simp
next
  case (step_hashes claimed s used now)
  then show ?case by (intro store_hashes_inv) auto
qed (auto intro: submit_inv claim_jobs_inv store_hashes_inv expireJob_inv complete_inv alarm_inv reset_inv)

lemma run_inv: "crawler_run sha x \<Longrightarrow> crawler_inv sha x"
proof (induction rule: crawler_run.induct)
  case run_start
  show ?case by (simp add: inv_defs crawler_start_def)
qed (rule step_inv)

section \<open>What the alarm does\<close>

lemma expireJob_jobs:
  assumes "distinct (map job_id (jobs s))"
  shows "jobs (expireJob now stage i s) =
    update_where (\<lambda>j. job_id j = i \<and> state j = from_state stage) (\<lambda>j. j\<lparr>state := Expired, terminal_at := Some now\<rparr>) (jobs s)"
proof -
  let ?f = "\<lambda>j. j\<lparr>state := Expired, terminal_at := Some now\<rparr>"
  have cj: "core x = core y \<Longrightarrow> jobs x = jobs y" for x y by (simp add: core_def)
  show ?thesis
  proof (cases "find_job s i")
    case None
    then have "job_id j \<noteq> i" if "j \<in> set (jobs s)" for j
      using that by (auto simp: find_job_def find_None_iff)
    then have "update_where (\<lambda>j. job_id j = i \<and> state j = from_state stage) ?f (jobs s) = jobs s"
      unfolding update_where_def by (intro map_idI) auto
    with None show ?thesis by (simp add: expireJob_def)
  next
    case (Some row)
    from find_jobD [OF Some] have row: "row \<in> set (jobs s)" "job_id row = i" by auto
    have u: "j = row" if "j \<in> set (jobs s)" "job_id j = i" for j
      using job_unique [OF assms] row that by blast
    show ?thesis
    proof (cases "state row = from_state stage")
      case True
      then have "jobs (expireJob now stage i s) = update_where (\<lambda>j. job_id j = i) ?f (jobs s)"
        using cj [of "expireJob now stage i s"] by (simp add: core_expireJob Some finish_fields)
      also have "\<dots> = update_where (\<lambda>j. job_id j = i \<and> state j = from_state stage) ?f (jobs s)"
        unfolding update_where_def using u True by (intro map_cong) auto
      finally show ?thesis .
    next
      case False
      then have "update_where (\<lambda>j. job_id j = i \<and> state j = from_state stage) ?f (jobs s) = jobs s"
        unfolding update_where_def using u by (intro map_idI) auto
      with False show ?thesis by (simp add: expireJob_def Some)
    qed
  qed
qed

lemma fold_expire_jobs:
  assumes "distinct (map job_id (jobs s))"
  shows "jobs (foldl (\<lambda>acc i. expireJob now stage i acc) s is) =
    update_where (\<lambda>j. job_id j \<in> set is \<and> state j = from_state stage)
      (\<lambda>j. j\<lparr>state := Expired, terminal_at := Some now\<rparr>) (jobs s)"
  using assms
proof (induction "is" arbitrary: s)
  case Nil
  show ?case by (simp add: update_where_def)
next
  case (Cons i "is")
  note e = expireJob_jobs [OF Cons.prems, of now stage i]
  have "map job_id (jobs (expireJob now stage i s)) = map job_id (jobs s)"
    unfolding e by (rule map_update_where) simp
  with Cons.prems have "distinct (map job_id (jobs (expireJob now stage i s)))" by simp
  from Cons.IH [OF this] have "jobs (foldl (\<lambda>acc i. expireJob now stage i acc) s (i # is)) =
      update_where (\<lambda>j. job_id j \<in> set is \<and> state j = from_state stage)
        (\<lambda>j. j\<lparr>state := Expired, terminal_at := Some now\<rparr>)
        (update_where (\<lambda>j. job_id j = i \<and> state j = from_state stage)
          (\<lambda>j. j\<lparr>state := Expired, terminal_at := Some now\<rparr>) (jobs s))"
    by (simp only: foldl_Cons e)
  also have "\<dots> = update_where (\<lambda>j. job_id j \<in> set (i # is) \<and> state j = from_state stage)
      (\<lambda>j. j\<lparr>state := Expired, terminal_at := Some now\<rparr>) (jobs s)"
    unfolding update_where_def map_map o_def
    by (intro map_cong refl) (cases stage; auto simp: from_state_def)
  finally show ?case .
qed

lemma min_of_le: "t \<in> set ts \<Longrightarrow> \<exists>m. min_of ts = Some m \<and> m \<le> t"
  by (auto simp: min_of_def)

text \<open>The time the object asks to be woken at, against the deadlines of its jobs.\<close>

definition deadline :: "job_row \<Rightarrow> ms option" where
  "deadline j = (case state j of Queued \<Rightarrow> Some (queue_deadline j) | Leased \<Rightarrow> lease_deadline j | _ \<Rightarrow> None)"

lemma schedule_covers:
  assumes "j \<in> set (jobs s)" "deadline j = Some t"
  shows "\<exists>a. alarm_at (scheduleAlarm now s) = Some a \<and> a \<le> max t (now + 1000)"
proof -
  have "\<exists>m. m \<in> set (alarm_candidates s) \<and> m \<le> t"
  proof (cases "state j")
    case Queued
    with assms have "t \<in> set (map queue_deadline (filter (\<lambda>j. state j = Queued) (jobs s)))"
      by (auto simp: deadline_def)
    from min_of_le [OF this] obtain m where
      "min_of (map queue_deadline (filter (\<lambda>j. state j = Queued) (jobs s))) = Some m" "m \<le> t" by blast
    then show ?thesis by (intro exI [of _ m]) (simp add: alarm_candidates_def List.map_filter_simps)
  next
    case Leased
    with assms(2) have "lease_deadline j = Some t" by (simp add: deadline_def)
    with Leased assms(1) have "t \<in> set (List.map_filter lease_deadline (filter (\<lambda>j. state j = Leased) (jobs s)))"
      unfolding List.map_filter_def by (simp add: image_iff) (rule exI [of _ j], simp)
    from min_of_le [OF this] obtain m where
      "min_of (List.map_filter lease_deadline (filter (\<lambda>j. state j = Leased) (jobs s))) = Some m" "m \<le> t" by blast
    then show ?thesis by (intro exI [of _ m]) (simp add: alarm_candidates_def List.map_filter_simps split: option.split)
  qed (use assms in \<open>simp_all add: deadline_def\<close>)
  then obtain m where m: "m \<in> set (alarm_candidates s)" "m \<le> t" by blast
  from min_of_le [OF m(1)] obtain a where "min_of (alarm_candidates s) = Some a" "a \<le> m" by blast
  with m(2) show ?thesis by (auto simp: scheduleAlarm_def)
qed

lemma not_expired_same:
  "y = (if c then x\<lparr>state := Expired, terminal_at := t\<rparr> else x) \<Longrightarrow> state y \<noteq> Expired \<Longrightarrow> y = x \<and> \<not> c"
  by (simp split: if_splits)

lemma alarm_jobs:
  assumes "distinct (map job_id (jobs s))" "j \<in> set (jobs (alarm now s))"
  shows "state j = Queued \<longrightarrow> now < queue_deadline j" "state j = Leased \<longrightarrow> lease_deadline j \<noteq> None \<longrightarrow> now < the (lease_deadline j)"
proof -
  let ?late = "\<lambda>j. state j = Leased \<and> (case lease_deadline j of None \<Rightarrow> False | Some t \<Rightarrow> t \<le> now)"
  let ?lq = "map job_id (filter (\<lambda>j. state j = Queued \<and> queue_deadline j \<le> now) (jobs s))"
  let ?f = "\<lambda>j. j\<lparr>state := Expired, terminal_at := Some now\<rparr>"
  define s1 where "s1 = foldl (\<lambda>acc i. expireJob now Stage_lease i acc) s ?lq"
  define s2 where "s2 = foldl (\<lambda>acc i. expireJob now Stage_result i acc) s1 (map job_id (filter ?late (jobs s1)))"
  have j1: "jobs s1 = update_where (\<lambda>j. job_id j \<in> set ?lq \<and> state j = Queued) ?f (jobs s)"
    unfolding s1_def using fold_expire_jobs [OF assms(1), of now Stage_lease ?lq] by (simp add: from_state_def)
  have "map job_id (jobs s1) = map job_id (jobs s)" unfolding j1 by (rule map_update_where) simp
  with assms(1) have d1: "distinct (map job_id (jobs s1))" by simp
  have j2: "jobs s2 = update_where (\<lambda>j. job_id j \<in> set (map job_id (filter ?late (jobs s1))) \<and> state j = Leased) ?f (jobs s1)"
    unfolding s2_def using fold_expire_jobs [OF d1, of now Stage_result] by (simp add: from_state_def)
  have sub: "set (jobs (alarm now s)) \<subseteq> set (jobs s2)"
  proof -
    have "jobs (scheduleAlarm now (checkTransition now x)) = jobs x" for x
      using core_simps(2,3) by (metis core_def fst_conv)
    then show ?thesis by (auto simp: alarm_def Let_def simp flip: s1_def s2_def)
  qed
  with assms(2) have "j \<in> set (jobs s2)" by blast
  then obtain r1 where r1: "r1 \<in> set (jobs s1)"
    and jr: "j = (if job_id r1 \<in> job_id ` set (filter ?late (jobs s1)) \<and> state r1 = Leased then ?f r1 else r1)"
    unfolding j2 update_where_set by auto
  from r1 obtain r where r: "r \<in> set (jobs s)"
    and rr: "r1 = (if job_id r \<in> set ?lq \<and> state r = Queued then ?f r else r)"
    unfolding j1 update_where_set by auto
  have queued: "job_id r \<in> set ?lq" if "state r = Queued" "\<not> now < queue_deadline r" using r that by auto
  have late: "job_id r1 \<in> job_id ` set (filter ?late (jobs s1))" if "?late r1" using r1 that by auto
  show "state j = Queued \<longrightarrow> now < queue_deadline j"
  proof
    assume q: "state j = Queued"
    with not_expired_same [OF jr] have "j = r1" by simp
    with q not_expired_same [OF rr]
    have "r1 = r" "\<not> (job_id r \<in> set ?lq \<and> state r = Queued)" by simp_all
    with q \<open>j = r1\<close> queued show "now < queue_deadline j" by blast
  qed
  show "state j = Leased \<longrightarrow> lease_deadline j \<noteq> None \<longrightarrow> now < the (lease_deadline j)"
  proof (intro impI)
    assume q: "state j = Leased" "lease_deadline j \<noteq> None"
    with not_expired_same [OF jr]
    have "j = r1" "\<not> (job_id r1 \<in> job_id ` set (filter ?late (jobs s1)) \<and> state r1 = Leased)" by simp_all
    with q late show "now < the (lease_deadline j)" by (cases "lease_deadline r1") auto
  qed
qed

section \<open>Properties\<close>

text \<open>
  C2. In every run of the object, with any interleaving of submissions, claims, results, timers,
  alarms and resets: a job is leased at most once, a submitter is answered at most once and not
  while it is still waiting, a runner's result reaches a submitter only for a job that was leased,
  and a submitter that waits has a queued or leased job with the timer armed that will answer it.
\<close>

theorem crawler_exactly_once:
  assumes "crawler_run sha (s, used)"
  shows "distinct (map fst (issued s)) \<and> distinct (map fst (resolved s)) \<and>
    fst ` set (resolved s) \<inter> set (waiters s) = {} \<and>
    (\<forall>i r. (i, Result r) \<in> set (resolved s) \<longrightarrow> i \<in> fst ` set (issued s)) \<and>
    (\<forall>i \<in> set (waiters s). \<exists>j \<in> set (jobs s). job_id j = i \<and>
       (state j = Queued \<and> i \<in> set (queueTimers s) \<or> state j = Leased \<and> i \<in> set (resultTimers s)))"
proof -
  from run_inv [OF assms] have inv: "crawler_inv sha (s, used)" .
  from invD(3) [OF inv] show ?thesis
    using invD(5) [OF inv] by (simp add: history_inv_def waiting_ok_def)
qed

definition example_info :: runner_info where
  "example_info = \<lparr>ri_runnerId = ''r'', ri_version = None, ri_fetchModes = [''http''], ri_concurrency = None,
     ri_inflight = None\<rparr>"

definition example_limits :: submit_limits where
  "example_limits = \<lparr>aliveWindowMs = None, leaseWaitMs = None, resultWaitMs = None\<rparr>"

definition example_request :: job_request where
  "example_request = \<lparr>rq_url = ''http://a/'', rq_maxBytes = 10, rq_headers = []\<rparr>"

definition example_submitted :: crawler where
  "example_submitted = fst (submit False 2 ''job'' ''http'' example_request example_limits
     (touchRunner example_info 1 crawler_start))"

definition example_leased :: crawler where
  "example_leased = fst (claim_jobs 3 ''r'' 1 [''http''] (\<lambda>n. ''token'') example_submitted)"

lemma example_run: "crawler_run id (example_leased, {''job''})"
proof -
  have "crawler_run id (touchRunner example_info 1 crawler_start, {})"
    by (rule run_step [OF run_start step_touch])
  from run_step [OF this step_submit [of "''job''", OF _ prod.collapse [symmetric]]]
  have "crawler_run id (example_submitted, {''job''})" by (simp add: example_submitted_def)
  from run_step [OF this step_claim [OF prod.collapse [symmetric]]]
  show ?thesis by (simp add: example_leased_def)
qed

lemma example_leased_state:
  "waiters example_leased = [''job''] \<and> map fst (issued example_leased) = [''job'']"
  by code_simp

theorem crawler_exactly_once_witness:
  "\<exists>j \<in> set (jobs example_leased). job_id j = ''job'' \<and>
     (state j = Queued \<and> ''job'' \<in> set (queueTimers example_leased) \<or>
      state j = Leased \<and> ''job'' \<in> set (resultTimers example_leased))"
  using crawler_exactly_once [OF example_run] example_leased_state by auto

text \<open>
  A result is accepted exactly when the job exists, the hash of the presented token is the
  stored one, the job is leased and the body fits the limit of the job; then the job is completed
  and its waiter, if there is one, answered with this result. Otherwise jobs, waiters and timers
  are as before; a second accepted-token result for a completed job is a duplicate.
\<close>

theorem complete_spec:
  "case complete sha now i tok result s of (s', out) \<Rightarrow>
     (out = Accepted \<longleftrightarrow> (\<exists>row. find_job s i = Some row \<and> token_hash row = Some (sha tok) \<and>
        state row = Leased \<and> \<not> too_large_result (payload row) result)) \<and>
     (out = Accepted \<longrightarrow>
        map_option state (find_job s' i) = Some Completed \<and> i \<notin> set (waiters s') \<and>
        resolved s' = resolved s @ (if i \<in> set (waiters s) then [(i, Result result)] else []) \<and>
        snd (complete sha now' i tok result' s') = Duplicate) \<and>
     (out \<noteq> Accepted \<longrightarrow> core s' = core s)"
proof -
  obtain s' out where c: "complete sha now i tok result s = (s', out)" by fastforce
  have acc: "out = Accepted \<longleftrightarrow> (\<exists>row. find_job s i = Some row \<and> token_hash row = Some (sha tok) \<and>
        state row = Leased \<and> \<not> too_large_result (payload row) result)"
    using c by (auto simp: complete_def Let_def split: option.splits if_splits)
  show ?thesis
  proof (cases "out = Accepted")
    case True
    with core_complete [OF c] obtain row where row: "find_job s i = Some row" "token_hash row = Some (sha tok)"
      and core: "core s' = core (finish i Completed now (Result result) s)" by blast
    from find_jobD [OF row(1)] have id: "job_id row = i" by simp
    have fj: "find_job s' i = Some (row\<lparr>state := Completed, terminal_at := Some now\<rparr>)"
      unfolding find_job_core [OF core] using row(1) id
      by (simp add: find_job_def finish_fields find_update_where)
    have f: "waiters s' = removeAll i (waiters s)"
      "resolved s' = resolved s @ (if i \<in> set (waiters s) then [(i, Result result)] else [])"
      using core finish_fields [of i Completed now "Result result" s] by (simp_all add: core_def)
    have "snd (complete sha now' i tok result' s') = Duplicate"
      using fj row(2) by (simp add: complete_def)
    with c acc True fj f show ?thesis by simp
  next
    case False
    with core_complete [OF c] have "core s' = core s" by blast
    with c acc False show ?thesis by simp
  qed
qed

definition example_hashed :: crawler where
  "example_hashed = store_hashes id 3
     (snd (claim_jobs 3 ''r'' 1 [''http''] (\<lambda>n. ''token'') example_submitted)) example_leased"

theorem complete_spec_witness:
  "case complete id 4 ''job'' ''token'' (RunnerError Timeout ''late'') example_hashed of
     (s', out) \<Rightarrow> out = Accepted \<and> map_option state (find_job s' ''job'') = Some Completed \<and>
       snd (complete id 5 ''job'' ''token'' (RunnerError Timeout ''again'') s') = Duplicate"
proof -
  have "snd (complete id 4 ''job'' ''token'' (RunnerError Timeout ''late'') example_hashed) = Accepted"
    by code_simp
  then show ?thesis
    using complete_spec [where sha = id and now = 4 and i = "''job''" and tok = "''token''" and
        result = "RunnerError Timeout ''late''" and s = example_hashed and now' = 5 and
        result' = "RunnerError Timeout ''again''"]
    by (simp split: prod.splits)
qed

text \<open>
  A lease or a heartbeat leaves at most thirty-two rows of runners, whatever names the
  runners give themselves.
\<close>

theorem runner_rows_bounded: "length (runners (touchRunner info now s)) \<le> 32"
proof -
  let ?drop = "\<lambda>rs. set (map rn_id (drop 32 (order_desc last_seen rs)))"
  have bound: "length (filter (\<lambda>r. rn_id r \<notin> ?drop rs) rs) \<le> 32" for rs
  proof -
    let ?P = "\<lambda>r. rn_id r \<notin> ?drop rs" and ?o = "order_desc last_seen rs"
    have "mset ?o = mset rs" by (simp add: order_desc_def)
    then have "length (filter ?P rs) = length (filter ?P ?o)"
      by (metis mset_filter size_mset)
    also have "\<dots> = length (filter ?P (take 32 ?o)) + length (filter ?P (drop 32 ?o))"
      by (metis append_take_drop_id filter_append length_append)
    also have "filter ?P (drop 32 ?o) = []" by (auto simp: filter_empty_conv)
    finally have "length (filter ?P rs) = length (filter ?P (take 32 ?o))" by simp
    also have "\<dots> \<le> length (take 32 ?o)" by (rule length_filter_le)
    also have "\<dots> \<le> 32" by simp
    finally show ?thesis .
  qed
  have "runners (checkTransition now x) = runners x" for x
    by (simp add: checkTransition_def Let_def)
  moreover define rs where "rs = (let P = (\<lambda>r. rn_id r = ri_runnerId info) in
    if list_ex P (runners s) then update_where P (seen_runner info now) (runners s)
    else runners s @ [new_runner info now])"
  ultimately have "runners (touchRunner info now s) = filter (\<lambda>r. rn_id r \<notin> ?drop rs) rs"
    by (simp add: touchRunner_def Let_def MAX_RUNNER_ROWS_def)
  then show ?thesis using bound [of rs] by simp
qed

text \<open>
  C19. After the alarm of the object no queued or leased job of a run is past its deadline, and the
  next alarm is set early enough for each of the jobs that are left.
\<close>

theorem alarm_expires_overdue:
  assumes "crawler_run sha (s, used)"
  shows "\<forall>j \<in> set (jobs (alarm now s)). \<forall>t. deadline j = Some t \<longrightarrow>
    now < t \<and> (\<exists>a. alarm_at (alarm now s) = Some a \<and> a \<le> max t (now + 1000))"
proof (intro ballI allI impI)
  fix j t assume j: "j \<in> set (jobs (alarm now s))" "deadline j = Some t"
  from run_inv [OF assms] have "distinct (map job_id (jobs s))" by (rule invD(1))
  from alarm_jobs [OF this j(1)] j(2) have "now < t"
    by (auto simp: deadline_def split: job_state.splits)
  moreover obtain x where "alarm now s = scheduleAlarm now x" by (simp add: alarm_def Let_def)
  moreover from this have "jobs x = jobs (alarm now s)" by (simp add: scheduleAlarm_def split: option.splits)
  ultimately show "now < t \<and> (\<exists>a. alarm_at (alarm now s) = Some a \<and> a \<le> max t (now + 1000))"
    using schedule_covers [of j x t now] j by simp
qed

theorem alarm_expires_overdue_witness:
  "case jobs (alarm 4 example_leased) of [] \<Rightarrow> False
   | j # js \<Rightarrow> deadline j = Some 40003 \<and>
       (\<exists>a. alarm_at (alarm 4 example_leased) = Some a \<and> a \<le> 40003)"
proof -
  have d: "map deadline (jobs (alarm 4 example_leased)) = [Some 40003]" by code_simp
  then obtain j where j: "jobs (alarm 4 example_leased) = [j]" "deadline j = Some 40003" by auto
  with alarm_expires_overdue [OF example_run, of 4] show ?thesis by simp
qed

end
