(* ===== verification/Db_Cascade.thy ===== *)
theory Db_Cascade
  imports Db_Store
begin

text \<open>
  The foreign keys of migrations/0001_init.sql between the tables of the model, and the batch
  that deletes a monitor with its history (\<open>deleteMonitorCascade\<close> of src/db/monitors.ts). D1
  refuses a statement after which a reference has no row, so the order of the statements matters.
\<close>

section \<open>Foreign keys\<close>

definition refs_opt :: "string option \<Rightarrow> string set \<Rightarrow> bool" where
  "refs_opt x ids = (case x of None \<Rightarrow> True | Some i \<Rightarrow> i \<in> ids)"

lemma refs_opt_iff: "refs_opt x ids \<longleftrightarrow> (\<forall>i. x = Some i \<longrightarrow> i \<in> ids)"
  by (cases x) (auto simp: refs_opt_def)

definition fk_monitors :: "db \<Rightarrow> bool" where
  "fk_monitors d \<longleftrightarrow> (let ms = mon_id ` set (monitors d) in
     (\<forall>r \<in> set (targets d). tg_monitorId r \<in> ms) \<and>
     (\<forall>r \<in> set (check_jobs d). cj_monitorId r \<in> ms) \<and>
     (\<forall>r \<in> set (snapshots d). sn_monitorId r \<in> ms) \<and>
     (\<forall>r \<in> set (changes d). ch_monitorId r \<in> ms) \<and>
     (\<forall>r \<in> set (subscriptions d). refs_opt (su_monitorId r) ms))"

definition fk_attempts :: "db \<Rightarrow> bool" where
  "fk_attempts d \<longleftrightarrow> (\<forall>r \<in> set (check_attempts d).
     at_checkJobId r \<in> cj_id ` set (check_jobs d) \<and>
     at_targetId r \<in> tg_id ` set (targets d) \<and>
     refs_opt (at_snapshotId r) (sn_id ` set (snapshots d)))"

definition fk_snapshots :: "db \<Rightarrow> bool" where
  "fk_snapshots d \<longleftrightarrow> (\<forall>r \<in> set (snapshots d).
     sn_targetId r \<in> tg_id ` set (targets d) \<and>
     refs_opt (checkAttemptId r) (at_id ` set (check_attempts d)))"

definition fk_changes :: "db \<Rightarrow> bool" where
  "fk_changes d \<longleftrightarrow> (\<forall>r \<in> set (changes d).
     refs_opt (ch_targetId r) (tg_id ` set (targets d)) \<and>
     refs_opt (previousSnapshotId r) (sn_id ` set (snapshots d)) \<and>
     refs_opt (ch_snapshotId r) (sn_id ` set (snapshots d)))"

definition fk_deliveries :: "db \<Rightarrow> bool" where
  "fk_deliveries d \<longleftrightarrow> (\<forall>r \<in> set (deliveries d). dl_changeId r \<in> ch_id ` set (changes d))"

definition fk_ok :: "db \<Rightarrow> bool" where
  "fk_ok d \<longleftrightarrow> fk_monitors d \<and> fk_attempts d \<and> fk_snapshots d \<and> fk_changes d \<and> fk_deliveries d"

section \<open>The history of one monitor\<close>

definition jobs_of :: "string \<Rightarrow> db \<Rightarrow> string set" where
  "jobs_of m d = cj_id ` set (filter (\<lambda>j. cj_monitorId j = m) (check_jobs d))"

definition targets_of :: "string \<Rightarrow> db \<Rightarrow> string set" where
  "targets_of m d = tg_id ` set (filter (\<lambda>t. tg_monitorId t = m) (targets d))"

definition snapshots_of :: "string \<Rightarrow> db \<Rightarrow> string set" where
  "snapshots_of m d = sn_id ` set (filter (\<lambda>s. sn_monitorId s = m) (snapshots d))"

definition attempts_of :: "string \<Rightarrow> db \<Rightarrow> string set" where
  "attempts_of m d = at_id ` set (filter (\<lambda>a. at_checkJobId a \<in> jobs_of m d) (check_attempts d))"

definition avoids :: "string option \<Rightarrow> string set \<Rightarrow> bool" where
  "avoids x ids = (case x of None \<Rightarrow> True | Some i \<Rightarrow> i \<notin> ids)"

lemma avoids_iff: "avoids x ids \<longleftrightarrow> (\<forall>i. x = Some i \<longrightarrow> i \<notin> ids)"
  by (cases x) (auto simp: avoids_def)

text \<open>No row of another monitor refers to a row of monitor \<open>m\<close>.\<close>

definition own_history :: "string \<Rightarrow> db \<Rightarrow> bool" where
  "own_history m d \<longleftrightarrow>
     (\<forall>a \<in> set (check_attempts d). at_checkJobId a \<notin> jobs_of m d \<longrightarrow>
        at_targetId a \<notin> targets_of m d \<and> avoids (at_snapshotId a) (snapshots_of m d)) \<and>
     (\<forall>s \<in> set (snapshots d). sn_monitorId s \<noteq> m \<longrightarrow>
        sn_targetId s \<notin> targets_of m d \<and> avoids (checkAttemptId s) (attempts_of m d)) \<and>
     (\<forall>c \<in> set (changes d). ch_monitorId c \<noteq> m \<longrightarrow>
        avoids (ch_targetId c) (targets_of m d) \<and>
        avoids (previousSnapshotId c) (snapshots_of m d) \<and> avoids (ch_snapshotId c) (snapshots_of m d))"

section \<open>Each statement keeps the keys\<close>

lemma image_upd:
  assumes "\<And>r. k (f r) = k r"
  shows "k ` set (update_where P f t) = k ` set t"
proof -
  have "map k (update_where P f t) = map k t" using assms by (rule map_update_where)
  then show ?thesis by (metis list.set_map)
qed

lemma ball_upd: "(\<forall>r \<in> set (update_where P f t). Q r) \<longleftrightarrow> (\<forall>r \<in> set t. Q (if P r then f r else r))"
  unfolding update_where_def list.set_map by blast

text \<open>The database after the first \<open>k\<close> statements, as one filter per table.\<close>

definition cut :: "nat \<Rightarrow> string \<Rightarrow> db \<Rightarrow> snapshot_row list" where
  "cut k m d = update_where (\<lambda>r. 1 \<le> k \<and> sn_monitorId r = m) (\<lambda>r. r\<lparr>checkAttemptId := None\<rparr>) (snapshots d)"

definition keep :: "nat \<Rightarrow> string \<Rightarrow> db \<Rightarrow> db" where
  "keep k m d = d\<lparr>
     deliveries := filter (\<lambda>r. 2 \<le> k \<longrightarrow> \<not> list_ex (\<lambda>c. ch_id c = dl_changeId r \<and> ch_monitorId c = m) (changes d)) (deliveries d),
     check_attempts := filter (\<lambda>r. 3 \<le> k \<longrightarrow> \<not> list_ex (\<lambda>j. cj_id j = at_checkJobId r \<and> cj_monitorId j = m) (check_jobs d)) (check_attempts d),
     changes := filter (\<lambda>r. 4 \<le> k \<longrightarrow> ch_monitorId r \<noteq> m) (changes d),
     check_jobs := filter (\<lambda>r. 5 \<le> k \<longrightarrow> cj_monitorId r \<noteq> m) (check_jobs d),
     snapshots := filter (\<lambda>r. 6 \<le> k \<longrightarrow> sn_monitorId r \<noteq> m) (cut k m d),
     targets := filter (\<lambda>r. 7 \<le> k \<longrightarrow> tg_monitorId r \<noteq> m) (targets d),
     subscriptions := filter (\<lambda>r. 8 \<le> k \<longrightarrow> su_monitorId r \<noteq> Some m) (subscriptions d),
     monitors := filter (\<lambda>r. 9 \<le> k \<longrightarrow> mon_id r \<noteq> m) (monitors d)\<rparr>"

lemma keep_statements:
  assumes "k \<le> 9"
  shows "foldl (\<lambda>acc stmt. stmt acc) d (take k (deleteMonitorStatements m)) = keep k m d"
proof -
  have *: "update_where (\<lambda>r. False) f t = t" for f :: "'a \<Rightarrow> 'a" and t
    by (simp add: update_where_def)
  from assms have "k \<in> {0,1,2,3,4,5,6,7,8,9}" by auto
  then show ?thesis
    by (elim insertE emptyE) (simp_all add: deleteMonitorStatements_def keep_def cut_def *)
qed

lemma cutD:
  assumes "r \<in> set (cut k m d)"
  obtains r0 where "r0 \<in> set (snapshots d)" "sn_id r = sn_id r0" "sn_monitorId r = sn_monitorId r0"
    "sn_targetId r = sn_targetId r0"
    "\<And>a. checkAttemptId r = Some a \<Longrightarrow> checkAttemptId r0 = Some a \<and> (1 \<le> k \<longrightarrow> sn_monitorId r0 \<noteq> m)"
proof -
  from assms obtain r0 where "r0 \<in> set (snapshots d)"
    and "r = (if 1 \<le> k \<and> sn_monitorId r0 = m then r0\<lparr>checkAttemptId := None\<rparr> else r0)"
    unfolding cut_def update_where_def by auto
  then show ?thesis by (intro that [of r0]) (auto split: if_splits)
qed

lemma kept_monitor:
  "x \<in> mon_id ` set (monitors d) \<Longrightarrow> 9 \<le> k \<longrightarrow> x \<noteq> m \<Longrightarrow> x \<in> mon_id ` set (monitors (keep k m d))"
  by (auto simp: keep_def)

lemma kept_job:
  "x \<in> cj_id ` set (check_jobs d) \<Longrightarrow> 5 \<le> k \<longrightarrow> x \<notin> jobs_of m d \<Longrightarrow>
   x \<in> cj_id ` set (check_jobs (keep k m d))"
  by (auto simp: keep_def jobs_of_def)

lemma kept_target:
  "x \<in> tg_id ` set (targets d) \<Longrightarrow> 7 \<le> k \<longrightarrow> x \<notin> targets_of m d \<Longrightarrow>
   x \<in> tg_id ` set (targets (keep k m d))"
  by (auto simp: keep_def targets_of_def)

lemma kept_snapshot:
  assumes "x \<in> sn_id ` set (snapshots d)" "6 \<le> k \<longrightarrow> x \<notin> snapshots_of m d"
  shows "x \<in> sn_id ` set (snapshots (keep k m d))"
proof -
  from assms(1) obtain r0 where r0: "r0 \<in> set (snapshots d)" "x = sn_id r0" by auto
  let ?r = "if 1 \<le> k \<and> sn_monitorId r0 = m then r0\<lparr>checkAttemptId := None\<rparr> else r0"
  have "?r \<in> set (cut k m d)" using r0 by (auto simp: cut_def update_where_def)
  moreover have "6 \<le> k \<longrightarrow> sn_monitorId ?r \<noteq> m" "x = sn_id ?r"
    using assms(2) r0 by (auto simp: snapshots_of_def)
  ultimately show ?thesis unfolding keep_def by force
qed

lemma kept_attempt:
  "x \<in> at_id ` set (check_attempts d) \<Longrightarrow> 3 \<le> k \<longrightarrow> x \<notin> attempts_of m d \<Longrightarrow>
   x \<in> at_id ` set (check_attempts (keep k m d))"
  by (force simp: keep_def attempts_of_def jobs_of_def list_ex_iff)

lemma kept_change:
  "x \<in> ch_id ` set (changes d) \<Longrightarrow> 4 \<le> k \<longrightarrow> (\<forall>c \<in> set (changes d). ch_id c = x \<longrightarrow> ch_monitorId c \<noteq> m) \<Longrightarrow>
   x \<in> ch_id ` set (changes (keep k m d))"
  by (auto simp: keep_def)

lemma keep_fk_monitors: "fk_monitors d \<Longrightarrow> fk_monitors (keep k m d)"
  unfolding fk_monitors_def Let_def
proof (elim conjE, intro conjI ballI)
  fix r assume "\<forall>r \<in> set (targets d). tg_monitorId r \<in> mon_id ` set (monitors d)"
    "r \<in> set (targets (keep k m d))"
  then show "tg_monitorId r \<in> mon_id ` set (monitors (keep k m d))"
    by (intro kept_monitor) (auto simp: keep_def)
next
  fix r assume "\<forall>r \<in> set (check_jobs d). cj_monitorId r \<in> mon_id ` set (monitors d)"
    "r \<in> set (check_jobs (keep k m d))"
  then show "cj_monitorId r \<in> mon_id ` set (monitors (keep k m d))"
    by (intro kept_monitor) (auto simp: keep_def)
next
  fix r assume "\<forall>r \<in> set (snapshots d). sn_monitorId r \<in> mon_id ` set (monitors d)"
    "r \<in> set (snapshots (keep k m d))"
  then show "sn_monitorId r \<in> mon_id ` set (monitors (keep k m d))"
    by (intro kept_monitor) (auto simp: keep_def elim!: cutD)
next
  fix r assume "\<forall>r \<in> set (changes d). ch_monitorId r \<in> mon_id ` set (monitors d)"
    "r \<in> set (changes (keep k m d))"
  then show "ch_monitorId r \<in> mon_id ` set (monitors (keep k m d))"
    by (intro kept_monitor) (auto simp: keep_def)
next
  fix r assume a: "\<forall>r \<in> set (subscriptions d). refs_opt (su_monitorId r) (mon_id ` set (monitors d))"
    "r \<in> set (subscriptions (keep k m d))"
  have "i \<in> mon_id ` set (monitors (keep k m d))" if "su_monitorId r = Some i" for i
    using a that by (intro kept_monitor) (auto simp: keep_def refs_opt_def)
  then show "refs_opt (su_monitorId r) (mon_id ` set (monitors (keep k m d)))"
    by (auto simp: refs_opt_iff)
qed

text \<open>The attempts that remain after the third statement belong to jobs of other monitors.\<close>

lemma kept_attempt_job:
  "a \<in> set (check_attempts (keep k m d)) \<Longrightarrow> a \<in> set (check_attempts d) \<and> (3 \<le> k \<longrightarrow> at_checkJobId a \<notin> jobs_of m d)"
  by (auto simp: keep_def jobs_of_def list_ex_iff)

lemma own_attempt:
  "own_history m d \<Longrightarrow> a \<in> set (check_attempts d) \<Longrightarrow> at_checkJobId a \<notin> jobs_of m d \<Longrightarrow>
   at_targetId a \<notin> targets_of m d \<and> avoids (at_snapshotId a) (snapshots_of m d)"
  unfolding own_history_def by blast

lemma own_snapshot:
  "own_history m d \<Longrightarrow> s \<in> set (snapshots d) \<Longrightarrow> sn_monitorId s \<noteq> m \<Longrightarrow>
   sn_targetId s \<notin> targets_of m d \<and> avoids (checkAttemptId s) (attempts_of m d)"
  unfolding own_history_def by blast

lemma own_change:
  "own_history m d \<Longrightarrow> c \<in> set (changes d) \<Longrightarrow> ch_monitorId c \<noteq> m \<Longrightarrow>
   avoids (ch_targetId c) (targets_of m d) \<and>
   avoids (previousSnapshotId c) (snapshots_of m d) \<and> avoids (ch_snapshotId c) (snapshots_of m d)"
  unfolding own_history_def by blast

lemma keep_fk_attempts:
  assumes "fk_attempts d" "own_history m d"
  shows "fk_attempts (keep k m d)"
  unfolding fk_attempts_def
proof (intro ballI conjI)
  fix a assume "a \<in> set (check_attempts (keep k m d))"
  then have a: "a \<in> set (check_attempts d)" "3 \<le> k \<longrightarrow> at_checkJobId a \<notin> jobs_of m d"
    using kept_attempt_job by blast+
  with assms(1) have fk: "at_checkJobId a \<in> cj_id ` set (check_jobs d)"
    "at_targetId a \<in> tg_id ` set (targets d)" "refs_opt (at_snapshotId a) (sn_id ` set (snapshots d))"
    by (auto simp: fk_attempts_def)
  note own = own_attempt [OF assms(2) a(1)]
  show "at_checkJobId a \<in> cj_id ` set (check_jobs (keep k m d))"
    using a fk by (intro kept_job) auto
  show "at_targetId a \<in> tg_id ` set (targets (keep k m d))"
    using a fk own by (intro kept_target) auto
  show "refs_opt (at_snapshotId a) (sn_id ` set (snapshots (keep k m d)))"
    using a fk own by (auto simp: refs_opt_iff avoids_iff intro!: kept_snapshot)
qed

lemma keep_fk_snapshots:
  assumes "fk_snapshots d" "own_history m d"
  shows "fk_snapshots (keep k m d)"
  unfolding fk_snapshots_def
proof (intro ballI conjI)
  fix r assume "r \<in> set (snapshots (keep k m d))"
  then have r: "r \<in> set (cut k m d)" "6 \<le> k \<longrightarrow> sn_monitorId r \<noteq> m" by (auto simp: keep_def)
  from cutD [OF r(1)] obtain r0 where r0: "r0 \<in> set (snapshots d)"
    "sn_monitorId r = sn_monitorId r0" "sn_targetId r = sn_targetId r0"
    "\<And>a. checkAttemptId r = Some a \<Longrightarrow> checkAttemptId r0 = Some a \<and> (1 \<le> k \<longrightarrow> sn_monitorId r0 \<noteq> m)"
    by metis
  from assms(1) r0(1) have fk: "sn_targetId r0 \<in> tg_id ` set (targets d)"
    "refs_opt (checkAttemptId r0) (at_id ` set (check_attempts d))" by (auto simp: fk_snapshots_def)
  note own = own_snapshot [OF assms(2) r0(1)]
  show "sn_targetId r \<in> tg_id ` set (targets (keep k m d))"
    using r r0 fk own by (intro kept_target) auto
  show "refs_opt (checkAttemptId r) (at_id ` set (check_attempts (keep k m d)))"
    unfolding refs_opt_iff
  proof (intro allI impI)
    fix a assume "checkAttemptId r = Some a"
    with r0(4) have "checkAttemptId r0 = Some a" "1 \<le> k \<longrightarrow> sn_monitorId r0 \<noteq> m" by auto
    with fk own show "a \<in> at_id ` set (check_attempts (keep k m d))"
      by (intro kept_attempt) (auto simp: refs_opt_iff avoids_iff)
  qed
qed

lemma keep_fk_changes:
  assumes "fk_changes d" "own_history m d"
  shows "fk_changes (keep k m d)"
  unfolding fk_changes_def
proof (intro ballI conjI)
  fix c assume "c \<in> set (changes (keep k m d))"
  then have c: "c \<in> set (changes d)" "4 \<le> k \<longrightarrow> ch_monitorId c \<noteq> m" by (auto simp: keep_def)
  with assms(1) have fk: "refs_opt (ch_targetId c) (tg_id ` set (targets d))"
    "refs_opt (previousSnapshotId c) (sn_id ` set (snapshots d))"
    "refs_opt (ch_snapshotId c) (sn_id ` set (snapshots d))" by (auto simp: fk_changes_def)
  note own = own_change [OF assms(2) c(1)]
  show "refs_opt (ch_targetId c) (tg_id ` set (targets (keep k m d)))"
    using c fk(1) own by (auto simp: refs_opt_iff avoids_iff intro!: kept_target)
  show "refs_opt (previousSnapshotId c) (sn_id ` set (snapshots (keep k m d)))"
    using c fk(2) own by (auto simp: refs_opt_iff avoids_iff intro!: kept_snapshot)
  show "refs_opt (ch_snapshotId c) (sn_id ` set (snapshots (keep k m d)))"
    using c fk(3) own by (auto simp: refs_opt_iff avoids_iff intro!: kept_snapshot)
qed

lemma keep_fk_deliveries: "fk_deliveries d \<Longrightarrow> fk_deliveries (keep k m d)"
  unfolding fk_deliveries_def
  by (intro ballI kept_change) (auto simp: keep_def list_ex_iff)

text \<open>
  C21. Deleting a monitor with its history: if every reference has its row and no other monitor's
  rows refer to rows of this one, then every reference still has its row after each single
  statement of the batch, so the database refuses none of them; and at the end nothing of the
  monitor is left and every other monitor is still there.
\<close>

theorem deleteMonitorCascade_keeps_references:
  assumes "fk_ok d" "own_history m d"
  shows "(\<forall>k \<le> 9. fk_ok (foldl (\<lambda>acc stmt. stmt acc) d (take k (deleteMonitorStatements m)))) \<and>
    (let d' = fst (deleteMonitorCascade m d) in
       fk_ok d' \<and> m \<notin> mon_id ` set (monitors d') \<and> m \<notin> ch_monitorId ` set (changes d') \<and>
       m \<notin> tg_monitorId ` set (targets d') \<and> m \<notin> cj_monitorId ` set (check_jobs d') \<and>
       m \<notin> sn_monitorId ` set (snapshots d') \<and>
       (\<forall>r \<in> set (monitors d). mon_id r \<noteq> m \<longrightarrow> r \<in> set (monitors d')))"
proof -
  have fk: "fk_ok (keep k m d)" for k
    using assms by (simp add: fk_ok_def keep_fk_monitors keep_fk_attempts keep_fk_snapshots
        keep_fk_changes keep_fk_deliveries)
  have "take 9 (deleteMonitorStatements m) = deleteMonitorStatements m"
    by (simp add: deleteMonitorStatements_def)
  then have "fst (deleteMonitorCascade m d) = keep 9 m d"
    using keep_statements [of 9 d m] by (simp add: deleteMonitorCascade_def)
  with fk show ?thesis
    by (auto simp: keep_statements Let_def) (auto simp: keep_def)
qed

definition example_db :: db where
  "example_db = \<lparr>sites = [], sources = [],
     monitors = [\<lparr>mon_id = ''m'', mon_siteId = ''s'', mon_sourceId = ''r'', mon_status = Active,
       stopReason = None, robotsEvaluationId = None, intervalSeconds = 60, mon_nextRunAt = None,
       mon_lastCheckedAt = None, mon_createdAt = 0, mon_updatedAt = 0\<rparr>],
     targets = [\<lparr>tg_id = ''t'', tg_monitorId = ''m'', tg_url = ''u'', discoveredFrom = None,
       firstSeenAt = 0, tg_lastCheckedAt = None, lastKnownUpdatedAt = None, tg_createdAt = 0,
       tg_updatedAt = 0\<rparr>],
     check_jobs = [\<lparr>cj_id = ''j'', cj_monitorId = ''m'', scheduledFor = 0, cj_status = Job_running,
       trigger = Scheduled, cj_startedAt = None, cj_finishedAt = None, cj_createdAt = 0\<rparr>],
     check_attempts = [\<lparr>at_id = ''a'', at_checkJobId = ''j'', at_targetId = ''t'', at_fetcherId = ''cf-http'',
       attemptIndex = 0, at_outcome = Attempt_success, at_failureClass = None, statusCode = None,
       at_durationMs = None, at_snapshotId = Some ''n'', errorMessage = None, executorJobId = None,
       at_startedAt = 0, at_finishedAt = None, at_createdAt = 0\<rparr>],
     snapshots = [\<lparr>sn_id = ''n'', sn_monitorId = ''m'', sn_targetId = ''t'', checkAttemptId = Some ''a'',
       sn_fetchedAt = 0, httpStatus = None, sn_contentType = None, sn_etag = None,
       sn_lastModified = None, bodyHash = None, r2Key = None, sn_normalizedHash = None,
       normalizedR2Key = None, sn_textHash = None, sn_normalizationVersion = None, sn_createdAt = 0\<rparr>],
     changes = [\<lparr>ch_id = ''c'', ch_monitorId = ''m'', ch_targetId = Some ''t'', ch_targetUrl = ''u'',
       ch_kind = New, diffLevel = None, dedupeKey = ''k'', previousSnapshotId = None,
       ch_snapshotId = Some ''n'', diffR2Key = None, diffPreview = None, ch_title = None,
       ch_tags = None, detectedAt = 0, ch_createdAt = 0\<rparr>],
     destinations = [], subscriptions = [],
     deliveries = [\<lparr>dl_id = ''d'', dl_changeId = ''c'', dl_destinationId = ''x'', dl_status = Pending,
       attemptCount = 0, lastError = None, deliveredAt = None, dl_createdAt = 0, dl_updatedAt = 0,
       claimedAt = None\<rparr>],
     robots_policies = [], robots_evaluations = [],
     executors = [], fetchers = [], audit_events = []\<rparr>"

lemma example_db_ok: "fk_ok example_db" "own_history ''m'' example_db"
  by (simp_all add: example_db_def fk_ok_def fk_monitors_def fk_attempts_def fk_snapshots_def
      fk_changes_def fk_deliveries_def refs_opt_def own_history_def jobs_of_def Let_def del: set_filter)

theorem deleteMonitorCascade_keeps_references_witness:
  "fk_ok (foldl (\<lambda>acc stmt. stmt acc) example_db (take 4 (deleteMonitorStatements ''m''))) \<and>
   ''m'' \<notin> mon_id ` set (monitors (fst (deleteMonitorCascade ''m'' example_db)))"
  using deleteMonitorCascade_keeps_references [OF example_db_ok] by (auto simp: Let_def)

end
