(* ===== verification/Executor_Policy.thy ===== *)
theory Executor_Policy
  imports Net_Guard
begin

text \<open>
  The address policy the executors share (executors/shared/src/addressPolicy.ts). A Node
  \<open>BlockList\<close> is the list of its subnets; \<open>check\<close> asks whether the first \<open>prefix\<close> bits agree. An
  address is the number its bytes (IPv4) or groups (IPv6) spell; \<open>isIP\<close> and the reading of an
  address text are Node's and are the argument \<open>readIP\<close>.
\<close>

section \<open>Subnets\<close>

type_synonym subnet = "nat \<times> nat"

definition in_subnet :: "nat \<Rightarrow> nat \<Rightarrow> subnet \<Rightarrow> bool" where
  "in_subnet width addr net = (case net of (base, prefix) \<Rightarrow>
     addr div 2 ^ (width - prefix) = base div 2 ^ (width - prefix))"

definition check_list :: "nat \<Rightarrow> subnet list \<Rightarrow> nat \<Rightarrow> bool" where
  "check_list width nets addr = list_ex (in_subnet width addr) nets"

definition v4_number :: "nat list \<Rightarrow> nat" where
  "v4_number bs = ((bs ! 0 * 256 + bs ! 1) * 256 + bs ! 2) * 256 + bs ! 3"

fun groups_number :: "nat \<Rightarrow> nat list \<Rightarrow> nat" where
  "groups_number acc [] = acc"
| "groups_number acc (g # gs) = groups_number (acc * 65536 + g) gs"

definition V4_RANGES :: "subnet list" where
  "V4_RANGES = map (\<lambda>(bs, prefix). (v4_number bs, prefix))
     [([0, 0, 0, 0], 8), ([10, 0, 0, 0], 8), ([100, 64, 0, 0], 10), ([127, 0, 0, 0], 8),
      ([169, 254, 0, 0], 16), ([172, 16, 0, 0], 12), ([192, 0, 0, 0], 24), ([192, 0, 2, 0], 24),
      ([192, 88, 99, 0], 24), ([192, 168, 0, 0], 16), ([198, 18, 0, 0], 15),
      ([198, 51, 100, 0], 24), ([203, 0, 113, 0], 24), ([224, 0, 0, 0], 4), ([240, 0, 0, 0], 4)]"

definition V6_RANGES :: "subnet list" where
  "V6_RANGES = map (\<lambda>(gs, prefix). (groups_number 0 gs, prefix))
     [([0, 0, 0, 0, 0, 0, 0, 0], 128), ([0, 0, 0, 0, 0, 0, 0, 1], 128),
      ([0, 0, 0, 0, 0, 0xffff, 0, 0], 96), ([0, 0, 0, 0, 0, 0, 0, 0], 96),
      ([0x64, 0xff9b, 0, 0, 0, 0, 0, 0], 96), ([0x64, 0xff9b, 1, 0, 0, 0, 0, 0], 48),
      ([0x100, 0, 0, 0, 0, 0, 0, 0], 64), ([0x2001, 0, 0, 0, 0, 0, 0, 0], 32),
      ([0x2001, 0xdb8, 0, 0, 0, 0, 0, 0], 32), ([0x2002, 0, 0, 0, 0, 0, 0, 0], 16),
      ([0xfc00, 0, 0, 0, 0, 0, 0, 0], 7), ([0xfe80, 0, 0, 0, 0, 0, 0, 0], 10),
      ([0xfec0, 0, 0, 0, 0, 0, 0, 0], 10), ([0xff00, 0, 0, 0, 0, 0, 0, 0], 8)]"

datatype ip_number = V4 nat | V6 nat

record extra_block_list =
  extra_v4 :: "subnet list"
  extra_v6 :: "subnet list"

definition no_extra :: extra_block_list where
  "no_extra = \<lparr>extra_v4 = [], extra_v6 = []\<rparr>"

definition isBlockedAddress ::
  "(string \<Rightarrow> ip_number option) \<Rightarrow> extra_block_list \<Rightarrow> string \<Rightarrow> bool" where
  "isBlockedAddress readIP extra address =
     (case readIP address of
        None \<Rightarrow> True
      | Some (V4 n) \<Rightarrow> check_list 32 V4_RANGES n \<or> check_list 32 (extra_v4 extra) n
      | Some (V6 n) \<Rightarrow> check_list 128 V6_RANGES n \<or> check_list 128 (extra_v6 extra) n)"

section \<open>CIDR lists\<close>

text \<open>\<open>split(/[\s,]+/)\<close> without the empty pieces: the maximal runs of other characters.\<close>

fun cidr_entries :: "string \<Rightarrow> string \<Rightarrow> string list" where
  "cidr_entries cur [] = (if cur = '''' then [] else [rev cur])"
| "cidr_entries cur (c # cs) =
     (if js_space c \<or> c = CHR '',''
      then (if cur = '''' then cidr_entries [] cs else rev cur # cidr_entries [] cs)
      else cidr_entries (c # cur) cs)"

definition parse_cidr ::
  "(string \<Rightarrow> ip_number option) \<Rightarrow> string \<Rightarrow> extra_block_list \<Rightarrow> js_error + extra_block_list" where
  "parse_cidr readIP entry extra =
     (case split_on CHR ''/'' entry of
        [network, prefixText] \<Rightarrow>
          (let ok = (1 \<le> length prefixText \<and> length prefixText \<le> 3 \<and> list_all is_digit prefixText);
               prefix = parse_base 10 0 prefixText
           in case readIP network of
                Some (V4 n) \<Rightarrow>
                  if \<not> ok \<or> prefix > 32 then Inl (JsError (''invalid CIDR: '' @ entry))
                  else Inr (extra\<lparr>extra_v4 := extra_v4 extra @ [(n, prefix)]\<rparr>)
              | Some (V6 n) \<Rightarrow>
                  if \<not> ok \<or> prefix > 128 then Inl (JsError (''invalid CIDR: '' @ entry))
                  else Inr (extra\<lparr>extra_v6 := extra_v6 extra @ [(n, prefix)]\<rparr>)
              | None \<Rightarrow> Inl (JsError (''invalid CIDR: '' @ entry)))
      | _ \<Rightarrow> Inl (JsError (''invalid CIDR: '' @ entry)))"

fun parse_cidrs ::
  "(string \<Rightarrow> ip_number option) \<Rightarrow> string list \<Rightarrow> extra_block_list \<Rightarrow> js_error + extra_block_list" where
  "parse_cidrs readIP [] extra = Inr extra"
| "parse_cidrs readIP (e # es) extra =
     (case parse_cidr readIP e extra of Inl err \<Rightarrow> Inl err | Inr x \<Rightarrow> parse_cidrs readIP es x)"

definition parseCidrList :: "(string \<Rightarrow> ip_number option) \<Rightarrow> string \<Rightarrow> js_error + extra_block_list" where
  "parseCidrList readIP text = parse_cidrs readIP (cidr_entries [] text) no_extra"

section \<open>Host names\<close>

definition BLOCKED_HOST_SUFFIXES :: "string list" where
  "BLOCKED_HOST_SUFFIXES = [''.localhost'', ''.local'', ''.internal'', ''.localdomain'', ''.home.arpa'']"

definition BLOCKED_HOSTS :: "string list" where
  "BLOCKED_HOSTS = [''localhost'', ''metadata'', ''metadata.google.internal'', ''instance-data'']"

definition isBlockedHostname :: "string \<Rightarrow> bool" where
  "isBlockedHostname name =
     (let lower = toLowerCase name;
          host = (if endsWith lower ''.'' then butlast lower else lower)
      in if host \<in> set BLOCKED_HOSTS then True
         else list_ex (\<lambda>suffix. endsWith host suffix) BLOCKED_HOST_SUFFIXES)"

section \<open>Lemmas\<close>

lemma bytes_high:
  assumes "y < 256"
  shows "(x * 256 + y) div 256 = (x::nat)"
  using assms by simp

lemma v4_div_16:
  assumes "c < 256" "d < (256::nat)"
  shows "((x * 256 + c) * 256 + d) div 65536 = x"
proof -
  have "((x * 256 + c) * 256 + d) div 65536 = ((x * 256 + c) * 256 + d) div 256 div 256"
    by (simp add: div_mult2_eq [symmetric])
  then show ?thesis by (simp only: bytes_high assms)
qed

lemma v4_in_subnet:
  assumes "c < 256" "d < 256" "prefix \<le> 16"
  shows "in_subnet 32 (v4_number [a, b, c, d]) (v4_number [a', b', 0, 0], prefix) \<longleftrightarrow>
    (a * 256 + b) div 2 ^ (16 - prefix) = (a' * 256 + b') div 2 ^ (16 - prefix)"
proof -
  have e: "(2::nat) ^ (32 - prefix) = 65536 * 2 ^ (16 - prefix)"
  proof -
    have "32 - prefix = 16 + (16 - prefix)" using assms(3) by simp
    then have "(2::nat) ^ (32 - prefix) = 2 ^ 16 * 2 ^ (16 - prefix)" by (simp only: power_add)
    then show ?thesis by simp
  qed
  have "v4_number [a, b, c, d] div 65536 = a * 256 + b"
    using v4_div_16 [OF assms(1,2), of "a * 256 + b"] by (simp add: v4_number_def)
  moreover have "v4_number [a', b', 0, 0] div 65536 = a' * 256 + b'"
    using v4_div_16 [of 0 0 "a' * 256 + b'"] by (simp add: v4_number_def)
  ultimately show ?thesis
    by (simp only: in_subnet_def prod.case e div_mult2_eq)
qed

lemma v4_range:
  assumes "([a', b', 0, 0], prefix) \<in> set
     [([0, 0, 0, 0], 8), ([10, 0, 0, 0], 8), ([100, 64, 0, 0], 10), ([127, 0, 0, 0], 8),
      ([169, 254, 0, 0], 16), ([172, 16, 0, 0], 12), ([192, 168, 0, 0], 16),
      ([224, 0, 0, 0], 4), ([240, 0, 0, 0], 4)]"
    and "c < 256" "d < 256" "(a * 256 + b) div 2 ^ (16 - prefix) = (a' * 256 + b') div 2 ^ (16 - prefix)"
  shows "check_list 32 V4_RANGES (v4_number [a, b, c, d])"
proof -
  have "prefix \<le> 16" using assms(1) by auto
  with assms(2-4) have "in_subnet 32 (v4_number [a, b, c, d]) (v4_number [a', b', 0, 0], prefix)"
    by (simp add: v4_in_subnet)
  moreover have "(v4_number [a', b', 0, 0], prefix) \<in> set V4_RANGES"
    using assms(1) unfolding V4_RANGES_def by auto
  ultimately show ?thesis by (auto simp: check_list_def list_ex_iff)
qed

lemma blocked_simps [simp]: "blocked (block r)" "\<not> blocked pass"
  by (simp_all add: block_def pass_def)

lemma v4_blocked:
  assumes "blocked (classifyIPv4 [a, b, c, d])" "a < 256" "b < 256" "c < 256" "d < 256"
  shows "check_list 32 V4_RANGES (v4_number [a, b, c, d])"
proof -
  consider "a = 127" | "a = 0" | "a = 169" "b = 254" | "a = 10" | "a = 172" "16 \<le> b" "b \<le> 31"
    | "a = 192" "b = 168" | "a = 100" "64 \<le> b" "b \<le> 127" | "224 \<le> a"
    using assms(1) unfolding classifyIPv4_def Let_def by (auto split: if_splits)
  then show ?thesis
  proof cases
    case 1 then show ?thesis by (intro v4_range [of 127 0 8]) (use assms in auto)
  next
    case 2 then show ?thesis by (intro v4_range [of 0 0 8]) (use assms in auto)
  next
    case 3 then show ?thesis by (intro v4_range [of 169 254 16]) (use assms in auto)
  next
    case 4 then show ?thesis by (intro v4_range [of 10 0 8]) (use assms in auto)
  next
    case 5
    then have "b div 16 = 1" by auto
    with 5 show ?thesis by (intro v4_range [of 172 16 12]) (use assms in auto)
  next
    case 6 then show ?thesis by (intro v4_range [of 192 168 16]) (use assms in auto)
  next
    case 7
    then have "b div 64 = 1" by auto
    with 7 show ?thesis by (intro v4_range [of 100 64 10]) (use assms in auto)
  next
    case 8
    show ?thesis
    proof (cases "a < 240")
      case True
      with 8 have "(a * 256 + b) div 4096 = 14" using assms(3) by auto
      then show ?thesis by (intro v4_range [of 224 0 4]) (use assms in auto)
    next
      case False
      then have "(a * 256 + b) div 4096 = 15" using assms(2,3) by auto
      then show ?thesis by (intro v4_range [of 240 0 4]) (use assms in auto)
    qed
  qed
qed

lemma groups_number_append:
  "groups_number acc (xs @ ys) = groups_number (groups_number acc xs) ys"
  by (induction xs arbitrary: acc) auto

lemma groups_number_lt:
  "\<forall>y \<in> set ys. y < 65536 \<Longrightarrow> groups_number acc ys < (acc + 1) * 65536 ^ length ys"
proof (induction ys arbitrary: acc)
  case (Cons y ys)
  have "groups_number acc (y # ys) < (acc * 65536 + y + 1) * 65536 ^ length ys" using Cons by simp
  also have "\<dots> \<le> (acc * 65536 + 65536) * 65536 ^ length ys"
    using Cons.prems by (intro mult_right_mono) auto
  also have "\<dots> = (acc + 1) * 65536 ^ length (y # ys)" by (simp add: algebra_simps)
  finally show ?case .
qed simp

lemma groups_number_ge: "acc * 65536 ^ length ys \<le> groups_number acc ys"
proof (induction ys arbitrary: acc)
  case (Cons y ys)
  have "acc * 65536 ^ length (y # ys) \<le> (acc * 65536 + y) * 65536 ^ length ys"
    by (simp add: algebra_simps)
  also have "\<dots> \<le> groups_number acc (y # ys)" using Cons by simp
  finally show ?case .
qed simp

lemma groups_number_high:
  assumes "\<forall>y \<in> set ys. y < 65536"
  shows "groups_number 0 (xs @ ys) div 65536 ^ length ys = groups_number 0 xs"
proof -
  let ?x = "groups_number 0 xs"
  have "groups_number 0 (xs @ ys) = groups_number ?x ys" by (rule groups_number_append)
  with groups_number_ge [of ?x ys] groups_number_lt [OF assms, of ?x] show ?thesis
    by (intro div_nat_eqI) (simp_all add: mult.commute)
qed

text \<open>A subnet whose prefix ends inside or at the end of the first \<open>n\<close> groups looks at those only.\<close>

lemma v6_in_subnet:
  assumes gs: "length gs = 8" "\<forall>g \<in> set gs. g < 65536" and n: "n \<le> 8"
    and base: "length base = 8" "\<forall>g \<in> set base. g < 65536" and p: "prefix \<le> 16 * n"
    and eq: "groups_number 0 (take n gs) div 2 ^ (16 * n - prefix) =
      groups_number 0 (take n base) div 2 ^ (16 * n - prefix)"
  shows "in_subnet 128 (groups_number 0 gs) (groups_number 0 base, prefix)"
proof -
  have high: "groups_number 0 xs div 65536 ^ (8 - n) = groups_number 0 (take n xs)"
    if "length xs = 8" "\<forall>g \<in> set xs. g < 65536" for xs
    using groups_number_high [of "drop n xs" "take n xs"] that by (simp add: in_set_dropD)
  have "128 - prefix = 16 * (8 - n) + (16 * n - prefix)" using n p by simp
  then have "(2::nat) ^ (128 - prefix) = 65536 ^ (8 - n) * 2 ^ (16 * n - prefix)"
    by (simp only: power_add power_mult) simp
  then show ?thesis
    by (simp only: in_subnet_def prod.case div_mult2_eq high [OF gs] high [OF base] eq)
qed

lemma v6_range:
  assumes "length gs = 8" "\<forall>g \<in> set gs. g < 65536"
    and "(base, prefix, n) \<in> set
      [([0, 0, 0, 0, 0, 0xffff, 0, 0], 96, 6), ([0, 0, 0, 0, 0, 0, 0, 0], 96, 6),
       ([0xfc00, 0, 0, 0, 0, 0, 0, 0], 7, 1), ([0xfe80, 0, 0, 0, 0, 0, 0, 0], 10, 1)]"
    and "groups_number 0 (take n gs) div 2 ^ (16 * n - prefix) =
      groups_number 0 (take n base) div 2 ^ (16 * n - prefix)"
  shows "check_list 128 V6_RANGES (groups_number 0 gs)"
proof -
  have "in_subnet 128 (groups_number 0 gs) (groups_number 0 base, prefix)"
    by (rule v6_in_subnet [where n = n, OF assms(1,2) _ _ _ _ assms(4)]) (use assms(3) in auto)
  moreover have "(groups_number 0 base, prefix) \<in> set V6_RANGES"
    unfolding V6_RANGES_def set_map
    by (rule image_eqI [where x = "(base, prefix)"]) (use assms(3) in auto)
  ultimately show ?thesis by (auto simp: check_list_def list_ex_iff)
qed

lemma v6_blocked:
  assumes b: "blocked (classifyIPv6 gs)" and gs: "length gs = 8" "\<forall>g \<in> set gs. g < 65536"
  shows "check_list 128 V6_RANGES (groups_number 0 gs)"
proof -
  from gs(1) obtain g0 g1 g2 g3 g4 g5 g6 g7 where g: "gs = [g0, g1, g2, g3, g4, g5, g6, g7]"
    by (auto simp: numeral_eq_Suc length_Suc_conv)
  consider (zero) "list_all (\<lambda>n. n = 0) (take 6 gs)"
    | (mapped) "list_all (\<lambda>n. n = 0) (take 5 gs)" "gs ! 5 = 0xffff"
    | (link) "g0 - g0 mod 64 = 0xfe80" | (ula) "g0 - g0 mod 512 = 0xfc00" | (meta) "g0 = 0xfd00"
    using b unfolding classifyIPv6_def g by (auto split: if_splits)
  then show ?thesis
  proof cases
    case zero
    then have "take 6 gs = [0, 0, 0, 0, 0, 0]" by (simp add: g)
    then show ?thesis by (intro v6_range [OF gs, of "[0, 0, 0, 0, 0, 0, 0, 0]" 96 6]) auto
  next
    case mapped
    then have "take 6 gs = [0, 0, 0, 0, 0, 0xffff]" by (simp add: g)
    then show ?thesis by (intro v6_range [OF gs, of "[0, 0, 0, 0, 0, 0xffff, 0, 0]" 96 6]) auto
  next
    case link
    then have "g0 div 64 = 1018" by (simp add: minus_mod_eq_mult_div)
    then show ?thesis
      by (intro v6_range [OF gs, of "[0xfe80, 0, 0, 0, 0, 0, 0, 0]" 10 1]) (auto simp: g)
  next
    case ula
    then have "g0 div 512 = 126" by (simp add: minus_mod_eq_mult_div)
    then show ?thesis
      by (intro v6_range [OF gs, of "[0xfc00, 0, 0, 0, 0, 0, 0, 0]" 7 1]) (auto simp: g)
  next
    case meta
    then show ?thesis
      by (intro v6_range [OF gs, of "[0xfc00, 0, 0, 0, 0, 0, 0, 0]" 7 1]) (auto simp: g)
  qed
qed


lemma metadata_v4_blocked: "blocked (classifyIPv4 [169, 254, 169, 254])"
  by code_simp

lemma link_local_v6_blocked: "blocked (classifyIPv6 [0xfe80, 0, 0, 0, 0, 0, 0, 1])"
  by (simp add: classifyIPv6_def)

lemma link_local_v6_groups:
  "length [0xfe80, 0, 0, 0, 0, 0, 0, 1::nat] = 8 \<and>
   (\<forall>g \<in> set [0xfe80, 0, 0, 0, 0, 0, 0, 1::nat]. g < 65536)"
  by simp


end
