(* ===== verification/Executor_Fetch.thy ===== *)
theory Executor_Fetch
  imports Executor_Policy Http_Fetch
begin

text \<open>
  The fetch the executors share (executors/shared/src/fetcher.ts): the check of a URL, the connection
  to the one address that was checked, the bounded body, and the loop over redirects under one deadline.

  The platform is an argument: the URL parser, the name server, the connection, the decompression. An
  await that the deadline can win ends as \<open>Deadline\<close>; whether it does is the outside's choice.
\<close>

section \<open>Options and results\<close>

text \<open>A \<open>FetchFailure\<close>.\<close>

record executor_fault =
  xf_class :: failure_class
  xf_message :: string

definition fault :: "failure_class \<Rightarrow> string \<Rightarrow> executor_fault" where
  "fault cls msg = \<lparr>xf_class = cls, xf_message = msg\<rparr>"

record resolved_address =
  ra_address :: string
  ra_family :: nat

datatype 'a raced = Deadline | Settled 'a

text \<open>What a request asks of the network: the address is fixed before the name is used.\<close>

record hop_request =
  hq_https :: bool
  hq_host :: string
  hq_port :: "string option"
  hq_path :: string
  hq_headers :: "(string \<times> string) list"
  hq_target :: resolved_address
  hq_servername :: "string option"

datatype decoder = Gunzip | Inflate | BrotliDecompress

record 'n fetch_service =
  fs_maxBytesCap :: nat
  fs_maxRedirects :: nat
  fs_blocked :: "string \<Rightarrow> bool"
  fs_allowedPorts :: "nat list option"
  fs_userAgent :: "string option"
  fs_allowIpv6 :: "bool option"
  fs_newURL :: url_parser
  fs_readIP :: "string \<Rightarrow> ip_number option"
  fs_resolve :: "string \<Rightarrow> 'n \<Rightarrow> resolved_address list option raced \<times> 'n"
  fs_send :: "hop_request \<Rightarrow> 'n \<Rightarrow> (thrown + http_response) raced \<times> 'n"
  fs_decode :: "decoder \<Rightarrow> http_body \<Rightarrow> http_body"

record fetch_input =
  in_url :: string
  in_maxBytes :: nat
  in_headers :: "(string \<times> string) list"

record service_result =
  sr_status :: int
  sr_url :: string
  sr_contentType :: "string option"
  sr_headers :: "(string \<times> string) list"
  sr_body :: bytes
  sr_truncated :: bool

definition DEFAULT_ALLOWED_PORTS :: "nat list" where "DEFAULT_ALLOWED_PORTS = [80, 443]"

definition FORWARDED_REQUEST_HEADERS :: "string list" where
  "FORWARDED_REQUEST_HEADERS =
     [''user-agent'', ''accept'', ''accept-language'', ''referer'', ''if-none-match'', ''if-modified-since'']"

definition MAX_HEADER_VALUE_LENGTH :: nat where "MAX_HEADER_VALUE_LENGTH = 2048"

definition MAX_URL_LENGTH :: nat where "MAX_URL_LENGTH = 2048"

section \<open>Headers\<close>

definition header_char :: "char \<Rightarrow> bool" where
  "header_char ch \<longleftrightarrow> (let n = of_char ch :: nat in n = 9 \<or> (0x20 \<le> n \<and> n \<le> 0x7e) \<or> (0x80 \<le> n \<and> n \<le> 0xff))"

definition sanitizeRequestHeaders :: "(string \<times> string) list \<Rightarrow> (string \<times> string) list" where
  "sanitizeRequestHeaders hs =
     foldl (\<lambda>out (name, v).
       let key = toLowerCase name
       in if key \<notin> set FORWARDED_REQUEST_HEADERS then out
          else if length v > MAX_HEADER_VALUE_LENGTH \<or> \<not> list_all header_char v then out
          else AList.update key v out) [] hs"

definition responseDecoder :: "string option \<Rightarrow> decoder option" where
  "responseDecoder encoding =
     (let e = js_trim (toLowerCase (orElse encoding ''''))
      in if e = ''gzip'' \<or> e = ''x-gzip'' then Some Gunzip
         else if e = ''deflate'' then Some Inflate
         else if e = ''br'' then Some BrotliDecompress else None)"

definition KEPT_RESPONSE_HEADERS :: "string list" where
  "KEPT_RESPONSE_HEADERS = [''content-type'', ''etag'', ''last-modified'', ''retry-after'', ''cf-mitigated'']"

text \<open>A header with several values is not in the list of the answer.\<close>

definition pickResponseHeaders :: "(string \<times> string) list \<Rightarrow> (string \<times> string) list" where
  "pickResponseHeaders hs =
     filter (\<lambda>(name, v). name \<in> set KEPT_RESPONSE_HEADERS \<or> startsWith name ''cf-chl-'') hs"

section \<open>The check of a URL\<close>

definition bare_host :: "web_url \<Rightarrow> string" where
  "bare_host u = (if startsWith (hostname u) ''['' then butlast (drop 1 (hostname u)) else hostname u)"

definition ip_family :: "ip_number \<Rightarrow> nat" where
  "ip_family ip = (case ip of V4 n \<Rightarrow> 4 | V6 n \<Rightarrow> 6)"

text \<open>The address to connect to, when the addresses of the name are fit.\<close>

definition choose_address :: "'n fetch_service \<Rightarrow> resolved_address list \<Rightarrow> executor_fault + resolved_address" where
  "choose_address fs addresses =
     (if addresses = [] then Inl (fault Network_error ''dns returned no addresses'')
      else if list_ex (\<lambda>a. fs_blocked fs (ra_address a)) addresses
      then Inl (fault Ssrf_blocked ''resolved address not allowed'')
      else (let usable = (if orElse (fs_allowIpv6 fs) True then addresses else filter (\<lambda>a. ra_family a = 4) addresses)
            in case usable of
                 [] \<Rightarrow> Inl (fault Network_error ''no usable address (ipv6 disabled)'')
               | a # _ \<Rightarrow> Inr (orElse (find (\<lambda>a. ra_family a = 4) usable) a)))"

definition vet :: "'n fetch_service \<Rightarrow> web_url \<Rightarrow> 'n \<Rightarrow> (executor_fault + resolved_address) raced \<times> 'n" where
  "vet fs u n =
     (if protocol u \<noteq> ''http:'' \<and> protocol u \<noteq> ''https:''
      then (Settled (Inl (fault Ssrf_blocked ''scheme not allowed'')), n)
      else if username u \<noteq> '''' \<or> password u \<noteq> ''''
      then (Settled (Inl (fault Ssrf_blocked ''userinfo not allowed'')), n)
      else if url_port u \<notin> set (orElse (fs_allowedPorts fs) DEFAULT_ALLOWED_PORTS)
      then (Settled (Inl (fault Ssrf_blocked ''port not allowed'')), n)
      else if bare_host u = '''' then (Settled (Inl (fault Ssrf_blocked ''empty host'')), n)
      else if isBlockedHostname (bare_host u) then (Settled (Inl (fault Ssrf_blocked ''host not allowed'')), n)
      else (case fs_readIP fs (bare_host u) of
              Some ip \<Rightarrow>
                (Settled (choose_address fs [\<lparr>ra_address = bare_host u, ra_family = ip_family ip\<rparr>]), n)
            | None \<Rightarrow>
                (case fs_resolve fs (bare_host u) n of
                   (Deadline, n1) \<Rightarrow> (Deadline, n1)
                 | (Settled None, n1) \<Rightarrow> (Settled (Inl (fault Network_error ''dns resolution failed'')), n1)
                 | (Settled (Some addresses), n1) \<Rightarrow> (Settled (choose_address fs addresses), n1))))"

section \<open>One request\<close>

text \<open>The chunks up to the limit, and whether anything was cut off.\<close>

fun read_source :: "nat \<Rightarrow> bytes \<Rightarrow> bytes list \<Rightarrow> thrown option \<Rightarrow> thrown + bytes \<times> bool" where
  "read_source mx acc [] e = (case e of None \<Rightarrow> Inr (acc, False) | Some t \<Rightarrow> Inl t)"
| "read_source mx acc (c # cs) e =
     (if length c > mx - length acc then Inr (acc @ take (mx - length acc) c, True)
      else read_source mx (acc @ c) cs e)"

record hop_result =
  ho_status :: int
  ho_headers :: "(string \<times> string) list"
  ho_body :: bytes
  ho_truncated :: bool

definition hop_response :: "'n fetch_service \<Rightarrow> nat \<Rightarrow> http_response \<Rightarrow> thrown + hop_result" where
  "hop_response fs mx res =
     (if isRedirectStatus (hr_status res)
      then Inr \<lparr>ho_status = hr_status res, ho_headers = hr_headers res, ho_body = [], ho_truncated = False\<rparr>
      else (case (case responseDecoder (map_of (hr_headers res) ''content-encoding'') of
                    None \<Rightarrow> hr_body res | Some dec \<Rightarrow> fs_decode fs dec (hr_body res)) of
              NoBody \<Rightarrow>
                Inr \<lparr>ho_status = hr_status res, ho_headers = hr_headers res, ho_body = [], ho_truncated = False\<rparr>
            | Stream cs e \<Rightarrow>
                (case read_source mx [] cs e of
                   Inl t \<Rightarrow> Inl t
                 | Inr (body, cropped) \<Rightarrow>
                     Inr \<lparr>ho_status = hr_status res, ho_headers = hr_headers res, ho_body = body, ho_truncated = cropped\<rparr>)))"

definition hop_request_of ::
  "'n fetch_service \<Rightarrow> web_url \<Rightarrow> resolved_address \<Rightarrow> (string \<times> string) list \<Rightarrow> hop_request" where
  "hop_request_of fs u target hs =
     \<lparr>hq_https = (protocol u = ''https:''), hq_host = bare_host u, hq_port = truthy (Some (port u)),
      hq_path = pathname u @ search u,
      hq_headers = AList.update ''connection'' ''close'' (AList.update ''accept-encoding'' ''gzip, deflate, br'' hs),
      hq_target = target,
      hq_servername = (if protocol u = ''https:'' \<and> fs_readIP fs (bare_host u) = None then Some (bare_host u) else None)\<rparr>"

definition hop ::
  "'n fetch_service \<Rightarrow> web_url \<Rightarrow> resolved_address \<Rightarrow> (string \<times> string) list \<Rightarrow> nat \<Rightarrow> 'n \<Rightarrow>
   (thrown + hop_result) raced \<times> 'n" where
  "hop fs u target hs mx n =
     (case fs_send fs (hop_request_of fs u target hs) n of
        (Deadline, n1) \<Rightarrow> (Deadline, n1)
      | (Settled (Inl t), n1) \<Rightarrow> (Settled (Inl t), n1)
      | (Settled (Inr res), n1) \<Rightarrow> (Settled (hop_response fs mx res), n1))"

section \<open>The loop\<close>

definition deadline_fault :: executor_fault where
  "deadline_fault = fault Timeout ''total timeout exceeded''"

definition request_fault :: "thrown \<Rightarrow> executor_fault" where
  "request_fault t = fault Network_error (case t of ErrorObject name msg \<Rightarrow> msg | OtherValue s \<Rightarrow> ''request failed'')"

text \<open>
  \<open>left\<close> is the number of redirects left. The third component lists the connections made, each with
  its URL and the address it was pinned to.
\<close>

fun fetch_hops ::
  "'n fetch_service \<Rightarrow> (string \<times> string) list \<Rightarrow> nat \<Rightarrow> nat \<Rightarrow> web_url \<Rightarrow> 'n \<Rightarrow>
   (executor_fault + service_result) \<times> 'n \<times> (web_url \<times> resolved_address) list" where
  "fetch_hops fs hs mx left current n =
     (case vet fs current n of
        (Deadline, n1) \<Rightarrow> (Inl deadline_fault, n1, [])
      | (Settled (Inl e), n1) \<Rightarrow> (Inl e, n1, [])
      | (Settled (Inr target), n1) \<Rightarrow>
          (case hop fs current target hs mx n1 of
             (Deadline, n2) \<Rightarrow> (Inl deadline_fault, n2, [(current, target)])
           | (Settled (Inl t), n2) \<Rightarrow> (Inl (request_fault t), n2, [(current, target)])
           | (Settled (Inr r), n2) \<Rightarrow>
               if isRedirectStatus (ho_status r)
               then (case truthy (map_of (ho_headers r) ''location'') of
                       None \<Rightarrow>
                         (Inl (fault Network_error (''redirect status '' @ show_nat (nat (ho_status r)) @ '' missing location'')),
                          n2, [(current, target)])
                     | Some location \<Rightarrow>
                         (case left of
                            0 \<Rightarrow>
                              (Inl (fault Network_error (''too_many_redirects: exceeded '' @ show_nat (fs_maxRedirects fs))),
                               n2, [(current, target)])
                          | Suc left1 \<Rightarrow>
                              (case fs_newURL fs location (Some (href current)) of
                                 None \<Rightarrow> (Inl (fault Network_error ''invalid redirect location''), n2, [(current, target)])
                               | Some next \<Rightarrow>
                                   (case fetch_hops fs hs mx left1 next n2 of
                                      (r1, n3, cs) \<Rightarrow> (r1, n3, (current, target) # cs)))))
               else (let picked = pickResponseHeaders (ho_headers r)
                     in (Inr \<lparr>sr_status = ho_status r, sr_url = href current,
                              sr_contentType = map_of picked ''content-type'', sr_headers = picked,
                              sr_body = ho_body r, sr_truncated = ho_truncated r\<rparr>, n2, [(current, target)]))))"

definition service_fetch ::
  "'n fetch_service \<Rightarrow> fetch_input \<Rightarrow> 'n \<Rightarrow>
   (executor_fault + service_result) \<times> 'n \<times> (web_url \<times> resolved_address) list" where
  "service_fetch fs inp n =
     (if length (in_url inp) > MAX_URL_LENGTH then (Inl (fault Ssrf_blocked ''url too long''), n, [])
      else (let mx = min (in_maxBytes inp) (fs_maxBytesCap fs);
                hs = foldl (\<lambda>out (k, v). AList.update k v out)
                       [(''user-agent'', orElse (fs_userAgent fs) ''utsuroi-gcp-http'')]
                       (sanitizeRequestHeaders (in_headers inp))
            in case fs_newURL fs (in_url inp) None of
                 None \<Rightarrow> (Inl (fault Ssrf_blocked ''invalid url''), n, [])
               | Some current \<Rightarrow> fetch_hops fs hs mx (fs_maxRedirects fs) current n))"

declare fetch_hops.simps [simp del]

section \<open>Where the executors connect\<close>

text \<open>A connection that passed the check of the URL and whose address is not refused.\<close>

definition vetted :: "'n fetch_service \<Rightarrow> web_url \<times> resolved_address \<Rightarrow> bool" where
  "vetted fs c \<longleftrightarrow> (case c of (u, target) \<Rightarrow>
     (protocol u = ''http:'' \<or> protocol u = ''https:'') \<and> username u = '''' \<and> password u = '''' \<and>
     url_port u \<in> set (orElse (fs_allowedPorts fs) DEFAULT_ALLOWED_PORTS) \<and> bare_host u \<noteq> '''' \<and>
     \<not> isBlockedHostname (bare_host u) \<and> \<not> fs_blocked fs (ra_address target) \<and>
     (fs_readIP fs (bare_host u) \<noteq> None \<longrightarrow> ra_address target = bare_host u) \<and>
     (fs_allowIpv6 fs = Some False \<longrightarrow> ra_family target = 4))"

lemma choose_address_ok:
  assumes "choose_address fs as = Inr t"
  shows "t \<in> set as \<and> \<not> fs_blocked fs (ra_address t) \<and> (fs_allowIpv6 fs = Some False \<longrightarrow> ra_family t = 4)"
proof -
  define usable where "usable = (if orElse (fs_allowIpv6 fs) True then as else filter (\<lambda>a. ra_family a = 4) as)"
  from assms obtain a rest where u: "usable = a # rest" and ok: "\<not> list_ex (\<lambda>a. fs_blocked fs (ra_address a)) as"
    and t: "t = orElse (find (\<lambda>a. ra_family a = 4) usable) a"
    by (auto simp: choose_address_def usable_def Let_def split: if_splits list.splits)
  have "t \<in> set usable"
  proof (cases "find (\<lambda>a. ra_family a = 4) usable")
    case None
    then show ?thesis using t u by (simp add: orElse_def)
  next
    case (Some x)
    with t find_SomeD [OF Some] show ?thesis by (simp add: orElse_def)
  qed
  moreover have "set usable \<subseteq> set as" by (auto simp: usable_def)
  moreover have "\<forall>x \<in> set usable. fs_allowIpv6 fs = Some False \<longrightarrow> ra_family x = 4"
    by (auto simp: usable_def orElse_def)
  ultimately show ?thesis using ok by (auto simp: list_ex_iff)
qed

lemma choose_one: "choose_address fs [a] = Inr t \<Longrightarrow> t = a"
  using choose_address_ok [of fs "[a]" t] by simp

lemma vet_ok: "vet fs u n = (Settled (Inr t), n1) \<Longrightarrow> vetted fs (u, t)"
  by (auto simp: vet_def vetted_def split: if_splits option.splits prod.splits raced.splits
      dest: choose_address_ok choose_one)

lemma vet_faults: "vet fs u n = (Settled (Inl e), n1) \<Longrightarrow> xf_class e \<in> {Ssrf_blocked, Network_error}"
  by (auto simp: vet_def choose_address_def fault_def Let_def
      split: if_splits option.splits prod.splits raced.splits list.splits)

lemma read_source_bound:
  "read_source mx acc cs e = Inr (body, cropped) \<Longrightarrow> length acc \<le> mx \<Longrightarrow> length body \<le> mx"
  by (induction mx acc cs e rule: read_source.induct) (auto split: option.splits if_splits)

lemma hop_bound: "hop fs u t hs mx n = (Settled (Inr r), n1) \<Longrightarrow> length (ho_body r) \<le> mx"
  by (auto simp: hop_def hop_response_def split: prod.splits raced.splits sum.splits if_splits http_body.splits
      dest: read_source_bound)

lemma fetch_hops_ok:
  assumes "fetch_hops fs hs mx left current n = (r, n1, cs)"
  shows "list_all (vetted fs) cs \<and> length cs \<le> left + 1 \<and>
    (case r of Inl f \<Rightarrow> xf_class f \<in> {Ssrf_blocked, Network_error, Timeout}
     | Inr res \<Rightarrow> length (sr_body res) \<le> mx \<and> cs \<noteq> [] \<and> sr_url res = href (fst (last cs)))"
  using assms
proof (induction left arbitrary: current n r n1 cs)
  case 0
  show ?case
    using 0 by (subst (asm) fetch_hops.simps)
      (auto simp: deadline_fault_def request_fault_def fault_def Let_def
        split: prod.splits raced.splits sum.splits if_splits option.splits dest: vet_ok vet_faults hop_bound)
next
  case (Suc left)
  show ?case
    using Suc.prems
    by (subst (asm) fetch_hops.simps)
      (auto simp: deadline_fault_def request_fault_def fault_def Let_def
        split: prod.splits raced.splits sum.splits if_splits option.splits
        dest: vet_ok vet_faults hop_bound dest!: Suc.IH)
qed


section \<open>An example\<close>

text \<open>A server that redirects to a name of the local network: the second connection is not made.\<close>

definition demo_addresses :: "string \<Rightarrow> ip_number option" where
  "demo_addresses t = (if t = ''p'' then Some (V4 134744072) else if t = ''q'' then Some (V4 167772161) else None)"

definition demo_location :: "string \<Rightarrow> web_url" where
  "demo_location u = \<lparr>href = u, protocol = ''http:'', username = [], password = [], hostname = u, port = [],
     pathname = ''/'', search = [], origin = u\<rparr>"

definition demo_service :: "unit fetch_service" where
  "demo_service = \<lparr>fs_maxBytesCap = 100, fs_maxRedirects = Suc 0, fs_blocked = isBlockedAddress demo_addresses no_extra,
     fs_allowedPorts = None, fs_userAgent = None, fs_allowIpv6 = None, fs_newURL = (\<lambda>u b. Some (demo_location u)),
     fs_readIP = (\<lambda>t. None),
     fs_resolve = (\<lambda>h n. (Settled (Some [\<lparr>ra_address = (if h = ''outside'' then ''p'' else ''q''), ra_family = 4\<rparr>]), n)),
     fs_send = (\<lambda>rq n. (Settled (Inr \<lparr>hr_status = 302, hr_headers = [(''location'', ''inside'')], hr_body = NoBody\<rparr>), n)),
     fs_decode = (\<lambda>dec b. b)\<rparr>"

lemma demo_blocked:
  "isBlockedAddress demo_addresses no_extra ''p'' = False" "isBlockedAddress demo_addresses no_extra ''q'' = True"
  by (simp_all add: isBlockedAddress_def demo_addresses_def check_list_def V4_RANGES_def in_subnet_def v4_number_def no_extra_def)

lemma demo_names: "isBlockedHostname ''outside'' = False" "isBlockedHostname ''inside'' = False"
  by code_simp+

lemma demo_vet:
  "vet demo_service (demo_location ''outside'') () = (Settled (Inr \<lparr>ra_address = ''p'', ra_family = 4\<rparr>), ())"
  "vet demo_service (demo_location ''inside'') () = (Settled (Inl (fault Ssrf_blocked ''resolved address not allowed'')), ())"
  by (simp_all add: vet_def demo_service_def demo_location_def bare_host_def startsWith_def demo_names choose_address_def
      demo_blocked orElse_def url_port_def defaultPortFor_def DEFAULT_ALLOWED_PORTS_def Let_def)

lemma demo_hop:
  "hop demo_service (demo_location ''outside'') t hs mx () =
     (Settled (Inr \<lparr>ho_status = 302, ho_headers = [(''location'', ''inside'')], ho_body = [], ho_truncated = False\<rparr>), ())"
  by (simp add: hop_def demo_service_def hop_response_def isRedirectStatus_def REDIRECT_STATUSES_def)

lemma demo_redirect:
  "service_fetch demo_service \<lparr>in_url = ''outside'', in_maxBytes = 10, in_headers = []\<rparr> () =
     (Inl (fault Ssrf_blocked ''resolved address not allowed''), (),
      [(demo_location ''outside'', \<lparr>ra_address = ''p'', ra_family = 4\<rparr>)])"
proof -
  have parts: "fs_newURL demo_service u b = Some (demo_location u)" "fs_maxRedirects demo_service = Suc 0" for u b
    by (simp_all add: demo_service_def)
  have "fetch_hops demo_service hs mx 0 (demo_location ''inside'') () =
      (Inl (fault Ssrf_blocked ''resolved address not allowed''), (), [])" for hs mx
    by (subst fetch_hops.simps) (simp add: demo_vet)
  then have "fetch_hops demo_service hs mx (Suc 0) (demo_location ''outside'') () =
      (Inl (fault Ssrf_blocked ''resolved address not allowed''), (),
       [(demo_location ''outside'', \<lparr>ra_address = ''p'', ra_family = 4\<rparr>)])" for hs mx
    by (subst fetch_hops.simps) (simp add: demo_vet demo_hop parts isRedirectStatus_def REDIRECT_STATUSES_def truthy_def)
  then show ?thesis by (simp add: service_fetch_def MAX_URL_LENGTH_def parts Let_def)
qed


end
