(* ===== verification/Executor_Server.thy ===== *)
theory Executor_Server
  imports Executor_Fetch Fetchers Api_Auth "HOL-Library.Countable"
begin

text \<open>
  The executor in the cloud (executors/gcp-http/src/jwt.ts, server.ts) and the token the worker signs
  for it (src/fetch/executorToken.ts): the check of the token with the memory of those already used, the
  reading of a request, and the limit of concurrent fetches.
\<close>

section \<open>Tokens\<close>

definition EXPECTED_ISSUER :: string where "EXPECTED_ISSUER = ''utsuroi''"

definition EXPECTED_AUDIENCE :: string where "EXPECTED_AUDIENCE = ''gcp-http''"

definition MAX_TOKEN_LIFETIME_SECONDS :: rat where "MAX_TOKEN_LIFETIME_SECONDS = 60"

definition TOKEN_SKEW_SECONDS :: rat where "TOKEN_SKEW_SECONDS = 5"

definition MAX_JTI_ENTRIES :: nat where "MAX_JTI_ENTRIES = 10000"

text \<open>
  \<open>JSON.parse\<close>, the reading of base64url and of UTF-8, the check of an Ed25519 signature with the public
  key, and the SHA-256 digest as base64url.
\<close>

record token_env =
  te_parse :: "string \<Rightarrow> json option"
  te_bytes :: "string \<Rightarrow> bytes"
  te_text :: "bytes \<Rightarrow> string"
  te_verify :: "string \<Rightarrow> bytes \<Rightarrow> bool"
  te_digest :: "bytes \<Rightarrow> string"

definition decodeSegment :: "token_env \<Rightarrow> string \<Rightarrow> string + bytes" where
  "decodeSegment te seg =
     (if seg = '''' \<or> \<not> list_all base64url_char seg then Inl ''malformed token'' else Inr (te_bytes te seg))"

definition decodeJson :: "token_env \<Rightarrow> string \<Rightarrow> string + json" where
  "decodeJson te seg =
     (case decodeSegment te seg of
        Inl e \<Rightarrow> Inl ''malformed token''
      | Inr bs \<Rightarrow>
          (case te_parse te (te_text te bs) of
             Some (JObj kvs) \<Rightarrow> Inr (JObj kvs)
           | _ \<Rightarrow> Inl ''malformed token''))"

record jti_cache =
  jc_entries :: "(string \<times> rat) list"
  jc_max :: nat

definition new_jti_cache :: jti_cache where "new_jti_cache = \<lparr>jc_entries = [], jc_max = MAX_JTI_ENTRIES\<rparr>"

definition purge_jti :: "rat \<Rightarrow> jti_cache \<Rightarrow> jti_cache" where
  "purge_jti now jc = jc\<lparr>jc_entries := filter (\<lambda>(jti, e). \<not> e + TOKEN_SKEW_SECONDS < now) (jc_entries jc)\<rparr>"

definition claim_jti :: "string \<Rightarrow> rat \<Rightarrow> rat \<Rightarrow> jti_cache \<Rightarrow> bool \<times> jti_cache" where
  "claim_jti jti e now jc =
     (let jc1 = purge_jti now jc
      in if jti \<in> fst ` set (jc_entries jc1) then (False, jc1)
         else if length (jc_entries jc1) \<ge> jc_max jc1 then (False, jc1)
         else (True, jc1\<lparr>jc_entries := jc_entries jc1 @ [(jti, e)]\<rparr>))"

fun num_claim :: "json option \<Rightarrow> rat option" where
  "num_claim (Some (JNum q)) = Some q"
| "num_claim _ = None"

text \<open>The checks of the claims before the token is used up; the result is the id with its expiry.\<close>

definition check_token_claims :: "token_env \<Rightarrow> rat \<Rightarrow> bytes \<Rightarrow> json \<Rightarrow> string + string \<times> rat" where
  "check_token_claims te nowS body claims =
     (if str_field (field ''iss'' claims) \<noteq> Some EXPECTED_ISSUER then Inl ''bad iss''
      else if str_field (field ''aud'' claims) \<noteq> Some EXPECTED_AUDIENCE then Inl ''bad aud''
      else (case (num_claim (field ''iat'' claims), num_claim (field ''exp'' claims)) of
              (Some i, Some e) \<Rightarrow>
                if e - i > MAX_TOKEN_LIFETIME_SECONDS \<or> e \<le> i then Inl ''token lifetime too long''
                else if nowS > e + TOKEN_SKEW_SECONDS then Inl ''token expired''
                else if i > nowS + TOKEN_SKEW_SECONDS then Inl ''token not yet valid''
                else (case str_field (field ''jti'' claims) of
                        None \<Rightarrow> Inl ''bad jti''
                      | Some jti \<Rightarrow>
                          if length jti < 8 \<or> length jti > 128 then Inl ''bad jti''
                          else (case str_field (field ''bh'' claims) of
                                  None \<Rightarrow> Inl ''bad bh''
                                | Some bh \<Rightarrow> if bh \<noteq> te_digest te body then Inl ''body hash mismatch'' else Inr (jti, e)))
            | _ \<Rightarrow> Inl ''bad time claims''))"

definition bearer_token :: "string option \<Rightarrow> string option" where
  "bearer_token authorization =
     (case truthy authorization of
        None \<Rightarrow> None
      | Some a \<Rightarrow> if startsWith a ''Bearer '' then Some (js_trim (drop 7 a)) else None)"

definition forbidden_header :: "json \<Rightarrow> bool" where
  "forbidden_header header \<longleftrightarrow> list_ex (\<lambda>k. field k header \<noteq> None) [''crit'', ''jku'', ''jwk'', ''x5u'']"

text \<open>The part of the check without the memory.\<close>

definition read_token :: "token_env \<Rightarrow> rat \<Rightarrow> bytes \<Rightarrow> string \<Rightarrow> string + string \<times> rat" where
  "read_token te nowS body token =
     (case split_on CHR ''.'' token of
        [h, p, sg] \<Rightarrow>
          (case decodeJson te h of
             Inl e \<Rightarrow> Inl e
           | Inr header \<Rightarrow>
               if str_field (field ''alg'' header) \<noteq> Some ''EdDSA'' then Inl ''unsupported alg''
               else if forbidden_header header then Inl ''unsupported header''
               else (case decodeSegment te sg of
                       Inl e \<Rightarrow> Inl e
                     | Inr signature \<Rightarrow>
                         if length signature \<noteq> 64 then Inl ''bad signature''
                         else if \<not> te_verify te (h @ ''.'' @ p) signature then Inl ''bad signature''
                         else (case decodeJson te p of
                                 Inl e \<Rightarrow> Inl e
                               | Inr claims \<Rightarrow> check_token_claims te nowS body claims)))
      | _ \<Rightarrow> Inl ''malformed token'')"

definition now_seconds :: "ms \<Rightarrow> rat" where "now_seconds now = of_int (now div 1000)"

definition verifyRequestToken ::
  "token_env \<Rightarrow> string option \<Rightarrow> bytes \<Rightarrow> ms \<Rightarrow> jti_cache \<Rightarrow> (string + unit) \<times> jti_cache" where
  "verifyRequestToken te authorization body now jc =
     (case bearer_token authorization of
        None \<Rightarrow> (Inl ''missing bearer token'', jc)
      | Some token \<Rightarrow>
          (case read_token te (now_seconds now) body token of
             Inl e \<Rightarrow> (Inl e, jc)
           | Inr (jti, e) \<Rightarrow>
               (case claim_jti jti e (now_seconds now) jc of
                  (True, jc1) \<Rightarrow> (Inr (), jc1)
                | (False, jc1) \<Rightarrow> (Inl ''replayed token'', jc1))))"

section \<open>A token is used once\<close>

text \<open>The requests of an instance, each with its time.\<close>

fun token_run :: "token_env \<Rightarrow> (ms \<times> string option \<times> bytes) list \<Rightarrow> jti_cache \<Rightarrow> (string + unit) list" where
  "token_run te [] jc = []"
| "token_run te ((now, authorization, body) # rqs) jc =
     (case verifyRequestToken te authorization body now jc of (r, jc1) \<Rightarrow> r # token_run te rqs jc1)"

text \<open>While a used token is not expired at \<open>t\<close>, its id is remembered.\<close>

definition remembered :: "string \<times> rat \<Rightarrow> rat \<Rightarrow> jti_cache \<Rightarrow> bool" where
  "remembered x t jc \<longleftrightarrow> x \<in> set (jc_entries jc) \<or> snd x + TOKEN_SKEW_SECONDS < t"

lemma claims_time_free:
  "check_token_claims te t body claims = Inr x \<Longrightarrow> check_token_claims te t2 body2 claims = Inr y \<Longrightarrow> x = y"
  by (auto simp: check_token_claims_def split: if_splits option.splits)

lemma read_token_same:
  assumes "read_token te t body token = Inr x" "read_token te t2 body2 token = Inr y"
  shows "x = y"
proof -
  from assms(1) obtain p claims where "decodeJson te p = Inr claims" "check_token_claims te t body claims = Inr x"
    "\<exists>h sg. split_on CHR ''.'' token = [h, p, sg]"
    by (auto simp: read_token_def split: list.splits sum.splits if_splits)
  with assms(2) show ?thesis
    by (auto simp: read_token_def split: list.splits sum.splits if_splits dest: claims_time_free)
qed

lemma read_token_live: "read_token te t body token = Inr (jti, e) \<Longrightarrow> t \<le> e + TOKEN_SKEW_SECONDS"
  by (auto simp: read_token_def check_token_claims_def split: list.splits sum.splits if_splits option.splits)

lemma claim_remembers:
  assumes "claim_jti jti e t jc = (ok, jc1)" "remembered x t0 jc" "t0 \<le> t"
  shows "remembered x t jc1"
  using assms by (cases x) (auto simp: claim_jti_def purge_jti_def remembered_def Let_def split: if_splits)

lemma claim_takes: "claim_jti jti e t jc = (True, jc1) \<Longrightarrow> remembered (jti, e) t jc1"
  by (auto simp: claim_jti_def remembered_def Let_def split: if_splits)

lemma verify_remembers:
  assumes "verifyRequestToken te authorization body now jc = (r, jc1)" "remembered x (now_seconds t0) jc" "t0 \<le> now"
  shows "remembered x (now_seconds now) jc1"
proof -
  have t: "now_seconds t0 \<le> now_seconds now"
    using assms(3) by (simp add: now_seconds_def zdiv_mono1)
  then have "remembered x (now_seconds now) jc" using assms(2) by (auto simp: remembered_def)
  then show ?thesis
    using assms(1,2) t
    by (auto simp: verifyRequestToken_def split: option.splits sum.splits prod.splits bool.splits dest: claim_remembers)
qed

lemma remembered_refused:
  assumes "verifyRequestToken te authorization body now jc = (r, jc1)" "remembered x (now_seconds t0) jc" "t0 \<le> now"
    and "bearer_token authorization = Some token" "read_token te t1 body1 token = Inr x"
  shows "r \<noteq> Inr ()"
proof
  assume "r = Inr ()"
  with assms(1,4) obtain jti e where rd: "read_token te (now_seconds now) body token = Inr (jti, e)"
    and cl: "claim_jti jti e (now_seconds now) jc = (True, jc1)"
    by (auto simp: verifyRequestToken_def split: sum.splits prod.splits bool.splits)
  from read_token_same [OF assms(5) rd] have x: "x = (jti, e)" .
  have "now_seconds t0 \<le> now_seconds now" using assms(3) by (simp add: now_seconds_def zdiv_mono1)
  with assms(2) read_token_live [OF rd] have "(jti, e) \<in> set (jc_entries jc)" by (auto simp: remembered_def x)
  with cl read_token_live [OF rd] show False by (force simp: claim_jti_def purge_jti_def Let_def split: if_splits)
qed

lemma run_refuses:
  assumes "remembered x (now_seconds t0) jc" "sorted (t0 # map fst rqs)" "read_token te t1 body1 token = Inr x"
    and "j < length rqs" "bearer_token (fst (snd (rqs ! j))) = Some token"
  shows "token_run te rqs jc ! j \<noteq> Inr ()"
  using assms
proof (induction rqs arbitrary: jc t0 j)
  case (Cons rq rqs)
  obtain now authorization body where rq: "rq = (now, authorization, body)" by (cases rq)
  obtain r jc1 where v: "verifyRequestToken te authorization body now jc = (r, jc1)" by fastforce
  show ?case
  proof (cases j)
    case 0
    with Cons.prems remembered_refused [OF v Cons.prems(1)] show ?thesis by (simp add: rq v)
  next
    case (Suc k)
    have "remembered x (now_seconds now) jc1"
      using verify_remembers [OF v Cons.prems(1)] Cons.prems(2) by (simp add: rq)
    from Cons.IH [OF this, of k] Cons.prems Suc show ?thesis by (simp add: rq v)
  qed
qed simp

text \<open>
  C7. An executor accepts a token once: among the requests of an instance, in the order of its clock,
  no two accepted ones carry the same token, whatever their bodies and whatever comes between.
\<close>

theorem token_accepted_once:
  assumes "sorted (map fst rqs)" and "i < j" "j < length rqs"
    and "token_run te rqs jc ! i = Inr ()" "token_run te rqs jc ! j = Inr ()"
  shows "bearer_token (fst (snd (rqs ! i))) \<noteq> bearer_token (fst (snd (rqs ! j)))"
  using assms
proof (induction rqs arbitrary: jc i j)
  case (Cons rq rqs)
  obtain now authorization body where rq: "rq = (now, authorization, body)" by (cases rq)
  obtain r jc1 where v: "verifyRequestToken te authorization body now jc = (r, jc1)" by fastforce
  from Cons.prems obtain k where j: "j = Suc k" "k < length rqs" by (cases j) auto
  show ?case
  proof (cases i)
    case 0
    with Cons.prems(4) have "r = Inr ()" by (simp add: rq v)
    with v obtain token jti e where tk: "bearer_token authorization = Some token"
      "read_token te (now_seconds now) body token = Inr (jti, e)" "claim_jti jti e (now_seconds now) jc = (True, jc1)"
      by (auto simp: verifyRequestToken_def split: option.splits sum.splits prod.splits bool.splits)
    from run_refuses [OF claim_takes [OF tk(3)] _ tk(2) j(2)] Cons.prems(1,5) tk(1) show ?thesis
      by (auto simp: 0 j(1) rq v)
  next
    case (Suc m)
    with Cons.IH [of m k jc1] Cons.prems j show ?thesis by (simp add: rq v)
  qed
qed simp

section \<open>The token of the worker (src/fetch/executorToken.ts)\<close>

definition EXECUTOR_TOKEN_LIFETIME_SECONDS :: int where "EXECUTOR_TOKEN_LIFETIME_SECONDS = 30"

text \<open>\<open>btoa\<close>, \<open>JSON.stringify\<close>, the text encoder, the signature with the key of the PEM text, and SHA-256.\<close>

record sign_env =
  se_btoa :: "bytes \<Rightarrow> string"
  se_stringify :: "json \<Rightarrow> string"
  se_encode :: "string \<Rightarrow> bytes"
  se_sign :: "string \<Rightarrow> bytes"
  se_sha256 :: "bytes \<Rightarrow> bytes"

definition base64url :: "sign_env \<Rightarrow> bytes \<Rightarrow> string" where
  "base64url se bs =
     map (\<lambda>ch. if ch = CHR ''+'' then CHR ''-'' else if ch = CHR ''/'' then CHR ''_'' else ch)
       (filter (\<lambda>ch. ch \<noteq> CHR ''='') (se_btoa se bs))"

definition token_claims :: "sign_env \<Rightarrow> string \<Rightarrow> string \<Rightarrow> bytes \<Rightarrow> ms \<Rightarrow> json" where
  "token_claims se jti aud body nowMs =
     (let iat = nowMs div 1000
      in JObj [(''iss'', JStr ''utsuroi''), (''aud'', JStr aud), (''iat'', JNum (of_int iat)),
           (''exp'', JNum (of_int (iat + EXECUTOR_TOKEN_LIFETIME_SECONDS))), (''jti'', JStr jti),
           (''bh'', JStr (base64url se (se_sha256 se body)))])"

definition signExecutorToken :: "sign_env \<Rightarrow> string \<Rightarrow> string \<Rightarrow> bytes \<Rightarrow> ms \<Rightarrow> string" where
  "signExecutorToken se jti aud body nowMs =
     (let part = (\<lambda>v. base64url se (se_encode se (se_stringify se v)));
          signingInput = part (JObj [(''alg'', JStr ''EdDSA''), (''typ'', JStr ''JWT'')]) @ ''.'' @
            part (token_claims se jti aud body nowMs)
      in signingInput @ ''.'' @ base64url se (se_sign se signingInput))"

text \<open>The documented behaviour of the codecs, of SHA-256 and of Ed25519 with a matching key pair.\<close>

definition token_laws :: "token_env \<Rightarrow> sign_env \<Rightarrow> bool" where
  "token_laws te se \<longleftrightarrow>
     (\<forall>b. list_all (\<lambda>ch. is_alnum ch \<or> ch \<in> {CHR ''+'', CHR ''/'', CHR ''=''}) (se_btoa se b)) \<and>
     (\<forall>b. te_bytes te (base64url se b) = b) \<and> (\<forall>b. b \<noteq> [] \<longrightarrow> base64url se b \<noteq> '''') \<and>
     (\<forall>t. te_text te (se_encode se t) = t) \<and> (\<forall>t. t \<noteq> '''' \<longrightarrow> se_encode se t \<noteq> []) \<and>
     (\<forall>kvs. te_parse te (se_stringify se (JObj kvs)) = Some (JObj kvs) \<and> se_stringify se (JObj kvs) \<noteq> '''') \<and>
     (\<forall>t. te_verify te t (se_sign se t) \<and> length (se_sign se t) = 64) \<and>
     (\<forall>b. te_digest te b = base64url se (se_sha256 se b))"

lemma base64url_chars: "token_laws te se \<Longrightarrow> list_all base64url_char (base64url se b)"
  unfolding token_laws_def base64url_def base64url_char_def list_all_iff by auto

lemma segment_decodes: "token_laws te se \<Longrightarrow> b \<noteq> [] \<Longrightarrow> decodeSegment te (base64url se b) = Inr b"
  using base64url_chars [of te se b] by (simp add: decodeSegment_def token_laws_def)

lemma part_decodes:
  "token_laws te se \<Longrightarrow> decodeJson te (base64url se (se_encode se (se_stringify se (JObj kvs)))) = Inr (JObj kvs)"
  by (subst decodeJson_def, subst segment_decodes) (auto simp: token_laws_def)

lemma separators: "\<not> base64url_char CHR ''.''" "\<not> js_space CHR ''.''" "base64url_char ch \<Longrightarrow> \<not> js_space ch"
proof -
  show "\<not> base64url_char CHR ''.''" "\<not> js_space CHR ''.''" by code_simp+
  have "\<not> js_space CHR ''_''" "\<not> js_space CHR ''-''" by code_simp+
  moreover have "is_alnum ch \<Longrightarrow> \<not> js_space ch" by (auto simp: is_alnum_def is_digit_def js_space_def)
  ultimately show "base64url_char ch \<Longrightarrow> \<not> js_space ch" by (auto simp: base64url_char_def)
qed

lemma no_dot: "list_all base64url_char t \<Longrightarrow> CHR ''.'' \<notin> set t"
  using separators(1) by (auto simp: list_all_iff)

lemma trim_solid: "list_all (\<lambda>ch. \<not> js_space ch) t \<Longrightarrow> js_trim t = t"
  by (simp add: js_trim_def dropWhile_eq_self_iff list_all_iff)
    (metis dropWhile_eq_self_iff hd_in_set rev_rev_ident set_rev)

lemma token_parts:
  assumes "token_laws te se"
  shows "\<exists>h p. signExecutorToken se jti aud body nowMs = h @ ''.'' @ p @ ''.'' @ base64url se (se_sign se (h @ ''.'' @ p)) \<and>
    decodeJson te h = Inr (JObj [(''alg'', JStr ''EdDSA''), (''typ'', JStr ''JWT'')]) \<and>
    decodeJson te p = Inr (token_claims se jti aud body nowMs) \<and>
    list_all base64url_char h \<and> list_all base64url_char p"
proof (intro exI conjI)
  show "signExecutorToken se jti aud body nowMs =
      base64url se (se_encode se (se_stringify se (JObj [(''alg'', JStr ''EdDSA''), (''typ'', JStr ''JWT'')]))) @ ''.'' @
      base64url se (se_encode se (se_stringify se (token_claims se jti aud body nowMs))) @ ''.'' @
      base64url se (se_sign se (base64url se (se_encode se (se_stringify se (JObj [(''alg'', JStr ''EdDSA''), (''typ'', JStr ''JWT'')]))) @ ''.'' @
        base64url se (se_encode se (se_stringify se (token_claims se jti aud body nowMs)))))"
    by (simp only: signExecutorToken_def Let_def append_assoc)
  show "decodeJson te (base64url se (se_encode se (se_stringify se (token_claims se jti aud body nowMs)))) =
      Inr (token_claims se jti aud body nowMs)"
    unfolding token_claims_def Let_def by (rule part_decodes [OF assms])
qed (rule part_decodes [OF assms] base64url_chars [OF assms])+

lemma signed_token_read:
  assumes "token_laws te se"
  shows "read_token te t body2 (signExecutorToken se jti aud body nowMs) =
    check_token_claims te t body2 (token_claims se jti aud body nowMs)"
proof -
  obtain h p where tk: "signExecutorToken se jti aud body nowMs = h @ ''.'' @ p @ ''.'' @ base64url se (se_sign se (h @ ''.'' @ p))"
    "decodeJson te h = Inr (JObj [(''alg'', JStr ''EdDSA''), (''typ'', JStr ''JWT'')])"
    "decodeJson te p = Inr (token_claims se jti aud body nowMs)" "list_all base64url_char h" "list_all base64url_char p"
    using token_parts [OF assms] by blast
  let ?sg = "base64url se (se_sign se (h @ ''.'' @ p))"
  have "split_on CHR ''.'' (h @ CHR ''.'' # p @ CHR ''.'' # ?sg) = [h, p, ?sg]"
    using no_dot [OF tk(4)] no_dot [OF tk(5)] no_dot [OF base64url_chars [OF assms]]
    by (simp add: split_on_append split_on_none)
  moreover have sig: "te_verify te (h @ ''.'' @ p) (se_sign se (h @ ''.'' @ p))" "length (se_sign se (h @ ''.'' @ p)) = 64"
    using assms unfolding token_laws_def by blast+
  moreover from sig(2) have "se_sign se (h @ ''.'' @ p) \<noteq> []" by fastforce
  then have "decodeSegment te ?sg = Inr (se_sign se (h @ ''.'' @ p))" by (rule segment_decodes [OF assms])
  ultimately show ?thesis
    using tk(1-3) by (simp add: read_token_def forbidden_header_def)
qed

lemma signed_token_bearer:
  assumes "token_laws te se"
  shows "bearer_token (Some (''Bearer '' @ signExecutorToken se jti aud body nowMs)) = Some (signExecutorToken se jti aud body nowMs)"
proof -
  have "list_all (\<lambda>ch. \<not> js_space ch) (signExecutorToken se jti aud body nowMs)"
    using base64url_chars [OF assms] separators(2,3)
    by (auto simp: signExecutorToken_def list_all_iff Let_def)
  from trim_solid [OF this] show ?thesis by (simp add: bearer_token_def truthy_def startsWith_def)
qed

text \<open>
  C38. The executor accepts what the worker signs: with matching keys, a token for a body is accepted with
  that body from five seconds before it was signed to five after its thirty seconds, unless its id was
  used or the memory is full; with a body of another digest it is refused.
\<close>

theorem signed_token_accepted:
  assumes "token_laws te se" and "8 \<le> length jti" "length jti \<le> 128"
    and "nowMs div 1000 - 5 \<le> now div 1000" "now div 1000 \<le> nowMs div 1000 + 35"
    and "jti \<notin> fst ` set (jc_entries jc)" "length (jc_entries jc) < jc_max jc"
  shows "fst (verifyRequestToken te (Some (''Bearer '' @ signExecutorToken se jti EXPECTED_AUDIENCE body nowMs)) body now jc) = Inr () \<and>
    (te_digest te body2 \<noteq> te_digest te body \<longrightarrow>
      fst (verifyRequestToken te (Some (''Bearer '' @ signExecutorToken se jti EXPECTED_AUDIENCE body nowMs)) body2 now jc) =
        Inl ''body hash mismatch'')"
proof -
  have times: "\<not> now_seconds now > of_int (nowMs div 1000 + 30) + TOKEN_SKEW_SECONDS"
    "\<not> of_int (nowMs div 1000) > now_seconds now + TOKEN_SKEW_SECONDS"
  proof -
    have "(of_int (now div 1000) :: rat) \<le> of_int (nowMs div 1000 + 35)" using assms(5) by (simp only: of_int_le_iff)
    then show "\<not> now_seconds now > of_int (nowMs div 1000 + 30) + TOKEN_SKEW_SECONDS"
      by (simp add: now_seconds_def TOKEN_SKEW_SECONDS_def)
    have "(of_int (nowMs div 1000 - 5) :: rat) \<le> of_int (now div 1000)" using assms(4) by (simp only: of_int_le_iff)
    then show "\<not> of_int (nowMs div 1000) > now_seconds now + TOKEN_SKEW_SECONDS"
      by (simp add: now_seconds_def TOKEN_SKEW_SECONDS_def)
  qed
  have check: "check_token_claims te (now_seconds now) b (token_claims se jti EXPECTED_AUDIENCE body nowMs) =
      (if te_digest te b = te_digest te body then Inr (jti, of_int (nowMs div 1000 + 30)) else Inl ''body hash mismatch'')" for b
    using times assms(1-3)
    by (simp add: check_token_claims_def token_claims_def EXPECTED_ISSUER_def EXPECTED_AUDIENCE_def
        EXECUTOR_TOKEN_LIFETIME_SECONDS_def MAX_TOKEN_LIFETIME_SECONDS_def Let_def token_laws_def)
  have free: "claim_jti jti e t jc = (True, (purge_jti t jc)\<lparr>jc_entries := jc_entries (purge_jti t jc) @ [(jti, e)]\<rparr>)" for e t
  proof -
    have "jti \<notin> fst ` set (jc_entries (purge_jti t jc))" using assms(6) by (auto simp: purge_jti_def)
    moreover have "length (jc_entries (purge_jti t jc)) < jc_max jc"
      using assms(7) le_less_trans [OF length_filter_le] by (simp add: purge_jti_def)
    moreover have "jc_max (purge_jti t jc) = jc_max jc" by (simp add: purge_jti_def)
    ultimately show ?thesis by (simp add: claim_jti_def Let_def)
  qed
  have good: "fst (verifyRequestToken te (Some (''Bearer '' @ signExecutorToken se jti EXPECTED_AUDIENCE body nowMs)) body now jc) = Inr ()"
    unfolding verifyRequestToken_def signed_token_bearer [OF assms(1)] option.case signed_token_read [OF assms(1)] check
    by (simp add: free)
  have bad: "fst (verifyRequestToken te (Some (''Bearer '' @ signExecutorToken se jti EXPECTED_AUDIENCE body nowMs)) body2 now jc) =
      Inl ''body hash mismatch''" if "te_digest te body2 \<noteq> te_digest te body"
    unfolding verifyRequestToken_def signed_token_bearer [OF assms(1)] option.case signed_token_read [OF assms(1)] check
    using that by simp
  from good bad show ?thesis by blast
qed

section \<open>The server (executors/gcp-http/src/server.ts)\<close>

definition MAX_REQUEST_BODY_BYTES :: nat where "MAX_REQUEST_BODY_BYTES = 16 * 1024"

definition EXECUTOR_DEFAULT_MAX_BYTES :: nat where "EXECUTOR_DEFAULT_MAX_BYTES = 5 * 1024 * 1024"

record server_request =
  sq_method :: string
  sq_url :: string
  sq_authorization :: "string option"
  sq_contentLength :: "string option"
  sq_chunks :: "bytes list"

record server_options =
  so_token :: token_env
  so_maxBytesCap :: nat
  so_maxInflight :: nat

record server_state =
  gs_jti :: jti_cache
  gs_inflight :: nat

text \<open>The bytes of the body, \<^const>\<open>None\<close> when there are too many.\<close>

fun collect_chunks :: "bytes \<Rightarrow> bytes list \<Rightarrow> bytes option" where
  "collect_chunks acc [] = Some acc"
| "collect_chunks acc (c # cs) =
     (if length acc + length c > MAX_REQUEST_BODY_BYTES then None else collect_chunks (acc @ c) cs)"

definition readBody :: "server_request \<Rightarrow> bytes option" where
  "readBody rq =
     (if (case js_number (orElse (sq_contentLength rq) ''0'') of
            None \<Rightarrow> False | Some declared \<Rightarrow> declared > of_nat MAX_REQUEST_BODY_BYTES)
      then None else collect_chunks [] (sq_chunks rq))"

definition string_pairs :: "json option \<Rightarrow> (string \<times> string) list option" where
  "string_pairs headers =
     (case headers of
        None \<Rightarrow> Some []
      | Some (JObj kvs) \<Rightarrow> those (map (\<lambda>(k, v). map_option (\<lambda>t. (k, t)) (str_field (Some v))) kvs)
      | Some _ \<Rightarrow> None)"

definition byte_limit :: "json option \<Rightarrow> nat option" where
  "byte_limit v =
     (case v of
        None \<Rightarrow> Some EXECUTOR_DEFAULT_MAX_BYTES
      | Some _ \<Rightarrow> (case int_field v of None \<Rightarrow> None | Some n \<Rightarrow> if n \<le> 0 then None else Some (nat n)))"

definition parseRequest :: "token_env \<Rightarrow> bytes \<Rightarrow> nat \<Rightarrow> fetch_input option" where
  "parseRequest te raw cap =
     (case te_parse te (te_text te raw) of
        Some (JObj kvs) \<Rightarrow>
          (case (truthy (str_field (field ''url'' (JObj kvs))), byte_limit (field ''maxBytes'' (JObj kvs)),
                 string_pairs (field ''headers'' (JObj kvs))) of
             (Some url, Some limit, Some hs) \<Rightarrow> Some \<lparr>in_url = url, in_maxBytes = min limit cap, in_headers = hs\<rparr>
           | _ \<Rightarrow> None)
      | _ \<Rightarrow> None)"

text \<open>What becomes of a request: the status of a refusal, or the fetch that starts.\<close>

definition receive :: "server_options \<Rightarrow> ms \<Rightarrow> server_request \<Rightarrow> server_state \<Rightarrow> (nat + fetch_input) \<times> server_state" where
  "receive so now rq s =
     (if sq_method rq \<noteq> ''POST'' \<or> sq_url rq \<noteq> ''/'' then (Inl 404, s)
      else if truthy (sq_authorization rq) = None then (Inl 401, s)
      else (case readBody rq of
              None \<Rightarrow> (Inl 413, s)
            | Some raw \<Rightarrow>
                (case verifyRequestToken (so_token so) (sq_authorization rq) raw now (gs_jti s) of
                   (Inl e, jc) \<Rightarrow> (Inl 401, s\<lparr>gs_jti := jc\<rparr>)
                 | (Inr u, jc) \<Rightarrow>
                     (let s1 = s\<lparr>gs_jti := jc\<rparr>
                      in case parseRequest (so_token so) raw (so_maxBytesCap so) of
                           None \<Rightarrow> (Inl 400, s1)
                         | Some inp \<Rightarrow>
                             if gs_inflight s1 \<ge> so_maxInflight so then (Inl 503, s1)
                             else (Inr inp, s1\<lparr>gs_inflight := gs_inflight s1 + 1\<rparr>)))))"

definition executor_answer :: "(bytes \<Rightarrow> string) \<Rightarrow> ms \<Rightarrow> executor_fault + service_result \<Rightarrow> json" where
  "executor_answer toBase64 duration r =
     (case r of
        Inr x \<Rightarrow>
          JObj [(''kind'', JStr ''response''), (''status'', JNum (of_int (sr_status x))), (''url'', JStr (sr_url x)),
            (''contentType'', case sr_contentType x of None \<Rightarrow> JNull | Some t \<Rightarrow> JStr t),
            (''headers'', JObj (map (\<lambda>(k, v). (k, JStr v)) (sr_headers x))), (''body'', JStr (toBase64 (sr_body x))),
            (''truncated'', JBool (sr_truncated x)), (''durationMs'', JNum (of_int duration))]
      | Inl f \<Rightarrow>
          JObj [(''kind'', JStr ''error''), (''failureClass'', JStr (class_name (xf_class f))), (''message'', JStr (xf_message f))])"

definition finish_fetch :: "server_state \<Rightarrow> server_state" where
  "finish_fetch s = s\<lparr>gs_inflight := gs_inflight s - 1\<rparr>"

text \<open>The requests and the ends of their fetches, in any order; the list holds the fetches that run.\<close>

inductive server_step :: "server_options \<Rightarrow> server_state \<times> fetch_input list \<Rightarrow> server_state \<times> fetch_input list \<Rightarrow> bool" for so where
  refused: "receive so now rq s = (Inl st, s1) \<Longrightarrow> server_step so (s, fs) (s1, fs)"
| started: "receive so now rq s = (Inr inp, s1) \<Longrightarrow> server_step so (s, fs) (s1, inp # fs)"
| finished: "inp \<in> set fs \<Longrightarrow> server_step so (s, fs) (finish_fetch s, remove1 inp fs)"

inductive_cases server_stepE: "server_step so w w'"

definition server_ok :: "server_options \<Rightarrow> server_state \<times> fetch_input list \<Rightarrow> bool" where
  "server_ok so w \<longleftrightarrow> gs_inflight (fst w) = length (snd w) \<and> length (snd w) \<le> so_maxInflight so \<and>
     list_all (\<lambda>inp. in_maxBytes inp \<le> so_maxBytesCap so) (snd w)"

lemma receive_refused: "receive so now rq s = (Inl st, s1) \<Longrightarrow> gs_inflight s1 = gs_inflight s"
  by (auto simp: receive_def Let_def split: if_splits option.splits prod.splits sum.splits)

lemma parse_cap: "parseRequest te raw cap = Some inp \<Longrightarrow> in_maxBytes inp \<le> cap"
  by (auto simp: parseRequest_def split: option.splits json.splits prod.splits)

lemma receive_started:
  "receive so now rq s = (Inr inp, s1) \<Longrightarrow>
   gs_inflight s1 = gs_inflight s + 1 \<and> gs_inflight s < so_maxInflight so \<and> in_maxBytes inp \<le> so_maxBytesCap so"
  by (auto simp: receive_def Let_def split: if_splits option.splits prod.splits sum.splits dest: parse_cap)

lemma server_ok_step: "server_step so w w' \<Longrightarrow> server_ok so w \<Longrightarrow> server_ok so w'"
proof (induction rule: server_step.induct)
  case (finished inp fs s)
  then show ?case by (auto simp: server_ok_def finish_fetch_def length_remove1 list_all_iff dest: notin_set_remove1)
qed (auto simp: server_ok_def dest: receive_refused receive_started)

lemma server_ok_run: "(server_step so)\<^sup>*\<^sup>* w w' \<Longrightarrow> server_ok so w \<Longrightarrow> server_ok so w'"
  by (induction rule: rtranclp_induct) (auto intro: server_ok_step)

text \<open>
  C39. The executor never runs more fetches than its limit, and its counter is their number, in every
  order of requests and ends; each running fetch asks for at most the cap of bytes.
\<close>

theorem executor_fetches_bounded:
  assumes "(server_step so)\<^sup>*\<^sup>* (\<lparr>gs_jti = new_jti_cache, gs_inflight = 0\<rparr>, []) (s, fs)"
  shows "gs_inflight s = length fs \<and> length fs \<le> so_maxInflight so \<and> list_all (\<lambda>inp. in_maxBytes inp \<le> so_maxBytesCap so) fs"
  using server_ok_run [OF assms] by (simp add: server_ok_def)

section \<open>What the worker reads\<close>

lemma answer_fields:
  "field ''kind'' (executor_answer toBase64 d (Inr x)) = Some (JStr ''response'')"
  "field ''status'' (executor_answer toBase64 d (Inr x)) = Some (JNum (of_int (sr_status x)))"
  "field ''url'' (executor_answer toBase64 d (Inr x)) = Some (JStr (sr_url x))"
  "field ''headers'' (executor_answer toBase64 d (Inr x)) = Some (JObj (map (\<lambda>(k, v). (k, JStr v)) (sr_headers x)))"
  "field ''body'' (executor_answer toBase64 d (Inr x)) = Some (JStr (toBase64 (sr_body x)))"
  "field ''truncated'' (executor_answer toBase64 d (Inr x)) = Some (JBool (sr_truncated x))"
  by (simp_all add: executor_answer_def)

lemma error_fields:
  "field ''kind'' (executor_answer toBase64 d (Inl f)) = Some (JStr ''error'')"
  "field ''failureClass'' (executor_answer toBase64 d (Inl f)) = Some (JStr (class_name (xf_class f)))"
  "field ''message'' (executor_answer toBase64 d (Inl f)) = Some (JStr (xf_message f))"
  by (simp_all add: executor_answer_def)

lemma class_read: "c \<in> set EXECUTOR_FAILURE_CLASSES \<Longrightarrow> executor_class (class_name c) = Some c"
proof -
  have "list_all (\<lambda>c. executor_class (class_name c) = Some c) EXECUTOR_FAILURE_CLASSES" by code_simp
  then show "c \<in> set EXECUTOR_FAILURE_CLASSES \<Longrightarrow> ?thesis" by (simp add: list_all_iff)
qed

lemma error_read:
  "xf_class f \<in> set EXECUTOR_FAILURE_CLASSES \<Longrightarrow>
   outcomeFromExecutorPayload pf (executor_answer toBase64 d (Inl f)) invUrl ua limits startedAt now names guard =
     Inr (failure (xf_class f) None (prefix names @ '': '' @ xf_message f) None)"
  by (simp only: outcomeFromExecutorPayload_def error_fields executor_error_def str_field.simps orElse_def Let_def
      class_read option.case if_True simp_thms)

lemma answer_read:
  "outcomeFromExecutorPayload pf (executor_answer toBase64 d (Inr x)) invUrl ua limits startedAt now names guard =
     (if sr_status x < 200 \<or> sr_status x > 599
      then Inr (failure Internal_error None (label names @ '' returned a malformed response'') None)
      else executor_response pf (sr_status x) (sr_url x) (map (\<lambda>(k, v). (k, JStr v)) (sr_headers x)) (toBase64 (sr_body x))
        (sr_truncated x) invUrl ua limits startedAt now names guard)"
proof -
  have facts: "int_field (Some (JNum (of_int k))) = Some k" "Some (JStr ''response'') \<noteq> Some (JStr ''error'')" for k by simp_all
  show ?thesis
    unfolding outcomeFromExecutorPayload_def answer_fields facts str_field.simps obj_field.simps bool_field.simps
      option.case prod.case if_not_P [OF facts(2)] by (simp only: HOL.simp_thms if_False)
qed

text \<open>
  C40. The worker understands every answer of the executor: a failure keeps its class, and a response is
  classified with the status, the URL, the headers and the bytes the executor fetched, as the worker's own
  fetcher classifies a response. Only a status outside 200 to 599, which the executor passes on, is not
  understood: it ends as \<^const>\<open>Internal_error\<close>.
\<close>

theorem executor_answer_understood:
  assumes "\<And>b. atob pf (toBase64 b) = Some b" and "\<And>f. r = Inl f \<Longrightarrow> xf_class f \<in> set EXECUTOR_FAILURE_CLASSES"
  shows "outcomeFromExecutorPayload pf (executor_answer toBase64 d r) invUrl ua limits startedAt now names None =
    (case r of
       Inl f \<Rightarrow> Inr (failure (xf_class f) None (prefix names @ '': '' @ xf_message f) None)
     | Inr x \<Rightarrow>
         if sr_status x < 200 \<or> sr_status x > 599
         then Inr (failure Internal_error None (label names @ '' returned a malformed response'') None)
         else if sr_truncated x \<and> (sr_status x < 300 \<or> sr_status x = 403) then Inr (too_large (sr_status x) (maxBytes limits))
         else handleTerminalResponse pf
           \<lparr>hr_status = sr_status x, hr_headers = synthetic_headers pf (map (\<lambda>(k, v). (k, JStr v)) (sr_headers x)),
            hr_body = (if null_body_status (sr_status x) \<or> sr_body x = [] then NoBody else Stream [sr_body x] None)\<rparr>
           (sr_url x) (plain_request invUrl ua) limits startedAt now)"
proof (cases r)
  case (Inl f)
  show ?thesis unfolding Inl error_read [OF assms(2) [OF Inl]] by simp
next
  case (Inr x)
  have response: "executor_response pf st url hs (toBase64 b) t invUrl ua limits startedAt now names None =
      (if t \<and> (st \<ge> 200 \<and> st < 300 \<or> st = 403) then Inr (too_large st (maxBytes limits))
       else handleTerminalResponse pf
         \<lparr>hr_status = st, hr_headers = synthetic_headers pf hs,
          hr_body = (if null_body_status st \<or> b = [] then NoBody else Stream [b] None)\<rparr>
         url (plain_request invUrl ua) limits startedAt now)" for st url hs b t
    unfolding executor_response_def guard_refusal_def assms(1) option.case by (rule refl)
  show ?thesis unfolding Inr answer_read response sum.case by (intro if_cong refl) auto
qed

section \<open>A concrete executor\<close>

text \<open>Bytes as two letters each, JSON by its number.\<close>

fun letters :: "bytes \<Rightarrow> string" where
  "letters [] = ''''"
| "letters (b # bs) = char_of (97 + unat b div 16) # char_of (97 + unat b mod 16) # letters bs"

fun unletters :: "string \<Rightarrow> bytes" where
  "unletters (c # d # cs) = word_of_nat (16 * (of_char c - 97) + (of_char d - 97)) # unletters cs"
| "unletters _ = []"

lemma byte_small: "unat (b :: 8 word) < 256"
  using unsigned_less [of b, where ?'a = nat] by simp

lemma byte_halves:
  "unat (b :: 8 word) div 16 < 16"
  "(of_char (char_of (97 + unat b div 16) :: char) :: nat) = 97 + unat b div 16"
  "(of_char (char_of (97 + unat b mod 16) :: char) :: nat) = 97 + unat b mod 16"
  using byte_small [of b] by (simp_all add: less_mult_imp_div_less)

lemma unletters_letters: "unletters (letters bs) = bs"
  by (induction bs) (simp_all add: byte_halves del: of_char_of)

lemma letter_alnum: "n < 16 \<Longrightarrow> is_alnum (char_of (97 + n :: nat))"
  by (simp add: is_alnum_def is_digit_def)

lemma letters_alnum: "list_all is_alnum (letters bs)"
  by (induction bs) (simp_all add: letter_alnum byte_halves)

instance json :: countable
  by countable_datatype

definition demo_signer :: sign_env where
  "demo_signer = \<lparr>se_btoa = letters, se_stringify = (\<lambda>j. replicate (Suc (to_nat j)) CHR ''1''),
     se_encode = map (\<lambda>c. word_of_nat (of_char c)), se_sign = (\<lambda>t. replicate 64 0), se_sha256 = id\<rparr>"

definition demo_checker :: token_env where
  "demo_checker = \<lparr>te_parse = (\<lambda>t. Some (from_nat (length t - 1))), te_bytes = unletters,
     te_text = map (\<lambda>b. char_of (unat b)), te_verify = (\<lambda>t sg. True), te_digest = letters\<rparr>"

lemma demo_base64: "base64url demo_signer bs = letters bs"
proof -
  have "\<not> is_alnum CHR ''=''" "\<not> is_alnum CHR ''+''" "\<not> is_alnum CHR ''/''" by code_simp+
  then have "is_alnum ch \<Longrightarrow> ch \<noteq> CHR ''='' \<and> ch \<noteq> CHR ''+'' \<and> ch \<noteq> CHR ''/''" for ch
    by metis
  with letters_alnum [of bs] have "\<forall>ch \<in> set (letters bs). ch \<noteq> CHR ''='' \<and> ch \<noteq> CHR ''+'' \<and> ch \<noteq> CHR ''/''"
    by (auto simp: list_all_iff)
  then have "filter (\<lambda>ch. ch \<noteq> CHR ''='') (letters bs) = letters bs"
    "map (\<lambda>ch. if ch = CHR ''+'' then CHR ''-'' else if ch = CHR ''/'' then CHR ''_'' else ch) (letters bs) = letters bs"
    by (simp_all add: filter_id_conv map_idI)
  then show ?thesis by (simp only: base64url_def demo_signer_def sign_env.simps)
qed

lemma demo_char_byte: "char_of (unat (word_of_nat (of_char c) :: 8 word)) = (c :: char)"
  by (simp add: unsigned_of_nat take_bit_eq_mod)

lemma demo_laws: "token_laws demo_checker demo_signer"
proof -
  have "list_all (\<lambda>ch. is_alnum ch \<or> ch \<in> {CHR ''+'', CHR ''/'', CHR ''=''}) (letters b)" for b
    using letters_alnum [of b] by (auto simp: list_all_iff)
  moreover have "b \<noteq> [] \<Longrightarrow> letters b \<noteq> ''''" for b by (cases b) auto
  ultimately show ?thesis
    by (simp add: token_laws_def demo_base64 unletters_letters)
      (simp add: demo_checker_def demo_signer_def unletters_letters demo_char_byte comp_def)
qed

theorem signed_token_accepted_witness:
  "fst (verifyRequestToken demo_checker
      (Some (''Bearer '' @ signExecutorToken demo_signer ''12345678'' EXPECTED_AUDIENCE [1] 5000)) [1] 9000 new_jti_cache) = Inr ()"
  using signed_token_accepted [OF demo_laws, of "''12345678''" 5000 9000 new_jti_cache "[1]" "[2]"]
  by (simp add: new_jti_cache_def MAX_JTI_ENTRIES_def)

text \<open>A reader of four texts: the header \<open>h\<close>, the claims \<open>p\<close> and \<open>q\<close>, the request \<open>r\<close>.\<close>

definition demo_texts :: token_env where
  "demo_texts = \<lparr>
     te_parse = (\<lambda>t. if t = ''h'' then Some (JObj [(''alg'', JStr ''EdDSA'')])
        else if t = ''r'' then Some (JObj [(''url'', JStr ''https://h/''), (''maxBytes'', JNum 50)])
        else Some (JObj [(''iss'', JStr EXPECTED_ISSUER), (''aud'', JStr EXPECTED_AUDIENCE), (''iat'', JNum 5), (''exp'', JNum 35),
          (''jti'', JStr (concat (replicate 8 t))), (''bh'', JStr ''d'')])),
     te_bytes = (\<lambda>t. if t = ''s'' then replicate 64 0 else map (\<lambda>c. word_of_nat (of_char c)) t),
     te_text = map (\<lambda>b. char_of (unat b)), te_verify = (\<lambda>t sg. True), te_digest = (\<lambda>b. ''d'')\<rparr>"

definition demo_posts :: "(ms \<times> string option \<times> bytes) list" where
  "demo_posts = [(9000, Some ''Bearer h.p.s'', []), (9500, Some ''Bearer h.p.s'', []), (9900, Some ''Bearer h.q.s'', [])]"

lemma demo_posts_accepted: "token_run demo_texts demo_posts new_jti_cache = [Inr (), Inl ''replayed token'', Inr ()]"
  by code_simp

theorem token_accepted_once_witness:
  "bearer_token (fst (snd (demo_posts ! 0))) \<noteq> bearer_token (fst (snd (demo_posts ! 2)))"
  using token_accepted_once [of demo_posts 0 2 demo_texts new_jti_cache]
  by (simp add: demo_posts_accepted) (simp add: demo_posts_def)

definition demo_server :: server_options where
  "demo_server = \<lparr>so_token = demo_texts, so_maxBytesCap = 100, so_maxInflight = 1\<rparr>"

definition demo_post :: "string \<Rightarrow> server_request" where
  "demo_post token = \<lparr>sq_method = ''POST'', sq_url = ''/'', sq_authorization = Some (''Bearer '' @ token), sq_contentLength = None,
     sq_chunks = [[114]]\<rparr>"

lemma demo_body: "readBody (demo_post token) = Some [114]"
proof -
  have "js_number ''0'' = Some 0" by code_simp
  then show ?thesis by (simp add: readBody_def demo_post_def orElse_def MAX_REQUEST_BODY_BYTES_def)
qed

lemma demo_verified: "fst (verifyRequestToken demo_texts (Some ''Bearer h.p.s'') [114] 9000 new_jti_cache) = Inr ()"
  by code_simp

lemma demo_parsed: "parseRequest demo_texts [114] 100 = Some \<lparr>in_url = ''https://h/'', in_maxBytes = 50, in_headers = []\<rparr>"
proof -
  have "char_of (114 :: nat) = CHR ''r''" by code_simp
  then show ?thesis by (simp add: parseRequest_def demo_texts_def truthy_def byte_limit_def string_pairs_def)
qed

lemma demo_receive:
  "\<exists>jc. receive demo_server 9000 (demo_post ''h.p.s'') \<lparr>gs_jti = new_jti_cache, gs_inflight = 0\<rparr> =
     (Inr \<lparr>in_url = ''https://h/'', in_maxBytes = 50, in_headers = []\<rparr>, \<lparr>gs_jti = jc, gs_inflight = 1\<rparr>)"
proof -
  obtain jc where v: "verifyRequestToken demo_texts (Some ''Bearer h.p.s'') [114] 9000 new_jti_cache = (Inr (), jc)"
    using demo_verified by (metis prod.collapse)
  have rq: "sq_method (demo_post t) = ''POST''" "sq_url (demo_post t) = ''/''"
    "sq_authorization (demo_post t) = Some (''Bearer '' @ t)" "so_token demo_server = demo_texts"
    "so_maxBytesCap demo_server = 100" "so_maxInflight demo_server = 1" for t
    by (simp_all add: demo_post_def demo_server_def)
  show ?thesis
    by (simp add: receive_def rq demo_body v demo_parsed truthy_def)
qed

theorem executor_fetches_bounded_witness:
  "\<exists>s fs. (server_step demo_server)\<^sup>*\<^sup>* (\<lparr>gs_jti = new_jti_cache, gs_inflight = 0\<rparr>, []) (s, fs) \<and> fs \<noteq> [] \<and> gs_inflight s = length fs"
proof -
  obtain jc where "receive demo_server 9000 (demo_post ''h.p.s'') \<lparr>gs_jti = new_jti_cache, gs_inflight = 0\<rparr> =
      (Inr \<lparr>in_url = ''https://h/'', in_maxBytes = 50, in_headers = []\<rparr>, \<lparr>gs_jti = jc, gs_inflight = 1\<rparr>)"
    using demo_receive by blast
  from r_into_rtranclp [of "server_step demo_server", OF started [OF this]] executor_fetches_bounded show ?thesis by blast
qed

definition demo_reader :: platform where
  "demo_reader = \<lparr>newURL = (\<lambda>u b. None), decodeText = map (\<lambda>b. char_of (unat b)), dateParse = (\<lambda>s. None),
     atob = (\<lambda>s. Some (unletters s)), validHeader = (\<lambda>k v. True)\<rparr>"

theorem executor_answer_understood_witness:
  "outcomeFromExecutorPayload demo_reader
     (executor_answer letters 7 (Inr \<lparr>sr_status = 999, sr_url = ''https://h/'', sr_contentType = None, sr_headers = [], sr_body = [1],
        sr_truncated = False\<rparr>))
     ''https://h/'' ''ua'' DEFAULT_FETCH_LIMITS 0 7 \<lparr>label = ''gcp executor'', prefix = ''gcp-http''\<rparr> None =
   Inr (failure Internal_error None ''gcp executor returned a malformed response'' None)"
  by (subst executor_answer_understood) (simp_all add: demo_reader_def unletters_letters)


end
