(* ===== verification/Host_Object.thy ===== *)
theory Host_Object
  imports Contracts
begin

text \<open>
  HostObject (src/do/hostObject.ts): rate limit, leases, backoff and circuit breaker of one
  canonical origin. The state is the record the object stores under the key \<open>state\<close>; each
  operation loads it, changes it and saves it. \<open>crypto.randomUUID()\<close> is the argument
  \<open>uuid\<close> of an acquisition, the clock is its argument \<open>now\<close>.
\<close>

section \<open>State and operations\<close>

definition MIN_ACCESS_INTERVAL_MS :: ms where "MIN_ACCESS_INTERVAL_MS = 10000"
definition MAX_CONCURRENT_LEASES :: nat where "MAX_CONCURRENT_LEASES = 2"
definition LEASE_TTL_MS :: ms where "LEASE_TTL_MS = 60000"
definition CIRCUIT_BREAKER_THRESHOLD :: nat where "CIRCUIT_BREAKER_THRESHOLD = 5"
definition CIRCUIT_OPEN_MS :: ms where "CIRCUIT_OPEN_MS = 5 * 60000"
definition BASE_BACKOFF_MS :: ms where "BASE_BACKOFF_MS = 10000"
definition MAX_BACKOFF_MS :: ms where "MAX_BACKOFF_MS = 5 * 60000"

lemmas host_consts = MIN_ACCESS_INTERVAL_MS_def MAX_CONCURRENT_LEASES_def LEASE_TTL_MS_def
  CIRCUIT_BREAKER_THRESHOLD_def CIRCUIT_OPEN_MS_def BASE_BACKOFF_MS_def MAX_BACKOFF_MS_def

record host_state =
  activeLeases :: "(string \<times> ms) list"
  lastAcquireAt :: "ms option"
  nextAllowedAt :: "ms option"
  failureStreak :: nat
  circuitOpenUntil :: "ms option"
  halfOpenProbeLeaseId :: "string option"

text \<open>What the storage holds: \<open>Partial<HostState>\<close>, each field may be missing.\<close>

record stored_host =
  st_activeLeases :: "(string \<times> ms) list option"
  st_lastAcquireAt :: "ms option option"
  st_nextAllowedAt :: "ms option option"
  st_failureStreak :: "nat option"
  st_circuitOpenUntil :: "ms option option"
  st_halfOpenProbeLeaseId :: "string option option"

definition emptyState :: host_state where
  "emptyState = \<lparr>activeLeases = [], lastAcquireAt = None, nextAllowedAt = None,
     failureStreak = 0, circuitOpenUntil = None, halfOpenProbeLeaseId = None\<rparr>"

definition loadState :: "stored_host option \<Rightarrow> host_state" where
  "loadState stored =
     (case stored of
        None \<Rightarrow> emptyState
      | Some p \<Rightarrow>
          \<lparr>activeLeases = orElse (st_activeLeases p) (activeLeases emptyState),
           lastAcquireAt = orElse (st_lastAcquireAt p) (lastAcquireAt emptyState),
           nextAllowedAt = orElse (st_nextAllowedAt p) (nextAllowedAt emptyState),
           failureStreak = orElse (st_failureStreak p) (failureStreak emptyState),
           circuitOpenUntil = orElse (st_circuitOpenUntil p) (circuitOpenUntil emptyState),
           halfOpenProbeLeaseId =
             orElse (st_halfOpenProbeLeaseId p) (halfOpenProbeLeaseId emptyState)\<rparr>)"

definition saveState :: "host_state \<Rightarrow> stored_host option" where
  "saveState s = Some
     \<lparr>st_activeLeases = Some (activeLeases s), st_lastAcquireAt = Some (lastAcquireAt s),
      st_nextAllowedAt = Some (nextAllowedAt s), st_failureStreak = Some (failureStreak s),
      st_circuitOpenUntil = Some (circuitOpenUntil s),
      st_halfOpenProbeLeaseId = Some (halfOpenProbeLeaseId s)\<rparr>"

definition backoffMsFor :: "nat \<Rightarrow> ms" where
  "backoffMsFor streak =
     (if streak \<le> 0 then 0 else min MAX_BACKOFF_MS (BASE_BACKOFF_MS * 2 ^ (streak - 1)))"

text \<open>
  The loop over a copy of the entries: an expired lease is deleted, and the probe slot is
  freed when the deleted lease is the probe.
\<close>

definition expire_one :: "ms \<Rightarrow> host_state \<Rightarrow> string \<times> ms \<Rightarrow> host_state" where
  "expire_one now s entry =
     (if now - snd entry \<ge> LEASE_TTL_MS then
        (let s' = s\<lparr>activeLeases := AList.delete (fst entry) (activeLeases s)\<rparr>
         in if halfOpenProbeLeaseId s' = Some (fst entry)
            then s'\<lparr>halfOpenProbeLeaseId := None\<rparr> else s')
      else s)"

definition expireStaleLeases :: "host_state \<Rightarrow> ms \<Rightarrow> host_state" where
  "expireStaleLeases s now = foldl (expire_one now) s (activeLeases s)"

definition earliestNext :: "host_state \<Rightarrow> ms" where
  "earliestNext s =
     max (case lastAcquireAt s of None \<Rightarrow> 0 | Some t \<Rightarrow> t + MIN_ACCESS_INTERVAL_MS)
         (orElse (nextAllowedAt s) 0)"

definition acquireLease ::
  "string \<Rightarrow> ms \<Rightarrow> stored_host option \<Rightarrow> stored_host option \<times> host_lease_result" where
  "acquireLease uuid now stored =
     (let s = expireStaleLeases (loadState stored) now;
          held = s\<lparr>activeLeases := AList.update uuid now (activeLeases s),
                   lastAcquireAt := Some now\<rparr>
      in case circuitOpenUntil s of
           Some until \<Rightarrow>
             if now < until then (stored, refuse (until - now))
             else if halfOpenProbeLeaseId s \<noteq> None
             then (saveState s, refuse MIN_ACCESS_INTERVAL_MS)
             else (saveState (held\<lparr>halfOpenProbeLeaseId := Some uuid,
                                   circuitOpenUntil := None\<rparr>), grant uuid)
         | None \<Rightarrow>
             if length (activeLeases s) \<ge> MAX_CONCURRENT_LEASES
             then (saveState s, refuse MIN_ACCESS_INTERVAL_MS)
             else if now < earliestNext s then (saveState s, refuse (earliestNext s - now))
             else (saveState held, grant uuid))"

definition release_outcome :: "ms \<Rightarrow> lease_outcome \<Rightarrow> host_state \<Rightarrow> host_state" where
  "release_outcome now outcome s =
     (case fst outcome of
        Some Executor_unavailable \<Rightarrow> s
      | None \<Rightarrow> s\<lparr>failureStreak := 0, circuitOpenUntil := None, nextAllowedAt := None\<rparr>
      | Some fc \<Rightarrow>
          (let streak = failureStreak s + 1;
               backoff = backoffMsFor streak;
               waitMs = (case (fc, snd outcome) of
                           (Http_429, Some secs) \<Rightarrow> max backoff (secs * 1000)
                         | _ \<Rightarrow> backoff);
               s' = s\<lparr>failureStreak := streak, nextAllowedAt := Some (now + waitMs)\<rparr>
           in if streak \<ge> CIRCUIT_BREAKER_THRESHOLD
              then s'\<lparr>circuitOpenUntil := Some (now + CIRCUIT_OPEN_MS)\<rparr> else s'))"

definition releaseLease ::
  "string \<Rightarrow> lease_outcome \<Rightarrow> ms \<Rightarrow> stored_host option \<Rightarrow> stored_host option" where
  "releaseLease lid outcome now stored =
     (let s = loadState stored;
          s1 = s\<lparr>activeLeases := AList.delete lid (activeLeases s)\<rparr>;
          s2 = (if halfOpenProbeLeaseId s1 = Some lid
                then s1\<lparr>halfOpenProbeLeaseId := None\<rparr> else s1)
      in saveState (release_outcome now outcome s2))"

section \<open>Basic facts\<close>

lemma loadState_saveState [simp]: "loadState (saveState s) = s"
  by (simp add: loadState_def saveState_def)

lemma backoffMsFor_le: "backoffMsFor n \<le> MAX_BACKOFF_MS"
  by (simp add: backoffMsFor_def host_consts)

lemma backoffMsFor_nonneg: "0 \<le> backoffMsFor n"
  by (simp add: backoffMsFor_def host_consts)

lemma backoffMsFor_mono: "m \<le> n \<Longrightarrow> backoffMsFor m \<le> backoffMsFor n"
proof (cases "m = 0")
  case False
  assume "m \<le> n"
  with False have "(2::int) ^ (m - 1) \<le> 2 ^ (n - 1)" by (intro power_increasing) auto
  then have "min MAX_BACKOFF_MS (BASE_BACKOFF_MS * 2 ^ (m - 1))
      \<le> min MAX_BACKOFF_MS (BASE_BACKOFF_MS * 2 ^ (n - 1))"
    by (intro min.mono) (auto simp: host_consts)
  with False \<open>m \<le> n\<close> show ?thesis
    by (simp add: backoffMsFor_def)
qed (simp add: backoffMsFor_def host_consts)

text \<open>The loop removes exactly the leases past their time to live.\<close>

lemma expire_one_leases:
  "activeLeases (expire_one now s e) =
    filter (\<lambda>p. fst p = fst e \<longrightarrow> now - snd e < LEASE_TTL_MS) (activeLeases s)"
  by (auto simp: expire_one_def Let_def AList.delete_eq intro!: filter_cong)

lemma expire_fold_leases:
  "activeLeases (foldl (expire_one now) s es) =
    filter (\<lambda>p. \<forall>e \<in> set es. fst p = fst e \<longrightarrow> now - snd e < LEASE_TTL_MS) (activeLeases s)"
  by (induction es arbitrary: s) (auto simp: expire_one_leases intro!: filter_cong)

lemma expire_activeLeases:
  assumes "distinct (map fst (activeLeases s))"
  shows "activeLeases (expireStaleLeases s now) =
    filter (\<lambda>p. now - snd p < LEASE_TTL_MS) (activeLeases s)"
proof -
  have "e = p" if "e \<in> set (activeLeases s)" "p \<in> set (activeLeases s)" "fst p = fst e" for e p
    using assms that by (metis eq_key_imp_eq_value prod.collapse)
  then show ?thesis
    unfolding expireStaleLeases_def expire_fold_leases by (fastforce intro!: filter_cong)
qed

lemma expire_fold_other:
  "lastAcquireAt (foldl (expire_one now) s es) = lastAcquireAt s \<and>
   nextAllowedAt (foldl (expire_one now) s es) = nextAllowedAt s \<and>
   failureStreak (foldl (expire_one now) s es) = failureStreak s \<and>
   circuitOpenUntil (foldl (expire_one now) s es) = circuitOpenUntil s"
  by (induction es arbitrary: s) (auto simp: expire_one_def Let_def)

lemma expire_simps [simp]:
  "lastAcquireAt (expireStaleLeases s now) = lastAcquireAt s"
  "nextAllowedAt (expireStaleLeases s now) = nextAllowedAt s"
  "failureStreak (expireStaleLeases s now) = failureStreak s"
  "circuitOpenUntil (expireStaleLeases s now) = circuitOpenUntil s"
  by (simp_all add: expireStaleLeases_def expire_fold_other)

lemma expire_fold_probe:
  "halfOpenProbeLeaseId (foldl (expire_one now) s es) =
     (case halfOpenProbeLeaseId s of
        None \<Rightarrow> None
      | Some p \<Rightarrow> if \<exists>g. (p, g) \<in> set es \<and> now - g \<ge> LEASE_TTL_MS then None else Some p)"
  by (induction es arbitrary: s) (auto simp: expire_one_def Let_def split: option.splits)

lemma expire_probe:
  assumes "distinct (map fst (activeLeases s))"
    and "\<forall>p. halfOpenProbeLeaseId s = Some p \<longrightarrow> p \<in> fst ` set (activeLeases s)"
    and "halfOpenProbeLeaseId (expireStaleLeases s now) = Some p"
  shows "halfOpenProbeLeaseId s = Some p \<and>
    p \<in> fst ` set (activeLeases (expireStaleLeases s now))"
proof -
  from assms(3) have p: "halfOpenProbeLeaseId s = Some p"
    and fresh: "\<And>g. (p, g) \<in> set (activeLeases s) \<Longrightarrow> now - g < LEASE_TTL_MS"
    by (auto simp: expireStaleLeases_def expire_fold_probe not_le split: option.splits if_splits)
  from assms(2) p obtain g where "(p, g) \<in> set (activeLeases s)" by auto
  with fresh p show ?thesis by (force simp: expire_activeLeases [OF assms(1)])
qed

section \<open>The implementation of the HostLimiter contract\<close>

definition held_leases :: "stored_host option \<Rightarrow> string set" where
  "held_leases st = fst ` set (activeLeases (loadState st))"

lemma expire_held_subset:
  "fst ` set (activeLeases (expireStaleLeases s now)) \<subseteq> fst ` set (activeLeases s)"
  by (auto simp: expireStaleLeases_def expire_fold_leases)

lemma release_outcome_leases [simp]:
  "activeLeases (release_outcome now out s) = activeLeases s"
  "lastAcquireAt (release_outcome now out s) = lastAcquireAt s"
  "halfOpenProbeLeaseId (release_outcome now out s) = halfOpenProbeLeaseId s"
  by (auto simp: release_outcome_def Let_def split: option.splits failure_class.splits)

text \<open>
  The three ways an acquisition ends: refused with nothing written (the open circuit), refused
  with the expired leases written back, or granted in one of the two states that allow it.
\<close>

definition can_grant :: "host_state \<Rightarrow> ms \<Rightarrow> bool" where
  "can_grant s t \<longleftrightarrow>
     (case circuitOpenUntil s of
        None \<Rightarrow> length (activeLeases s) < MAX_CONCURRENT_LEASES \<and> earliestNext s \<le> t
      | Some until \<Rightarrow> until \<le> t \<and> halfOpenProbeLeaseId s = None)"

lemma acquireLease_cases:
  assumes "acquireLease u t st = (st', r)" and "s = expireStaleLeases (loadState st) t"
  obtains (refused) "\<not> granted r" "leaseId r = None" "retryAfterMs r \<noteq> None"
      "st' = st \<or> st' = saveState s" "\<not> can_grant s t"
  | (granted) p where "granted r" "leaseId r = Some u" "can_grant s t"
      "st' = saveState (s\<lparr>activeLeases := AList.update u t (activeLeases s),
         lastAcquireAt := Some t, circuitOpenUntil := None, halfOpenProbeLeaseId := p\<rparr>)"
      "p = halfOpenProbeLeaseId s \<or> p = Some u"
proof (cases "can_grant s t")
  case True
  define p where "p = (if circuitOpenUntil s = None then halfOpenProbeLeaseId s else Some u)"
  have "granted r \<and> leaseId r = Some u \<and>
      st' = saveState (s\<lparr>activeLeases := AList.update u t (activeLeases s),
         lastAcquireAt := Some t, circuitOpenUntil := None, halfOpenProbeLeaseId := p\<rparr>)"
    using assms True unfolding p_def
    by (auto simp: acquireLease_def Let_def can_grant_def grant_def saveState_def
        split: option.splits)
  with True show ?thesis using granted [of p] by (auto simp: p_def)
next
  case False
  then show ?thesis
    using assms refused
    by (auto simp: acquireLease_def Let_def can_grant_def refuse_def not_le not_less
        split: option.splits if_splits)
qed

interpretation hl: host_limiter acquireLease releaseLease held_leases
proof unfold_locales
  fix u t h h' r
  assume *: "acquireLease u t h = (h', r)" "granted r"
  show "leaseId r = Some u \<and> u \<in> held_leases h' \<and> held_leases h' \<subseteq> insert u (held_leases h)"
    using *(2) expire_held_subset [of "loadState h" t]
    by (cases rule: acquireLease_cases [OF *(1) refl]) (auto simp: held_leases_def)
next
  fix u t h h' r
  assume *: "acquireLease u t h = (h', r)" "\<not> granted r"
  have "held_leases (saveState (expireStaleLeases (loadState h) t)) \<subseteq> held_leases h"
    using expire_held_subset [of "loadState h" t] by (simp add: held_leases_def)
  with *(2) show "leaseId r = None \<and> held_leases h' \<subseteq> held_leases h \<and> retryAfterMs r \<noteq> None"
    by (cases rule: acquireLease_cases [OF *(1) refl]) auto
next
  fix l out t h
  show "held_leases (releaseLease l out t h) = held_leases h - {l}"
    by (simp add: held_leases_def releaseLease_def Let_def)
qed

section \<open>Runs of the object and their invariant\<close>

text \<open>
  The object serialises its operations and its clock does not go back. \<open>hw_grants\<close> is a ghost
  list of the times of all granted acquisitions, the latest first.
\<close>

record host_world =
  hw_store :: "stored_host option"
  hw_clock :: ms
  hw_grants :: "ms list"

definition do_acquire :: "string \<Rightarrow> ms \<Rightarrow> host_world \<Rightarrow> host_world" where
  "do_acquire u t w =
     (case acquireLease u t (hw_store w) of
        (st, r) \<Rightarrow> w\<lparr>hw_store := st, hw_clock := t,
                     hw_grants := (if granted r then t # hw_grants w else hw_grants w)\<rparr>)"

definition do_release :: "string \<Rightarrow> lease_outcome \<Rightarrow> ms \<Rightarrow> host_world \<Rightarrow> host_world" where
  "do_release l out t w = w\<lparr>hw_store := releaseLease l out t (hw_store w), hw_clock := t\<rparr>"

inductive host_step :: "host_world \<Rightarrow> host_world \<Rightarrow> bool" where
  acquire: "hw_clock w \<le> t \<Longrightarrow> u \<notin> held_leases (hw_store w) \<Longrightarrow> host_step w (do_acquire u t w)"
| release: "hw_clock w \<le> t \<Longrightarrow> host_step w (do_release l out t w)"

inductive host_reachable :: "host_world \<Rightarrow> bool" where
  init: "host_reachable \<lparr>hw_store = None, hw_clock = t0, hw_grants = []\<rparr>"
| step: "host_reachable w \<Longrightarrow> host_step w w' \<Longrightarrow> host_reachable w'"

inductive_cases host_step_E: "host_step w w'"

definition host_ok :: "host_state \<Rightarrow> ms \<Rightarrow> bool" where
  "host_ok s clock \<longleftrightarrow>
     distinct (map fst (activeLeases s)) \<and>
     length (activeLeases s) \<le> MAX_CONCURRENT_LEASES \<and>
     sorted_wrt (\<lambda>a b. a + MIN_ACCESS_INTERVAL_MS \<le> b) (map snd (activeLeases s)) \<and>
     (\<forall>g \<in> snd ` set (activeLeases s). \<exists>a. lastAcquireAt s = Some a \<and> g \<le> a) \<and>
     (\<forall>a. lastAcquireAt s = Some a \<longrightarrow> a \<le> clock) \<and>
     (\<forall>u. circuitOpenUntil s = Some u \<longrightarrow>
        (\<forall>a. lastAcquireAt s = Some a \<longrightarrow> a + CIRCUIT_OPEN_MS \<le> u)) \<and>
     (\<forall>p. halfOpenProbeLeaseId s = Some p \<longrightarrow> p \<in> fst ` set (activeLeases s))"

definition grants_ok :: "host_state \<Rightarrow> ms list \<Rightarrow> bool" where
  "grants_ok s gs \<longleftrightarrow>
     lastAcquireAt s = (case gs of [] \<Rightarrow> None | g # _ \<Rightarrow> Some g) \<and>
     sorted_wrt (\<lambda>b a. a + MIN_ACCESS_INTERVAL_MS \<le> b) gs"

definition host_inv :: "host_world \<Rightarrow> bool" where
  "host_inv w \<longleftrightarrow> host_ok (loadState (hw_store w)) (hw_clock w) \<and>
     grants_ok (loadState (hw_store w)) (hw_grants w)"

lemma host_ok_expire:
  assumes "host_ok s c" "c \<le> t"
  shows "host_ok (expireStaleLeases s t) t"
proof -
  have d: "distinct (map fst (activeLeases s))" using assms by (simp add: host_ok_def)
  have probe: "halfOpenProbeLeaseId (expireStaleLeases s t) = Some p \<Longrightarrow>
      p \<in> fst ` set (activeLeases (expireStaleLeases s t))" for p
    using expire_probe [OF d, of t p] assms(1) by (simp add: host_ok_def)
  show ?thesis
    using assms probe
      order_trans [OF length_filter_le [of "\<lambda>p. t - snd p < LEASE_TTL_MS" "activeLeases s"]]
    unfolding host_ok_def
    by (auto simp: expire_activeLeases [OF d] distinct_map_filter
        intro: sorted_wrt_map_filter)
qed

text \<open>
  Once the circuit's open window has passed no lease is left: they were granted before it
  opened, and their time to live is shorter than the window.
\<close>

lemma host_ok_open_window:
  assumes "host_ok s c" "c \<le> t" "circuitOpenUntil s = Some u" "u \<le> t"
  shows "activeLeases (expireStaleLeases s t) = []"
proof -
  have "t - snd p \<ge> LEASE_TTL_MS" if "p \<in> set (activeLeases s)" for p
  proof -
    from assms(1) that obtain a where "lastAcquireAt s = Some a" "snd p \<le> a"
      unfolding host_ok_def by fastforce
    moreover from this assms(1,3) have "a + CIRCUIT_OPEN_MS \<le> u"
      by (auto simp: host_ok_def)
    ultimately show ?thesis using assms(4) by (simp add: host_consts)
  qed
  moreover have "distinct (map fst (activeLeases s))" using assms(1) by (simp add: host_ok_def)
  ultimately show ?thesis by (fastforce simp: expire_activeLeases filter_empty_conv)
qed

text \<open>Adding a fresh lease at a time far enough from the last one keeps the invariant.\<close>

lemma host_ok_grant:
  assumes "host_ok s t" "u \<notin> fst ` set (activeLeases s)"
    and "length (activeLeases s) < MAX_CONCURRENT_LEASES"
    and "\<And>a. lastAcquireAt s = Some a \<Longrightarrow> a + MIN_ACCESS_INTERVAL_MS \<le> t"
    and "p = halfOpenProbeLeaseId s \<or> p = Some u"
  shows "host_ok (s\<lparr>activeLeases := AList.update u t (activeLeases s),
    lastAcquireAt := Some t, circuitOpenUntil := None, halfOpenProbeLeaseId := p\<rparr>) t"
proof -
  have upd: "AList.update u t (activeLeases s) = activeLeases s @ [(u, t)]"
    using assms(2) by (rule AList_update_new)
  have far: "g + MIN_ACCESS_INTERVAL_MS \<le> t" if "g \<in> snd ` set (activeLeases s)" for g
    using assms(1,4) that unfolding host_ok_def by fastforce
  have le: "g \<le> t" if "g \<in> snd ` set (activeLeases s)" for g
    using far [OF that] by (simp add: host_consts)
  show ?thesis
    using assms(1-3,5) far le by (auto simp: host_ok_def upd sorted_wrt_append)
qed

lemma grants_ok_grant:
  assumes "grants_ok s gs" "\<And>a. lastAcquireAt s = Some a \<Longrightarrow> a + MIN_ACCESS_INTERVAL_MS \<le> t"
    and "lastAcquireAt s' = Some t"
  shows "grants_ok s' (t # gs)"
proof (cases gs)
  case (Cons g gs')
  then show ?thesis using assms by (fastforce simp: grants_ok_def host_consts)
qed (use assms in \<open>simp add: grants_ok_def\<close>)

lemma host_inv_acquire:
  assumes "host_inv w" "hw_clock w \<le> t" "u \<notin> held_leases (hw_store w)"
  shows "host_inv (do_acquire u t w)"
proof -
  define s0 where "s0 = loadState (hw_store w)"
  define s where "s = expireStaleLeases s0 t"
  have ok0: "host_ok s0 (hw_clock w)" and gr: "grants_ok s0 (hw_grants w)"
    using assms(1) by (simp_all add: host_inv_def s0_def)
  have ok: "host_ok s t" unfolding s_def by (rule host_ok_expire [OF ok0 assms(2)])
  have ok0': "host_ok s0 t" using ok0 assms(2) by (fastforce simp: host_ok_def)
  have grs: "grants_ok s (hw_grants w)" using gr by (simp add: grants_ok_def s_def)
  have fresh: "u \<notin> fst ` set (activeLeases s)"
    using assms(3) expire_held_subset unfolding s_def s0_def held_leases_def by blast
  have can: "length (activeLeases s) < MAX_CONCURRENT_LEASES \<and>
      (\<forall>a. lastAcquireAt s = Some a \<longrightarrow> a + MIN_ACCESS_INTERVAL_MS \<le> t)" if "can_grant s t"
  proof (cases "circuitOpenUntil s")
    case None
    with that show ?thesis by (auto simp: can_grant_def earliestNext_def)
  next
    case (Some until)
    with that have "until \<le> t" "circuitOpenUntil s0 = Some until"
      by (simp_all add: can_grant_def s_def)
    then have "activeLeases s = []"
      unfolding s_def by (intro host_ok_open_window [OF ok0 assms(2)])
    then show ?thesis
      using ok Some \<open>until \<le> t\<close> by (fastforce simp: host_ok_def host_consts)
  qed
  obtain st r where acq: "acquireLease u t (hw_store w) = (st, r)" by fastforce
  from acq s_def [unfolded s0_def] show ?thesis
  proof (cases rule: acquireLease_cases)
    case refused
    then show ?thesis
      using ok ok0' gr grs by (auto simp: do_acquire_def acq host_inv_def s0_def)
  next
    case (granted p)
    then have "host_ok (loadState st) t" "grants_ok (loadState st) (t # hw_grants w)"
      using can by (auto intro!: host_ok_grant [OF ok fresh] grants_ok_grant [OF grs])
    with granted show ?thesis by (simp add: do_acquire_def acq host_inv_def)
  qed
qed

lemma host_inv_release:
  assumes "host_inv w" "hw_clock w \<le> t"
  shows "host_inv (do_release l out t w)"
proof -
  define s where "s = loadState (hw_store w)"
  define s2 where "s2 = (let s1 = s\<lparr>activeLeases := AList.delete l (activeLeases s)\<rparr>
    in if halfOpenProbeLeaseId s1 = Some l then s1\<lparr>halfOpenProbeLeaseId := None\<rparr> else s1)"
  have "host_ok s (hw_clock w)" and gr: "grants_ok s (hw_grants w)"
    using assms(1) by (simp_all add: host_inv_def s_def)
  then have ok: "host_ok s2 t"
    using assms(2) order_trans [OF length_AList_delete_le [of l "activeLeases s"]]
    unfolding host_ok_def s2_def Let_def
    by (auto simp: distinct_delete set_AList_delete sorted_wrt_AList_delete)
  have "circuitOpenUntil (release_outcome t out s2) \<in> {None, circuitOpenUntil s2, Some (t + CIRCUIT_OPEN_MS)}"
    by (auto simp: release_outcome_def Let_def split: option.splits failure_class.splits)
  with ok have "host_ok (release_outcome t out s2) t"
    by (auto simp: host_ok_def)
  moreover have "grants_ok (release_outcome t out s2) (hw_grants w)"
    using gr by (auto simp: grants_ok_def s2_def Let_def)
  ultimately show ?thesis unfolding s2_def
    by (simp add: do_release_def releaseLease_def host_inv_def s_def [symmetric] Let_def
        split: if_splits)
qed

lemma host_step_inv: "host_step w w' \<Longrightarrow> host_inv w \<Longrightarrow> host_inv w'"
  by (auto elim!: host_step_E intro: host_inv_acquire host_inv_release)

lemma host_reachable_inv: "host_reachable w \<Longrightarrow> host_inv w"
proof (induction rule: host_reachable.induct)
  case (init t0)
  show ?case
    by (simp add: host_inv_def host_ok_def grants_ok_def loadState_def emptyState_def)
next
  case (step w w')
  then show ?case by (blast intro: host_step_inv)
qed

text \<open>Releases are always possible; repeated ones build the runs of the examples below.\<close>

lemma host_clock_releases: "hw_clock w = t \<Longrightarrow> hw_clock ((do_release l out t ^^ n) w) = t"
  by (induction n) (simp_all add: do_release_def)

lemma host_reachable_releases:
  assumes "host_reachable w" "hw_clock w = t"
  shows "host_reachable ((do_release l out t ^^ n) w)"
proof -
  have "host_step ((do_release l out t ^^ n) w) ((do_release l out t ^^ Suc n) w)" for n
    using host_step.release [of "(do_release l out t ^^ n) w" t l out] assms(2)
    by (simp add: host_clock_releases)
  then show ?thesis
    by (induction n) (simp_all add: assms(1) host_reachable.step)
qed

lemma failing_releases:
  assumes "fc \<noteq> Executor_unavailable" and "fc = Http_429 \<longrightarrow> ra = None \<or> ra = Some 3600"
  shows "hw_store ((do_release l (Some fc, ra) 0 ^^ 5) \<lparr>hw_store = None, hw_clock = 0, hw_grants = []\<rparr>) =
    saveState (emptyState\<lparr>failureStreak := 5, circuitOpenUntil := Some 300000, nextAllowedAt :=
      Some (if fc = Http_429 \<and> ra = Some 3600 then 3600000 else 160000)\<rparr>)"
proof -
  have rel: "hw_store ((do_release l out 0 ^^ Suc n) w) =
      releaseLease l out 0 (hw_store ((do_release l out 0 ^^ n) w))" for out n w
    by (simp add: do_release_def)
  have one: "releaseLease l (Some fc, ra) 0 st = saveState (emptyState\<lparr>failureStreak := Suc n,
      circuitOpenUntil := (if 4 \<le> n then Some 300000 else None), nextAllowedAt :=
      Some (if fc = Http_429 \<and> ra = Some 3600 then 3600000 else backoffMsFor (Suc n))\<rparr>)"
    if "loadState st = emptyState\<lparr>failureStreak := n, circuitOpenUntil := None,
      nextAllowedAt := na\<rparr>" for n na st
    using assms that backoffMsFor_le [of "Suc n"]
    by (cases fc; cases ra) (auto simp: releaseLease_def release_outcome_def Let_def emptyState_def
        CIRCUIT_BREAKER_THRESHOLD_def CIRCUIT_OPEN_MS_def MAX_BACKOFF_MS_def)
  have run: "n \<le> 4 \<Longrightarrow> \<exists>na. loadState (hw_store ((do_release l (Some fc, ra) 0 ^^ n)
        \<lparr>hw_store = None, hw_clock = 0, hw_grants = []\<rparr>)) =
      emptyState\<lparr>failureStreak := n, circuitOpenUntil := None, nextAllowedAt := na\<rparr>" for n
  proof (induction n)
    case 0
    show ?case by (auto simp: loadState_def emptyState_def)
  next
    case (Suc n)
    then obtain na where "loadState (hw_store ((do_release l (Some fc, ra) 0 ^^ n)
        \<lparr>hw_store = None, hw_clock = 0, hw_grants = []\<rparr>)) =
      emptyState\<lparr>failureStreak := n, circuitOpenUntil := None, nextAllowedAt := na\<rparr>"
      by auto
    from one [OF this] Suc.prems show ?case unfolding rel by auto
  qed
  obtain na where "loadState (hw_store ((do_release l (Some fc, ra) 0 ^^ 4)
        \<lparr>hw_store = None, hw_clock = 0, hw_grants = []\<rparr>)) =
      emptyState\<lparr>failureStreak := 4, circuitOpenUntil := None, nextAllowedAt := na\<rparr>"
    using run [of 4] by auto
  note five = rel [of 4] one [OF this]
  have "backoffMsFor 5 = 160000" by (simp add: backoffMsFor_def host_consts)
  then show ?thesis
    using five(1) [of "(Some fc, ra)" "\<lparr>hw_store = None, hw_clock = 0, hw_grants = []\<rparr>"]
    unfolding five(2) by simp
qed

lemmas host_eval = do_acquire_def do_release_def acquireLease_def releaseLease_def
  release_outcome_def expireStaleLeases_def expire_one_def loadState_def emptyState_def
  saveState_def earliestNext_def grant_def refuse_def host_consts held_leases_def
  backoffMsFor_def

section \<open>Properties\<close>

text \<open>
  C1. The host is never loaded beyond the limits. In every run of the object (any interleaving
  of acquisitions and releases at non-decreasing times, releases of unknown ids included) at
  most two leases are held, and any two granted acquisitions, also those made by half-open
  probes, which skip the interval check, are at least ten seconds apart.
\<close>

theorem host_rate_limited:
  assumes "host_reachable w"
  shows "card (held_leases (hw_store w)) \<le> 2 \<and>
    sorted_wrt (\<lambda>later earlier. earlier + 10000 \<le> later) (hw_grants w)"
proof -
  have inv: "host_inv w" by (rule host_reachable_inv [OF assms])
  have "card (held_leases (hw_store w)) \<le> length (activeLeases (loadState (hw_store w)))"
    unfolding held_leases_def using card_length [of "map fst (activeLeases (loadState (hw_store w)))"]
    by simp
  with inv show ?thesis
    by (auto simp: host_inv_def host_ok_def grants_ok_def host_consts)
qed

lemma host_rate_limited_witness:
  "\<exists>w. host_reachable w \<and> length (hw_grants w) = 2 \<and> card (held_leases (hw_store w)) \<le> 2 \<and>
    sorted_wrt (\<lambda>later earlier. earlier + 10000 \<le> later) (hw_grants w)"
proof -
  let ?w0 = "\<lparr>hw_store = None, hw_clock = 0, hw_grants = []\<rparr>"
  let ?w1 = "do_acquire ''a'' 5000 ?w0"
  let ?w2 = "do_acquire ''b'' 15000 ?w1"
  have "host_step ?w0 ?w1" by (rule host_step.acquire) (simp_all add: host_eval)
  moreover have "host_step ?w1 ?w2" by (rule host_step.acquire) (simp_all add: host_eval)
  ultimately have r: "host_reachable ?w2" by (blast intro: host_reachable.intros)
  have "length (hw_grants ?w2) = 2" by (simp add: host_eval)
  with r host_rate_limited [OF r] show ?thesis by blast
qed

text \<open>
  While the circuit is open no acquisition is granted, nothing is written, and the wait
  that is returned ends exactly when the window does: an acquisition at that moment is granted
  as the half-open probe.
\<close>

theorem open_circuit_refuses:
  assumes "circuitOpenUntil (loadState st) = Some until" "now < until"
    and "halfOpenProbeLeaseId (loadState st) = None"
  shows "acquireLease u now st = (st, refuse (until - now)) \<and>
    granted (snd (acquireLease u (now + (until - now)) st)) \<and>
    halfOpenProbeLeaseId (loadState (fst (acquireLease u (now + (until - now)) st))) = Some u"
proof -
  have "halfOpenProbeLeaseId (expireStaleLeases (loadState st) until) = None"
    using assms(3) by (simp add: expireStaleLeases_def expire_fold_probe)
  with assms show ?thesis by (simp add: acquireLease_def Let_def grant_def)
qed

lemma open_circuit_refuses_witness:
  "acquireLease ''u'' 100 (saveState (emptyState\<lparr>circuitOpenUntil := Some 300\<rparr>)) =
     (saveState (emptyState\<lparr>circuitOpenUntil := Some 300\<rparr>), refuse 200)"
  using open_circuit_refuses [of "saveState (emptyState\<lparr>circuitOpenUntil := Some 300\<rparr>)" 300 100 "''u''"]
  by (simp add: emptyState_def)


text \<open>
  The half-open state does not admit a single probe only. There is a run in which the probe
  lease is still pending and a second acquisition, ten seconds after it, is granted.
\<close>

theorem half_open_probe_not_exclusive:
  "\<exists>w u t p. host_reachable w \<and> hw_clock w \<le> t \<and>
     halfOpenProbeLeaseId (loadState (hw_store w)) = Some p \<and>
     p \<in> held_leases (fst (acquireLease u t (hw_store w))) \<and>
     granted (snd (acquireLease u t (hw_store w)))"
proof -
  let ?w0 = "\<lparr>hw_store = None, hw_clock = 0, hw_grants = []\<rparr>"
  let ?w5 = "(do_release ''x'' (Some Http_5xx, None) 0 ^^ 5) ?w0"
  let ?w6 = "do_acquire ''p'' 300000 ?w5"
  have r5: "host_reachable ?w5"
    by (intro host_reachable_releases host_reachable.init) simp
  have st: "hw_store ?w5 = saveState (emptyState\<lparr>failureStreak := 5,
      circuitOpenUntil := Some 300000, nextAllowedAt := Some 160000\<rparr>)"
    using failing_releases [of Http_5xx None "''x''"] by simp
  have "host_step ?w5 ?w6"
    by (rule host_step.acquire) (simp_all add: st host_clock_releases held_leases_def emptyState_def)
  with r5 have r6: "host_reachable ?w6" by (rule host_reachable.step)
  have s6: "hw_store ?w6 = saveState (emptyState\<lparr>activeLeases := [(''p'', 300000)],
      lastAcquireAt := Some 300000, failureStreak := 5, nextAllowedAt := Some 160000,
      halfOpenProbeLeaseId := Some ''p''\<rparr>)"
    by (simp add: do_acquire_def acquireLease_def st expireStaleLeases_def emptyState_def grant_def)
  have "hw_clock ?w6 \<le> 310000 \<and>
      halfOpenProbeLeaseId (loadState (hw_store ?w6)) = Some ''p'' \<and>
      ''p'' \<in> held_leases (fst (acquireLease ''q'' 310000 (hw_store ?w6))) \<and>
      granted (snd (acquireLease ''q'' 310000 (hw_store ?w6)))"
    unfolding s6
    by (simp add: acquireLease_def expireStaleLeases_def expire_one_def emptyState_def grant_def
        earliestNext_def held_leases_def host_consts do_acquire_def split: prod.splits)
  with r6 show ?thesis by blast
qed

text \<open>
  The half-open probe does not wait for a \<open>Retry-After\<close>. There is a run in which the last
  429 asked for an hour and an acquisition is granted before that hour is over.
\<close>

theorem probe_ignores_retry_after:
  "\<exists>w u t n. host_reachable w \<and> hw_clock w \<le> t \<and>
     nextAllowedAt (loadState (hw_store w)) = Some n \<and> t < n \<and>
     granted (snd (acquireLease u t (hw_store w)))"
proof -
  let ?w0 = "\<lparr>hw_store = None, hw_clock = 0, hw_grants = []\<rparr>"
  let ?w5 = "(do_release ''x'' (Some Http_429, Some 3600) 0 ^^ 5) ?w0"
  have r5: "host_reachable ?w5"
    by (intro host_reachable_releases host_reachable.init) simp
  have st: "hw_store ?w5 = saveState (emptyState\<lparr>failureStreak := 5,
      circuitOpenUntil := Some 300000, nextAllowedAt := Some 3600000\<rparr>)"
    using failing_releases [of Http_429 "Some 3600" "''x''"] by simp
  have "hw_clock ?w5 \<le> 300000 \<and> nextAllowedAt (loadState (hw_store ?w5)) = Some 3600000 \<and>
      (300000::int) < 3600000 \<and> granted (snd (acquireLease ''q'' 300000 (hw_store ?w5)))"
    by (simp add: st host_clock_releases acquireLease_def expireStaleLeases_def emptyState_def
        grant_def)
  with r5 show ?thesis by blast
qed

end
