(* ===== verification/Traversal_Bounds.thy ===== *)
theory Traversal_Bounds
  imports Check_Pipeline
begin

text \<open>
  How much work one check does: a size of the database that grows by a bounded amount per feed item,
  child and fetch grows by a bounded amount over a traversal, because the fetches of a check are
  bounded. The locale states this once; it is interpreted on the attempts and on the targets.
\<close>

section \<open>The counters\<close>

lemma filter_items_fetches: "fetchesUsed (snd (filterItemsForTraversal xs cutoff n)) = fetchesUsed n"
  by (induction xs arbitrary: n) (simp_all split: option.split prod.split, metis snd_conv)

lemma eligible_fetches: "fetchesUsed (snd (eligible_children up pats cutoff es n)) = fetchesUsed n"
proof (induction es arbitrary: n)
  case (Cons e es)
  then show ?case by (cases e) (simp split: option.split prod.split, metis snd_conv)
qed simp

lemma select_children_facts:
  assumes "select_children lts c parsed n = (es, n1)"
  shows "length es \<le> 20" "fetchesUsed n1 = fetchesUsed n"
  using assms eligible_fetches
  by (auto simp: select_children_def selectChildEntries_def MAX_CHILD_SITEMAPS_def split: prod.splits if_splits)
    (metis snd_conv)+

lemma enter_child_fetches: "fetchesUsed (snd (snd (enter_child c url lastmod w))) = fetchesUsed (snd w)"
  by (cases w) (auto simp: enter_child_def Let_def split: prod.split)

section \<open>A bounded size\<close>

locale traversal_cost =
  fixes size :: "'n check_state \<Rightarrow> nat" and item entry fetch :: nat
  assumes items: "size (snd (processFeedItems c kept MAX_FEED_ITEMS_PER_CHECK False s)) \<le> size s + item"
    and entered: "size (fst (snd (enter_child c url lastmod w))) \<le> size (fst w) + entry"
    and permitted: "size (snd (child_permitted c url s)) = size s"
    and fetched: "size (snd (fetch_child te c url t s)) \<le> size s + fetch"
    and advanced: "size (advance_child c t lastmod s) = size s"
    and stored: "size (put_body k v s) = size s"
    and snapped: "size (snd (store_snapshot c inp s)) = size s"
    and noted: "size (recordTruncationIfAny c n d lts s) = size s"
begin

definition document :: nat where "document = max item (20 * entry)"

definition cost :: nat where "cost = fetch + document"

text \<open>The fetches used stay within the limit, and every fetch pays for what it adds.\<close>

definition paid :: "traversal_limits \<Rightarrow> nat \<Rightarrow> 'n trav \<Rightarrow> 'n trav \<Rightarrow> bool" where
  "paid lts extra w w1 \<longleftrightarrow>
     fetchesUsed (snd w) \<le> fetchesUsed (snd w1) \<and>
     fetchesUsed (snd w1) \<le> max (fetchesUsed (snd w)) (tl_maxFetches lts) \<and>
     size (fst w1) + cost * fetchesUsed (snd w) \<le> size (fst w) + cost * fetchesUsed (snd w1) + extra"

lemma paid_trans: "paid lts a w w1 \<Longrightarrow> paid lts b w1 w2 \<Longrightarrow> paid lts (a + b) w w2"
  by (auto simp: paid_def)

lemma paid_more: "paid lts a w w1 \<Longrightarrow> a \<le> b \<Longrightarrow> paid lts b w w1"
  by (auto simp: paid_def)

lemma paid_urlset: "paid lts document w (snd (expand_urlset lts c parsed w))"
proof -
  obtain s n where w: "w = (s, n)" by fastforce
  obtain kept n1 where f: "filterItemsForTraversal (pr_items parsed) (tl_cutoff lts) n = (kept, n1)" by fastforce
  with filter_items_fetches [of "pr_items parsed" "tl_cutoff lts" n] have n1: "fetchesUsed n1 = fetchesUsed n" by simp
  have "item \<le> document" by (simp add: document_def)
  with items [of c kept s] n1 show ?thesis
    by (auto simp: w paid_def expand_urlset_def f split: prod.split sum.split)
qed

lemma paid_open:
  assumes "open_child te lts c url lastmod w = (r, w1)"
  shows "paid lts entry w w1"
    and "r = Inr (Some x) \<Longrightarrow> size (fst w1) + cost * fetchesUsed (snd w) + document \<le>
      size (fst w) + cost * fetchesUsed (snd w1) + entry"
    and "r = Inr (Some x) \<Longrightarrow> fetchesUsed (snd w) \<le> fetchesUsed (snd w1)"
    and "r = Inr (Some x) \<Longrightarrow> fetchesUsed (snd w1) \<le> max (fetchesUsed (snd w)) (tl_maxFetches lts)"
proof -
  obtain o1 s1 n1 where e: "enter_child c url lastmod w = (o1, (s1, n1))" by (metis prod.exhaust)
  with entered [of c url lastmod w] enter_child_fetches [of c url lastmod w]
  have one: "size s1 \<le> size (fst w) + entry" "fetchesUsed n1 = fetchesUsed (snd w)" by simp_all
  obtain ok s2 where p: "child_permitted c url s1 = (ok, s2)" by fastforce
  with permitted [of c url s1] have two: "size s2 = size s1" by simp
  have three: "fetch_child te c url t s2 = (y, s3) \<Longrightarrow> size s3 \<le> size s2 + fetch" for t y s3
    using fetched [of te c url t s2] by simp
  show "paid lts entry w w1"
    using assms one two
    by (auto simp: open_child_def e p paid_def cost_def split: option.splits sum.splits prod.splits if_splits dest!: three)
  show "r = Inr (Some x) \<Longrightarrow> size (fst w1) + cost * fetchesUsed (snd w) + document \<le>
      size (fst w) + cost * fetchesUsed (snd w1) + entry"
    and "r = Inr (Some x) \<Longrightarrow> fetchesUsed (snd w) \<le> fetchesUsed (snd w1)"
    and "r = Inr (Some x) \<Longrightarrow> fetchesUsed (snd w1) \<le> max (fetchesUsed (snd w)) (tl_maxFetches lts)"
    using assms one two
    by (auto simp: open_child_def e p cost_def split: option.splits sum.splits prod.splits if_splits dest!: three)
qed

lemma paid_traverse:
  "paid lts entry w (snd (traverseChild te lts c url lastmod depth w))"
  "paid lts document w (snd (expand_child te lts c parsed depth w))"
  "paid lts (entry * length es) w (snd (traverse_children te lts c es depth w))"
proof (induction te lts c url lastmod depth w and te lts c parsed depth w and te lts c es depth w
    rule: traverseChild_expand_child_traverse_children.induct)
  case (1 te lts c url lastmod depth w)
  obtain r w1 where o1: "open_child te lts c url lastmod w = (r, w1)" by (metis prod.exhaust)
  note open_facts = paid_open [OF o1]
  show ?case
  proof (cases "\<exists>t parsed. r = Inr (Some (t, parsed))")
    case False
    then have "snd (traverseChild te lts c url lastmod depth w) = w1"
      by (cases r) (auto simp: traverseChild.simps o1 split: option.split)
    with open_facts(1) show ?thesis by simp
  next
    case True
    then obtain t parsed where r: "r = Inr (Some (t, parsed))" by blast
    obtain y s2 n2 where e: "expand_child te lts c parsed depth w1 = (y, (s2, n2))" by (metis prod.exhaust)
    have "paid lts document w1 (s2, n2)" using 1 [OF o1 [symmetric]] r e by (auto simp: o1)
    with open_facts(2-4) [OF r] have "paid lts entry w (s2, n2)" by (auto simp: paid_def)
    then show ?thesis
      by (cases y) (auto simp: traverseChild.simps o1 r e paid_def advanced)
  qed
next
  case (2 te lts c parsed depth w)
  show ?case
  proof (cases "pr_kind parsed = Sitemap \<or> \<not> int depth + 1 < tl_maxDepth lts")
    case True
    with paid_urlset [of lts w c parsed] show ?thesis
      by (auto simp: expand_child.simps paid_def)
  next
    case False
    obtain es n1 where sel: "select_children lts c parsed (snd w) = (es, n1)" by fastforce
    note sel_facts = select_children_facts [OF sel]
    obtain y w2 where t: "traverse_children te lts c es (Suc depth) (fst w, n1) = (y, w2)" by (metis prod.exhaust)
    have "paid lts (entry * length es) (fst w, n1) w2"
      using 2 False sel t by auto
    moreover have "entry * length es \<le> document"
      using sel_facts(1) by (simp add: document_def le_max_iff_disj mult.commute)
    ultimately have "paid lts document w w2"
      using sel_facts(2) by (auto simp: paid_def)
    then show ?thesis
      using False by (cases y) (auto simp: expand_child.simps sel t)
  qed
next
  case (3 te lts c depth w)
  then show ?case by (simp add: traverse_children.simps paid_def)
next
  case (4 te lts c e es depth w)
  obtain y w1 where t: "traverseChild te lts c (fst e) (snd e) depth w = (y, w1)" by (metis prod.exhaust)
  have one: "paid lts entry w w1" using 4(1) by (simp add: t)
  show ?case
  proof (cases y)
    case (Inl err)
    with one show ?thesis by (auto simp: traverse_children.simps t intro: paid_more)
  next
    case (Inr u)
    have "paid lts (entry * length es) w1 (snd (traverse_children te lts c es depth w1))"
      using 4(2) [OF t [symmetric]] Inr by simp
    from paid_trans [OF one this] show ?thesis
      by (simp add: traverse_children.simps t Inr)
  qed
qed

lemma traversal_size:
  "size (snd (processSitemapTraversal te m c i s)) \<le> size s + (document + cost * m)"
proof -
  have doc: "size (fst (snd (traverse_document te lts c parsed (s2, newCounts)))) \<le> size s2 + (document + cost * m)"
    if "tl_maxFetches lts = m" for lts parsed s2
  proof -
    have "paid lts document (s2, newCounts) (snd (traverse_document te lts c parsed (s2, newCounts)))"
    proof (cases "pr_kind parsed = Sitemap")
      case True
      with paid_urlset [of lts "(s2, newCounts)" c parsed] show ?thesis
        by (auto simp: traverse_document_def split: prod.split sum.split)
    next
      case False
      obtain es n1 where sel: "select_children lts c parsed newCounts = (es, n1)" by fastforce
      note sel_facts = select_children_facts [OF sel]
      have "entry * length es \<le> document"
        using sel_facts(1) by (simp add: document_def le_max_iff_disj mult.commute)
      with paid_traverse(3) [of lts es "(s2, n1)" te c 0] False sel_facts(2) show ?thesis
        by (auto simp: traverse_document_def traverseSitemapIndex_def sel paid_def)
    qed
    then have "fetchesUsed (snd (snd (traverse_document te lts c parsed (s2, newCounts)))) \<le> m"
      and sz: "size (fst (snd (traverse_document te lts c parsed (s2, newCounts)))) \<le>
        size s2 + cost * fetchesUsed (snd (snd (traverse_document te lts c parsed (s2, newCounts)))) + document"
      using that by (auto simp: paid_def newCounts_def)
    with mult_le_mono2 [OF this(1), of cost] show ?thesis by linarith
  qed
  have snap: "store_snapshot c inp s1 = (r, s2) \<Longrightarrow> size s2 = size s1" for inp s1 r s2
    using snapped [of c inp s1] by simp
  have lts: "tl_maxFetches (traversal_limits_of te c now m) = m" for now
    by (simp add: traversal_limits_of_def)
  have run: "traverse_document te (traversal_limits_of te c now m) c parsed (s2, newCounts) = (r, (s3, n)) \<Longrightarrow>
      size s3 \<le> size s2 + (document + cost * m)" for now parsed s2 r s3 n
    using doc [OF lts, of now parsed s2] by simp
  show ?thesis
    by (auto simp: processSitemapTraversal_def Let_def stored noted split: sum.split prod.split
        dest!: snap run)
qed

end

section \<open>Attempts\<close>

abbreviation attempts_of :: "'n check_state \<Rightarrow> nat" where
  "attempts_of s \<equiv> length (check_attempts (db_of s))"

lemma fetch_attempts:
  assumes f: "fetchTargetThroughPolicy rt p j fs = (r, fs1)"
  shows "length (check_attempts (store fs1)) \<le> length (check_attempts (store fs)) + 9"
proof -
  let ?run = "runFetchSequence p (executeFetcher rt j) (\<lambda>t s. s\<lparr>outside := rt_sleep rt t (outside s)\<rparr>)
    (default_opts\<lparr>isRetryable := Some (\<lambda>fid. \<not> is_pull fid)\<rparr>) (fs\<lparr>nextIndex := 0, lastAttemptId := None\<rparr>)"
  obtain x s1 where run: "?run = (x, s1)" by fastforce
  with f have same: "fs1 = s1"
    by (auto simp: fetchTargetThroughPolicy_def split: sum.splits prod.splits)
  show ?thesis
  proof (cases x)
    case (Inl e)
    from sequence_refused [OF _ run [unfolded Inl]] same show ?thesis by (simp add: default_opts_def)
  next
    case (Inr y)
    obtain oc att where y: "y = (oc, att)" by fastforce
    from recorded.sequence_relates [OF run [unfolded Inr y]] obtain rows where
      "check_attempts (store s1) = check_attempts (store fs) @ rows" "map summary rows = map (expected j) att"
      by (auto simp: recorded_def)
    moreover from this(2) have "length rows = length att" by (metis length_map)
    moreover have "length att \<le> 9"
      using run [unfolded Inr y]
      by (auto simp: runFetchSequence_def default_opts_def planAttempts_def DEFAULT_TRANSIENT_RETRIES_def
          DEFAULT_MAX_ATTEMPTS_def split: sum.splits if_splits prod.splits dest!: run_plan_length)
    ultimately show ?thesis using same by simp
  qed
qed

definition same_attempts :: "db \<Rightarrow> db \<Rightarrow> bool" where
  "same_attempts d d1 \<longleftrightarrow> length (check_attempts d1) = length (check_attempts d)"

interpretation calm: stage_frame same_attempts
  by unfold_locales
    (auto simp: same_attempts_def upsertTarget_def setTargetLastChecked_def setTargetLastKnownUpdatedAt_def insertChangeIfNew_def
      createDeliveryIfNew_def updateChangeTitle_def setChangeTagsIfNull_def createSnapshot_def Let_def
      split: option.split)

interpretation calm: settle_frame same_attempts
  by unfold_locales
    (auto simp: same_attempts_def createCheckJobIfNew_def updateCheckJobStatus_def setMonitorNextRun_def setMonitorLastChecked_def
      policyStopMonitor_def createRobotsEvaluation_def with_monitor_def Let_def split: option.split)

lemma db_of_fetch [simp]: "db_of (s\<lparr>cx_fetch := fs\<rparr>) = store fs"
  by (simp add: db_of_def)

lemma fetch_child_attempts: "attempts_of (snd (fetch_child te c url t s)) \<le> attempts_of s + 9"
proof -
  obtain x fs where x: "fetchTargetThroughPolicy (cc_runtime c) (cc_policy c)
      (child_job c t url (getLatestSnapshotForTarget (db_of s) (tg_id t))) (cx_fetch s) = (x, fs)" by fastforce
  have mark: "attempts_of (mark_checked c t s1) = attempts_of s1" for s1
    using calm.K_mark [of s1 c t] by (simp add: calm.K_def same_attempts_def)
  have "length (check_attempts (store fs)) \<le> attempts_of s + 9"
    using fetch_attempts [OF x] by (simp add: db_of_def)
  then show ?thesis
    by (auto simp: fetch_child_def x Let_def mark
        split: sum.split prod.split option.split fetch_outcome.split)
qed

lemma noted_attempts: "attempts_of (recordTruncationIfAny c n d lts s) = attempts_of s"
  by (simp add: recordTruncationIfAny_def with_id_db recordAuditEvent_def Let_def)

interpretation attempt_cost: traversal_cost attempts_of 0 0 9
proof
  show "attempts_of (snd (processFeedItems c kept MAX_FEED_ITEMS_PER_CHECK False s)) \<le> attempts_of s + 0"
    for c :: "'a check_ctx" and kept s
    using calm.K_items [of s c kept MAX_FEED_ITEMS_PER_CHECK False] by (simp add: calm.K_def same_attempts_def)
  show "attempts_of (fst (snd (enter_child c url lastmod w))) \<le> attempts_of (fst w) + 0"
    for c :: "'a check_ctx" and url lastmod w
    using calm.K_enter [of w c url lastmod] by (simp add: calm.K_def same_attempts_def)
  show "attempts_of (snd (store_snapshot c inp s)) = attempts_of s" for c :: "'a check_ctx" and inp s
    by (simp add: store_snapshot_def with_id_db createSnapshot_def Let_def)
qed (simp_all add: permitted_db advance_child_def setTargetLastKnownUpdatedAt_def put_body_def fetch_child_attempts
    noted_attempts)

section \<open>Targets\<close>

abbreviation targets_of :: "'n check_state \<Rightarrow> nat" where
  "targets_of s \<equiv> length (targets (db_of s))"

definition same_targets :: "db \<Rightarrow> db \<Rightarrow> bool" where
  "same_targets d d1 \<longleftrightarrow> length (targets d1) = length (targets d)"

interpretation still: attempt_frame same_targets
  by unfold_locales
    (auto simp: same_targets_def setTargetLastChecked_def setTargetLastKnownUpdatedAt_def insertChangeIfNew_def update_where_def
      createDeliveryIfNew_def updateChangeTitle_def setChangeTagsIfNull_def createSnapshot_def createCheckAttempt_def
      Let_def split: option.split)

interpretation still: settle_frame same_targets
  by unfold_locales
    (auto simp: same_targets_def createCheckJobIfNew_def updateCheckJobStatus_def setMonitorNextRun_def setMonitorLastChecked_def
      policyStopMonitor_def createRobotsEvaluation_def with_monitor_def Let_def split: option.split)

lemma upsert_targets: "with_id c (\<lambda>u. upsertTarget u now inp) s = (t, s1) \<Longrightarrow> targets_of s1 \<le> targets_of s + 1"
proof -
  assume "with_id c (\<lambda>u. upsertTarget u now inp) s = (t, s1)"
  then have "db_of s1 = fst (upsertTarget (cc_uuid c (uuids s)) now inp (db_of s))"
    using with_id_db [of c "\<lambda>u. upsertTarget u now inp" s] by simp
  then show ?thesis
    by (auto simp: upsertTarget_def update_where_def Let_def split: option.split)
qed

lemma checked_targets [simp]: "length (targets (setTargetLastChecked now i w d)) = length (targets d)"
  by (simp add: setTargetLastChecked_def update_where_def)

lemma mark_targets [simp]: "targets_of (mark_checked c t s) = targets_of s"
  by (simp add: mark_checked_def)

lemma detect_targets: "targets_of (snd (detect_item c p now item s)) \<le> targets_of s + 1"
proof -
  have touch: "touch_target c now item url isNew s = (t, s1) \<Longrightarrow> targets_of s1 \<le> targets_of s + 1" for url isNew t s1
    by (auto simp: touch_target_def split: prod.splits dest!: upsert_targets)
  have ins: "with_id c (\<lambda>u. insertChangeIfNew u now1 inp) s1 = (r, s2) \<Longrightarrow> targets_of s2 = targets_of s1"
    for now1 inp s1 r s2
    using still.K_insert [of c now1 "\<lambda>u. inp" s1 r s2] by (simp add: still.K_def same_targets_def)
  show ?thesis
    by (auto simp: detect_item_def Let_def split: option.split prod.split dest!: touch ins)
qed

lemma map_state_targets:
  "(\<And>x s. targets_of (snd (f x s)) \<le> targets_of s + 1) \<Longrightarrow>
   targets_of (snd (map_state f xs s)) \<le> targets_of s + length xs"
proof (induction xs arbitrary: s)
  case (Cons x xs)
  obtain y s1 where y: "f x s = (y, s1)" by fastforce
  obtain ys s2 where ys: "map_state f xs s1 = (ys, s2)" by fastforce
  from Cons.prems [of x s] Cons.IH [OF Cons.prems, of s1] show ?case by (simp add: y ys)
qed simp

lemma items_targets: "targets_of (snd (processFeedItems c items m p s)) \<le> targets_of s + m"
proof -
  obtain ds s1 where d: "map_state (detect_item c p (now_of c s)) (take m items) s = (ds, s1)" by fastforce
  obtain ds2 s2 where e: "enrichDetectedChanges c (concat ds) s1 = (ds2, s2)" by fastforce
  obtain ds3 s3 where l: "classifyDetectedChanges c ds2 s2 = (ds3, s3)" by fastforce
  have "targets_of s1 \<le> targets_of s + length (take m items)"
    using map_state_targets [of "detect_item c p (now_of c s)", OF detect_targets, of "take m items" s] by (simp add: d)
  moreover have "targets_of s2 = targets_of s1" using still.K_enrich [of s1 c "concat ds"] by (simp add: e still.K_def same_targets_def)
  moreover have "targets_of s3 = targets_of s2" using still.K_classify [of s2 c ds2] by (simp add: l still.K_def same_targets_def)
  moreover have "still.K s3 (snd (andThen (notifyDetectedChanges c ds3) (\<lambda>u s4. (Inr (length items - length (take m items)), s4)) s3))"
    by (rule still.K_andThen) (auto intro: still.K_notify)
  ultimately show ?thesis
    by (auto simp: processFeedItems_def detectFeedChanges_def Let_def d e l still.K_def same_targets_def)
qed

lemma enter_targets: "targets_of (fst (snd (enter_child c url lastmod w))) \<le> targets_of (fst w) + 1"
  by (cases w) (auto simp: enter_child_def Let_def split: prod.split dest!: upsert_targets)

lemma noted_targets: "targets_of (recordTruncationIfAny c n d lts s) = targets_of s"
  by (simp add: recordTruncationIfAny_def with_id_db recordAuditEvent_def Let_def)

interpretation target_cost: traversal_cost targets_of MAX_FEED_ITEMS_PER_CHECK 1 0
proof
  show "targets_of (snd (fetch_child te c url t s)) \<le> targets_of s + 0" for te and c :: "'a check_ctx" and url t s
    using still.K_fetch_child [of s te c url t] by (simp add: still.K_def same_targets_def)
  show "targets_of (snd (store_snapshot c inp s)) = targets_of s" for c :: "'a check_ctx" and inp s
    by (simp add: store_snapshot_def with_id_db createSnapshot_def Let_def)
qed (simp_all add: items_targets enter_targets [simplified] permitted_db advance_child_def setTargetLastKnownUpdatedAt_def
    update_where_def put_body_def noted_targets)

section \<open>A whole check\<close>

locale check_cost = settle_frame R for R +
  fixes sz :: "db \<Rightarrow> nat" and root refusal fetch work :: nat and re :: "'n run_env"
  assumes same: "R d d1 \<Longrightarrow> sz d1 = sz d"
    and target: "sz (fst (upsertTarget u now ti d)) \<le> sz d + root"
    and attempt: "sz (fst (createCheckAttempt u now ai d)) \<le> sz d + refusal"
    and fetched: "fetchTargetThroughPolicy rt p j (fs :: 'n fetch_state) = (r, fs1) \<Longrightarrow>
      sz (store fs1) \<le> sz (store fs) + fetch"
    and process: "sz (db_of (snd (re_process re c i s))) \<le> sz (db_of s) + work"
begin

lemma same_K: "K s s1 \<Longrightarrow> sz (db_of s1) = sz (db_of s)"
  by (simp add: K_def same)

lemmas settled_sizes = K_finish [THEN same_K] K_robots [THEN same_K]

lemma refused_size: "sz (db_of (refused_attempt c t cls msg s)) \<le> sz (db_of s) + refusal"
  by (simp add: refused_attempt_def with_id_db attempt)

lemma step_sizes [simp]:
  "sz (updateCheckJobStatus i st a b d) = sz d" "sz (policyStopMonitor now i reason ev d) = sz d"
  "sz (setTargetLastChecked now t w d) = sz d"
  by (auto intro: same)

lemma refusal_size: "robots_refusal re c t orig dec ev s = (res, s1) \<Longrightarrow> sz (db_of s1) \<le> sz (db_of s) + refusal"
  using refused_size [of c t Blocked_by_robots "robots_message (db_of s) orig dec" s]
  by (auto simp: robots_refusal_def Let_def split: if_splits dest!: settled_sizes)

lemma process_size:
  assumes f: "fetch_and_process re c t latest s = ((r, oc), s1)"
  shows "sz (db_of s1) \<le> sz (db_of s) + (fetch + work)"
proof -
  obtain x fs where x: "fetchTargetThroughPolicy (cc_runtime c) (cc_policy c) (target_job c t latest) (cx_fetch s) = (x, fs)"
    by fastforce
  have one: "sz (store fs) \<le> sz (db_of s) + fetch" using fetched [OF x] by (simp add: db_of_def)
  have proc: "re_process re c i s2 = (y, s3) \<Longrightarrow> sz (db_of s3) \<le> sz (db_of s2) + work" for i s2 y s3
    using process [of c i s2] by simp
  from f one show ?thesis
    by (auto simp: fetch_and_process_def x Let_def
        split: sum.splits prod.splits option.splits fetch_outcome.splits if_splits dest!: proc)
qed

lemma lease_size:
  assumes "with_host_lease re c orig t s = (r, s1)"
  shows "sz (db_of s1) \<le> sz (db_of s) + (fetch + work)"
proof -
  have under: "sz (db_of s1) \<le> sz (db_of s0) + (fetch + work)"
    if u: "under_lease re c orig lease t latest s0 = (r, s1)" for lease latest s0
  proof -
    obtain x oc s2 where f: "fetch_and_process re c t latest s0 = ((x, oc), s2)" by (metis prod.exhaust)
    have fin: "sz (db_of (snd (finishJob re c st s2))) = sz (db_of s2)" for st
      using settled_sizes(1) [OF surjective_pairing] .
    from u process_size [OF f] fin show ?thesis
      by (auto simp: under_lease_def f split: prod.splits sum.splits) (metis snd_conv)+
  qed
  with assms show ?thesis
    by (auto simp: with_host_lease_def Let_def split: prod.splits sum.splits if_splits dest!: under)
qed

lemma run_size:
  assumes "run_job re c s0 = (r, s1)"
  shows "sz (db_of s1) \<le> sz (db_of s0) + (root + max refusal (fetch + work))"
proof -
  obtain t s where t: "with_id c (\<lambda>u. upsertTarget u (now_of c s0)
      \<lparr>it_id = None, it_monitorId = mon_id (cc_monitor c), it_url = src_url (cc_source c),
       it_discoveredFrom = None, it_firstSeenAt = None, it_lastKnownUpdatedAt = None\<rparr>) s0 = (t, s)" by fastforce
  from t have s: "sz (db_of s) \<le> sz (db_of s0) + root"
    using with_id_db [of c _ s0] target by (metis snd_conv)
  have refused: "finishJob re c st (refused_attempt c t cls msg s2) = (res, s3) \<Longrightarrow>
      sz (db_of s3) \<le> sz (db_of s2) + refusal" for st t cls msg s2 res s3
    using refused_size [of c t cls msg s2] by (auto dest!: settled_sizes)
  have "sz (db_of s1) \<le> sz (db_of s) + max refusal (fetch + work)"
    using assms t
    by (auto simp: run_job_def Let_def andThen_def split: prod.splits sum.splits if_splits option.splits
        dest!: refused settled_sizes(2) refusal_size lease_size)
  with s show ?thesis by simp
qed

lemma check_size:
  "sz (db_of (snd (runMonitorCheck re c trig m s))) \<le> sz (db_of s) + (root + max refusal (fetch + work))"
proof -
  have new: "with_id c (\<lambda>u. createCheckJobIfNew u now ij) s = (jr, s1) \<Longrightarrow> sz (db_of s1) = sz (db_of s)" for now ij jr s1
    using with_id_db [of c "\<lambda>u. createCheckJobIfNew u now ij" s] same [OF job] by simp
  have start: "db_of (start_state s1) = db_of s1" for s1 by simp
  have ran: "sz (db_of (snd (run_job re c1 s1))) \<le> sz (db_of s1) + (root + max refusal (fetch + work))" for c1 s1
    using run_size [OF surjective_pairing] .
  show ?thesis
    by (auto simp: runMonitorCheck_def Let_def split: option.split sum.split prod.split dest!: new
        intro!: order_trans [OF ran])
qed

end

lemma recipe_attempts: "attempts_of (snd (RECIPES te k c i s)) \<le> attempts_of s + 450"
proof (cases k)
  case Sitemap_traverse
  then show ?thesis
    using attempt_cost.traversal_size [of te MAX_TRAVERSAL_FETCHES_PER_CHECK c i s]
    by (simp add: attempt_cost.document_def attempt_cost.cost_def MAX_TRAVERSAL_FETCHES_PER_CHECK_def)
qed (use calm.K_page [of s "te_content te" c i] calm.K_page_items [of s "te_content te" c i]
    calm.K_feed [of s "te_content te" c i] calm.K_sitemap [of s "te_content te" c i]
    in \<open>simp_all add: calm.K_def same_attempts_def\<close>)

lemma andThen_targets:
  "targets_of (snd (m s)) \<le> n \<Longrightarrow> (\<And>a s1. targets_of (snd (f a s1)) = targets_of s1) \<Longrightarrow>
   targets_of (snd (andThen m f s)) \<le> n"
  by (auto simp: andThen_def split: prod.split sum.split)

lemma snapshot_targets [simp]: "targets_of (snd (store_snapshot c inp s)) = targets_of s"
  by (simp add: store_snapshot_def with_id_db createSnapshot_def Let_def)

lemma put_body_db [simp]: "db_of (put_body k v s) = db_of s"
  by (simp add: put_body_def)

lemma page_items_targets: "targets_of (snd (processPageItems ce c i s)) \<le> targets_of s + MAX_FEED_ITEMS_PER_CHECK"
  by (auto simp: processPageItems_def intro!: andThen_targets items_targets split: option.split sum.split)

lemma feed_targets: "targets_of (snd (processFeedContent ce c i s)) \<le> targets_of s + MAX_FEED_ITEMS_PER_CHECK"
proof -
  have snap: "store_snapshot c inp s1 = (r, s2) \<Longrightarrow> targets_of s2 = targets_of s1" for inp s1 r s2
    using snapshot_targets [of c inp s1] by simp
  show ?thesis
    by (auto simp: processFeedContent_def Let_def split: sum.split prod.split dest!: snap
        intro!: andThen_targets order_trans [OF items_targets])
qed

lemma recipe_targets: "targets_of (snd (RECIPES te k c i s)) \<le> targets_of s + 102000"
proof (cases k)
  case Sitemap_traverse
  then show ?thesis
    using target_cost.traversal_size [of te MAX_TRAVERSAL_FETCHES_PER_CHECK c i s]
    unfolding target_cost.cost_def target_cost.document_def
    by (simp add: MAX_TRAVERSAL_FETCHES_PER_CHECK_def MAX_FEED_ITEMS_PER_CHECK_def)
qed (use still.K_page [of s "te_content te" c i] page_items_targets [of "te_content te" c i s]
    feed_targets [of "te_content te" c i s] still.K_sitemap [of s "te_content te" c i]
    in \<open>simp_all add: still.K_def same_targets_def MAX_FEED_ITEMS_PER_CHECK_def\<close>)

lemma with_recipes_process: "re_process (with_recipes te re) c = RECIPES te (resolveRecipeKey (cc_source c)) c"
  by (simp add: with_recipes_def resolveContentProcessor_def)

interpretation check_attempt_cost: check_cost same_attempts "\<lambda>d. length (check_attempts d)" 0 1 9 450 "with_recipes te re"
  for te and re :: "'n run_env"
proof
  show "length (check_attempts (db_of (snd (re_process (with_recipes te re) c i s)))) \<le> attempts_of s + 450" for c i s
    by (simp add: with_recipes_process recipe_attempts)
qed (simp_all add: same_attempts_def fetch_attempts upsertTarget_def createCheckAttempt_def Let_def split: option.split)

interpretation check_target_cost: check_cost same_targets "\<lambda>d. length (targets d)" 1 0 0 102000 "with_recipes te re"
  for te and re :: "'n run_env"
proof
  show "length (targets (db_of (snd (re_process (with_recipes te re) c i s)))) \<le> targets_of s + 102000" for c i s
    by (simp add: with_recipes_process recipe_targets)
  show "length (targets (store fs1)) \<le> length (targets (store fs)) + 0"
    if "fetchTargetThroughPolicy rt p j (fs :: 'n fetch_state) = (r, fs1)" for rt p j fs r fs1
    using still.R_fetch [OF that] by (simp add: same_targets_def)
qed (simp_all add: same_targets_def upsertTarget_def update_where_def createCheckAttempt_def Let_def split: option.split)

text \<open>
  C9. The work of one check is bounded, whatever the documents, the policy and the depth of the
  sitemaps: it records at most 459 attempts (nine for the source and nine for each of the fifty child
  sitemaps that may be fetched) and adds at most 102001 targets (the source's own and 2000 for each
  of the fifty-one documents).
\<close>

theorem check_work_bounded:
  "let d = db_of s; d1 = db_of (snd (runMonitorCheck (with_recipes te re) c trig m s))
   in length (check_attempts d1) \<le> length (check_attempts d) + 459 \<and>
      length (targets d1) \<le> length (targets d) + 102001"
  using check_attempt_cost.check_size [of te re c trig m s] check_target_cost.check_size [of te re c trig m s]
  by (simp add: Let_def)

end
