(* ===== verification/Traversal_Watermark.thy ===== *)
theory Traversal_Watermark
  imports Check_Pipeline
begin

text \<open>
  What the watermarks of child sitemaps guarantee and what they do not: a child that was expanded
  completely is not fetched again before its time changes, in whatever checks follow; but a child
  whose own children could not be fetched counts as expanded, and items beyond the limit of a check
  are not reached by a later one either.
\<close>

section \<open>Watermarks never fall\<close>

definition known_until :: "string \<Rightarrow> string \<Rightarrow> string \<Rightarrow> db \<Rightarrow> bool" where
  "known_until m url w d \<longleftrightarrow>
     (\<exists>r v. find_target d m url = Some r \<and> lastKnownUpdatedAt r = Some v \<and> w \<le> v)"

definition keeps_known :: "db \<Rightarrow> db \<Rightarrow> bool" where
  "keeps_known d d1 \<longleftrightarrow>
     (\<forall>m url r. find_target d m url = Some r \<longrightarrow>
        (\<exists>r1. find_target d1 m url = Some r1 \<and> tg_id r1 = tg_id r \<and>
           (\<forall>v. lastKnownUpdatedAt r = Some v \<longrightarrow> (\<exists>v1. lastKnownUpdatedAt r1 = Some v1 \<and> v \<le> v1))))"

lemma keeps_known_until: "keeps_known d d1 \<Longrightarrow> known_until m url w d \<Longrightarrow> known_until m url w d1"
  unfolding keeps_known_def known_until_def by (metis order_trans)

lemma keeps_known_refl: "keeps_known d d"
  by (simp add: keeps_known_def)

lemma keeps_known_trans:
  assumes ab: "keeps_known a b" and bd: "keeps_known b d"
  shows "keeps_known a d"
  unfolding keeps_known_def
proof (intro allI impI)
  fix m url r assume "find_target a m url = Some r"
  with ab obtain r1 where r1: "find_target b m url = Some r1" "tg_id r1 = tg_id r"
    "\<forall>v. lastKnownUpdatedAt r = Some v \<longrightarrow> (\<exists>v1. lastKnownUpdatedAt r1 = Some v1 \<and> v \<le> v1)"
    unfolding keeps_known_def by blast
  with bd obtain r2 where r2: "find_target d m url = Some r2" "tg_id r2 = tg_id r1"
    "\<forall>v. lastKnownUpdatedAt r1 = Some v \<longrightarrow> (\<exists>v1. lastKnownUpdatedAt r2 = Some v1 \<and> v \<le> v1)"
    unfolding keeps_known_def by blast
  from r1 r2 show "\<exists>r2. find_target d m url = Some r2 \<and> tg_id r2 = tg_id r \<and>
      (\<forall>v. lastKnownUpdatedAt r = Some v \<longrightarrow> (\<exists>v2. lastKnownUpdatedAt r2 = Some v2 \<and> v \<le> v2))"
    by auto (erule order_trans, assumption)
qed

lemma keeps_known_same: "targets d1 = targets d \<Longrightarrow> keeps_known d d1"
  by (simp add: keeps_known_def find_target_def)

lemma keeps_known_update:
  assumes "targets d1 = update_where P f (targets d)"
    and "\<And>r. tg_id (f r) = tg_id r \<and> tg_monitorId (f r) = tg_monitorId r \<and> tg_url (f r) = tg_url r"
    and "\<And>r v. P r \<Longrightarrow> lastKnownUpdatedAt r = Some v \<Longrightarrow> \<exists>v1. lastKnownUpdatedAt (f r) = Some v1 \<and> v \<le> v1"
  shows "keeps_known d d1"
  using assms find_update_where [of "target_key m url" f P "targets d" for m url]
  by (auto simp: keeps_known_def find_target_def target_key_def)

lemma keeps_known_upsert:
  "it_lastKnownUpdatedAt ti = None \<or> find_target d (it_monitorId ti) (it_url ti) = None \<Longrightarrow>
   keeps_known d (fst (upsertTarget u now ti d))"
  by (auto simp: upsertTarget_def keeps_known_def find_target_def find_append_case Let_def target_key_def split: option.split)

interpretation marks: check_frame keeps_known
proof unfold_locales
  show "keeps_known a b \<Longrightarrow> keeps_known b d \<Longrightarrow> keeps_known a d" for a b d
    by (rule keeps_known_trans)
  show "it_lastKnownUpdatedAt ti = None \<or> find_target d (it_monitorId ti) (it_url ti) = None \<Longrightarrow>
      keeps_known d (fst (upsertTarget u now ti d))" for ti d u now
    by (rule keeps_known_upsert)
  show "keeps_known d (setTargetLastChecked now t w d)" for d now t w
    by (rule keeps_known_update [where P = "\<lambda>r. tg_id r = t" and f = "\<lambda>r. r\<lparr>tg_lastCheckedAt := Some w, tg_updatedAt := now\<rparr>"]) (auto simp: setTargetLastChecked_def)
  show "keeps_known d (setTargetLastKnownUpdatedAt now t v d)" for d now t v
    by (rule keeps_known_update [where P = "\<lambda>r. tg_id r = t \<and>
        (case lastKnownUpdatedAt r of None \<Rightarrow> True | Some x \<Rightarrow> x < v)"
      and f = "\<lambda>r. r\<lparr>lastKnownUpdatedAt := Some v, tg_updatedAt := now\<rparr>"])
      (auto simp: setTargetLastKnownUpdatedAt_def)
qed (auto intro!: keeps_known_same
    simp: insertChangeIfNew_def createDeliveryIfNew_def updateChangeTitle_def setChangeTagsIfNull_def
      createSnapshot_def createCheckAttempt_def recordAuditEvent_def createCheckJobIfNew_def
      updateCheckJobStatus_def setMonitorNextRun_def setMonitorLastChecked_def policyStopMonitor_def
      createRobotsEvaluation_def with_monitor_def Let_def split: option.split)

lemma recipe_keeps_marks: "marks.K s (snd (RECIPES te k c i s))"
  by (cases k) (simp_all add: marks.K_page marks.K_page_items marks.K_feed marks.K_sitemap marks.K_traversal)

lemma recipes_keep_marks: "marks.keeps (re_process (with_recipes te re))"
  by (simp add: marks.keeps_def with_recipes_def resolveContentProcessor_def recipe_keeps_marks)

lemma check_keeps_known: "keeps_known (db_of s) (db_of (snd (runMonitorCheck (with_recipes te re) c trig m s)))"
  using marks.K_check [OF recipes_keep_marks] by (simp add: marks.K_def)

section \<open>A completed child\<close>

text \<open>The gate: a child that is known up to its time is not fetched.\<close>

lemma known_not_entered:
  assumes "known_until (mon_id (cc_monitor c)) url lastmod (db_of s)"
  shows "fst (enter_child c url lastmod (s, n)) = None"
  using assms
  by (auto simp: known_until_def enter_child_def getExistingTargetWatermark_def Let_def
      split: prod.split option.split)

lemma upsert_found:
  assumes "with_id c (\<lambda>u. upsertTarget u now inp) s = (t, s1)"
  shows "\<exists>r. find_target (db_of s1) (it_monitorId inp) (it_url inp) = Some r \<and> tg_id r = tg_id t"
proof -
  let ?u = "upsertTarget (cc_uuid c (uuids s)) now inp (db_of s)"
  from assms have "db_of s1 = fst ?u" "t = snd ?u"
    using with_id_db [of c "\<lambda>u. upsertTarget u now inp" s] with_id_result [of c "\<lambda>u. upsertTarget u now inp" s]
    by simp_all
  then show ?thesis
    by (auto simp: upsertTarget_def find_target_def find_append_case find_update_where target_key_def Let_def
        split: option.splits)
qed

lemma open_found:
  assumes "open_child te lts c url lastmod w = (Inr (Some (t, parsed)), w1)"
  shows "\<exists>r. find_target (db_of (fst w1)) (mon_id (cc_monitor c)) url = Some r \<and> tg_id r = tg_id t"
proof -
  obtain o1 s1 n1 where e: "enter_child c url lastmod w = (o1, (s1, n1))" by (metis prod.exhaust)
  obtain ok s2 where p: "child_permitted c url s1 = (ok, s2)" by fastforce
  have same: "db_of s2 = db_of s1" using permitted_db [of c url s1] by (simp add: p)
  from assms e p have o1: "o1 = Some t"
    and f: "\<exists>f. fetch_child te c url t s2 = (Inr f, fst w1)"
    by (auto simp: open_child_def split: option.splits sum.splits if_splits prod.splits)
  obtain s n where w: "w = (s, n)" by fastforce
  from e o1 have "\<exists>r. find_target (db_of s1) (mon_id (cc_monitor c)) url = Some r \<and> tg_id r = tg_id t"
    by (auto simp: w enter_child_def Let_def split: if_splits prod.splits dest!: upsert_found)
  moreover from f marks.K_fetch_child [of s2 te c url t] have "keeps_known (db_of s1) (db_of (fst w1))"
    by (auto simp: marks.K_def same)
  ultimately show ?thesis
    unfolding keeps_known_def by metis
qed

lemma advanced_known:
  assumes "find_target (db_of s) (mon_id (cc_monitor c)) url = Some r" and "tg_id r = tg_id t"
  shows "known_until (mon_id (cc_monitor c)) url lastmod (db_of (advance_child c t lastmod s))"
  using assms find_update_where [of "target_key (mon_id (cc_monitor c)) url"]
  by (auto simp: known_until_def advance_child_def setTargetLastKnownUpdatedAt_def find_target_def target_key_def
      find_update_where split: option.split)

lemma completed_known:
  assumes "open_child te lts c url lastmod w = (Inr (Some (t, parsed)), w1)"
    and "expand_child te lts c parsed depth w1 = (Inr True, (s2, n2))"
  shows "known_until (mon_id (cc_monitor c)) url lastmod (db_of (fst (snd (traverseChild te lts c url lastmod depth w))))"
proof -
  from open_found [OF assms(1)] obtain r where
    r: "find_target (db_of (fst w1)) (mon_id (cc_monitor c)) url = Some r" "tg_id r = tg_id t" by blast
  have "keeps_known (db_of (fst w1)) (db_of s2)"
    using marks.K_traverse(2) [of w1 te lts c parsed depth] by (simp add: assms(2) marks.K_def)
  with r obtain r2 where "find_target (db_of s2) (mon_id (cc_monitor c)) url = Some r2" "tg_id r2 = tg_id t"
    unfolding keeps_known_def by metis
  from advanced_known [OF this] show ?thesis
    by (simp add: traverseChild.simps assms)
qed

definition later_checks ::
  "traversal_env \<Rightarrow> 'n run_env \<Rightarrow> ('n check_ctx \<times> job_trigger \<times> string) list \<Rightarrow> 'n check_state \<Rightarrow> 'n check_state" where
  "later_checks te re runs s = fold (\<lambda>(c, trig, m) s1. snd (runMonitorCheck (with_recipes te re) c trig m s1)) runs s"

lemma later_keep_known: "keeps_known (db_of s) (db_of (later_checks te re runs s))"
proof (induction runs arbitrary: s)
  case (Cons x runs)
  obtain c trig m where x: "x = (c, trig, m)" by (metis prod_cases3)
  from keeps_known_trans [OF check_keeps_known Cons.IH] show ?case
    by (simp add: later_checks_def x)
qed (simp add: later_checks_def keeps_known_refl)

text \<open>
  C31. Once a child sitemap was expanded completely, it is not fetched again for the same or an older
  time, whatever checks of whatever monitors are run in between: watermarks never fall.
\<close>

theorem completed_child_not_refetched:
  assumes "open_child te lts c url lastmod w = (Inr (Some (t, parsed)), w1)"
    and "expand_child te lts c parsed depth w1 = (Inr True, w2)"
    and "mon_id (cc_monitor c1) = mon_id (cc_monitor c)" and "lm \<le> lastmod"
  shows "fst (enter_child c1 url lm
    (later_checks te1 re runs (fst (snd (traverseChild te lts c url lastmod depth w))), n)) = None"
proof (rule known_not_entered)
  let ?s = "fst (snd (traverseChild te lts c url lastmod depth w))"
  obtain s2 n2 where "w2 = (s2, n2)" by fastforce
  with completed_known [OF assms(1)] assms(2) have "known_until (mon_id (cc_monitor c)) url lastmod (db_of ?s)" by simp
  then have "known_until (mon_id (cc_monitor c)) url lm (db_of ?s)"
    using assms(4) by (auto simp: known_until_def intro: order_trans)
  with later_keep_known show "known_until (mon_id (cc_monitor c1)) url lm (db_of (later_checks te1 re runs ?s))"
    unfolding assms(3) by (rule keeps_known_until)
qed

section \<open>Children that cannot be fetched\<close>

text \<open>Every fetch of one of the urls fails, with whatever class.\<close>

definition unreachable :: "'n check_ctx \<Rightarrow> string set \<Rightarrow> bool" where
  "unreachable c urls \<longleftrightarrow>
     (\<forall>j fs. fj_url j \<in> urls \<longrightarrow>
        (\<exists>f i fs1. fetchTargetThroughPolicy (cc_runtime c) (cc_policy c) j fs = (Inr (Some (FetchFailure f), i), fs1)))"

lemma eligible_truncation:
  "truncationTotal (snd (eligible_children up pats cutoff es n)) = truncationTotal n \<and>
   childrenTruncated (snd (eligible_children up pats cutoff es n)) = childrenTruncated n"
proof (induction es arbitrary: n)
  case (Cons e es)
  have bumped: "truncationTotal (n\<lparr>missingLastmodSkipped := a\<rparr>) = truncationTotal n"
    "truncationTotal (n\<lparr>patternExcluded := a\<rparr>) = truncationTotal n" for a
    by (simp_all add: truncationTotal_def)
  show ?case
    using Cons.IH by (cases e) (simp add: bumped split: option.split prod.split, metis snd_conv)
qed simp

lemma select_same_truncation:
  assumes "select_children lts c parsed n = (es, n1)" "childrenTruncated n1 = childrenTruncated n"
  shows "truncationTotal n1 = truncationTotal n"
proof -
  let ?e = "eligible_children (newURL (cc_platform c)) (Option.bind (src_config (cc_source c)) childIncludePatterns)
    (tl_cutoff lts) (child_entries parsed) n"
  obtain kept n2 where e: "?e = (kept, n2)" by fastforce
  with eligible_truncation [of "newURL (cc_platform c)" _ "tl_cutoff lts" "child_entries parsed" n]
  have "truncationTotal n2 = truncationTotal n" "childrenTruncated n2 = childrenTruncated n" by (metis snd_conv)+
  with assms e show ?thesis
    by (auto simp: select_children_def selectChildEntries_def split: if_splits)
qed

lemma enter_child_counts:
  "truncationTotal (snd (snd (enter_child c url lastmod w))) = truncationTotal (snd w)"
  "fetchesUsed (snd (snd (enter_child c url lastmod w))) = fetchesUsed (snd w)"
  by (cases w; auto simp: enter_child_def truncationTotal_def Let_def split: prod.split)+

lemma fetch_unreachable:
  assumes "unreachable c urls" "url \<in> urls"
  shows "fst (fetch_child te c url t s) = Inr None"
proof -
  obtain f i fs1 where "fetchTargetThroughPolicy (cc_runtime c) (cc_policy c)
      (child_job c t url (getLatestSnapshotForTarget (db_of s) (tg_id t))) (cx_fetch s) = (Inr (Some (FetchFailure f), i), fs1)"
    using assms by (fastforce simp: unreachable_def child_job_def)
  then show ?thesis by (simp add: fetch_child_def Let_def)
qed

lemma unreachable_child:
  assumes "unreachable c urls" "url \<in> urls" "fetchesUsed (snd w) < tl_maxFetches lts"
    and t: "traverseChild te lts c url lastmod depth w = (r, w1)"
  shows "truncationTotal (snd w1) = truncationTotal (snd w)" "fetchesUsed (snd w1) \<le> Suc (fetchesUsed (snd w))"
proof -
  obtain o1 s1 n1 where e: "enter_child c url lastmod w = (o1, (s1, n1))" by (metis prod.exhaust)
  with enter_child_counts [of c url lastmod w]
  have n1: "truncationTotal n1 = truncationTotal (snd w)" "fetchesUsed n1 = fetchesUsed (snd w)" by simp_all
  obtain ok s2 where p: "child_permitted c url s1 = (ok, s2)" by fastforce
  have op: "truncationTotal (snd w2) = truncationTotal (snd w) \<and> fetchesUsed (snd w2) \<le> Suc (fetchesUsed (snd w)) \<and>
      (\<forall>x. y \<noteq> Inr (Some x))"
    if open1: "open_child te lts c url lastmod w = (y, w2)" for y w2
  proof (cases o1)
    case None
    with open1 n1 show ?thesis by (auto simp: open_child_def e)
  next
    case (Some t0)
    obtain s3 where f: "fetch_child te c url t0 s2 = (Inr None, s3)"
      using fetch_unreachable [OF assms(1,2), of te t0 s2] by (metis prod.collapse)
    from open1 n1 assms(3) show ?thesis
      by (cases ok) (auto simp: open_child_def e p Some f truncationTotal_def split: if_splits)
  qed
  obtain y w2 where o2: "open_child te lts c url lastmod w = (y, w2)" by (metis prod.exhaust)
  with t op [OF o2] have "w1 = w2"
    by (auto simp: traverseChild.simps split: sum.splits option.splits)
  with op [OF o2] show "truncationTotal (snd w1) = truncationTotal (snd w)" "fetchesUsed (snd w1) \<le> Suc (fetchesUsed (snd w))"
    by simp_all
qed

lemma unreachable_children:
  assumes "unreachable c (fst ` set es)" "fetchesUsed (snd w) + length es \<le> tl_maxFetches lts"
    and "traverse_children te lts c es depth w = (r, w1)"
  shows "truncationTotal (snd w1) = truncationTotal (snd w)"
  using assms
proof (induction es arbitrary: w)
  case (Cons e es)
  obtain y w2 where t: "traverseChild te lts c (fst e) (snd e) depth w = (y, w2)" by (metis prod.exhaust)
  from Cons.prems(2) have "fetchesUsed (snd w) < tl_maxFetches lts" by simp
  note one = unreachable_child [OF Cons.prems(1) _ this t]
  have "unreachable c (fst ` set es)" using Cons.prems(1) by (auto simp: unreachable_def)
  with Cons.IH [of w2] Cons.prems one t show ?case
    by (cases y) (auto simp: traverse_children.simps)
qed (simp add: traverse_children.simps)

text \<open>
  A nested index whose children could not be fetched counts as expanded: if every fetch of its
  children fails, its watermark advances all the same, and the index is not fetched again, nor its
  children through it, until its own time changes. The comment at the fetch leaves a failed child to the
  next check; this one forgets it.
\<close>

theorem unreachable_children_forgotten:
  assumes "open_child te lts c url lastmod w = (Inr (Some (t, parsed)), w1)"
    and "pr_kind parsed \<noteq> Sitemap" "int depth + 1 < tl_maxDepth lts"
    and "select_children lts c parsed (snd w1) = (es, n1)" "childrenTruncated n1 = childrenTruncated (snd w1)"
    and "fetchesUsed n1 + length es \<le> tl_maxFetches lts" "unreachable c (fst ` set es)"
    and "traverseChild te lts c url lastmod depth w = (Inr (), (s2, n2))"
  shows "fst (enter_child c url lastmod (later_checks te1 re runs s2, n)) = None"
proof -
  note same = select_same_truncation [OF assms(4,5)]
  obtain y w2 where es: "traverse_children te lts c es (Suc depth) (fst w1, n1) = (y, w2)" by (metis prod.exhaust)
  from unreachable_children [OF assms(7) _ es] assms(6) same
  have "truncationTotal (snd w2) = truncationTotal (snd w1)" by simp
  then have whole: "expand_child te lts c parsed depth w1 = (case y of Inl e \<Rightarrow> (Inl e, w2) | Inr u \<Rightarrow> (Inr True, w2))"
    using assms(2-4) es by (simp add: expand_child.simps split: sum.split)
  have "\<exists>u. y = Inr u"
    using assms(8) whole by (cases y) (auto simp: traverseChild.simps assms(1))
  with whole have "expand_child te lts c parsed depth w1 = (Inr True, fst w2, snd w2)"
    by auto
  from completed_known [OF assms(1) this] have "known_until (mon_id (cc_monitor c)) url lastmod (db_of s2)"
    by (simp add: assms(8))
  from keeps_known_until [OF later_keep_known this] show ?thesis
    by (rule known_not_entered)
qed

text \<open>
  Items beyond the limit of a check are not carried over: what a check does with a document depends
  on its first items alone, from whatever state, so a later check of the same document starts with the
  same items again. The comments promise that the rest is processed in later checks.
\<close>

theorem items_beyond_limit_not_reached:
  "snd (processFeedItems c items m p s) = snd (processFeedItems c (take m items) m p s)"
  by (simp add: processFeedItems_def detectFeedChanges_def andThen_def Let_def split: prod.split sum.split)

section \<open>Examples\<close>

text \<open>An index whose only child is gone.\<close>

definition gone_runner :: "ms runtime" where
  "gone_runner = silent_runner\<lparr>rt_run := (\<lambda>fid iv t.
     ((if inv_url iv = ''http://a/i'' then FetchSuccess demo_answer else failure Not_found (Some 404) ''gone'' None, None), t))\<rparr>"

definition index_document :: adapter_parse_result where
  "index_document = \<lparr>pr_kind = Sitemap_index, pr_items = [demo_item\<lparr>updatedAt := Some ''2024-01-02''\<rparr>],
     childSitemaps = [], pr_title = None\<rparr>"

definition trav_env :: traversal_env where
  "trav_env = \<lparr>te_content = (demo_env '''')\<lparr>ce_parseSource := (\<lambda>t b u cs. Inr index_document)\<rparr>,
     toISOString = (\<lambda>t. ''2024-01-01'')\<rparr>"

definition trav_limits :: "int \<Rightarrow> traversal_limits" where
  "trav_limits d = \<lparr>tl_cutoff = ''2024-01-01'', tl_maxDepth = d, tl_maxFetches = 50\<rparr>"

definition direct_policy :: fetcher_policy where
  "direct_policy = \<lparr>allowList = [''http''], orderList = [\<lparr>fetcherId = ''http'', proceedOn = None\<rparr>]\<rparr>"

definition trav_ctx :: "ms check_ctx" where
  "trav_ctx = (demo_ctx (Some 0) None)\<lparr>cc_site := demo_site\<lparr>st_primaryOrigin := Some ''http://a''\<rparr>,
     cc_policy := direct_policy, cc_runtime := gone_runner, cc_resolve := (\<lambda>n h. Some [''93.184.216.34'']),
     cc_robotsFetch := (\<lambda>n u. example_fetch u)\<rparr>"

lemma trav_opens:
  "case open_child trav_env (trav_limits 3) trav_ctx ''http://a/i'' ''2024-01-02'' (demo_state, newCounts) of
     (Inr (Some (t, parsed)), (s1, n1)) \<Rightarrow> parsed = index_document \<and> fetchesUsed n1 = 1 \<and> childrenTruncated n1 = 0
   | _ \<Rightarrow> False"
  by code_simp

lemma trav_ends:
  "fst (traverseChild trav_env (trav_limits 3) trav_ctx ''http://a/i'' ''2024-01-02'' 0 (demo_state, newCounts)) = Inr ()"
  by code_simp

lemma always_failing:
  assumes valid: "policy_valid p"
    and fails: "\<And>fid s out s1. executeFetcher rt j fid s = (out, s1) \<Longrightarrow> \<exists>f. out = FetchFailure f"
  shows "\<exists>f i fs1. fetchTargetThroughPolicy rt p j fs = (Inr (Some (FetchFailure f), i), fs1)"
proof -
  let ?run = "runFetchSequence p (executeFetcher rt j) (\<lambda>t s. s\<lparr>outside := rt_sleep rt t (outside s)\<rparr>)
    (default_opts\<lparr>isRetryable := Some (\<lambda>fid. \<not> is_pull fid)\<rparr>) (fs\<lparr>nextIndex := 0, lastAttemptId := None\<rparr>)"
  have failing: "attempt_relation (\<lambda>s a s1. \<forall>x \<in> set a. \<exists>f. snd x = FetchFailure f) (executeFetcher rt j)
      (\<lambda>t s. s\<lparr>outside := rt_sleep rt t (outside s)\<rparr>)"
    by unfold_locales (auto dest: fails)
  obtain x s1 where run: "?run = (x, s1)" by fastforce
  show ?thesis
  proof (cases x)
    case (Inl e)
    from sequence_refused [OF _ run [unfolded Inl]] valid show ?thesis by (simp add: default_opts_def)
  next
    case (Inr y)
    obtain oc att where y: "y = (oc, att)" by fastforce
    from sequence_result [OF run [unfolded Inr y]] attempt_relation.sequence_relates [OF failing run [unfolded Inr y]]
    have "\<exists>f. oc = Some (FetchFailure f)" by (metis last_in_set)
    then show ?thesis by (auto simp: fetchTargetThroughPolicy_def run Inr y)
  qed
qed

lemma trav_unreachable: "unreachable trav_ctx {''http://a/1''}"
proof -
  have "\<exists>f i fs1. fetchTargetThroughPolicy gone_runner direct_policy j fs = (Inr (Some (FetchFailure f), i), fs1)"
    if j: "fj_url j = ''http://a/1''" for j fs
  proof (rule always_failing)
    show "policy_valid direct_policy" by code_simp
    show "\<exists>f. out = FetchFailure f" if "executeFetcher gone_runner j fid s = (out, s1)" for fid s out s1
      using that j
      by (auto simp: executeFetcher_def choose_run_def gone_runner_def invocation_of_def failure_def Let_def
          split: prod.splits if_splits)
  qed
  then show ?thesis by (simp add: unreachable_def trav_ctx_def)
qed

lemma later_day: "\<not> ''2024-01-02'' < ''2024-01-01''"
  by code_simp

theorem unreachable_children_forgotten_witness:
  "case traverseChild trav_env (trav_limits 3) trav_ctx ''http://a/i'' ''2024-01-02'' 0 (demo_state, newCounts) of
     (r, (s2, n2)) \<Rightarrow> fst (enter_child trav_ctx ''http://a/i'' ''2024-01-02''
       (later_checks trav_env check_env [(trav_ctx, Manual, ''m'')] s2, newCounts)) = None"
proof -
  let ?open = "open_child trav_env (trav_limits 3) trav_ctx ''http://a/i'' ''2024-01-02'' (demo_state, newCounts)"
  obtain t s1 n1 where o1: "?open = (Inr (Some (t, index_document)), (s1, n1))" and n1: "fetchesUsed n1 = 1" "childrenTruncated n1 = 0"
    using trav_opens by (auto split: prod.splits sum.splits option.splits)
  obtain s2 n2 where t: "traverseChild trav_env (trav_limits 3) trav_ctx ''http://a/i'' ''2024-01-02'' 0 (demo_state, newCounts)
      = (Inr (), (s2, n2))"
    using trav_ends by (metis prod.collapse)
  have kind: "pr_kind index_document \<noteq> Sitemap" "int 0 + 1 < tl_maxDepth (trav_limits 3)"
    by (simp_all add: index_document_def trav_limits_def)
  have sel: "select_children (trav_limits 3) trav_ctx index_document (snd (s1, n1)) = ([(''http://a/1'', ''2024-01-02'')], n1)"
    by (simp add: select_children_def selectChildEntries_def child_entries_def List.map_filter_def index_document_def
        demo_item_def trav_limits_def newest_first_def MAX_CHILD_SITEMAPS_def later_day trav_ctx_def demo_ctx_def
        demo_source_def orElse_def)
  have un: "unreachable trav_ctx (fst ` set [(''http://a/1'', ''2024-01-02'')])"
    using trav_unreachable by simp
  have budget: "fetchesUsed n1 + length [(''http://a/1'', ''2024-01-02'')] \<le> tl_maxFetches (trav_limits 3)"
    by (simp add: n1 trav_limits_def)
  show ?thesis
    using unreachable_children_forgotten [OF o1 kind sel _ budget un t] by (simp add: t)
qed

text \<open>A child that is an empty sitemap.\<close>

definition leaf_env :: traversal_env where
  "leaf_env = trav_env\<lparr>te_content := (demo_env '''')\<lparr>ce_parseSource := (\<lambda>t b u cs. Inr (index_document\<lparr>pr_kind := Sitemap, pr_items := []\<rparr>))\<rparr>\<rparr>"

lemma leaf_opens:
  "case open_child leaf_env (trav_limits 3) trav_ctx ''http://a/i'' ''2024-01-02'' (demo_state, newCounts) of
     (Inr (Some (t, parsed)), w1) \<Rightarrow> parsed = index_document\<lparr>pr_kind := Sitemap, pr_items := []\<rparr>
   | _ \<Rightarrow> False"
  by code_simp

theorem completed_child_not_refetched_witness:
  "fst (enter_child trav_ctx ''http://a/i'' ''2024-01-01'' (later_checks trav_env check_env [(trav_ctx, Manual, ''m'')]
     (fst (snd (traverseChild leaf_env (trav_limits 3) trav_ctx ''http://a/i'' ''2024-01-02'' 0 (demo_state, newCounts)))),
     newCounts)) = None"
proof -
  let ?doc = "index_document\<lparr>pr_kind := Sitemap, pr_items := []\<rparr>"
  obtain t w1 where o1: "open_child leaf_env (trav_limits 3) trav_ctx ''http://a/i'' ''2024-01-02'' (demo_state, newCounts) =
      (Inr (Some (t, ?doc)), w1)"
    using leaf_opens by (auto split: prod.splits sum.splits option.splits)
  have "expand_child leaf_env (trav_limits 3) trav_ctx ?doc 0 w1 = (Inr True, w1)"
    by (cases w1) (simp add: expand_child.simps expand_urlset_def)
  from completed_child_not_refetched [OF o1 this refl, of "''2024-01-01''"] show ?thesis
    by (simp add: less_imp_le later_day not_less)
qed

end
