(* ===== verification/Worker.thy ===== *)
theory Worker
  imports Api_App
begin

text \<open>
  The worker as the platform runs it (src/index.ts): requests, the alarms of the objects of the monitors,
  the cron job and the batches of the notification queue, in any order. What the database keeps through
  all of them follows from the laws the resources state once.
\<close>

section \<open>The handlers\<close>

definition fetch_handler ::
  "'n api \<Rightarrow> 'k app_shapes \<Rightarrow> ('j, 'm) auth_env \<Rightarrow> auth_config \<Rightarrow> request \<Rightarrow> ('j, 'm) auth_state \<times> 'n app \<Rightarrow>
   response \<times> (('j, 'm) auth_state \<times> 'n app)" where
  "fetch_handler v sh env cfg rq w =
     (if rq_method rq = ''GET'' \<and> rq_path rq = ''/''
      then (\<lparr>res_status = 200, res_headers = [(''content-type'', ''text/plain'')], res_body = Plain ''utsuroi: ok''\<rparr>, w)
      else createApp v sh env cfg rq w)"

definition scheduled_handler :: "(string \<Rightarrow> thrown option) \<Rightarrow> 'n api \<Rightarrow> 'n app \<Rightarrow> 'n app" where
  "scheduled_handler rpcFails v a =
     a\<lparr>ap_objects := snd (runReconciliation rpcFails (api_now v a) None (app_db a) (ap_objects a))\<rparr>"

text \<open>The store of the consumer with the key of the environment.\<close>

definition queue_handler ::
  "string \<Rightarrow> (string \<Rightarrow> string \<Rightarrow> string option) \<Rightarrow> string option \<Rightarrow> arrival list \<Rightarrow> 'n app \<Rightarrow>
   (string \<times> message_action \<times> bool option) list \<times> 'n app" where
  "queue_handler dflt decrypt key arrivals a =
     (case processNotifyBatch (getPendingDelivery dflt decrypt key) markDeliveryDelivered markDeliveryFailed None
             arrivals (app_db a) of
        (d, outs) \<Rightarrow> (outs, set_app_db d a))"

definition object_alarm :: "'n api \<Rightarrow> string \<Rightarrow> (unit, 'n app) step" where
  "object_alarm v m = stub m (fire_alarm (api_check v) (api_now v))"

section \<open>Events\<close>

text \<open>
  Between two events everything but the tables may change: the clock, the network, the alarms and memories of
  the objects, the stored bodies, the keys in the cache. An event is atomic.
\<close>

inductive worker_step ::
  "'n api \<Rightarrow> 'k app_shapes \<Rightarrow> ('j, 'm) auth_env \<Rightarrow> auth_config \<Rightarrow>
   ('j, 'm) auth_state \<times> 'n app \<Rightarrow> ('j, 'm) auth_state \<times> 'n app \<Rightarrow> bool" for v sh env cfg where
  on_request: "fetch_handler v sh env cfg rq w = (res, w') \<Longrightarrow> worker_step v sh env cfg w w'"
| on_alarm: "mo_alarm (ap_objects a m) = Some t \<Longrightarrow> t \<le> api_now v a \<Longrightarrow> object_alarm v m a = (r, a') \<Longrightarrow>
    worker_step v sh env cfg (au, a) (au, a')"
| on_cron: "scheduled_handler rpcFails v a = a' \<Longrightarrow> worker_step v sh env cfg (au, a) (au, a')"
| on_messages: "queue_handler dflt decrypt key arrivals a = (outs, a') \<Longrightarrow> worker_step v sh env cfg (au, a) (au, a')"
| outside: "tables a' = tables a \<Longrightarrow> worker_step v sh env cfg (au, a) (au', a')"

inductive_cases worker_stepE: "worker_step v sh env cfg w w'"

text \<open>A batch of messages changes deliveries only.\<close>

lemma claim_only_deliveries: "\<exists>rs. fst (getPendingDelivery h dec key now i d) = d\<lparr>deliveries := rs\<rparr>"
proof -
  have same: "\<exists>rs. d = d\<lparr>deliveries := rs\<rparr>" by (rule exI [of _ "deliveries d"]) simp
  show ?thesis
    using same by (auto simp: getPendingDelivery_def with_delivery_def markDeliveryFailed_def Let_def split: option.split)
qed

lemma message_only_deliveries:
  "\<exists>rs. fst (process_message (getPendingDelivery h dec key now) (markDeliveryDelivered now) (markDeliveryFailed now)
     send m i d) = d\<lparr>deliveries := rs\<rparr>"
proof -
  obtain d1 r where c: "getPendingDelivery h dec key now i d = (d1, r)" by fastforce
  with claim_only_deliveries [of h dec key now i d] obtain rs where d1: "d1 = d\<lparr>deliveries := rs\<rparr>" by auto
  have keep: "\<exists>rs'. d\<lparr>deliveries := rs\<rparr> = d\<lparr>deliveries := rs'\<rparr>" by blast
  have fail: "\<exists>rs'. markDeliveryFailed now i e dead (d\<lparr>deliveries := rs\<rparr>) = d\<lparr>deliveries := rs'\<rparr>" for e dead
    by (simp add: markDeliveryFailed_def with_delivery_def) blast
  have sent: "\<exists>rs'. markDeliveryDelivered now i (d\<lparr>deliveries := rs\<rparr>) = d\<lparr>deliveries := rs'\<rparr>"
    by (simp add: markDeliveryDelivered_def with_delivery_def) blast
  show ?thesis
    using keep fail sent
    by (auto simp: process_message_def processOne_def c d1 Let_def split: sum.split option.split send_result.split)
qed

lemma batch_only_deliveries:
  "\<exists>rs. fst (processNotifyBatch (getPendingDelivery h dec key) markDeliveryDelivered markDeliveryFailed m ms d) =
     d\<lparr>deliveries := rs\<rparr>"
proof (induction ms arbitrary: d)
  case Nil
  show ?case by (simp, rule exI [of _ "deliveries d"]) simp
next
  case (Cons x ms)
  obtain now i send where x: "x = (now, i, send)" by (cases x)
  obtain d1 act sent where m1: "process_message (getPendingDelivery h dec key now) (markDeliveryDelivered now)
      (markDeliveryFailed now) send m i d = (d1, act, sent)" by (metis prod.collapse)
  with message_only_deliveries [of h dec key now send m i d] obtain rs where "d1 = d\<lparr>deliveries := rs\<rparr>" by auto
  with Cons.IH [of d1] show ?case by (auto simp: x m1 split: prod.split)
qed

section \<open>What every event keeps\<close>

locale worker_property = api_property I v for I v +
  assumes deliveries_only: "I (p, d) \<Longrightarrow> I (p, d\<lparr>deliveries := rs\<rparr>)"
begin

lemma keeps_alarm: "I (tables a) \<Longrightarrow> object_alarm v m a = (r, a') \<Longrightarrow> I (tables a')"
proof -
  assume a: "I (tables a)" and run: "object_alarm v m a = (r, a')"
  have "keeps_inv J (object_alarm v m)"
    unfolding object_alarm_def
  proof (rule keeps_stub)
    fix a obj r obj1 a1
    assume "J a" "fire_alarm (api_check v) (api_now v) (obj, a) = (r, (obj1, a1))"
    moreover have "api_check v Scheduled k a = (x, b) \<Longrightarrow> J b" for k x b
      using check_kept [OF \<open>J a\<close>, of v Scheduled k] by simp
    ultimately show "J a1"
      by (auto simp: fire_alarm_def alarm_handler_def end_check_def split: option.splits sum.splits if_splits prod.splits)
  qed
  with a run show ?thesis by (auto simp: keeps_inv_iff J_def)
qed

lemma keeps_step: "worker_step v sh env cfg w w' \<Longrightarrow> I (tables (snd w)) \<Longrightarrow> I (tables (snd w'))"
proof (induction rule: worker_step.induct)
  case (on_request rq w res w')
  then show ?case
    by (cases w; cases w') (auto simp: fetch_handler_def dest: keeps_request split: if_splits)
next
  case (on_alarm a m t r a' au)
  then show ?case using keeps_alarm by simp
next
  case (on_cron rpcFails a a' au)
  then show ?case by (auto simp: scheduled_handler_def)
next
  case (on_messages dflt decrypt key arrivals a outs a' au)
  then show ?case
    using batch_only_deliveries [of dflt decrypt key None arrivals "app_db a"] deliveries_only
    by (auto simp: queue_handler_def tables_def split: prod.splits)
qed simp

lemma keeps_run: "(worker_step v sh env cfg)\<^sup>*\<^sup>* w w' \<Longrightarrow> I (tables (snd w)) \<Longrightarrow> I (tables (snd w'))"
  by (induction rule: rtranclp_induct) (auto dest: keeps_step)

end

interpretation refs_run: worker_property api_refs v for v
  by unfold_locales (auto simp: api_refs_def getSite_def getSource_def getMonitor_def getDestination_def)

interpretation valid_run: worker_property "sources_valid v" v for v
  by unfold_locales (auto simp: sources_valid_def getSource_def)

interpretation sealed_run: worker_property secrets_ok v for v
  by unfold_locales (auto simp: secrets_ok_def getDestination_def)

section \<open>What the database keeps\<close>


text \<open>
  C32. Every stored source stays well-formed: after any events its URL passes the SSRF check, and its
  configuration is one its type admits, which is what the checks of a monitor rely on.
\<close>

theorem sources_always_valid:
  assumes "(worker_step v sh env cfg)\<^sup>*\<^sup>* (au, a) (au1, a1)" and "sources_valid v (tables a)"
    and "getSource (app_db a1) i = Some r"
  shows "allowed (checkUrlForSsrf (api_url v) (src_url r)) \<and> optional (config_suits v (src_type r)) (src_config r)"
proof -
  have "sources_valid v (tables a1)" using valid_run.keeps_run [OF assms(1)] assms(2) by simp
  then have "\<forall>i r. getSource (app_db a1) i = Some r \<longrightarrow> source_valid v r"
    unfolding sources_valid_def tables_def snd_conv .
  with assms(3) have "source_valid v r" by blast
  then show ?thesis unfolding source_valid_def .
qed

text \<open>
  C10. Webhooks stay sealed: after any events a destination in use holds its webhook URL encrypted, an
  archived one holds none, and no subscription leads to an archived destination.
\<close>

theorem webhooks_always_sealed:
  assumes "(worker_step v sh env cfg)\<^sup>*\<^sup>* (au, a) (au1, a1)" and "secrets_ok (tables a)"
  shows "(\<forall>r \<in> set (destinations (app_db a1)).
      if archivedAt r = None then isEncryptedWebhookUrl (webhookUrl r) else webhookUrl r = '''') \<and>
    (\<forall>r \<in> set (subscriptions (app_db a1)). \<forall>ds.
      getDestination (app_db a1) (su_destinationId r) = Some ds \<longrightarrow> archivedAt ds = None)"
proof -
  have "secrets_ok (tables a1)" using sealed_run.keeps_run [OF assms(1)] assms(2) by simp
  then have d: "\<forall>r \<in> set (destinations (app_db a1)).
      if archivedAt r = None then isEncryptedWebhookUrl (webhookUrl r) else webhookUrl r = ''''"
    and s: "\<forall>r \<in> set (subscriptions (app_db a1)). \<exists>ds. getDestination (app_db a1) (su_destinationId r) = Some ds \<and> archivedAt ds = None"
    by (simp_all add: secrets_ok_def tables_def)
  from s have "\<forall>r \<in> set (subscriptions (app_db a1)). \<forall>ds.
      getDestination (app_db a1) (su_destinationId r) = Some ds \<longrightarrow> archivedAt ds = None"
    by (metis option.inject)
  with d show ?thesis ..
qed

section \<open>A monitor that was only created\<close>

lemma reconcile_others:
  "u \<notin> mon_id ` set rs \<Longrightarrow> snd (fold (reconcile_one rpcFails) rs (n, objs)) u = objs u"
proof (induction rs arbitrary: n objs)
  case (Cons r rs)
  obtain n1 objs1 where one: "reconcile_one rpcFails r (n, objs) = (n1, objs1)" by fastforce
  have "objs1 u = objs u"
    using Cons.prems one by (auto simp: reconcile_one_def split: option.splits sum.splits prod.splits)
  with Cons.IH [of n1 objs1] Cons.prems one show ?case by simp
qed simp

lemma cron_skips:
  assumes "\<And>r. r \<in> set (monitors (app_db b)) \<Longrightarrow> mon_id r = u \<Longrightarrow> mon_nextRunAt r = None"
  shows "ap_objects (scheduled_handler rpcFails v b) u = ap_objects b u"
proof -
  have "u \<notin> mon_id ` set (listMonitorsDue (app_db b) t)" for t
    using assms by (auto simp: listMonitorsDue_def)
  then show ?thesis by (simp add: scheduled_handler_def runReconciliation_def reconcile_others)
qed



section \<open>Examples\<close>

text \<open>A run: a request of the console arrives, then the cron job runs.\<close>

definition demo_shapes :: "unit app_shapes" where
  "demo_shapes =
     \<lparr>as_sites = \<lparr>sh_createSite = (\<lambda>j. None), sh_updateSite = (\<lambda>j. None), sh_policy = (\<lambda>j. None), sh_override = (\<lambda>j. None)\<rparr>,
      as_sources = \<lparr>sh_createSource = (\<lambda>j. None), sh_updateSource = (\<lambda>j. None)\<rparr>, as_monitors = minute_shapes,
      as_destinations = \<lparr>sh_createDestination = (\<lambda>j. None), sh_updateDestination = (\<lambda>j. None)\<rparr>,
      as_subscription = (\<lambda>j. None), as_runner = lease_shapes, as_dryRun = (\<lambda>j. None),
      as_webhook = \<lparr>we_crypto = demo_crypto, we_key = Some demo_key, we_iv = (\<lambda>n. [1])\<rparr>, as_objects = quiet_runner\<rparr>"

definition demo_run :: "ms app \<Rightarrow> (nat, ms) auth_state \<times> ms app" where
  "demo_run a =
     (case snd (fetch_handler demo_api demo_shapes demo_auth demo_auth_config (demo_request ''head.body.sign'') (new_auth 50000, a)) of
        (au, a1) \<Rightarrow> (au, scheduled_handler (\<lambda>m. None) demo_api a1))"

lemma demo_runs: "(worker_step demo_api demo_shapes demo_auth demo_auth_config)\<^sup>*\<^sup>* (new_auth 50000, a) (demo_run a)"
proof -
  obtain res au a1 where req: "fetch_handler demo_api demo_shapes demo_auth demo_auth_config (demo_request ''head.body.sign'')
      (new_auth 50000, a) = (res, (au, a1))" by (metis prod.collapse)
  have "worker_step demo_api demo_shapes demo_auth demo_auth_config (au, a1) (demo_run a)"
    using worker_step.on_cron [OF refl] by (simp add: demo_run_def req)
  with worker_step.on_request [OF req] show ?thesis by (metis converse_rtranclp_into_rtranclp r_into_rtranclp)
qed

lemma demo_refs: "api_refs (tables demo_app)"
  by (simp add: api_refs_def demo_app_def tables_def app_db_def check_state0_def demo_db_def empty_db_def lookups check_env_def
      demo_monitor_def demo_source_def demo_site_def demo_subscription_def)

lemma demo_valid: "sources_valid demo_api (tables demo_app)"
proof -
  have "source_valid demo_api demo_source" by code_simp
  then show ?thesis
    by (simp add: sources_valid_def demo_app_def tables_def app_db_def check_state0_def getSource_def)
qed

definition sealed_app :: "ms app" where
  "sealed_app = set_app_db ((app_db demo_app)\<lparr>destinations := [\<lparr>ds_id = ''x'', ds_name = ''n'', webhookUrl = ''enc:v1:a:b:c'',
     enabled = True, archivedAt = None, threadId = None, ds_createdAt = 0, ds_updatedAt = 0\<rparr>]\<rparr>) demo_app"

lemma demo_sealed: "secrets_ok (tables sealed_app)"
  by (simp add: secrets_ok_def sealed_app_def demo_app_def tables_def app_db_def check_state0_def demo_db_def empty_db_def
      getDestination_def demo_subscription_def isEncryptedWebhookUrl_def ENC_PREFIX_def startsWith_def)


theorem sources_always_valid_witness:
  "case getSource (app_db (snd (demo_run demo_app))) ''r'' of
     None \<Rightarrow> True | Some r \<Rightarrow> allowed (checkUrlForSsrf (api_url demo_api) (src_url r))"
proof -
  obtain au a1 where run: "demo_run demo_app = (au, a1)" by fastforce
  show ?thesis
    using sources_always_valid [OF demo_runs [of demo_app, unfolded run] demo_valid] by (simp add: run split: option.split)
qed

theorem webhooks_always_sealed_witness:
  "list_all (\<lambda>r. if archivedAt r = None then isEncryptedWebhookUrl (webhookUrl r) else webhookUrl r = '''')
     (destinations (app_db (snd (demo_run sealed_app))))"
proof -
  obtain au a1 where run: "demo_run sealed_app = (au, a1)" by fastforce
  show ?thesis
    using webhooks_always_sealed [OF demo_runs [of sealed_app, unfolded run] demo_sealed] by (simp add: run list_all_iff)
qed

definition start_shapes :: monitor_shapes where
  "start_shapes = \<lparr>sh_createMonitor = (\<lambda>j. Some \<lparr>mb_source_id = ''r'', mb_interval_seconds = 1, mb_next_run_at = None\<rparr>),
     sh_updateMonitor = (\<lambda>j. None)\<rparr>"


end
