(* ===== verification/Spec2Isabelle.thy ===== *)
theory Spec2Isabelle
  imports
    Api_App
    Api_Auth
    Api_Destinations
    Api_DryRun
    Api_Http
    Api_Monitors
    Api_Reads
    Api_Runner
    Api_Serialize
    Api_Sites
    Api_Sources
    Api_State
    Check_Pipeline
    Content_Processors
    Contracts
    Crawler
    Crawler_Inv
    Db_Admin
    Db_Cascade
    Db_Rows
    Db_Store
    Executor_Fetch
    Executor_Policy
    Executor_Server
    Fetch_Policy
    Fetch_Target
    Fetchers
    Host_Object
    Http_Fetch
    Js_String
    Monitor_Object
    Net_Guard
    Notify
    Notify_Store
    Pipeline_Feed
    Pipeline_Notify
    Prelude
    Robots_Check
    Robots_Evaluator
    Robots_Parser
    Run_Check
    Sitemap_Traversal
    Stage_Frame
    Traversal_Bounds
    Traversal_Watermark
    Worker
begin

text \<open>
  Utsuroi watches web pages, feeds and sitemaps. A monitor is checked when its alarm fires: the check
  loads its rows, opens the job of the slot, applies the SSRF guard and robots.txt, takes a lease of
  the host, fetches the document through the site's fetcher policy, turns it into changes and
  deliveries, and settles the job. A queue consumer sends the deliveries to Discord. Three kinds of
  durable objects keep state of their own: one per origin limits the rate, one per executor hands
  fetch jobs to runners that poll for them, one per monitor holds its alarm. The management API creates
  and changes what is watched; a cron job re-arms lost alarms.

  Which theory models what.

    \<^item> \<open>Prelude\<close>, \<open>Contracts\<close>, \<open>Js_String\<close>: lists, tables, numbers as text; the types and constants of
      src/shared/types.ts and src/shared/contracts.ts; the string functions of JavaScript the code
      uses, on code units below 256.
    \<^item> \<open>Host_Object\<close>: src/do/hostObject.ts, the rate limiter and circuit breaker of an origin.
    \<^item> \<open>Crawler\<close>, \<open>Crawler_Inv\<close>: src/do/crawlerObject.ts, the job queue of an executor, and its
      invariant over all runs.
    \<^item> \<open>Fetch_Policy\<close>: src/fetch/policy.ts and src/db/fetcherPolicies.ts.
    \<^item> \<open>Http_Fetch\<close>, \<open>Fetchers\<close>, \<open>Fetch_Target\<close>: src/fetch/http.ts, gcpHttp.ts, homeHttp.ts, registry.ts
      and src/pipeline/fetchTarget.ts.
    \<^item> \<open>Robots_Parser\<close>, \<open>Robots_Evaluator\<close>, \<open>Robots_Check\<close>: src/robots and src/pipeline/robotsCache.ts.
    \<^item> \<open>Net_Guard\<close>, \<open>Executor_Policy\<close>: src/net, and the address policy of the executors.
    \<^item> \<open>Db_Rows\<close>, \<open>Db_Store\<close>, \<open>Db_Admin\<close>, \<open>Db_Cascade\<close>: the rows and statements of src/db on lists of
      records, and what the deletion of a monitor leaves.
    \<^item> \<open>Notify_Store\<close>, \<open>Notify\<close>: src/db/notifyStore.ts and src/notify.
    \<^item> \<open>Pipeline_Notify\<close>, \<open>Pipeline_Feed\<close>: src/pipeline/types.ts, r2.ts, notify.ts, classify.ts,
      enrichTitle.ts and feed.ts.
    \<^item> \<open>Content_Processors\<close>: src/pipeline/pageContent.ts, pageItems.ts, sitemapDirect.ts and
      src/normalize/diff.ts.
    \<^item> \<open>Sitemap_Traversal\<close>, \<open>Traversal_Bounds\<close>, \<open>Traversal_Watermark\<close>: src/pipeline/sitemapTraversal.ts, its
      work per check, and its watermarks over many checks.
    \<^item> \<open>Run_Check\<close>, \<open>Stage_Frame\<close>, \<open>Check_Pipeline\<close>: src/pipeline/runCheck.ts, the frame rules of its
      stages, and the check with the processors of src/pipeline/contentProcessor.ts.
    \<^item> \<open>Monitor_Object\<close>: src/do/monitorObject.ts and src/pipeline/reconcile.ts.
    \<^item> \<open>Executor_Fetch\<close>, \<open>Executor_Server\<close>: executors/shared/src/fetcher.ts, executors/gcp-http/src/jwt.ts and
      server.ts, src/fetch/executorToken.ts: what an executor fetches, the token, and the answer the worker reads.
    \<^item> \<open>Api_Http\<close>, \<open>Api_Auth\<close>, \<open>Api_Serialize\<close>, \<open>Api_State\<close>: src/api/errors.ts, http.ts, auth.ts,
      runnerAuth.ts, serialize.ts, mask.ts, monitorControl.ts and src/db/webhookCrypto.ts; the state of the
      routes, a handler as a step of it, and the table of routes.
    \<^item> \<open>Api_Sites\<close>, \<open>Api_Sources\<close>, \<open>Api_Monitors\<close>, \<open>Api_Destinations\<close>, \<open>Api_Reads\<close>, \<open>Api_Runner\<close>, \<open>Api_DryRun\<close>:
      the handlers of src/api/routes, every check and statement in the order of the code, with
      src/api/rawQueries.ts and src/runner/protocol.ts.
    \<^item> \<open>Api_App\<close>, \<open>Worker\<close>: src/api/index.ts and src/index.ts, the whole worker as a step relation.

  Functions and fields keep the names of the code, with a prefix where two records share a field.
  Times are integers in milliseconds (\<open>ms\<close>); the code stores them as ISO text of one fixed format, whose
  order is that of the numbers. A table is a list in the order of insertion, a statement a function
  from the database to the database. An asynchronous function is a function from the state to its
  result and the state; an exception is the left side of the result. A handler of the API is a chain
  of such steps; its error is a value with status and code, which \<open>onError\<close> turns into the response.

  What the model takes as arguments: the network (a function of the outside state), the URL parser,
  the text decoder, the date parser, \<open>JSON.parse\<close>, regular expressions, selectors, hashes, signatures,
  encryption, random ids and numbers, the clock. The theorems hold for all of them. Where a theorem
  needs a law of one of them it is a premise. The schemas of the API are predicates on typed bodies;
  that a JSON value has the types of a body is the validator's part, an argument named \<open>shape\<close>.

  Interfaces are locales, each interpreted on the model's definitions:

    \<^item> the notification store a consumer relies on, with the store of D1;
    \<^item> the relation every attempt of a fetch keeps, on the records of attempts and on the schedule;
    \<^item> what every stage of a check keeps (\<open>Stage_Frame\<close>), on the history of the database, on the job of
      the slot, on the work of a check and on the watermarks;
    \<^item> a property of the tables that every statement of a resource keeps when the handler has checked what
      it checks (\<open>table_property\<close>, extended by one locale per resource, \<open>api_property\<close> and \<open>worker_property\<close>), on
      the references, on the stored sources and on the webhooks.

  Bounds and fuel. No model uses fuel: the redirect loop ends because the number of redirects left
  decreases, the glob matcher because the text or the pattern left does, the traversal of sitemaps
  because the depth left decreases from one index to the next and the entries within one, and the
  others are structural.

  What the lemmas show. For the objects, an invariant over every run with its consequences (leases
  are apart, a job is leased and answered once, a delivery is sent at most once). For parsers and
  matchers, equivalence with a declarative description and round trips. For the guards, exactly which
  inputs pass. For the pipeline, what a check leaves behind on every path, exceptions included,
  and where a crash or a failing call loses work: those are the findings of the manifest. For the API,
  who reaches a handler, and what the database keeps through any sequence of requests, alarms, cron runs
  and queue batches.

  An event of the worker is atomic in the model: interleavings inside one request are covered for the
  objects of monitors and executors only, where the code guards against them.

  Not modelled. The pages of src/public, the messages of the API's errors, the text of the Discord embed,
  the rpc entry point, the XML adapters and the HTML rewriting of src/normalize, the executors as
  processes (only their address policy), the command line scripts.
\<close>

end
